(* ===== verification/Prelude.thy ===== *)
theory Prelude
  imports Main "HOL-Library.AList" "HOL-Library.List_Lexorder" "HOL-Library.Char_ord"
    "HOL-Library.Word"
begin

text \<open>
  Shared vocabulary of the development.

  \<^item> \<open>outcome\<close> is the result of a Go function that can fail: \<open>Ok v\<close> for \<open>(v, nil)\<close>,
    \<open>Err e\<close> for a returned error and \<open>Panic\<close> for a call that does not return: a run-time panic (a nil
    dereference, a write to a nil map, a slice bound out of range) or a deadlock on a held mutex.
  \<^item> A Go map is an association list with distinct keys.  The order of the list is the order in
    which one particular \<open>range\<close> over the map visits it, so a statement that quantifies over all
    lists with the same \<^const>\<open>map_of\<close> quantifies over all iteration orders.
  \<^item> A Go \<open>int64\<close> is an \<^typ>\<open>int\<close>; every arithmetic operation of the source whose result may leave
    the range is wrapped by \<open>int64\<close>.
  \<^item> The functions of Go's \<open>strings\<close> package that the sources call, on byte strings.
\<close>

section \<open>Collections\<close>

named_theorems go_simps \<open>unfolding rules of the Go library functions\<close>
named_theorems map_simps \<open>lookup laws of Go maps\<close>
named_theorems wf_intros \<open>preservation of well-formed Go maps\<close>

section \<open>Results and errors\<close>

datatype ('e, 'a) outcome = Ok 'a | Err 'e | Panic

text \<open>The gRPC status codes the driver returns (\<open>google.golang.org/grpc/codes\<close>).\<close>

datatype grpc_code =
    InvalidArgument | NotFound | AlreadyExists | OutOfRange | ResourceExhausted
  | FailedPrecondition | Unimplemented | Internal | Unavailable | Aborted | DeadlineExceeded
  | PermissionDenied | Unknown

text \<open>
  The errors of \<open>pkg/wekafs/apiclient/errors.go\<close>.  A bad request keeps the error codes and the
  message of the response, an internal error the message of the response if there is one (the pointer to the
  response is nil when the body could not be read).
\<close>

datatype api_error =
    ApiError | ApiNoEndpointsError | ApiNetworkError | ApiAuthorizationError | ApiForbiddenError
  | ApiBadRequestError "string list" string | ApiConflictError | ApiInternalError "string option"
  | ApiNotAvailableError | ApiNotFoundError | ApiRetriesExceeded nat | transportError
  | ObjectNotFoundError | MultipleObjectsFoundError | RequestMissingParams
  | MountPermissionDenied | AsyncOperationTimedOut | ObjectMarkedForDeletion

text \<open>An error value: a gRPC status, an error of the API client, or any other error, named by its text.\<close>

datatype go_error = Status grpc_code | Api api_error | Plain string

type_synonym 'a go = "(go_error, 'a) outcome"

fun is_Ok :: "('e, 'a) outcome \<Rightarrow> bool" where
  "is_Ok (Ok _) = True"
| "is_Ok _ = False"

definition bind_outcome :: "('e, 'a) outcome \<Rightarrow> ('a \<Rightarrow> ('e, 'b) outcome) \<Rightarrow> ('e, 'b) outcome" where
  "bind_outcome r f = (case r of Ok x \<Rightarrow> f x | Err e \<Rightarrow> Err e | Panic \<Rightarrow> Panic)"

section \<open>Machine integers\<close>

definition int64 :: "int \<Rightarrow> int" where
  "int64 x = (x + 2 ^ 63) mod 2 ^ 64 - 2 ^ 63"

abbreviation MaxInt64 :: int where
  "MaxInt64 \<equiv> 9223372036854775807"

definition in_int64 :: "int \<Rightarrow> bool" where
  "in_int64 x \<longleftrightarrow> - (2 ^ 63) \<le> x \<and> x < 2 ^ 63"

text \<open>Go's integer division truncates towards zero.\<close>

definition go_div :: "int \<Rightarrow> int \<Rightarrow> int" where
  "go_div x y = (if (x < 0) = (y < 0) then \<bar>x\<bar> div \<bar>y\<bar> else - (\<bar>x\<bar> div \<bar>y\<bar>))"

section \<open>Go maps\<close>

type_synonym ('k, 'v) gomap = "('k \<times> 'v) list"

abbreviation map_wf :: "('k, 'v) gomap \<Rightarrow> bool" where
  "map_wf m \<equiv> distinct (map fst m)"

abbreviation same_map :: "('k, 'v) gomap \<Rightarrow> ('k, 'v) gomap \<Rightarrow> bool" where
  "same_map m m' \<equiv> map_of m = map_of m'"

section \<open>Go strings\<close>

fun strings_Split :: "char \<Rightarrow> string \<Rightarrow> string list" where
  "strings_Split c [] = [[]]"
| "strings_Split c (x # xs) =
     (if x = c then [] # strings_Split c xs
      else case strings_Split c xs of [] \<Rightarrow> [[x]] | y # ys \<Rightarrow> (x # y) # ys)"

fun strings_Join :: "string \<Rightarrow> string list \<Rightarrow> string" where
  "strings_Join sep [] = []"
| "strings_Join sep [x] = x"
| "strings_Join sep (x # y # ys) = x @ sep @ strings_Join sep (y # ys)"

definition HasPrefix :: "string \<Rightarrow> string \<Rightarrow> bool" where
  "HasPrefix s p \<longleftrightarrow> take (length p) s = p"

definition TrimPrefix :: "string \<Rightarrow> string \<Rightarrow> string" where
  "TrimPrefix s p = (if HasPrefix s p then drop (length p) s else s)"

definition HasSuffix :: "string \<Rightarrow> string \<Rightarrow> bool" where
  "HasSuffix s p \<longleftrightarrow> HasPrefix (rev s) (rev p)"

text \<open>\<open>unicode.IsSpace\<close> on the ASCII range.\<close>

definition is_space :: "char \<Rightarrow> bool" where
  "is_space c \<longleftrightarrow> c \<in> {CHR 0x09, CHR 0x0A, CHR 0x0B, CHR 0x0C, CHR 0x0D, CHR 0x20}"

definition TrimSpace :: "string \<Rightarrow> string" where
  "TrimSpace s = rev (dropWhile is_space (rev (dropWhile is_space s)))"

text \<open>\<open>strings.TrimLeft\<close> removes every leading character that is in the cutset.\<close>

definition TrimLeft :: "string \<Rightarrow> string \<Rightarrow> string" where
  "TrimLeft s cutset = dropWhile (\<lambda>c. c \<in> set cutset) s"

fun strings_Contains :: "string \<Rightarrow> string \<Rightarrow> bool" where
  "strings_Contains [] p = (p = [])"
| "strings_Contains (x # xs) p = (HasPrefix (x # xs) p \<or> strings_Contains xs p)"

text \<open>\<open>strings.Index\<close> for a one-character needle; \<open>None\<close> stands for \<open>-1\<close>.\<close>

fun strings_Index :: "string \<Rightarrow> char \<Rightarrow> nat option" where
  "strings_Index [] c = None"
| "strings_Index (x # xs) c = (if x = c then Some 0 else map_option Suc (strings_Index xs c))"

text \<open>\<open>strings.FieldsFunc\<close>: the maximal runs of characters that are not separators.\<close>

fun fields_acc :: "(char \<Rightarrow> bool) \<Rightarrow> string \<Rightarrow> string \<Rightarrow> string list" where
  "fields_acc f acc [] = (if acc = [] then [] else [rev acc])"
| "fields_acc f acc (x # xs) =
     (if f x then (if acc = [] then fields_acc f [] xs else rev acc # fields_acc f [] xs)
      else fields_acc f (x # acc) xs)"

definition FieldsFunc :: "(char \<Rightarrow> bool) \<Rightarrow> string \<Rightarrow> string list" where
  "FieldsFunc f s = fields_acc f [] s"

section \<open>Lemmas on results and integers\<close>

lemma bind_outcome_simps [simp]:
  "bind_outcome (Ok x) f = f x" "bind_outcome (Err e) f = Err e" "bind_outcome Panic f = Panic"
  by (simp_all add: bind_outcome_def)

lemma bind_outcome_OkE:
  assumes "bind_outcome r f = Ok y"
  obtains x where "r = Ok x" "f x = Ok y"
  using assms by (cases r) auto

lemma int64_in_range [simp]: "in_int64 (int64 x)"
  by (simp add: int64_def in_int64_def)

lemma int64_id: "in_int64 x \<Longrightarrow> int64 x = x"
  by (simp add: int64_def in_int64_def)

lemma go_div_nonneg: "0 \<le> x \<Longrightarrow> 0 < y \<Longrightarrow> go_div x y = x div y"
  by (simp add: go_div_def)

section \<open>Lemmas on Go maps\<close>

lemma map_of_update [simp, map_simps]: "map_of (AList.update k v m) = (map_of m)(k \<mapsto> v)"
  by (rule update_conv')

lemma map_of_delete [simp, map_simps]: "map_of (AList.delete k m) = (map_of m)(k := None)"
  by (rule delete_conv')

lemma map_wf_update [simp, wf_intros]: "map_wf m \<Longrightarrow> map_wf (AList.update k v m)"
  by (rule distinct_update)

lemma map_wf_delete [simp, wf_intros]: "map_wf m \<Longrightarrow> map_wf (AList.delete k m)"
  by (rule distinct_delete)

lemma map_of_fold_delete [map_simps]:
  "map_of (fold AList.delete ks m) x = (if x \<in> set ks then None else map_of m x)"
  by (induction ks arbitrary: m) auto

lemma map_wf_fold_delete [simp, wf_intros]: "map_wf m \<Longrightarrow> map_wf (fold AList.delete ks m)"
  by (induction ks arbitrary: m) auto

lemma same_map_keys: "same_map m m' \<Longrightarrow> set (map fst m) = set (map fst m')"
  by (metis dom_map_of_conv_image_fst list.set_map)

lemma same_map_set:
  assumes "same_map m m'" "map_wf m" "map_wf m'"
  shows "set m = set m'"
proof -
  have "(k, v) \<in> set m \<longleftrightarrow> (k, v) \<in> set m'" for k v
    using assms by (metis map_of_eq_Some_iff)
  then show ?thesis by auto
qed

lemma bex_image_pair: "(\<exists>x\<in>A. f x \<in> {a, b}) \<longleftrightarrow> a \<in> f ` A \<or> b \<in> f ` A"
  by blast

lemma disjoint_step: "A \<subseteq> (if c \<in> B then {} else {c}) \<union> S \<Longrightarrow> S \<inter> B = {} \<Longrightarrow> A \<inter> B = {}"
  by (auto split: if_splits)

section \<open>Lemmas on Go strings\<close>

lemma strings_Split_not_Nil [simp]: "strings_Split c s \<noteq> []"
  by (cases s) (auto split: list.splits)

lemma strings_Join_Cons:
  "ys \<noteq> [] \<Longrightarrow> strings_Join sep (x # ys) = x @ sep @ strings_Join sep ys"
  by (cases ys) auto

lemma strings_Join_Split: "strings_Join [c] (strings_Split c s) = s"
proof (induction s)
  case (Cons x xs)
  then show ?case
    by (cases "strings_Split c xs"; cases "tl (strings_Split c xs)") auto
qed simp

lemma strings_Split_notin [simp]: "c \<notin> set s \<Longrightarrow> strings_Split c s = [s]"
  by (induction s) auto

lemma strings_Split_append [simp]:
  "c \<notin> set s \<Longrightarrow> strings_Split c (s @ c # t) = s # strings_Split c t"
  by (induction s) auto

lemma strings_Split_Join:
  assumes "xs \<noteq> []" "\<forall>x\<in>set xs. c \<notin> set x"
  shows "strings_Split c (strings_Join [c] xs) = xs"
  using assms
proof (induction xs rule: induct_list012)
  case (3 x y zs)
  then show ?case by simp
qed auto

lemma strings_Split_parts: "x \<in> set (strings_Split c s) \<Longrightarrow> c \<notin> set x"
proof (induction s arbitrary: x)
  case (Cons a s)
  then show ?case
    by (cases "strings_Split c s") (auto split: if_splits)
qed simp

lemma strings_Split_subset: "x \<in> set (strings_Split c s) \<Longrightarrow> set x \<subseteq> set s"
proof (induction s arbitrary: x)
  case (Cons a s)
  then obtain y ys where "strings_Split c s = y # ys"
    by (cases "strings_Split c s") simp_all
  with Cons.IH [of y] Cons.IH [of x] Cons.prems show ?case
    by (fastforce split: if_splits)
qed simp

lemma HasPrefix_append [simp]: "HasPrefix (p @ s) p"
  by (simp add: HasPrefix_def)

lemma HasPrefix_iff: "HasPrefix s p \<longleftrightarrow> (\<exists>t. s = p @ t)"
  by (metis HasPrefix_append HasPrefix_def append_take_drop_id)

lemma HasPrefix_Nil [simp]: "HasPrefix s []"
  by (simp add: HasPrefix_def)

lemma TrimPrefix_append [simp]: "TrimPrefix (p @ s) p = s"
  by (simp add: TrimPrefix_def)

lemma TrimSpace_id:
  assumes "\<forall>c\<in>set s. \<not> is_space c"
  shows "TrimSpace s = s"
proof -
  have "dropWhile is_space t = t" if "set t \<subseteq> set s" for t
    using that assms by (cases t) auto
  then show ?thesis by (simp add: TrimSpace_def)
qed

lemma set_TrimSpace: "set (TrimSpace s) \<subseteq> set s"
  unfolding TrimSpace_def by (metis order_trans set_dropWhileD set_rev subsetI)

lemma strings_Index_None [simp]: "strings_Index s c = None \<longleftrightarrow> c \<notin> set s"
  by (induction s) auto

lemma strings_Index_SomeD: "strings_Index s c = Some i \<Longrightarrow> i < length s \<and> s ! i = c \<and> c \<notin> set (take i s)"
  by (induction s arbitrary: i) (auto split: if_splits)

end
