(* ===== verification/Go_Stdlib.thy ===== *)
theory Go_Stdlib
  imports Prelude
begin

text \<open>
  The parts of Go's standard library that the naming and path code calls: \<open>path/filepath\<close>
  (\<open>Clean\<close>, \<open>Join\<close>), \<open>crypto/sha1\<close>, \<open>encoding/hex\<close>, \<open>encoding/base32\<close> and, for the fixed
  patterns of the validators, \<open>regexp\<close> with its unanchored \<open>MatchString\<close>.  The matcher works with
  derivatives and is proved equivalent to the language of the expression.
\<close>

unbundle bit_operations_syntax

section \<open>Definitions\<close>

subsection \<open>\<open>path/filepath\<close>\<close>

text \<open>The components of the output are kept in reverse while the path is read from the left.\<close>

definition clean_step :: "bool \<Rightarrow> string list \<Rightarrow> string \<Rightarrow> string list" where
  "clean_step rooted out c =
     (if c = [] \<or> c = ''.'' then out
      else if c = ''..''
      then (if out \<noteq> [] \<and> hd out \<noteq> ''..'' then tl out else if rooted then out else ''..'' # out)
      else c # out)"

definition clean_comps :: "bool \<Rightarrow> string list \<Rightarrow> string list" where
  "clean_comps rooted comps = rev (foldl (clean_step rooted) [] comps)"

definition filepath_Clean :: "string \<Rightarrow> string" where
  "filepath_Clean path =
     (let rooted = HasPrefix path ''/'';
          out = clean_comps rooted (strings_Split (CHR ''/'') path)
      in if rooted then ''/'' @ strings_Join ''/'' out
         else if out = [] then ''.'' else strings_Join ''/'' out)"

definition filepath_Join :: "string list \<Rightarrow> string" where
  "filepath_Join elems =
     (case dropWhile (\<lambda>e. e = []) elems of [] \<Rightarrow> [] | es \<Rightarrow> filepath_Clean (strings_Join ''/'' es))"

text \<open>\<open>filepath.Dir\<close>: everything up to the last separator, cleaned.\<close>

definition filepath_Dir :: "string \<Rightarrow> string" where
  "filepath_Dir path = filepath_Clean (rev (dropWhile (\<lambda>c. c \<noteq> CHR ''/'') (rev path)))"

subsection \<open>\<open>crypto/sha1\<close>, \<open>encoding/hex\<close>, \<open>encoding/base32\<close>\<close>

type_synonym byte = "8 word"

definition bytes_of :: "string \<Rightarrow> byte list" where
  "bytes_of s = map (\<lambda>c. word_of_nat (of_char c)) s"

definition be32 :: "32 word \<Rightarrow> byte list" where
  "be32 w = map (\<lambda>i. ucast (drop_bit i w)) [24, 16, 8, 0]"

definition sha1_pad :: "byte list \<Rightarrow> byte list" where
  "sha1_pad bs =
     (let bits = (word_of_nat (8 * length bs) :: 64 word)
      in bs @ [0x80] @ replicate ((119 - length bs mod 64) mod 64) 0
           @ be32 (ucast (drop_bit 32 bits)) @ be32 (ucast bits))"

fun words_of :: "byte list \<Rightarrow> 32 word list" where
  "words_of (a # b # c # d # rest) =
     (push_bit 24 (ucast a) OR push_bit 16 (ucast b) OR push_bit 8 (ucast c) OR ucast d) # words_of rest"
| "words_of _ = []"

text \<open>The message schedule, newest word first.\<close>

fun sha1_schedule :: "nat \<Rightarrow> 32 word list \<Rightarrow> 32 word list" where
  "sha1_schedule 0 w = w"
| "sha1_schedule (Suc n) w =
     sha1_schedule n (word_rotl 1 (w ! 2 XOR w ! 7 XOR w ! 13 XOR w ! 15) # w)"

type_synonym sha1_state = "32 word \<times> 32 word \<times> 32 word \<times> 32 word \<times> 32 word"

definition sha1_round :: "nat \<times> 32 word \<Rightarrow> sha1_state \<Rightarrow> sha1_state" where
  "sha1_round iw st =
     (case (iw, st) of ((i, w), (a, b, c, d, e)) \<Rightarrow>
       (let fk = (if i < 20 then ((b AND c) OR (NOT b AND d), 0x5A827999)
                  else if i < 40 then (b XOR c XOR d, 0x6ED9EBA1)
                  else if i < 60 then ((b AND c) OR (b AND d) OR (c AND d), 0x8F1BBCDC)
                  else (b XOR c XOR d, 0xCA62C1D6))
        in (word_rotl 5 a + fst fk + e + snd fk + w, a, word_rotl 30 b, c, d)))"

definition sha1_block :: "sha1_state \<Rightarrow> 32 word list \<Rightarrow> sha1_state" where
  "sha1_block h ws =
     (let sched = rev (sha1_schedule 64 (rev ws))
      in case (h, fold sha1_round (enumerate 0 sched) h) of
           ((a, b, c, d, e), (a', b', c', d', e')) \<Rightarrow> (a + a', b + b', c + c', d + d', e + e'))"

fun sha1_blocks :: "nat \<Rightarrow> sha1_state \<Rightarrow> 32 word list \<Rightarrow> sha1_state" where
  "sha1_blocks 0 h ws = h"
| "sha1_blocks (Suc n) h ws = sha1_blocks n (sha1_block h (take 16 ws)) (drop 16 ws)"

definition sha1_sum :: "byte list \<Rightarrow> byte list" where
  "sha1_sum bs =
     (let ws = words_of (sha1_pad bs)
      in case sha1_blocks (length ws div 16) (0x67452301, 0xEFCDAB89, 0x98BADCFE, 0x10325476, 0xC3D2E1F0) ws of
           (a, b, c, d, e) \<Rightarrow> be32 a @ be32 b @ be32 c @ be32 d @ be32 e)"

definition hex_alphabet :: string where "hex_alphabet = ''0123456789abcdef''"

definition hex_EncodeToString :: "byte list \<Rightarrow> string" where
  "hex_EncodeToString bs = concat (map (\<lambda>b. [hex_alphabet ! (unat b div 16), hex_alphabet ! (unat b mod 16)]) bs)"

definition byte_bits :: "byte \<Rightarrow> bool list" where
  "byte_bits b = map (\<lambda>i. bit b i) [7, 6, 5, 4, 3, 2, 1, 0]"

definition bits_val :: "bool list \<Rightarrow> nat" where
  "bits_val bs = foldl (\<lambda>n b. 2 * n + of_bool b) 0 bs"

definition b32_alphabet :: string where "b32_alphabet = ''ABCDEFGHIJKLMNOPQRSTUVWXYZ234567''"

definition b32_char :: "bool list \<Rightarrow> char" where
  "b32_char bs = b32_alphabet ! (bits_val (take 5 (bs @ replicate 4 False)) mod 32)"

function b32_groups :: "bool list \<Rightarrow> string" where
  "b32_groups bs = (if bs = [] then [] else b32_char bs # b32_groups (drop 5 bs))"
  by pat_completeness auto
termination by (relation "measure length") auto

definition base32_EncodeToString :: "byte list \<Rightarrow> string" where
  "base32_EncodeToString bs =
     (let s = b32_groups (concat (map byte_bits bs))
      in s @ replicate ((8 - length s mod 8) mod 8) (CHR ''=''))"

subsection \<open>\<open>regexp\<close>\<close>

datatype re = Empty_set | Eps | Cls bool "char list" | Seq re re | Alt re re | Star re

text \<open>\<open>Cls True cs\<close> is a character class, \<open>Cls False cs\<close> its complement.\<close>

definition Plus :: "re \<Rightarrow> re" where "Plus r = Seq r (Star r)"
definition Dot :: re where "Dot = Cls False [CHR 0x0A]"

primrec Lit :: "string \<Rightarrow> re" where
  "Lit [] = Eps"
| "Lit (c # cs) = Seq (Cls True [c]) (Lit cs)"

primrec nullable :: "re \<Rightarrow> bool" where
  "nullable Empty_set = False"
| "nullable Eps = True"
| "nullable (Cls b cs) = False"
| "nullable (Seq r s) = (nullable r \<and> nullable s)"
| "nullable (Alt r s) = (nullable r \<or> nullable s)"
| "nullable (Star r) = True"

primrec deriv :: "char \<Rightarrow> re \<Rightarrow> re" where
  "deriv c Empty_set = Empty_set"
| "deriv c Eps = Empty_set"
| "deriv c (Cls b cs) = (if (c \<in> set cs) = b then Eps else Empty_set)"
| "deriv c (Seq r s) = (if nullable r then Alt (Seq (deriv c r) s) (deriv c s) else Seq (deriv c r) s)"
| "deriv c (Alt r s) = Alt (deriv c r) (deriv c s)"
| "deriv c (Star r) = Seq (deriv c r) (Star r)"

fun prefix_match :: "re \<Rightarrow> string \<Rightarrow> bool" where
  "prefix_match r [] = nullable r"
| "prefix_match r (c # cs) = (nullable r \<or> prefix_match (deriv c r) cs)"

fun MatchString :: "re \<Rightarrow> string \<Rightarrow> bool" where
  "MatchString r [] = prefix_match r []"
| "MatchString r (c # cs) = (prefix_match r (c # cs) \<or> MatchString r cs)"

text \<open>The language of an expression: the reference for the matcher.\<close>

inductive_set star :: "string set \<Rightarrow> string set" for L where
  star_Nil: "[] \<in> star L"
| star_app: "u \<in> L \<Longrightarrow> v \<in> star L \<Longrightarrow> u @ v \<in> star L"

primrec lang :: "re \<Rightarrow> string set" where
  "lang Empty_set = {}"
| "lang Eps = {[]}"
| "lang (Cls b cs) = {[c] | c. (c \<in> set cs) = b}"
| "lang (Seq r s) = {u @ v | u v. u \<in> lang r \<and> v \<in> lang s}"
| "lang (Alt r s) = lang r \<union> lang s"
| "lang (Star r) = star (lang r)"

section \<open>Digest and encoding lengths\<close>

lemma length_be32 [simp]: "length (be32 w) = 4"
  by (simp add: be32_def)

lemma length_sha1_sum [simp]: "length (sha1_sum bs) = 20"
  by (simp add: sha1_sum_def Let_def split: prod.splits)

lemma length_hex [simp]: "length (hex_EncodeToString bs) = 2 * length bs"
  by (induction bs) (simp_all add: hex_EncodeToString_def)

lemma length_alphabets [simp]: "length hex_alphabet = 16" "length b32_alphabet = 32"
  by (simp_all add: hex_alphabet_def b32_alphabet_def)

lemma set_hex: "set (hex_EncodeToString bs) \<subseteq> set hex_alphabet"
proof -
  have "hex_alphabet ! (unat b div 16) \<in> set hex_alphabet" "hex_alphabet ! (unat b mod 16) \<in> set hex_alphabet"
    for b :: byte
    using unsigned_less [of b, where ?'a = nat] by (intro nth_mem; simp)+
  then show ?thesis by (auto simp: hex_EncodeToString_def)
qed

declare b32_groups.simps [simp del]

lemma length_b32_groups: "length (b32_groups bs) = (length bs + 4) div 5"
proof (induction bs rule: b32_groups.induct)
  case (1 bs)
  show ?case
  proof (cases "length bs \<le> 5")
    case True
    then have "drop 5 bs = []" by simp
    moreover have "b32_groups [] = []" by (simp add: b32_groups.simps)
    moreover have "bs \<noteq> [] \<Longrightarrow> 1 \<le> length bs" by (cases bs) auto
    ultimately show ?thesis
      using True by (cases "bs = []") (auto simp: b32_groups.simps [of bs])
  next
    case False
    then obtain n where n: "length bs = n + 5" by (metis add.commute le_Suc_ex nat_le_linear)
    then have "bs \<noteq> []" by auto
    with 1 n show ?thesis by (simp add: b32_groups.simps [of bs])
  qed
qed

lemma b32_char_alphabet: "b32_char bs \<in> set b32_alphabet"
  unfolding b32_char_def by (rule nth_mem) simp

lemma set_b32_groups: "set (b32_groups bs) \<subseteq> set b32_alphabet"
proof (induction bs rule: b32_groups.induct)
  case (1 bs)
  have "b32_groups [] = []" by (simp add: b32_groups.simps)
  with 1 show ?case
    using b32_char_alphabet [of bs]
    by (cases "bs = []") (simp_all add: b32_groups.simps [of bs])
qed

lemma length_byte_bits: "length (concat (map byte_bits bs)) = 8 * length bs"
  by (induction bs) (simp_all add: byte_bits_def)

lemma base32_of_digest:
  assumes "length bs = 20"
  shows "length (base32_EncodeToString bs) = 32"
    and "set (base32_EncodeToString bs) \<subseteq> set b32_alphabet"
proof -
  have l: "length (b32_groups (concat (map byte_bits bs))) = 32"
    using assms length_byte_bits [of bs] by (simp add: length_b32_groups)
  then have "base32_EncodeToString bs = b32_groups (concat (map byte_bits bs))"
    by (simp add: base32_EncodeToString_def Let_def)
  with l set_b32_groups [of "concat (map byte_bits bs)"]
  show "length (base32_EncodeToString bs) = 32"
    "set (base32_EncodeToString bs) \<subseteq> set b32_alphabet" by simp_all
qed

section \<open>The matcher decides the language\<close>

lemma nullable_lang: "nullable r \<longleftrightarrow> [] \<in> lang r"
  by (induction r) (auto intro: star.intros)

lemma star_Cons: "c # s \<in> star L \<longleftrightarrow> (\<exists>u v. s = u @ v \<and> c # u \<in> L \<and> v \<in> star L)"
proof
  assume "c # s \<in> star L"
  then show "\<exists>u v. s = u @ v \<and> c # u \<in> L \<and> v \<in> star L"
  proof (induction "c # s" arbitrary: s rule: star.induct)
    case (star_app u v)
    then show ?case by (cases u) auto
  qed
next
  assume "\<exists>u v. s = u @ v \<and> c # u \<in> L \<and> v \<in> star L"
  then show "c # s \<in> star L" using star_app by fastforce
qed

lemma deriv_lang: "s \<in> lang (deriv c r) \<longleftrightarrow> c # s \<in> lang r"
proof (induction r arbitrary: s)
  case (Seq r1 r2)
  have "c # s \<in> lang (Seq r1 r2) \<longleftrightarrow>
      (\<exists>u v. s = u @ v \<and> c # u \<in> lang r1 \<and> v \<in> lang r2) \<or> ([] \<in> lang r1 \<and> c # s \<in> lang r2)"
    by (auto simp: Cons_eq_append_conv)
  with Seq show ?case by (auto simp: nullable_lang)
qed (auto simp: star_Cons)

lemma prefix_match_iff: "prefix_match r s \<longleftrightarrow> (\<exists>u v. s = u @ v \<and> u \<in> lang r)"
proof (induction r s rule: prefix_match.induct)
  case (2 r c cs)
  then show ?case
    by (auto simp: nullable_lang deriv_lang Cons_eq_append_conv)
qed (simp add: nullable_lang)

lemma MatchString_iff: "MatchString r s \<longleftrightarrow> (\<exists>a u b. s = a @ u @ b \<and> u \<in> lang r)"
proof (induction r s rule: MatchString.induct)
  case (2 r c cs)
  have "(\<exists>a u b. c # cs = a @ u @ b \<and> u \<in> lang r) \<longleftrightarrow>
      (\<exists>u b. c # cs = u @ b \<and> u \<in> lang r) \<or> (\<exists>a u b. cs = a @ u @ b \<and> u \<in> lang r)"
    (is "?L \<longleftrightarrow> ?A \<or> ?B")
  proof
    assume ?L
    then obtain a u b where e: "c # cs = a @ u @ b" "u \<in> lang r" by blast
    then show "?A \<or> ?B" by (cases a) auto
  next
    assume "?A \<or> ?B"
    then show ?L by (metis append_Cons append_Nil)
  qed
  with 2 show ?case by (simp add: prefix_match_iff)
qed (simp add: nullable_lang)

lemma MatchString_prefix: "u \<in> lang r \<Longrightarrow> MatchString r (u @ v)"
  unfolding MatchString_iff by (metis append_Nil)

lemma lang_Lit [simp]: "lang (Lit s) = {s}"
  by (induction s) auto

lemma star_self: "u \<in> L \<Longrightarrow> u \<in> star L"
  using star_app [of u L "[]"] star_Nil by simp

lemma star_class: "\<forall>c\<in>set s. (c \<in> set cs) = b \<Longrightarrow> s \<in> star (lang (Cls b cs))"
proof (induction s)
  case (Cons c s)
  then show ?case using star_app [of "[c]" "lang (Cls b cs)" s] by simp
qed (rule star_Nil)

lemma lang_SeqI: "u \<in> lang r \<Longrightarrow> v \<in> lang s \<Longrightarrow> u @ v \<in> lang (Seq r s)"
  by auto

lemma lang_Plus_class:
  assumes "s \<noteq> []" "\<forall>c\<in>set s. (c \<in> set cs) = b"
  shows "s \<in> lang (Plus (Cls b cs))"
proof -
  obtain c t where s: "s = c # t" using assms(1) by (cases s) auto
  have "[c] @ t \<in> lang (Plus (Cls b cs))"
    unfolding Plus_def using assms(2) s star_class [of t cs b] by (intro lang_SeqI) simp_all
  with s show ?thesis by simp
qed

section \<open>Paths\<close>

lemma foldl_clean_plain:
  assumes "''..'' \<notin> set cs"
  shows "foldl (clean_step rooted) out cs = rev (filter (\<lambda>c. c \<noteq> [] \<and> c \<noteq> ''.'') cs) @ out"
  using assms by (induction cs arbitrary: out) (auto simp: clean_step_def)

lemma clean_comps_plain:
  assumes "''..'' \<notin> set cs" "[] \<notin> set cs" "''.'' \<notin> set cs"
  shows "clean_comps rooted cs = cs"
proof -
  have "filter (\<lambda>c. c \<noteq> [] \<and> c \<noteq> ''.'') cs = cs"
    using assms by (intro filter_True) auto
  with foldl_clean_plain [OF assms(1), of rooted "[]"] show ?thesis by (simp add: clean_comps_def)
qed

lemma set_clean_step:
  "set (clean_step True out c) \<subseteq> (if c \<in> {[], ''.'', ''..''} then {} else {c}) \<union> set out"
  by (cases out) (simp_all add: clean_step_def subset_insertI subset_insertI2)

lemma foldl_clean_rooted:
  assumes "set out \<inter> {[], ''.'', ''..''} = {}"
  shows "set (foldl (clean_step True) out cs) \<inter> {[], ''.'', ''..''} = {}"
  using assms
proof (induction cs arbitrary: out)
  case (Cons c cs)
  have "set (clean_step True out c) \<inter> {[], ''.'', ''..''} = {}"
    by (rule disjoint_step [OF set_clean_step Cons.prems])
  with Cons.IH show ?case by simp
qed simp

lemma clean_comps_rooted: "set (clean_comps True cs) \<inter> {[], ''.'', ''..''} = {}"
  using foldl_clean_rooted [of "[]" cs] by (simp add: clean_comps_def)

lemma clean_comps_append:
  assumes "''..'' \<notin> set ds"
  shows "clean_comps rooted (cs @ ds) = clean_comps rooted cs @ filter (\<lambda>c. c \<noteq> [] \<and> c \<noteq> ''.'') ds"
  using foldl_clean_plain [OF assms] by (simp add: clean_comps_def)

lemma strings_Split_app:
  "strings_Split c (s @ c # t) = strings_Split c s @ strings_Split c t"
  by (induction s) (auto split: list.splits)

lemma HasPrefix_app: "HasPrefix s p \<Longrightarrow> HasPrefix (s @ t) p"
  by (auto simp: HasPrefix_iff)

lemma strings_Join_append:
  "xs \<noteq> [] \<Longrightarrow> ys \<noteq> [] \<Longrightarrow> strings_Join sep (xs @ ys) = strings_Join sep xs @ sep @ strings_Join sep ys"
  by (induction xs rule: induct_list012) (auto simp: strings_Join_Cons)

lemma filepath_Join_under:
  assumes "HasPrefix base ''/''" "''..'' \<notin> set (strings_Split (CHR ''/'') inner)"
  shows "\<exists>rest. filepath_Join [base, inner] = filepath_Clean base @ rest \<and>
    (rest = [] \<or> HasPrefix rest ''/'' \<or> filepath_Clean base = ''/'')"
proof -
  let ?b = "clean_comps True (strings_Split (CHR ''/'') base)"
  let ?i = "filter (\<lambda>c. c \<noteq> [] \<and> c \<noteq> ''.'') (strings_Split (CHR ''/'') inner)"
  have "base \<noteq> []" using assms(1) by (auto simp: HasPrefix_iff)
  then have "filepath_Join [base, inner] = filepath_Clean (base @ CHR ''/'' # inner)"
    by (simp add: filepath_Join_def)
  also have "\<dots> = ''/'' @ strings_Join ''/'' (?b @ ?i)"
    using HasPrefix_app [OF assms(1)]
    by (simp add: filepath_Clean_def strings_Split_app clean_comps_append [OF assms(2)] Let_def)
  finally have j: "filepath_Join [base, inner] = ''/'' @ strings_Join ''/'' (?b @ ?i)" .
  have c: "filepath_Clean base = ''/'' @ strings_Join ''/'' ?b"
    using assms(1) by (simp add: filepath_Clean_def Let_def)
  show ?thesis
  proof (cases "?b = []")
    case True
    then have "filepath_Clean base = ''/''" "filepath_Join [base, inner] = ''/'' @ strings_Join ''/'' ?i"
      using j c by simp_all
    then show ?thesis by simp
  next
    case b: False
    show ?thesis
    proof (cases "?i = []")
      case True
      then have "filepath_Join [base, inner] = filepath_Clean base" using j c by simp
      then show ?thesis by simp
    next
      case False
      have "filepath_Join [base, inner] = filepath_Clean base @ ''/'' @ strings_Join ''/'' ?i"
        by (simp only: j c strings_Join_append [OF b False] append_assoc)
      then show ?thesis by (simp add: HasPrefix_def)
    qed
  qed
qed

end
