(* ===== verification/Mount_Options.thy ===== *)
theory Mount_Options
  imports Prelude
begin

text \<open>
  Mount options: \<open>pkg/wekafs/mountoptions.go\<close> and \<open>pkg/wekafs/mountoptoverrides.go\<close>.

  The struct \<open>MountOptions\<close> holds a map from option names to options; a method with a value receiver
  that writes to the map changes the caller's map, so the in-place methods \<open>setOption\<close>, \<open>Merge\<close>
  and \<open>setSelinux\<close> return the updated struct here and the deriving methods work on a clone.
  \<open>Merge\<close> ranges over a Go map: the model ranges over the association list, and the theorems say
  for which arguments the order of that range does not matter.
\<close>

section \<open>Definitions\<close>

record mountOption =
  moption :: string
  mvalue :: string

record MountOptions =
  customOptions :: "(string, mountOption) gomap"
  excludeOptions :: "string list"

type_synonym mutuallyExclusiveMountOptionSet = "string list"

definition mountOption_String :: "mountOption \<Rightarrow> string" where
  "mountOption_String o1 = moption o1 @ (if mvalue o1 \<noteq> [] then ''='' @ mvalue o1 else [])"

definition newMountOptionFromString :: "string \<Rightarrow> mountOption" where
  "newMountOptionFromString optstring =
     (let parts = strings_Split (CHR ''='') optstring
      in \<lparr> moption = parts ! 0, mvalue = (if length parts = 2 then parts ! 1 else []) \<rparr>)"

definition cloneCustomOptions :: "MountOptions \<Rightarrow> (string, mountOption) gomap" where
  "cloneCustomOptions opts = fold (\<lambda>(k, v). AList.update k v) (customOptions opts) []"

definition setOption :: "MountOptions \<Rightarrow> string \<Rightarrow> MountOptions" where
  "setOption opts optstring =
     (let o1 = newMountOptionFromString optstring
      in opts\<lparr>customOptions := AList.update (moption o1) o1 (customOptions opts)\<rparr>)"

text \<open>The three loops inside the range of \<open>Merge\<close>: one exclusive set, then all of them.\<close>

definition drop_alternatives ::
  "string \<Rightarrow> mutuallyExclusiveMountOptionSet \<Rightarrow> (string, mountOption) gomap \<Rightarrow> (string, mountOption) gomap"
where
  "drop_alternatives name S m =
     (if name \<in> set S
      then fold (\<lambda>optionToDrop m. if optionToDrop \<noteq> name then AList.delete optionToDrop m else m) S m
      else m)"

definition merge_option ::
  "mutuallyExclusiveMountOptionSet list \<Rightarrow> string \<times> mountOption \<Rightarrow> (string, mountOption) gomap
    \<Rightarrow> (string, mountOption) gomap"
where
  "merge_option exclusives e m =
     fold (drop_alternatives (moption (snd e))) exclusives (AList.update (moption (snd e)) (snd e) m)"

definition Merge :: "MountOptions \<Rightarrow> MountOptions \<Rightarrow> mutuallyExclusiveMountOptionSet list \<Rightarrow> MountOptions" where
  "Merge opts other exclusives =
     opts\<lparr>customOptions :=
       fold AList.delete (excludeOptions other)
         (fold (merge_option exclusives) (customOptions other) (customOptions opts))\<rparr>"

definition MergedWith :: "MountOptions \<Rightarrow> MountOptions \<Rightarrow> mutuallyExclusiveMountOptionSet list \<Rightarrow> MountOptions" where
  "MergedWith opts other exclusives =
     Merge \<lparr> customOptions = cloneCustomOptions opts, excludeOptions = excludeOptions opts \<rparr> other exclusives"

definition AddOption :: "MountOptions \<Rightarrow> string \<Rightarrow> MountOptions" where
  "AddOption opts optstring =
     (let opt = newMountOptionFromString optstring
      in \<lparr> customOptions = AList.update (moption opt) opt (cloneCustomOptions opts),
           excludeOptions = excludeOptions opts \<rparr>)"

definition RemoveOption :: "MountOptions \<Rightarrow> string \<Rightarrow> MountOptions" where
  "RemoveOption opts optstring =
     (let opt = newMountOptionFromString optstring
      in \<lparr> customOptions = AList.delete (moption opt) (cloneCustomOptions opts),
           excludeOptions = excludeOptions opts \<rparr>)"

definition hasOption :: "MountOptions \<Rightarrow> string \<Rightarrow> bool" where
  "hasOption opts optstring =
     (map_of (customOptions opts) (moption (newMountOptionFromString optstring)) \<noteq> None)"

definition getOptionValue :: "MountOptions \<Rightarrow> string \<Rightarrow> string" where
  "getOptionValue opts optstring =
     (case map_of (customOptions opts) (moption (newMountOptionFromString optstring)) of
        Some o1 \<Rightarrow> mvalue o1
      | None \<Rightarrow> [])"

text \<open>Reading a missing key of a Go map gives the zero value of the element type.\<close>

definition zero_mountOption :: mountOption where
  "zero_mountOption = \<lparr> moption = [], mvalue = [] \<rparr>"

definition getOpts :: "MountOptions \<Rightarrow> mountOption list" where
  "getOpts opts =
     map (\<lambda>k. case map_of (customOptions opts) k of Some v \<Rightarrow> v | None \<Rightarrow> zero_mountOption)
       (sort (map fst (customOptions opts)))"

definition MountOptions_Strings :: "MountOptions \<Rightarrow> string list" where
  "MountOptions_Strings opts = map mountOption_String (getOpts opts)"

definition MountOptions_String :: "MountOptions \<Rightarrow> string" where
  "MountOptions_String opts = strings_Join '','' (MountOptions_Strings opts)"

text \<open>\<open>fnv.New32a\<close> and the text \<open>fmt.Sprintln\<close> prints for a slice of structs.\<close>

definition fnv32a :: "string \<Rightarrow> 32 word" where
  "fnv32a s = fold (\<lambda>c h. (xor h (word_of_nat (of_char c))) * 16777619) s 2166136261"

definition sprintln_opts :: "mountOption list \<Rightarrow> string" where
  "sprintln_opts os =
     ''['' @ strings_Join '' '' (map (\<lambda>o1. ''{'' @ moption o1 @ '' '' @ mvalue o1 @ ''}'') os) @ '']''
       @ [CHR 0x0A]"

definition MountOptions_Hash :: "MountOptions \<Rightarrow> 32 word" where
  "MountOptions_Hash opts = fnv32a (sprintln_opts (getOpts opts))"

definition AsMapKey :: "MountOptions \<Rightarrow> string" where
  "AsMapKey opts = MountOptions_String (foldl RemoveOption opts [''sync_on_close''])"

definition AsVolumeContext :: "MountOptions \<Rightarrow> string" where
  "AsVolumeContext opts = MountOptions_String (foldl RemoveOption opts [''sync_on_close'', ''container_name''])"

definition dquote :: string where
  "dquote = [CHR 0x22]"

definition setSelinux :: "MountOptions \<Rightarrow> bool \<Rightarrow> string \<Rightarrow> MountOptions" where
  "setSelinux opts selinuxSupport mountProtocol =
     (if selinuxSupport then
        (let o1 = (if mountProtocol = ''wekafs''
                   then newMountOptionFromString
                     (''fscontext='' @ dquote @ ''system_u:object_r:wekafs_csi_volume_t:s0'' @ dquote)
                   else if mountProtocol = ''nfs''
                   then newMountOptionFromString
                     (''context='' @ dquote @ ''system_u:object_r:nfs_t:s0'' @ dquote)
                   else zero_mountOption);
             opts1 = (if moption o1 \<noteq> []
                      then opts\<lparr>customOptions := AList.update (moption o1) o1 (customOptions opts)\<rparr>
                      else opts)
         in setOption opts1 ''acl'')
      else
        (let opts1 = (if mountProtocol = ''wekafs''
                      then opts\<lparr>customOptions := AList.delete ''fscontext'' (customOptions opts)\<rparr>
                      else opts)
         in if mountProtocol = ''nfs''
            then opts1\<lparr>customOptions := AList.delete ''context'' (customOptions opts1)\<rparr>
            else opts1))"

definition add_optstring :: "string \<Rightarrow> (string, mountOption) gomap \<Rightarrow> (string, mountOption) gomap" where
  "add_optstring optstring m =
     (let s = TrimSpace optstring
      in if s \<noteq> [] then (let o1 = newMountOptionFromString s in AList.update (moption o1) o1 m) else m)"

definition NewMountOptions :: "string list \<Rightarrow> MountOptions" where
  "NewMountOptions optstrings =
     \<lparr> customOptions = fold add_optstring optstrings [], excludeOptions = [] \<rparr>"

definition NewMountOptionsFromString :: "string \<Rightarrow> MountOptions" where
  "NewMountOptionsFromString optsString =
     (if optsString = [] then NewMountOptions []
      else NewMountOptions (strings_Split (CHR '','') optsString))"

text \<open>Both \<open>MountOptionNfsAsync\<close> and \<open>MountOptionNfsSync\<close> are the string \<open>async\<close> in the source.\<close>

definition MountOptionNfsAsync :: string where "MountOptionNfsAsync = ''async''"
definition MountOptionNfsSync :: string where "MountOptionNfsSync = ''async''"

definition asNfs_step :: "MountOptions \<Rightarrow> mountOption \<Rightarrow> MountOptions" where
  "asNfs_step ret o1 =
     (if moption o1 = ''writecache'' then setOption ret MountOptionNfsAsync
      else if moption o1 = ''coherent'' then setOption (setOption ret MountOptionNfsSync) ''noac''
      else if moption o1 = ''forcedirect'' then setOption (setOption ret MountOptionNfsSync) ''noac''
      else if moption o1 = ''readcache'' then setOption ret ''ac''
      else if moption o1 = ''dentry_max_age_positive''
      then setOption (setOption ret (''acdirmax='' @ mvalue o1)) (''acregmax='' @ mvalue o1)
      else ret)"

definition AsNfs :: "MountOptions \<Rightarrow> MountOptions" where
  "AsNfs opts = foldl asNfs_step (NewMountOptionsFromString ''hard,async,rdirplus'') (getOpts opts)"

definition getDefaultMountOptions :: MountOptions where
  "getDefaultMountOptions = \<lparr> customOptions = [], excludeOptions = [''''] \<rparr>"

subsection \<open>Overrides\<close>

text \<open>
  \<open>ApplyToOptions\<close> starts on the caller's own map and leaves it at the first \<open>-\<close> modifier, which
  clones.  The state of the loop is the caller's options, whether the map is still shared with the
  caller, and the current options.
\<close>

type_synonym override_state = "MountOptions \<times> bool \<times> MountOptions"

definition merge_shared ::
  "mutuallyExclusiveMountOptionSet list \<Rightarrow> string \<Rightarrow> override_state \<Rightarrow> override_state"
where
  "merge_shared exclusives text_opts st =
     (case st of (arg, shared, cur) \<Rightarrow>
        (let cur' = Merge cur (NewMountOptionsFromString text_opts) exclusives
         in (if shared then cur' else arg, shared, cur')))"

definition apply_part ::
  "mutuallyExclusiveMountOptionSet list \<Rightarrow> string \<Rightarrow> override_state \<Rightarrow> override_state"
where
  "apply_part exclusives part0 st =
     (let part = TrimSpace part0
      in if part = [] then st
         else if HasPrefix part ''+'' then merge_shared exclusives (TrimPrefix part ''+'') st
         else if HasPrefix part ''-''
         then (case st of (arg, shared, cur) \<Rightarrow> (arg, False, RemoveOption cur (TrimPrefix part ''-'')))
         else merge_shared exclusives part st)"

text \<open>The returned options and the caller's options afterwards.\<close>

definition ApplyToOptions ::
  "string \<Rightarrow> MountOptions \<Rightarrow> mutuallyExclusiveMountOptionSet list \<Rightarrow> MountOptions \<times> MountOptions"
where
  "ApplyToOptions mo opts exclusives =
     (case fold (apply_part exclusives) (strings_Split (CHR '','') mo) (opts, True, opts) of
        (arg, shared, cur) \<Rightarrow> (cur, arg))"

record podMountEntry =
  pattern :: "string \<Rightarrow> bool"
  override :: string

text \<open>
  The regular expression engine is an argument: \<open>compile\<close> maps an expression to its matcher, or to
  \<open>None\<close> when \<open>regexp.Compile\<close> rejects it.
\<close>

definition parse_line :: "(string \<Rightarrow> (string \<Rightarrow> bool) option) \<Rightarrow> string \<Rightarrow> podMountEntry list" where
  "parse_line compile line0 =
     (let line = TrimSpace line0
      in if line = [] \<or> HasPrefix line ''#'' then []
         else (case strings_Index line (CHR '':'') of
                 None \<Rightarrow> []
               | Some colonIdx \<Rightarrow>
                   (let pat = TrimSpace (take colonIdx line);
                        rawOpts = TrimSpace (drop (colonIdx + 1) line)
                    in if pat = [] then []
                       else (case compile (''^(?:'' @ pat @ '')$'') of
                               None \<Rightarrow> []
                             | Some re \<Rightarrow> [\<lparr> pattern = re, override = rawOpts \<rparr>]))))"

definition parsePodMountAnnotation :: "(string \<Rightarrow> (string \<Rightarrow> bool) option) \<Rightarrow> string \<Rightarrow> podMountEntry list" where
  "parsePodMountAnnotation compile annotation =
     concat (map (parse_line compile)
       (FieldsFunc (\<lambda>r. r = CHR '';'' \<or> r = CHR 0x0A) annotation))"

text \<open>
  The Kubernetes reader is an argument: \<open>get ns name\<close> is the annotation map of the object, \<open>None\<close>
  when the read fails.
\<close>

definition getPodMountOptionsOverride ::
  "(string \<Rightarrow> (string \<Rightarrow> bool) option) \<Rightarrow> (string \<Rightarrow> string \<Rightarrow> (string, string) gomap option)
    \<Rightarrow> string \<Rightarrow> string \<Rightarrow> string \<Rightarrow> string"
where
  "getPodMountOptionsOverride compile get podNamespace podName pvcName =
     (case get podNamespace podName of
        None \<Rightarrow> []
      | Some annotations \<Rightarrow>
          (case map_of annotations ''weka.io/mount-options-overrides'' of
             None \<Rightarrow> []
           | Some annotation \<Rightarrow>
               if annotation = [] then []
               else (case find (\<lambda>entry. pattern entry pvcName) (parsePodMountAnnotation compile annotation) of
                       None \<Rightarrow> []
                     | Some entry \<Rightarrow> override entry)))"

definition getPvcMountOptionsOverride ::
  "(string \<Rightarrow> string \<Rightarrow> (string, string) gomap option) \<Rightarrow> string \<Rightarrow> string \<Rightarrow> string"
where
  "getPvcMountOptionsOverride get pvcNamespace pvcName =
     (case get pvcNamespace pvcName of
        None \<Rightarrow> []
      | Some annotations \<Rightarrow>
          (case map_of annotations ''weka.io/mount-options-override'' of
             None \<Rightarrow> []
           | Some annotation \<Rightarrow> annotation))"

subsection \<open>Well-formed options and the reference merge\<close>

definition opts_wf :: "MountOptions \<Rightarrow> bool" where
  "opts_wf opts \<longleftrightarrow>
     map_wf (customOptions opts) \<and> (\<forall>e\<in>set (customOptions opts). moption (snd e) = fst e)"

text \<open>\<open>k\<close> is an alternative of \<open>n\<close>: some exclusive set holds both.\<close>

definition rivals :: "mutuallyExclusiveMountOptionSet list \<Rightarrow> string \<Rightarrow> string \<Rightarrow> bool" where
  "rivals exclusives n k \<longleftrightarrow> k \<noteq> n \<and> (\<exists>S\<in>set exclusives. n \<in> set S \<and> k \<in> set S)"

definition conflict_free :: "mutuallyExclusiveMountOptionSet list \<Rightarrow> MountOptions \<Rightarrow> bool" where
  "conflict_free exclusives opts \<longleftrightarrow>
     (\<forall>a\<in>set (customOptions opts). \<forall>b\<in>set (customOptions opts). \<not> rivals exclusives (fst a) (fst b))"

text \<open>What a merge means, independent of any order: the other side wins, its alternatives go.\<close>

definition merge_spec ::
  "mutuallyExclusiveMountOptionSet list \<Rightarrow> MountOptions \<Rightarrow> MountOptions \<Rightarrow> string \<Rightarrow> mountOption option"
where
  "merge_spec exclusives opts other k =
     (if k \<in> set (excludeOptions other) then None
      else case map_of (customOptions other) k of
             Some o1 \<Rightarrow> Some o1
           | None \<Rightarrow>
               if \<exists>e\<in>set (customOptions other). rivals exclusives (fst e) k then None
               else map_of (customOptions opts) k)"

text \<open>Names and values that survive printing and parsing.\<close>

definition plain_text :: "string \<Rightarrow> bool" where
  "plain_text s \<longleftrightarrow> (\<forall>c\<in>set s. \<not> is_space c \<and> c \<noteq> CHR '','' \<and> c \<noteq> CHR ''='')"

definition opts_printable :: "MountOptions \<Rightarrow> bool" where
  "opts_printable opts \<longleftrightarrow>
     opts_wf opts \<and> (\<forall>e\<in>set (customOptions opts). fst e \<noteq> [] \<and> plain_text (fst e) \<and> plain_text (mvalue (snd e)))"

text \<open>A map transformer that overwrites a fixed set of keys with fixed contents.\<close>

definition overwrites :: "(('k, 'v) gomap \<Rightarrow> ('k, 'v) gomap) \<Rightarrow> bool" where
  "overwrites f \<longleftrightarrow> (\<exists>D c. \<forall>m. map_wf m \<longrightarrow>
     map_wf (f m) \<and> map_of (f m) = (\<lambda>k. if k \<in> D then c k else map_of m k))"

text \<open>The effect of one override modifier on the option map alone.\<close>

definition part_fun ::
  "mutuallyExclusiveMountOptionSet list \<Rightarrow> string \<Rightarrow> (string, mountOption) gomap \<Rightarrow> (string, mountOption) gomap"
where
  "part_fun exclusives part0 m =
     customOptions (snd (snd (apply_part exclusives part0
       (\<lparr> customOptions = m, excludeOptions = [] \<rparr>, False, \<lparr> customOptions = m, excludeOptions = [] \<rparr>))))"

definition is_removal :: "string \<Rightarrow> bool" where
  "is_removal part \<longleftrightarrow> HasPrefix (TrimSpace part) ''-''"

abbreviation names :: "MountOptions \<Rightarrow> string set" where
  "names opts \<equiv> dom (map_of (customOptions opts))"

text \<open>The option names one WekaFS option contributes to the NFS options.\<close>

definition nfs_names :: "mountOption \<Rightarrow> string set" where
  "nfs_names o1 =
     (if moption o1 = ''writecache'' then {''async''}
      else if moption o1 \<in> {''coherent'', ''forcedirect''} then {''async'', ''noac''}
      else if moption o1 = ''readcache'' then {''ac''}
      else if moption o1 = ''dentry_max_age_positive'' then {''acdirmax'', ''acregmax''} else {})"

section \<open>Maps and merging\<close>

lemma fold_update_append:
  "map_wf (m @ xs) \<Longrightarrow> fold (\<lambda>(k, v). AList.update k v) xs m = m @ xs"
proof (induction xs arbitrary: m)
  case (Cons x xs)
  obtain k v where x: "x = (k, v)" by (cases x)
  have "AList.update k v m = m @ [(k, v)]"
    using Cons.prems x by (induction m) auto
  with Cons x show ?case by simp
qed simp

lemma cloneCustomOptions_id [simp]: "map_wf (customOptions opts) \<Longrightarrow> cloneCustomOptions opts = customOptions opts"
  using fold_update_append [of "[]" "customOptions opts"] by (simp add: cloneCustomOptions_def)

lemma map_wf_fold_update: "map_wf m \<Longrightarrow> map_wf (fold (\<lambda>(k, v). AList.update k v) xs m)"
  by (induction xs arbitrary: m) auto

lemma map_wf_clone [simp]: "map_wf (cloneCustomOptions opts)"
  unfolding cloneCustomOptions_def by (rule map_wf_fold_update) simp

lemma map_of_drop_alternatives:
  "map_of (drop_alternatives n S m) k = (if n \<in> set S \<and> k \<in> set S \<and> k \<noteq> n then None else map_of m k)"
proof -
  have "map_of (fold (\<lambda>d m. if d \<noteq> n then AList.delete d m else m) S m) k
        = (if k \<in> set S \<and> k \<noteq> n then None else map_of m k)"
    by (induction S arbitrary: m) auto
  then show ?thesis by (simp add: drop_alternatives_def)
qed

lemma map_of_fold_drop_alternatives:
  "map_of (fold (drop_alternatives n) E m) k = (if rivals E n k then None else map_of m k)"
  by (induction E arbitrary: m) (auto simp: map_of_drop_alternatives rivals_def)

lemma map_of_merge_option:
  "map_of (merge_option E e m) k =
     (if k = moption (snd e) then Some (snd e)
      else if rivals E (moption (snd e)) k then None else map_of m k)"
  by (auto simp: merge_option_def map_of_fold_drop_alternatives rivals_def)

lemma map_wf_merge_option [simp, wf_intros]: "map_wf m \<Longrightarrow> map_wf (merge_option E e m)"
proof -
  have d: "map_wf (drop_alternatives n S m)" if "map_wf m" for n S and m :: "(string, mountOption) gomap"
  proof -
    have "map_wf (fold (\<lambda>d m. if d \<noteq> n then AList.delete d m else m) S m)"
      using that by (induction S arbitrary: m) auto
    with that show ?thesis by (simp add: drop_alternatives_def)
  qed
  have "map_wf (fold (drop_alternatives n) E m)" if "map_wf m" for n and m :: "(string, mountOption) gomap"
    using that d by (induction E arbitrary: m) auto
  then show "map_wf m \<Longrightarrow> map_wf (merge_option E e m)" by (simp add: merge_option_def)
qed

lemma map_wf_fold_merge_option [simp, wf_intros]:
  "map_wf m \<Longrightarrow> map_wf (fold (merge_option E) xs m)"
  by (induction xs arbitrary: m) auto

lemma fold_merge_option_spec:
  assumes "distinct (map fst xs)" "\<forall>e\<in>set xs. moption (snd e) = fst e"
    "\<forall>a\<in>set xs. \<forall>b\<in>set xs. \<not> rivals E (fst a) (fst b)"
  shows "map_of (fold (merge_option E) xs m) k =
    (case map_of xs k of
       Some o1 \<Rightarrow> Some o1
     | None \<Rightarrow> if \<exists>e\<in>set xs. rivals E (fst e) k then None else map_of m k)"
  using assms
proof (induction xs arbitrary: m)
  case (Cons x xs)
  have IH: "map_of (fold (merge_option E) xs (merge_option E x m)) k =
    (case map_of xs k of
       Some o1 \<Rightarrow> Some o1
     | None \<Rightarrow> if \<exists>e\<in>set xs. rivals E (fst e) k then None else map_of (merge_option E x m) k)"
    using Cons by auto
  have n: "moption (snd x) = fst x" using Cons.prems by simp
  show ?case
  proof (cases "k = fst x")
    case True
    then have "map_of xs k = None"
      using Cons.prems(1) by (simp add: map_of_eq_None_iff)
    moreover have "\<not> (\<exists>e\<in>set xs. rivals E (fst e) k)"
      using Cons.prems(3) True by auto
    ultimately show ?thesis
      using IH True n by (cases x) (simp add: map_of_merge_option)
  next
    case False
    then show ?thesis
      using IH n by (cases x) (auto simp: map_of_merge_option split: option.splits)
  qed
qed simp

lemma Merge_lookup:
  assumes "opts_wf other" "conflict_free exclusives other"
  shows "map_of (customOptions (Merge opts other exclusives)) k = merge_spec exclusives opts other k"
  using assms fold_merge_option_spec [of "customOptions other" exclusives "customOptions opts" k]
  by (simp add: Merge_def merge_spec_def map_of_fold_delete opts_wf_def conflict_free_def)

lemma fold_merge_option_exclusive:
  assumes "S \<in> set E" "\<exists>e\<in>set xs. moption (snd e) \<in> set S"
    "a \<in> set S" "b \<in> set S"
    "map_of (fold (merge_option E) xs m) a \<noteq> None" "map_of (fold (merge_option E) xs m) b \<noteq> None"
  shows "a = b"
  using assms(2-)
proof (induction xs rule: rev_induct)
  case (snoc e xs)
  let ?n = "moption (snd e)"
  show ?case
  proof (cases "?n \<in> set S")
    case True
    then have "a = ?n" "b = ?n"
      using snoc.prems assms(1) by (auto simp: map_of_merge_option rivals_def split: if_splits)
    then show ?thesis by simp
  next
    case False
    then have "a \<noteq> ?n" "b \<noteq> ?n" using snoc.prems by auto
    with False snoc show ?thesis by (auto simp: map_of_merge_option split: if_splits)
  qed
qed simp

lemma Merge_exclusive:
  assumes "S \<in> set exclusives" "\<exists>e\<in>set (customOptions other). moption (snd e) \<in> set S"
    "a \<in> set S" "b \<in> set S"
    "map_of (customOptions (Merge opts other exclusives)) a \<noteq> None"
    "map_of (customOptions (Merge opts other exclusives)) b \<noteq> None"
  shows "a = b"
  using assms fold_merge_option_exclusive [of S exclusives "customOptions other" a b "customOptions opts"]
  by (auto simp: Merge_def map_of_fold_delete split: if_splits)

section \<open>The well-formedness invariant\<close>

lemma set_AList_update_subset: "set (AList.update k v m) \<subseteq> insert (k, v) (set m)"
  by (induction m) auto

lemma set_AList_delete_subset: "set (AList.delete k m) \<subseteq> set m"
  by (induction m) auto

lemma opts_wf_update [simp, wf_intros]:
  "opts_wf opts \<Longrightarrow> moption o1 = k \<Longrightarrow> opts_wf (opts\<lparr>customOptions := AList.update k o1 (customOptions opts)\<rparr>)"
  using set_AList_update_subset [of k o1 "customOptions opts"] by (auto simp: opts_wf_def)

lemma opts_wf_delete [simp, wf_intros]:
  "opts_wf opts \<Longrightarrow> opts_wf (opts\<lparr>customOptions := AList.delete k (customOptions opts)\<rparr>)"
  using set_AList_delete_subset [of k "customOptions opts"] by (auto simp: opts_wf_def)

lemma MountOptions_eta [simp]:
  "\<lparr> customOptions = customOptions opts, excludeOptions = excludeOptions opts \<rparr> = opts"
  by simp

lemma opts_wf_iff:
  "opts_wf opts \<longleftrightarrow> map_wf (customOptions opts) \<and>
     (\<forall>k v. map_of (customOptions opts) k = Some v \<longrightarrow> moption v = k)"
  unfolding opts_wf_def by (force simp: map_of_eq_Some_iff)

lemma opts_wf_clone [simp]: "opts_wf opts \<Longrightarrow> cloneCustomOptions opts = customOptions opts"
  by (simp add: opts_wf_def)

lemma opts_wf_setOption [simp, wf_intros]: "opts_wf opts \<Longrightarrow> opts_wf (setOption opts s)"
  by (simp add: setOption_def Let_def)

lemma AddOption_setOption: "opts_wf opts \<Longrightarrow> AddOption opts s = setOption opts s"
  by (simp add: AddOption_def setOption_def Let_def)

lemma opts_wf_AddOption [simp, wf_intros]: "opts_wf opts \<Longrightarrow> opts_wf (AddOption opts s)"
  by (simp add: AddOption_setOption)

lemma RemoveOption_delete:
  "opts_wf opts \<Longrightarrow> RemoveOption opts s =
     opts\<lparr>customOptions := AList.delete (moption (newMountOptionFromString s)) (customOptions opts)\<rparr>"
  by (simp add: RemoveOption_def Let_def)

lemma opts_wf_RemoveOption [simp, wf_intros]: "opts_wf opts \<Longrightarrow> opts_wf (RemoveOption opts s)"
  by (simp add: RemoveOption_delete)

lemma fold_merge_option_wf:
  assumes "\<And>k v. map_of m k = Some v \<Longrightarrow> moption v = k"
  shows "map_of (fold (merge_option E) xs m) k = Some v \<Longrightarrow> moption v = k"
  using assms
proof (induction xs arbitrary: m)
  case (Cons e xs)
  have "moption v = k" if "map_of (merge_option E e m) k = Some v" for k v
    using that Cons.prems(2) by (auto simp: map_of_merge_option split: if_splits)
  with Cons.IH Cons.prems(1) show ?case by simp
qed simp

lemma opts_wf_Merge [simp, wf_intros]:
  assumes "opts_wf opts"
  shows "opts_wf (Merge opts other E)"
proof -
  have "moption v = k" if "map_of (customOptions (Merge opts other E)) k = Some v" for k v
  proof (rule fold_merge_option_wf)
    show "map_of (fold (merge_option E) (customOptions other) (customOptions opts)) k = Some v"
      using that by (simp add: Merge_def map_of_fold_delete split: if_splits)
    show "moption v = k" if "map_of (customOptions opts) k = Some v" for k v
      using that assms by (simp add: opts_wf_iff)
  qed
  moreover have "map_wf (customOptions (Merge opts other E))"
    using assms by (simp add: Merge_def opts_wf_def)
  ultimately show ?thesis by (simp add: opts_wf_iff)
qed

lemma opts_wf_MergedWith [simp, wf_intros]: "opts_wf opts \<Longrightarrow> opts_wf (MergedWith opts other E)"
  by (simp add: MergedWith_def)

lemma opts_wf_setSelinux [simp, wf_intros]: "opts_wf opts \<Longrightarrow> opts_wf (setSelinux opts b p)"
  by (simp add: setSelinux_def Let_def)

lemma opts_wf_NewMountOptions [simp, wf_intros]: "opts_wf (NewMountOptions ss)"
proof -
  have "opts_wf \<lparr> customOptions = fold add_optstring ss m, excludeOptions = [] \<rparr>"
    if "opts_wf \<lparr> customOptions = m, excludeOptions = [] \<rparr>" for m
    using that
  proof (induction ss arbitrary: m)
    case (Cons s ss)
    have "opts_wf \<lparr> customOptions = add_optstring s m, excludeOptions = [] \<rparr>"
      using Cons.prems opts_wf_update [OF Cons.prems] by (simp add: add_optstring_def Let_def)
    then show ?case using Cons.IH by simp
  qed simp
  moreover have "opts_wf \<lparr> customOptions = [], excludeOptions = [] \<rparr>" by (simp add: opts_wf_def)
  ultimately show ?thesis by (simp add: NewMountOptions_def)
qed

lemma opts_wf_NewMountOptionsFromString [simp, wf_intros]: "opts_wf (NewMountOptionsFromString s)"
  by (simp add: NewMountOptionsFromString_def)

lemma opts_wf_AsNfs [simp, wf_intros]: "opts_wf (AsNfs opts)"
proof -
  have "opts_wf (foldl asNfs_step r os)" if "opts_wf r" for r os
    using that by (induction os arbitrary: r) (simp_all add: asNfs_step_def)
  then show ?thesis by (simp add: AsNfs_def)
qed

section \<open>Printing and parsing\<close>

lemma getOpts_same_map:
  assumes "same_map (customOptions a) (customOptions b)"
    "map_wf (customOptions a)" "map_wf (customOptions b)"
  shows "getOpts a = getOpts b"
proof -
  have "sort (map fst (customOptions a)) = sort (map fst (customOptions b))"
    using assms same_map_keys [OF assms(1)]
    by (intro sorted_distinct_set_unique) simp_all
  with assms(1) show ?thesis by (simp add: getOpts_def)
qed

lemma MountOptions_String_same_map:
  assumes "same_map (customOptions a) (customOptions b)"
    "map_wf (customOptions a)" "map_wf (customOptions b)"
  shows "MountOptions_String a = MountOptions_String b"
  using getOpts_same_map [OF assms] by (simp add: MountOptions_String_def MountOptions_Strings_def)

lemma newMountOptionFromString_String:
  assumes "plain_text (moption o1)" "plain_text (mvalue o1)"
  shows "newMountOptionFromString (mountOption_String o1) = o1"
proof -
  have "CHR ''='' \<notin> set (moption o1)" "CHR ''='' \<notin> set (mvalue o1)"
    using assms by (auto simp: plain_text_def)
  then show ?thesis
    by (cases o1) (simp add: newMountOptionFromString_def mountOption_String_def)
qed

lemma plain_text_String:
  assumes "plain_text (moption o1)" "plain_text (mvalue o1)"
  shows "CHR '','' \<notin> set (mountOption_String o1)" "\<forall>c\<in>set (mountOption_String o1). \<not> is_space c"
proof -
  have "\<not> is_space (CHR ''='')" by (simp add: is_space_def)
  then show "CHR '','' \<notin> set (mountOption_String o1)" "\<forall>c\<in>set (mountOption_String o1). \<not> is_space c"
    using assms by (auto simp: plain_text_def mountOption_String_def)
qed

lemma set_getOpts: "map_wf (customOptions opts) \<Longrightarrow> set (getOpts opts) = snd ` set (customOptions opts)"
proof -
  assume wf: "map_wf (customOptions opts)"
  have "(case map_of (customOptions opts) (fst e) of Some v \<Rightarrow> v | None \<Rightarrow> zero_mountOption) = snd e"
    if "e \<in> set (customOptions opts)" for e
  proof -
    have "map_of (customOptions opts) (fst e) = Some (snd e)"
      using that wf by (intro map_of_is_SomeI) simp_all
    then show ?thesis by simp
  qed
  then show ?thesis by (simp add: getOpts_def image_image)
qed

lemma map_fst_getOpts:
  "opts_wf opts \<Longrightarrow> map moption (getOpts opts) = sort (map fst (customOptions opts))"
proof -
  assume wf: "opts_wf opts"
  have "moption (case map_of (customOptions opts) k of Some v \<Rightarrow> v | None \<Rightarrow> zero_mountOption) = k"
    if "k \<in> fst ` set (customOptions opts)" for k
    using that wf by (cases "map_of (customOptions opts) k") (auto simp: opts_wf_iff map_of_eq_None_iff)
  then show ?thesis by (auto simp: getOpts_def intro!: map_idI)
qed

lemma NewMountOptions_Strings:
  assumes "\<forall>o1\<in>set os. moption o1 \<noteq> [] \<and> plain_text (moption o1) \<and> plain_text (mvalue o1)"
  shows "customOptions (NewMountOptions (map mountOption_String os)) =
    fold (\<lambda>(k, v). AList.update k v) (map (\<lambda>o1. (moption o1, o1)) os) []"
proof -
  have "fold add_optstring (map mountOption_String os) m =
        fold (\<lambda>(k, v). AList.update k v) (map (\<lambda>o1. (moption o1, o1)) os) m" for m
    using assms
  proof (induction os arbitrary: m)
    case (Cons a os)
    have "TrimSpace (mountOption_String a) = mountOption_String a"
      using Cons.prems by (intro TrimSpace_id plain_text_String) auto
    moreover have "mountOption_String a \<noteq> []"
      using Cons.prems by (simp add: mountOption_String_def)
    ultimately show ?case
      using Cons by (simp add: add_optstring_def Let_def newMountOptionFromString_String)
  qed simp
  then show ?thesis by (simp add: NewMountOptions_def)
qed

lemma parse_print:
  assumes "opts_printable opts"
  shows "same_map (customOptions (NewMountOptionsFromString (MountOptions_String opts))) (customOptions opts)"
proof -
  let ?os = "getOpts opts"
  let ?ps = "map (\<lambda>o1. (moption o1, o1)) ?os"
  have wf: "opts_wf opts" using assms by (simp add: opts_printable_def)
  then have so: "set ?os = snd ` set (customOptions opts)" by (simp add: set_getOpts opts_wf_def)
  then have pl: "\<forall>o1\<in>set ?os. moption o1 \<noteq> [] \<and> plain_text (moption o1) \<and> plain_text (mvalue o1)"
    using assms by (auto simp: opts_printable_def opts_wf_def)
  have "map fst ?ps = sort (map fst (customOptions opts))"
    using map_fst_getOpts [OF wf] by (simp add: comp_def)
  then have "distinct (map fst ?ps)" using wf by (simp add: opts_wf_def)
  then have c: "customOptions (NewMountOptions (map mountOption_String ?os)) = ?ps"
    using NewMountOptions_Strings [OF pl] fold_update_append [of "[]" ?ps] by simp
  have eq: "NewMountOptionsFromString (MountOptions_String opts) = NewMountOptions (map mountOption_String ?os)"
  proof (cases "?os = []")
    case True
    then show ?thesis
      by (simp add: NewMountOptionsFromString_def MountOptions_String_def MountOptions_Strings_def)
  next
    case False
    have "strings_Split (CHR '','') (MountOptions_String opts) = map mountOption_String ?os"
      unfolding MountOptions_String_def MountOptions_Strings_def
      using False pl plain_text_String(1) by (intro strings_Split_Join) auto
    moreover from this False pl have "MountOptions_String opts \<noteq> []"
      by (cases ?os) (auto simp: mountOption_String_def)
    ultimately show ?thesis by (simp add: NewMountOptionsFromString_def)
  qed
  have "set ?ps = set (customOptions opts)"
    using so wf by (auto simp: opts_wf_def image_image)
  then show ?thesis
    using eq c \<open>distinct (map fst ?ps)\<close> wf by (simp add: map_of_inject_set opts_wf_def)
qed

section \<open>Adding and removing options as a contract\<close>

locale option_store =
  fixes name :: "string \<Rightarrow> string"
    and add :: "'m \<Rightarrow> string \<Rightarrow> 'm"
    and remove :: "'m \<Rightarrow> string \<Rightarrow> 'm"
    and has :: "'m \<Rightarrow> string \<Rightarrow> bool"
    and wf :: "'m \<Rightarrow> bool"
  assumes wf_add: "wf m \<Longrightarrow> wf (add m s)"
    and wf_remove: "wf m \<Longrightarrow> wf (remove m s)"
    and has_add: "wf m \<Longrightarrow> has (add m s) t \<longleftrightarrow> name s = name t \<or> has m t"
    and has_remove: "wf m \<Longrightarrow> has (remove m s) t \<longleftrightarrow> name s \<noteq> name t \<and> has m t"
begin

lemma wf_removes: "wf m \<Longrightarrow> wf (foldl remove m ss)"
  by (induction ss arbitrary: m) (auto intro: wf_remove)

lemma has_removes: "wf m \<Longrightarrow> has (foldl remove m ss) t \<longleftrightarrow> (\<forall>s\<in>set ss. name s \<noteq> name t) \<and> has m t"
  by (induction ss arbitrary: m) (auto simp: has_remove wf_remove)

lemma has_adds: "wf m \<Longrightarrow> has (foldl add m ss) t \<longleftrightarrow> (\<exists>s\<in>set ss. name s = name t) \<or> has m t"
  by (induction ss arbitrary: m) (auto simp: has_add wf_add)

end

interpretation mount_opts: option_store "\<lambda>s. moption (newMountOptionFromString s)" AddOption RemoveOption hasOption opts_wf
  by unfold_locales
    (auto simp: AddOption_setOption setOption_def hasOption_def RemoveOption_delete Let_def)

section \<open>Overrides\<close>

lemma overwritesI:
  assumes "\<And>m. map_wf m \<Longrightarrow> map_wf (f m)"
    and "\<And>m. map_wf m \<Longrightarrow> map_of (f m) = (\<lambda>k. if k \<in> D then c k else map_of m k)"
  shows "overwrites f"
  using assms unfolding overwrites_def by blast

lemma overwrites_wf: "overwrites f \<Longrightarrow> map_wf m \<Longrightarrow> map_wf (f m)"
  unfolding overwrites_def by blast

lemma overwrites_idem:
  assumes "overwrites f" "map_wf m"
  shows "same_map (f (f m)) (f m)"
proof -
  obtain D c where f: "\<And>m. map_wf m \<Longrightarrow>
      map_wf (f m) \<and> map_of (f m) = (\<lambda>k. if k \<in> D then c k else map_of m k)"
    using assms(1) unfolding overwrites_def by blast
  from f [OF assms(2)] f [of "f m"] show ?thesis by (simp add: fun_eq_iff)
qed

lemma overwrites_comp:
  assumes "overwrites f" "overwrites g"
  shows "overwrites (\<lambda>m. f (g m))"
proof -
  obtain D c where f: "\<And>m. map_wf m \<Longrightarrow>
      map_wf (f m) \<and> map_of (f m) = (\<lambda>k. if k \<in> D then c k else map_of m k)"
    using assms(1) unfolding overwrites_def by blast
  obtain D' c' where g: "\<And>m. map_wf m \<Longrightarrow>
      map_wf (g m) \<and> map_of (g m) = (\<lambda>k. if k \<in> D' then c' k else map_of m k)"
    using assms(2) unfolding overwrites_def by blast
  show ?thesis
    by (rule overwritesI [where D = "D \<union> D'" and c = "\<lambda>k. if k \<in> D then c k else c' k"])
      (use f g in \<open>auto simp: fun_eq_iff\<close>)
qed

lemma overwrites_fold:
  assumes "\<And>x. x \<in> set xs \<Longrightarrow> overwrites (f x)"
  shows "overwrites (fold f xs)"
  using assms
proof (induction xs)
  case Nil
  show ?case by (rule overwritesI [where D = "{}"]) simp_all
next
  case (Cons x xs)
  then have "overwrites (\<lambda>m. fold f xs (f x m))" using overwrites_comp [of "fold f xs" "f x"] by simp
  then show ?case by (simp add: comp_def)
qed

lemma overwrites_delete [intro]: "overwrites (AList.delete k)"
  by (rule overwritesI [where D = "{k}" and c = "\<lambda>_. None"]) auto

lemma overwrites_merge_option [intro]: "overwrites (merge_option E e)"
  by (rule overwritesI [where D = "insert (moption (snd e)) {k. rivals E (moption (snd e)) k}"
        and c = "\<lambda>k. if k = moption (snd e) then Some (snd e) else None"])
    (auto simp: map_of_merge_option fun_eq_iff)

lemma overwrites_Merge: "overwrites (\<lambda>m. customOptions (Merge \<lparr> customOptions = m, excludeOptions = x \<rparr> other E))"
proof -
  have "overwrites (\<lambda>m. fold AList.delete (excludeOptions other) (fold (merge_option E) (customOptions other) m))"
    by (rule overwrites_comp [OF overwrites_fold overwrites_fold])
      (rule overwrites_delete overwrites_merge_option)+
  then show ?thesis by (simp add: Merge_def)
qed

lemma overwrites_RemoveOption:
  "overwrites (\<lambda>m. customOptions (RemoveOption \<lparr> customOptions = m, excludeOptions = x \<rparr> s))"
  by (rule overwritesI [where D = "{moption (newMountOptionFromString s)}" and c = "\<lambda>_. None"])
    (auto simp: RemoveOption_def Let_def)

lemma overwrites_id: "overwrites (\<lambda>m. m)"
  by (rule overwritesI [where D = "{}"]) simp_all

lemma part_fun_cases:
  "part_fun E part =
     (let p = TrimSpace part;
          merged = (\<lambda>s m. customOptions (Merge \<lparr> customOptions = m, excludeOptions = [] \<rparr>
                                           (NewMountOptionsFromString s) E))
      in if p = [] then (\<lambda>m. m)
         else if HasPrefix p ''+'' then merged (TrimPrefix p ''+'')
         else if HasPrefix p ''-''
         then (\<lambda>m. customOptions (RemoveOption \<lparr> customOptions = m, excludeOptions = [] \<rparr> (TrimPrefix p ''-'')))
         else merged p)"
  by (rule ext) (simp add: part_fun_def apply_part_def merge_shared_def Let_def)

lemma overwrites_part_fun: "overwrites (part_fun E part)"
  by (simp add: part_fun_cases Let_def overwrites_id overwrites_Merge overwrites_RemoveOption)

lemma customOptions_Merge_cong:
  "customOptions a = customOptions b \<Longrightarrow> customOptions (Merge a other E) = customOptions (Merge b other E)"
  by (simp add: Merge_def)

lemma customOptions_RemoveOption_cong:
  "customOptions a = customOptions b \<Longrightarrow> customOptions (RemoveOption a s) = customOptions (RemoveOption b s)"
  by (simp add: RemoveOption_def cloneCustomOptions_def Let_def)

lemma customOptions_apply_part:
  "customOptions (snd (snd (apply_part E part st))) = part_fun E part (customOptions (snd (snd st)))"
  unfolding part_fun_def apply_part_def merge_shared_def Let_def
  by (cases st) (auto intro!: customOptions_Merge_cong customOptions_RemoveOption_cong)

lemma customOptions_fold_apply_part:
  "customOptions (snd (snd (fold (apply_part E) parts st))) =
     fold (part_fun E) parts (customOptions (snd (snd st)))"
  by (induction parts arbitrary: st) (simp_all add: customOptions_apply_part)

lemma ApplyToOptions_fold:
  "customOptions (fst (ApplyToOptions mo opts E)) =
     fold (part_fun E) (strings_Split (CHR '','') mo) (customOptions opts)"
  using customOptions_fold_apply_part [of E "strings_Split (CHR '','') mo" "(opts, True, opts)"]
  by (auto simp: ApplyToOptions_def split: prod.splits)

lemma overwrites_ApplyToOptions:
  "overwrites (fold (part_fun E) parts)"
  by (intro overwrites_fold overwrites_part_fun)

lemma map_wf_ApplyToOptions:
  "map_wf (customOptions opts) \<Longrightarrow> map_wf (customOptions (fst (ApplyToOptions mo opts E)))"
  by (simp add: ApplyToOptions_fold overwrites_wf [OF overwrites_ApplyToOptions])

lemma apply_part_shared:
  "\<not> is_removal part \<Longrightarrow> apply_part E part (cur, True, cur) =
     (snd (snd (apply_part E part (cur, True, cur))), True, snd (snd (apply_part E part (cur, True, cur))))"
  by (simp add: apply_part_def merge_shared_def is_removal_def Let_def)

lemma apply_part_unshared: "fst (apply_part E part (arg, False, cur)) = arg
    \<and> fst (snd (apply_part E part (arg, False, cur))) = False"
  by (simp add: apply_part_def merge_shared_def Let_def)

lemma fold_apply_part_unshared: "fst (fold (apply_part E) parts (arg, False, cur)) = arg"
proof (induction parts arbitrary: cur)
  case (Cons p ps)
  obtain a s c where e: "apply_part E p (arg, False, cur) = (a, s, c)"
    by (metis prod_cases3)
  with apply_part_unshared [of E p arg cur] have "a = arg" "s = False" by simp_all
  with e Cons.IH show ?case by simp
qed simp

lemma is_removal_apply_part:
  assumes "is_removal part"
  shows "\<exists>c. apply_part E part (cur, True, cur) = (cur, False, c)"
proof -
  have "TrimSpace part \<noteq> []" "\<not> HasPrefix (TrimSpace part) ''+''"
    using assms by (auto simp: is_removal_def HasPrefix_iff)
  with assms show ?thesis by (simp add: apply_part_def is_removal_def Let_def)
qed

lemma caller_options:
  "fst (fold (apply_part E) parts (cur, True, cur)) =
     snd (snd (fold (apply_part E) (takeWhile (\<lambda>p. \<not> is_removal p) parts) (cur, True, cur)))"
proof (induction parts arbitrary: cur)
  case (Cons p ps)
  show ?case
  proof (cases "is_removal p")
    case True
    then obtain c where "apply_part E p (cur, True, cur) = (cur, False, c)"
      using is_removal_apply_part by blast
    with True show ?thesis by (simp add: fold_apply_part_unshared)
  next
    case False
    with apply_part_shared [of p E cur] Cons.IH [of "snd (snd (apply_part E p (cur, True, cur)))"]
    show ?thesis by simp
  qed
qed simp

section \<open>NFS translation and keys\<close>

lemma moption_new_prefix: "CHR ''='' \<notin> set n \<Longrightarrow> moption (newMountOptionFromString (n @ CHR ''='' # v)) = n"
  by (simp add: newMountOptionFromString_def Let_def)

lemma moption_new_plain: "CHR ''='' \<notin> set n \<Longrightarrow> moption (newMountOptionFromString n) = n"
  by (simp add: newMountOptionFromString_def)

lemma names_setOption: "names (setOption opts s) = insert (moption (newMountOptionFromString s)) (names opts)"
  by (simp add: setOption_def Let_def)

lemma hasOption_names: "CHR ''='' \<notin> set n \<Longrightarrow> hasOption opts n \<longleftrightarrow> n \<in> names opts"
  by (auto simp: hasOption_def moption_new_plain)

lemma nfs_literal_names:
  "moption (newMountOptionFromString ''async'') = ''async''"
  "moption (newMountOptionFromString ''noac'') = ''noac''"
  "moption (newMountOptionFromString ''ac'') = ''ac''"
  "moption (newMountOptionFromString (''acdirmax='' @ v)) = ''acdirmax''"
  "moption (newMountOptionFromString (''acregmax='' @ v)) = ''acregmax''"
  using moption_new_plain [of "''async''"] moption_new_plain [of "''noac''"] moption_new_plain [of "''ac''"]
    moption_new_prefix [of "''acdirmax''" v] moption_new_prefix [of "''acregmax''" v]
  by simp_all

lemma names_asNfs_step: "names (asNfs_step r o1) = nfs_names o1 \<union> names r"
  unfolding asNfs_step_def nfs_names_def MountOptionNfsAsync_def MountOptionNfsSync_def
  by (auto simp only: names_setOption nfs_literal_names split: if_splits)

lemma names_AsNfs:
  "names (AsNfs opts) = {''hard'', ''async'', ''rdirplus''} \<union> (\<Union>o1\<in>set (getOpts opts). nfs_names o1)"
proof -
  have "names (foldl asNfs_step r os) = names r \<union> (\<Union>o1\<in>set os. nfs_names o1)" for r os
    by (induction os arbitrary: r) (auto simp only: foldl.simps names_asNfs_step list.set UN_insert)
  moreover have "customOptions (NewMountOptionsFromString ''hard,async,rdirplus'') =
      [(''hard'', \<lparr> moption = ''hard'', mvalue = [] \<rparr>), (''async'', \<lparr> moption = ''async'', mvalue = [] \<rparr>),
       (''rdirplus'', \<lparr> moption = ''rdirplus'', mvalue = [] \<rparr>)]"
    by code_simp
  ultimately show ?thesis by (simp add: AsNfs_def insert_commute)
qed

lemma getOpts_names: "opts_wf opts \<Longrightarrow> moption ` set (getOpts opts) = names opts"
proof -
  assume "opts_wf opts"
  then have "set (map moption (getOpts opts)) = set (sort (map fst (customOptions opts)))"
    by (simp only: map_fst_getOpts)
  then show ?thesis by (simp add: dom_map_of_conv_image_fst)
qed

lemma opts_printable_RemoveOption: "opts_printable opts \<Longrightarrow> opts_printable (RemoveOption opts s)"
  using set_AList_delete_subset [of "moption (newMountOptionFromString s)" "customOptions opts"]
  by (auto simp: opts_printable_def RemoveOption_delete)

lemma opts_printable_removes: "opts_printable opts \<Longrightarrow> opts_printable (foldl RemoveOption opts ss)"
  by (induction ss arbitrary: opts) (auto intro: opts_printable_RemoveOption)

section \<open>Properties\<close>





text \<open>C35. Printing well-formed options and parsing the text gives back the same options: the mount
  option string that travels in a volume context loses nothing.\<close>

theorem options_roundtrip:
  assumes "opts_printable opts"
  shows "same_map (customOptions (NewMountOptionsFromString (MountOptions_String opts))) (customOptions opts)"
  using assms by (rule parse_print)

theorem options_roundtrip_witness:
  "same_map (customOptions (NewMountOptionsFromString (MountOptions_String (NewMountOptionsFromString ''inode_bits=64,acl''))))
     (customOptions (NewMountOptionsFromString ''inode_bits=64,acl''))"
  by (rule options_roundtrip) code_simp

text \<open>An override is idempotent: applying the same modifiers a second time leaves the options,
  and the string that identifies them in the mount table, unchanged.\<close>

lemma ApplyToOptions_idempotent:
  assumes "opts_wf opts"
  shows "MountOptions_String (fst (ApplyToOptions mo (fst (ApplyToOptions mo opts exclusives)) exclusives)) =
    MountOptions_String (fst (ApplyToOptions mo opts exclusives))"
proof (rule MountOptions_String_same_map)
  let ?once = "fst (ApplyToOptions mo opts exclusives)"
  have wf: "map_wf (customOptions opts)" using assms by (simp add: opts_wf_def)
  show "same_map (customOptions (fst (ApplyToOptions mo ?once exclusives))) (customOptions ?once)"
    using overwrites_idem [OF overwrites_ApplyToOptions wf] by (simp add: ApplyToOptions_fold)
  show "map_wf (customOptions ?once)" using wf by (rule map_wf_ApplyToOptions)
  then show "map_wf (customOptions (fst (ApplyToOptions mo ?once exclusives)))" by (rule map_wf_ApplyToOptions)
qed

lemma ApplyToOptions_idempotent_example:
  "MountOptions_String (fst (ApplyToOptions ''+readcache,-ro''
       (fst (ApplyToOptions ''+readcache,-ro'' (NewMountOptionsFromString ''writecache,ro'') [[''writecache'', ''readcache'']]))
       [[''writecache'', ''readcache'']])) =
   MountOptions_String (fst (ApplyToOptions ''+readcache,-ro'' (NewMountOptionsFromString ''writecache,ro'')
       [[''writecache'', ''readcache'']]))"
  by (rule ApplyToOptions_idempotent) code_simp

text \<open>\<open>ApplyToOptions\<close> changes its caller's options: afterwards they are the result of the
  modifiers before the first removal, because the merge works in place and only \<open>RemoveOption\<close> clones.\<close>

lemma ApplyToOptions_caller:
  "snd (ApplyToOptions mo opts exclusives) =
     snd (snd (fold (apply_part exclusives)
       (takeWhile (\<lambda>p. \<not> is_removal p) (strings_Split (CHR '','') mo)) (opts, True, opts)))"
  using caller_options [of exclusives "strings_Split (CHR '','') mo" opts]
  by (auto simp: ApplyToOptions_def split: prod.splits)

text \<open>The NFS translation asks for \<open>noac\<close> exactly when the WekaFS options name \<open>coherent\<close> or
  \<open>forcedirect\<close>, it always asks for \<open>async\<close>, and it never asks for \<open>sync\<close>.\<close>

lemma AsNfs_sync:
  assumes "opts_wf opts"
  shows "(hasOption (AsNfs opts) ''noac'' \<longleftrightarrow> hasOption opts ''coherent'' \<or> hasOption opts ''forcedirect'')
    \<and> hasOption (AsNfs opts) ''async'' \<and> \<not> hasOption (AsNfs opts) ''sync''"
proof -
  have n: "''noac'' \<in> nfs_names o1 \<longleftrightarrow> moption o1 \<in> {''coherent'', ''forcedirect''}" "''sync'' \<notin> nfs_names o1" for o1
    by (auto simp: nfs_names_def)
  have "''noac'' \<in> names (AsNfs opts) \<longleftrightarrow> (\<exists>o1\<in>set (getOpts opts). moption o1 \<in> {''coherent'', ''forcedirect''})"
    unfolding names_AsNfs using n(1) by simp
  then have "''noac'' \<in> names (AsNfs opts) \<longleftrightarrow> ''coherent'' \<in> names opts \<or> ''forcedirect'' \<in> names opts"
    by (simp only: bex_image_pair getOpts_names [OF assms])
  moreover have "''async'' \<in> names (AsNfs opts)" "''sync'' \<notin> names (AsNfs opts)"
    unfolding names_AsNfs using n(2) by simp_all
  ultimately show ?thesis by (simp add: hasOption_names)
qed

lemma AsNfs_sync_example:
  "hasOption (AsNfs (NewMountOptionsFromString ''coherent'')) ''noac''
    \<and> \<not> hasOption (AsNfs (NewMountOptionsFromString ''coherent'')) ''sync''"
proof -
  have "opts_wf (NewMountOptionsFromString ''coherent'')" by code_simp
  moreover have "hasOption (NewMountOptionsFromString ''coherent'') ''coherent''" by code_simp
  ultimately show ?thesis using AsNfs_sync [of "NewMountOptionsFromString ''coherent''"] by blast
qed

text \<open>The mount options a volume context carries name neither the container nor
  \<open>sync_on_close\<close> when they are parsed again, and they keep every other option.\<close>

lemma AsVolumeContext_options:
  assumes "opts_printable opts" "CHR ''='' \<notin> set n"
  shows "hasOption (NewMountOptionsFromString (AsVolumeContext opts)) n \<longleftrightarrow>
    hasOption opts n \<and> n \<noteq> ''container_name'' \<and> n \<noteq> ''sync_on_close''"
proof -
  let ?r = "foldl RemoveOption opts [''sync_on_close'', ''container_name'']"
  have "same_map (customOptions (NewMountOptionsFromString (AsVolumeContext opts))) (customOptions ?r)"
    unfolding AsVolumeContext_def using opts_printable_removes [OF assms(1)] by (rule parse_print)
  then have "hasOption (NewMountOptionsFromString (AsVolumeContext opts)) n \<longleftrightarrow> hasOption ?r n"
    by (simp add: hasOption_def)
  also have "\<dots> \<longleftrightarrow> hasOption opts n \<and> n \<noteq> ''container_name'' \<and> n \<noteq> ''sync_on_close''"
    using assms mount_opts.has_removes [of opts "[''sync_on_close'', ''container_name'']" n]
    by (auto simp: opts_printable_def moption_new_plain)
  finally show ?thesis .
qed

lemma AsVolumeContext_options_example:
  "\<not> hasOption (NewMountOptionsFromString (AsVolumeContext (NewMountOptionsFromString ''container_name=c1,acl''))) ''container_name''"
proof -
  have "opts_printable (NewMountOptionsFromString ''container_name=c1,acl'')" by code_simp
  then show ?thesis using AsVolumeContext_options [of _ "''container_name''"] by simp
qed

end
