(* ===== verification/Naming.thy ===== *)
theory Naming
  imports Go_Stdlib Mount_Options
begin

text \<open>
  Object names and identifiers: \<open>pkg/wekafs/ascii.go\<close> and the naming, slicing and validating
  functions of \<open>pkg/wekafs/utilities.go\<close>, together with the readers of \<open>/proc/mounts\<close>,
  \<open>/proc/modules\<close> and \<open>/etc/selinux/config\<close> of the same file.  A file that is read is an
  argument: \<open>None\<close> when it cannot be opened, otherwise its lines.
\<close>

section \<open>Definitions\<close>

subsection \<open>\<open>ascii.go\<close>\<close>

record charRange =
  fromInclusive :: nat
  toInclusive :: nat

definition allowedCharacters :: "charRange list" where
  "allowedCharacters =
     [\<lparr> fromInclusive = 45, toInclusive = 46 \<rparr>, \<lparr> fromInclusive = 48, toInclusive = 58 \<rparr>,
      \<lparr> fromInclusive = 65, toInclusive = 90 \<rparr>, \<lparr> fromInclusive = 95, toInclusive = 95 \<rparr>,
      \<lparr> fromInclusive = 97, toInclusive = 122 \<rparr>]"

definition allowed_char :: "char \<Rightarrow> bool" where
  "allowed_char c = list_ex (\<lambda>r. fromInclusive r \<le> of_char c \<and> of_char c \<le> toInclusive r) allowedCharacters"

text \<open>The loop of \<open>getAsciiPart\<close>; \<open>i\<close> counts the characters written.\<close>

fun ascii_loop :: "nat \<Rightarrow> nat \<Rightarrow> string \<Rightarrow> string" where
  "ascii_loop maxLength i [] = []"
| "ascii_loop maxLength i (c # cs) =
     (if allowed_char c
      then c # (if Suc i \<ge> maxLength then [] else ascii_loop maxLength (Suc i) cs)
      else ascii_loop maxLength i cs)"

definition getAsciiPart :: "string \<Rightarrow> nat \<Rightarrow> string" where
  "getAsciiPart s maxLength = ascii_loop maxLength 0 s"

subsection \<open>Generated names\<close>

definition MaxHashLengthForObjectNames :: nat where "MaxHashLengthForObjectNames = 12"

definition getStringSha1 :: "string \<Rightarrow> string" where
  "getStringSha1 name = hex_EncodeToString (sha1_sum (bytes_of name))"

definition getStringSha1AsB32 :: "string \<Rightarrow> string" where
  "getStringSha1AsB32 name = base32_EncodeToString (sha1_sum (bytes_of name))"

definition generateInnerPathForDirBasedVol :: "string \<Rightarrow> string \<Rightarrow> string" where
  "generateInnerPathForDirBasedVol dynamicVolPath csiVolName =
     (let folderName = getAsciiPart csiVolName 64 @ ''-'' @ getStringSha1 csiVolName
      in if dynamicVolPath \<noteq> [] then filepath_Join [dynamicVolPath, folderName] else ''/'' @ folderName)"

definition generateWekaObjectNameBase :: "string \<Rightarrow> string" where
  "generateWekaObjectNameBase csiObjName =
     getAsciiPart csiObjName MaxHashLengthForObjectNames @ ''-''
       @ take MaxHashLengthForObjectNames (getStringSha1AsB32 csiObjName)"

definition generateWekaFsNameForFsBasedVol :: "string \<Rightarrow> string \<Rightarrow> string" where
  "generateWekaFsNameForFsBasedVol pfx csiVolName = pfx @ generateWekaObjectNameBase csiVolName"

definition generateWekaSnapNameForSnapBasedVol :: "string \<Rightarrow> string \<Rightarrow> string" where
  "generateWekaSnapNameForSnapBasedVol pfx csiVolName = pfx @ generateWekaObjectNameBase csiVolName"

definition generateWekaSnapAccessPointForSnapBasedVol :: "string \<Rightarrow> string" where
  "generateWekaSnapAccessPointForSnapBasedVol csiVolName = generateWekaObjectNameBase csiVolName"

definition generateVolumeIdFromComponents :: "string \<Rightarrow> string \<Rightarrow> string \<Rightarrow> string \<Rightarrow> string" where
  "generateVolumeIdFromComponents volumeType filesystemName snapshotAccessPoint innerPath =
     volumeType @ ''/'' @ filesystemName
       @ (if snapshotAccessPoint \<noteq> [] then '':'' @ snapshotAccessPoint else [])
       @ (if innerPath \<noteq> [] then ''/'' @ innerPath else [])"

definition generateWekaSnapNameForSnapshot :: "string \<Rightarrow> string \<Rightarrow> string" where
  "generateWekaSnapNameForSnapshot pfx csiSnapName = pfx @ generateWekaObjectNameBase csiSnapName"

definition generateSnapshotNameHash :: "string \<Rightarrow> string" where
  "generateSnapshotNameHash csiSnapName = generateWekaObjectNameBase csiSnapName"

definition generateSnapshotIntegrityID :: "string \<Rightarrow> string \<Rightarrow> string" where
  "generateSnapshotIntegrityID name sourceVolumeId =
     take MaxHashLengthForObjectNames (getStringSha1AsB32 (name @ '':'' @ sourceVolumeId))"

definition generateSnapshotIdFromComponents :: "string \<Rightarrow> string \<Rightarrow> string \<Rightarrow> string \<Rightarrow> string \<Rightarrow> string" where
  "generateSnapshotIdFromComponents snapshotType filesystemName snapshotNameHash snapshotIntegrityId innerPath =
     snapshotType @ ''/'' @ filesystemName @ '':'' @ snapshotNameHash @ '':'' @ snapshotIntegrityId
       @ (if innerPath \<noteq> []
          then (if \<not> HasPrefix innerPath ''/'' then ''/'' @ innerPath else innerPath) else [])"

definition generateWekaSeedAccessPoint :: "string \<Rightarrow> string" where
  "generateWekaSeedAccessPoint fsName = take MaxHashLengthForObjectNames (getStringSha1AsB32 fsName)"

definition generateWekaSeedSnapshotName :: "string \<Rightarrow> string \<Rightarrow> string" where
  "generateWekaSeedSnapshotName pfx fsName = pfx @ generateWekaSeedAccessPoint fsName"

definition GetFSNameFromRequest :: "(string, string) gomap \<Rightarrow> string" where
  "GetFSNameFromRequest parameters =
     (case map_of parameters ''filesystemName'' of
        Some val \<Rightarrow> if val \<noteq> [] then val else []
      | None \<Rightarrow> [])"

subsection \<open>Slicing identifiers\<close>

type_synonym VolumeType = string

definition VolumeTypeDirV1 :: VolumeType where "VolumeTypeDirV1 = ''dir/v1''"
definition VolumeTypeUnified :: VolumeType where "VolumeTypeUnified = ''weka/v2''"
definition VolumeTypeUNKNOWN :: VolumeType where "VolumeTypeUNKNOWN = ''AMBIGUOUS_VOLUME_TYPE''"
definition VolumeTypeEmpty :: VolumeType where "VolumeTypeEmpty = []"
definition KnownVolTypes :: "VolumeType list" where "KnownVolTypes = [VolumeTypeDirV1, VolumeTypeUnified]"
definition SnapshotTypeUnifiedSnap :: string where "SnapshotTypeUnifiedSnap = ''wekasnap/v2''"

definition sliceVolumeTypeFromVolumeId :: "string \<Rightarrow> VolumeType" where
  "sliceVolumeTypeFromVolumeId volumeId =
     (let slices = strings_Split (CHR ''/'') volumeId;
          cand = (if length slices \<ge> 2
                  then find (\<lambda>volType. strings_Join ''/'' (take 2 slices) = volType) KnownVolTypes
                  else None)
      in case cand of
           Some volType \<Rightarrow> volType
         | None \<Rightarrow>
             if length slices > 1 \<and> \<not> HasPrefix (slices ! 1) ''v'' then VolumeTypeUNKNOWN
             else if length slices = 1 then VolumeTypeUNKNOWN
             else if slices ! 0 = [] then VolumeTypeUNKNOWN
             else VolumeTypeUnified)"

definition sliceFilesystemNameFromVolumeId :: "string \<Rightarrow> string" where
  "sliceFilesystemNameFromVolumeId volumeId =
     (let slices = strings_Split (CHR ''/'') volumeId
      in if length slices < 3 then [] else strings_Split (CHR '':'') (slices ! 2) ! 0)"

definition sliceSnapshotAccessPointFromVolumeId :: "string \<Rightarrow> string" where
  "sliceSnapshotAccessPointFromVolumeId volumeId =
     (let slices = strings_Split (CHR ''/'') volumeId
      in if length slices < 3 then []
         else (let parts = strings_Split (CHR '':'') (slices ! 2)
               in if length parts < 2 then [] else parts ! 1))"

definition sliceInnerPathFromVolumeId :: "string \<Rightarrow> string" where
  "sliceInnerPathFromVolumeId volumeId =
     (let slices = strings_Split (CHR ''/'') volumeId
      in if length slices \<le> 3 then [] else ''/'' @ strings_Join ''/'' (drop 3 slices))"

definition sliceFilesystemNameFromSnapshotId :: "string \<Rightarrow> string" where
  "sliceFilesystemNameFromSnapshotId snapshotId =
     (let slices = strings_Split (CHR ''/'') snapshotId
      in if length slices < 3 then [] else strings_Split (CHR '':'') (slices ! 2) ! 0)"

definition sliceSnapshotNameHashFromSnapshotId :: "string \<Rightarrow> string" where
  "sliceSnapshotNameHashFromSnapshotId snapshotId =
     (let slices = strings_Split (CHR ''/'') snapshotId
      in if length slices < 3 then []
         else (let parts = strings_Split (CHR '':'') (slices ! 2)
               in if length parts < 3 then [] else parts ! 1))"

definition sliceSnapshotIntegrityIdFromSnapshotId :: "string \<Rightarrow> string" where
  "sliceSnapshotIntegrityIdFromSnapshotId snapshotId =
     (let slices = strings_Split (CHR ''/'') snapshotId
      in if length slices < 3 then []
         else (let parts = strings_Split (CHR '':'') (slices ! 2)
               in if length parts < 3 then [] else parts ! 2))"

definition sliceInnerPathFromSnapshotId :: "string \<Rightarrow> string" where
  "sliceInnerPathFromSnapshotId snapshotId =
     (let slices = strings_Split (CHR ''/'') snapshotId
      in if length slices \<le> 3 then [] else ''/'' @ strings_Join ''/'' (drop 3 slices))"

subsection \<open>Validation\<close>

definition maxVolumeIdLength :: nat where "maxVolumeIdLength = 1920"

text \<open>The fixed patterns: \<open>dir/v1/[^/]*/.+\<close>, \<open>[^:/]+(:[^/]+)*(/[^:]+)*(:[.+])*\<close> and
  \<open>[^:]+:[^:]+:[^/]+(/.+)*\<close>.\<close>

definition re_dirV1 :: re where
  "re_dirV1 = Seq (Lit (VolumeTypeDirV1 @ ''/'')) (Seq (Star (Cls False ''/'')) (Seq (Lit ''/'') (Plus Dot)))"

definition re_unified :: re where
  "re_unified =
     Seq (Plus (Cls False '':/''))
       (Seq (Star (Seq (Lit '':'') (Plus (Cls False ''/''))))
         (Seq (Star (Seq (Lit ''/'') (Plus (Cls False '':''))))
           (Star (Seq (Lit '':'') (Cls True ''.+'')))))"

definition re_snapshot :: re where
  "re_snapshot =
     Seq (Plus (Cls False '':'')) (Seq (Lit '':'') (Seq (Plus (Cls False '':'')) (Seq (Lit '':'')
       (Seq (Plus (Cls False ''/'')) (Star (Seq (Lit ''/'') (Plus Dot)))))))"

definition validateVolumeId :: "string \<Rightarrow> unit go" where
  "validateVolumeId volumeId =
     (if length volumeId = 0 then Err (Status InvalidArgument)
      else if length volumeId > maxVolumeIdLength then Err (Status InvalidArgument)
      else (let volumeType = sliceVolumeTypeFromVolumeId volumeId
            in if volumeType = VolumeTypeDirV1
               then (if MatchString re_dirV1 volumeId then Ok () else Err (Status InvalidArgument))
               else if volumeType = VolumeTypeUnified
               then (let r = (if HasPrefix volumeId VolumeTypeUnified
                              then Seq (Lit (VolumeTypeUnified @ ''/'')) re_unified else re_unified)
                     in if MatchString r volumeId then Ok () else Err (Plain ''Volume ID does not match regex:''))
               else Err (Status InvalidArgument)))"

definition validateSnapshotId :: "string \<Rightarrow> unit go" where
  "validateSnapshotId snapshotId =
     (if length snapshotId = 0 then Err (Status InvalidArgument)
      else if length snapshotId > maxVolumeIdLength then Err (Status InvalidArgument)
      else (let r = (if HasPrefix snapshotId SnapshotTypeUnifiedSnap
                     then Seq (Lit SnapshotTypeUnifiedSnap) re_snapshot else re_snapshot)
            in if MatchString r snapshotId then Ok () else Err (Plain ''Snapshot ID does not match regex:'')))"

subsection \<open>Files of the node\<close>

definition strings_Fields :: "string \<Rightarrow> string list" where
  "strings_Fields s = FieldsFunc is_space s"

definition PathIsWekaMount :: "string list option \<Rightarrow> string \<Rightarrow> bool" where
  "PathIsWekaMount proc_mounts path =
     (case proc_mounts of
        None \<Rightarrow> False
      | Some ls \<Rightarrow>
          list_ex (\<lambda>l. let fields = strings_Fields l
            in (length fields \<ge> 3 \<and> fields ! 2 = ''wekafs'' \<and> fields ! 1 = path)
             \<or> (length fields \<ge> 3 \<and> HasPrefix (fields ! 2) ''nfs'' \<and> fields ! 1 = path)) ls)"

definition GetMountIpFromActualMountPoint :: "string list option \<Rightarrow> string \<Rightarrow> string go" where
  "GetMountIpFromActualMountPoint proc_mounts mountPointBase =
     (case proc_mounts of
        None \<Rightarrow> Err (Plain ''failed to open /proc/mounts'')
      | Some ls \<Rightarrow>
          (case find (\<lambda>l. let fields = strings_Fields l
             in length fields \<ge> 3 \<and> HasPrefix (fields ! 1) (mountPointBase @ ''-'')) ls of
             Some l \<Rightarrow> Ok (TrimLeft (strings_Fields l ! 1) (mountPointBase @ ''-''))
           | None \<Rightarrow> Err (Plain ''mount point not found'')))"

definition GetMountContainerNameFromActualMountPoint :: "string list option \<Rightarrow> string \<Rightarrow> string go" where
  "GetMountContainerNameFromActualMountPoint proc_mounts mountPointBase =
     (case proc_mounts of
        None \<Rightarrow> Err (Plain ''failed to open /proc/mounts'')
      | Some ls \<Rightarrow>
          (case find (\<lambda>l. let fields = strings_Fields l
             in length fields \<ge> 4 \<and> fields ! 2 = ''wekafs'' \<and> HasPrefix (fields ! 1) mountPointBase) ls of
             Some l \<Rightarrow> Ok (getOptionValue (NewMountOptionsFromString (strings_Fields l ! 3)) ''container_name'')
           | None \<Rightarrow> Err (Plain ''mount point not found'')))"

definition isWekaDriverLoaded :: "string list option \<Rightarrow> bool" where
  "isWekaDriverLoaded proc_modules =
     (case proc_modules of
        None \<Rightarrow> False
      | Some ls \<Rightarrow> list_ex (\<lambda>l. strings_Split (CHR '' '') l ! 0 = ''wekafsgw'') ls)"

definition getSelinuxStatus :: "string list option \<Rightarrow> bool" where
  "getSelinuxStatus selinux_config =
     (case selinux_config of
        None \<Rightarrow> False
      | Some ls \<Rightarrow> list_ex (\<lambda>l. strings_Contains l ''SELINUX=enforcing'') ls)"

definition getCapacityEnforcementParam :: "(string, string) gomap \<Rightarrow> bool go" where
  "getCapacityEnforcementParam params =
     (let qt = (case map_of params ''capacityEnforcement'' of Some val \<Rightarrow> val | None \<Rightarrow> [])
      in if qt = ''SOFT'' then Ok False
         else if qt = ''HARD'' then Ok True
         else if qt = [] then Ok True
         else Err (Plain ''unsupported capacityEnforcement in volume params''))"

subsection \<open>Components of identifiers\<close>

record volume_id_parts =
  vi_type :: string
  vi_filesystem :: string
  vi_access_point :: string
  vi_inner_path :: string

definition id_part :: "string \<Rightarrow> bool" where
  "id_part s \<longleftrightarrow> CHR ''/'' \<notin> set s \<and> CHR '':'' \<notin> set s"

definition volume_parts_wf :: "volume_id_parts \<Rightarrow> bool" where
  "volume_parts_wf p \<longleftrightarrow>
     vi_type p \<in> set KnownVolTypes \<and> id_part (vi_filesystem p) \<and> id_part (vi_access_point p)"

definition volume_id_of :: "volume_id_parts \<Rightarrow> string" where
  "volume_id_of p =
     generateVolumeIdFromComponents (vi_type p) (vi_filesystem p) (vi_access_point p) (vi_inner_path p)"

definition volume_parts_of :: "string \<Rightarrow> volume_id_parts" where
  "volume_parts_of volumeId =
     \<lparr> vi_type = sliceVolumeTypeFromVolumeId volumeId,
       vi_filesystem = sliceFilesystemNameFromVolumeId volumeId,
       vi_access_point = sliceSnapshotAccessPointFromVolumeId volumeId,
       vi_inner_path = TrimPrefix (sliceInnerPathFromVolumeId volumeId) ''/'' \<rparr>"

record snapshot_id_parts =
  si_filesystem :: string
  si_name_hash :: string
  si_integrity_id :: string
  si_inner_path :: string

definition snapshot_parts_wf :: "snapshot_id_parts \<Rightarrow> bool" where
  "snapshot_parts_wf p \<longleftrightarrow>
     id_part (si_filesystem p) \<and> id_part (si_name_hash p) \<and> id_part (si_integrity_id p)
     \<and> (si_inner_path p = [] \<or> HasPrefix (si_inner_path p) ''/'')"

definition snapshot_id_of :: "snapshot_id_parts \<Rightarrow> string" where
  "snapshot_id_of p =
     generateSnapshotIdFromComponents SnapshotTypeUnifiedSnap (si_filesystem p) (si_name_hash p)
       (si_integrity_id p) (si_inner_path p)"

definition snapshot_parts_of :: "string \<Rightarrow> snapshot_id_parts" where
  "snapshot_parts_of snapshotId =
     \<lparr> si_filesystem = sliceFilesystemNameFromSnapshotId snapshotId,
       si_name_hash = sliceSnapshotNameHashFromSnapshotId snapshotId,
       si_integrity_id = sliceSnapshotIntegrityIdFromSnapshotId snapshotId,
       si_inner_path = sliceInnerPathFromSnapshotId snapshotId \<rparr>"

section \<open>Names\<close>

lemma ascii_loop_take: "i < n \<Longrightarrow> ascii_loop n i s = take (n - i) (filter allowed_char s)"
proof (induction n i s rule: ascii_loop.induct)
  case (2 n i c cs)
  then show ?case by (cases "Suc i \<ge> n") (auto simp: Suc_diff_Suc take_Cons')
qed simp

lemma getAsciiPart_take: "0 < n \<Longrightarrow> getAsciiPart s n = take n (filter allowed_char s)"
  by (simp add: getAsciiPart_def ascii_loop_take)

lemma not_allowed_slash: "\<not> allowed_char (CHR ''/'')"
  by (simp add: allowed_char_def allowedCharacters_def)

lemma set_getAsciiPart: "0 < n \<Longrightarrow> c \<in> set (getAsciiPart s n) \<Longrightarrow> c \<in> set s \<and> allowed_char c"
  by (auto simp: getAsciiPart_take dest: in_set_takeD)

lemma length_Sha1AsB32 [simp]: "length (getStringSha1AsB32 s) = 32"
  by (simp add: getStringSha1AsB32_def base32_of_digest(1))

lemma length_Sha1 [simp]: "length (getStringSha1 s) = 40"
  by (simp add: getStringSha1_def)

lemma set_Sha1AsB32: "set (getStringSha1AsB32 s) \<subseteq> set b32_alphabet"
  by (simp add: getStringSha1AsB32_def base32_of_digest(2))

lemma id_part_alphabets: "id_part b32_alphabet" "id_part hex_alphabet"
  by (simp_all add: id_part_def b32_alphabet_def hex_alphabet_def)

lemma id_part_subset: "id_part t \<Longrightarrow> set s \<subseteq> set t \<Longrightarrow> id_part s"
  by (auto simp: id_part_def)

lemma id_part_append [simp]: "id_part (s @ t) \<longleftrightarrow> id_part s \<and> id_part t"
  by (auto simp: id_part_def)

lemma id_part_take_hash [simp]: "id_part (take n (getStringSha1AsB32 s))"
  by (rule id_part_subset [OF id_part_alphabets(1)]) (meson order_trans set_Sha1AsB32 set_take_subset)

lemma id_part_ascii: "0 < n \<Longrightarrow> CHR '':'' \<notin> set s \<Longrightarrow> id_part (getAsciiPart s n)"
  using set_getAsciiPart [of n _ s] not_allowed_slash unfolding id_part_def by metis

lemma id_part_name_base: "CHR '':'' \<notin> set s \<Longrightarrow> id_part (generateWekaObjectNameBase s)"
proof -
  assume "CHR '':'' \<notin> set s"
  then have "id_part (getAsciiPart s 12)" by (intro id_part_ascii) simp_all
  moreover have "id_part ''-''" by (simp add: id_part_def)
  ultimately show ?thesis
    unfolding generateWekaObjectNameBase_def MaxHashLengthForObjectNames_def
    by (simp only: id_part_append id_part_take_hash)
qed

lemma length_name_base:
  "13 \<le> length (generateWekaObjectNameBase s)" "length (generateWekaObjectNameBase s) \<le> 25"
  by (simp_all add: generateWekaObjectNameBase_def MaxHashLengthForObjectNames_def getAsciiPart_take)

section \<open>Identifiers\<close>

lemma split_id:
  assumes "CHR ''/'' \<notin> set a" "CHR ''/'' \<notin> set b" "CHR ''/'' \<notin> set mid"
  shows "strings_Split (CHR ''/'') (a @ CHR ''/'' # b @ CHR ''/'' # mid @ (if inner \<noteq> [] then CHR ''/'' # inner else []))
    = a # b # mid # (if inner \<noteq> [] then strings_Split (CHR ''/'') inner else [])"
  using assms by simp

lemma split_colon_pair:
  assumes "id_part fs" "id_part ap"
  shows "strings_Split (CHR '':'') (fs @ (if ap \<noteq> [] then '':'' @ ap else [])) = (if ap \<noteq> [] then [fs, ap] else [fs])"
  using assms by (simp add: id_part_def)

lemma volume_id_slices:
  assumes "t \<in> set KnownVolTypes" "id_part fs" "id_part ap"
  shows "strings_Split (CHR ''/'') (generateVolumeIdFromComponents t fs ap inner) =
    takeWhile (\<lambda>c. c \<noteq> CHR ''/'') t # tl (dropWhile (\<lambda>c. c \<noteq> CHR ''/'') t)
      # (fs @ (if ap \<noteq> [] then '':'' @ ap else []))
      # (if inner \<noteq> [] then strings_Split (CHR ''/'') inner else [])"
proof -
  define mid where "mid = fs @ (if ap \<noteq> [] then '':'' @ ap else [])"
  have mid: "CHR ''/'' \<notin> set mid"
    using assms by (simp add: id_part_def mid_def)
  have g: "generateVolumeIdFromComponents t fs ap inner =
      t @ CHR ''/'' # mid @ (if inner \<noteq> [] then CHR ''/'' # inner else [])"
    by (simp add: generateVolumeIdFromComponents_def mid_def)
  have "t = ''dir/v1'' \<or> t = ''weka/v2''"
    using assms(1) by (simp add: KnownVolTypes_def VolumeTypeDirV1_def VolumeTypeUnified_def)
  then show ?thesis
    unfolding g mid_def [symmetric]
    using split_id [of "''dir''" "''v1''", OF _ _ mid, of inner]
      split_id [of "''weka''" "''v2''", OF _ _ mid, of inner]
    by (elim disjE) simp_all
qed

lemma volume_id_type:
  assumes "t \<in> set KnownVolTypes" "id_part fs" "id_part ap"
  shows "sliceVolumeTypeFromVolumeId (generateVolumeIdFromComponents t fs ap inner) = t"
proof -
  have "t = ''dir/v1'' \<or> t = ''weka/v2''"
    using assms(1) by (simp add: KnownVolTypes_def VolumeTypeDirV1_def VolumeTypeUnified_def)
  then show ?thesis
    unfolding sliceVolumeTypeFromVolumeId_def Let_def volume_id_slices [OF assms]
    by (elim disjE) (simp_all add: KnownVolTypes_def VolumeTypeDirV1_def VolumeTypeUnified_def numeral_2_eq_2)
qed

lemma volume_id_roundtrip_parts:
  assumes "t \<in> set KnownVolTypes" "id_part fs" "id_part ap"
  shows "sliceFilesystemNameFromVolumeId (generateVolumeIdFromComponents t fs ap inner) = fs"
    and "sliceSnapshotAccessPointFromVolumeId (generateVolumeIdFromComponents t fs ap inner) = ap"
    and "sliceInnerPathFromVolumeId (generateVolumeIdFromComponents t fs ap inner) =
      (if inner = [] then [] else ''/'' @ inner)"
  unfolding sliceFilesystemNameFromVolumeId_def sliceSnapshotAccessPointFromVolumeId_def
    sliceInnerPathFromVolumeId_def Let_def volume_id_slices [OF assms]
  using split_colon_pair [OF assms(2,3)]
  by (simp_all add: numeral_2_eq_2 numeral_3_eq_3 strings_Join_Split)

lemma snapshot_id_slices:
  assumes "id_part fs" "id_part h" "id_part i"
  shows "strings_Split (CHR ''/'') (generateSnapshotIdFromComponents SnapshotTypeUnifiedSnap fs h i inner) =
    ''wekasnap'' # ''v2'' # (fs @ '':'' @ h @ '':'' @ i)
      # (if inner \<noteq> [] then strings_Split (CHR ''/'') (TrimPrefix inner ''/'') else [])"
proof -
  have mid: "CHR ''/'' \<notin> set (fs @ '':'' @ h @ '':'' @ i)" using assms by (simp add: id_part_def)
  have "generateSnapshotIdFromComponents SnapshotTypeUnifiedSnap fs h i inner =
      ''wekasnap'' @ CHR ''/'' # ''v2'' @ CHR ''/'' # (fs @ '':'' @ h @ '':'' @ i)
        @ (if inner \<noteq> [] then CHR ''/'' # TrimPrefix inner ''/'' else [])"
    by (auto simp: generateSnapshotIdFromComponents_def SnapshotTypeUnifiedSnap_def HasPrefix_iff TrimPrefix_def)
  moreover have "strings_Split (CHR ''/'') ((fs @ '':'' @ h @ '':'' @ i) @ (if inner \<noteq> [] then CHR ''/'' # TrimPrefix inner ''/'' else []))
      = (fs @ '':'' @ h @ '':'' @ i) # (if inner \<noteq> [] then strings_Split (CHR ''/'') (TrimPrefix inner ''/'') else [])"
    using strings_Split_append [OF mid, of "TrimPrefix inner ''/''"] strings_Split_notin [OF mid] by simp
  ultimately show ?thesis by simp
qed

lemma split_colon_triple:
  "id_part fs \<Longrightarrow> id_part h \<Longrightarrow> id_part i \<Longrightarrow> strings_Split (CHR '':'') (fs @ '':'' @ h @ '':'' @ i) = [fs, h, i]"
  by (simp add: id_part_def)

lemma snapshot_id_roundtrip_parts:
  fixes inner :: string
  assumes "id_part fs" "id_part h" "id_part i"
  defines "sid \<equiv> generateSnapshotIdFromComponents SnapshotTypeUnifiedSnap fs h i inner"
  shows "sliceFilesystemNameFromSnapshotId sid = fs"
    and "sliceSnapshotNameHashFromSnapshotId sid = h"
    and "sliceSnapshotIntegrityIdFromSnapshotId sid = i"
    and "sliceInnerPathFromSnapshotId sid = (if inner = [] then [] else ''/'' @ TrimPrefix inner ''/'')"
  unfolding sliceFilesystemNameFromSnapshotId_def sliceSnapshotNameHashFromSnapshotId_def sid_def
    sliceSnapshotIntegrityIdFromSnapshotId_def sliceInnerPathFromSnapshotId_def Let_def
    snapshot_id_slices [OF assms(1-3)]
  using split_colon_triple [OF assms(1-3)]
  by (simp_all add: numeral_2_eq_2 numeral_3_eq_3 strings_Join_Split)

section \<open>Identifiers as a code\<close>

text \<open>
  What the rest of the driver relies on: an identifier is a code for its components, so two
  volumes (or snapshots) with different components never get the same identifier.
\<close>

locale id_scheme =
  fixes mk :: "'p \<Rightarrow> string" and parts :: "string \<Rightarrow> 'p" and wf_parts :: "'p \<Rightarrow> bool"
  assumes parts_mk: "wf_parts p \<Longrightarrow> parts (mk p) = p"
begin

lemma mk_eq_iff: "wf_parts p \<Longrightarrow> wf_parts q \<Longrightarrow> mk p = mk q \<longleftrightarrow> p = q"
  using parts_mk by metis

lemma mk_inj: "inj_on mk {p. wf_parts p}"
  by (rule inj_onI) (simp add: mk_eq_iff)

end

interpretation volume_ids: id_scheme volume_id_of volume_parts_of volume_parts_wf
proof unfold_locales
  fix p assume wf: "volume_parts_wf p"
  have "TrimPrefix (if vi_inner_path p = [] then [] else ''/'' @ vi_inner_path p) ''/'' = vi_inner_path p"
    by (simp add: TrimPrefix_def HasPrefix_def)
  with wf show "volume_parts_of (volume_id_of p) = p"
    by (simp add: volume_parts_of_def volume_id_of_def volume_parts_wf_def volume_id_type volume_id_roundtrip_parts)
qed

interpretation snapshot_ids: id_scheme snapshot_id_of snapshot_parts_of snapshot_parts_wf
proof unfold_locales
  fix p assume wf: "snapshot_parts_wf p"
  then have "(if si_inner_path p = [] then [] else ''/'' @ TrimPrefix (si_inner_path p) ''/'') = si_inner_path p"
    by (auto simp: snapshot_parts_wf_def HasPrefix_iff TrimPrefix_def)
  with wf show "snapshot_parts_of (snapshot_id_of p) = p"
    by (simp add: snapshot_parts_of_def snapshot_id_of_def snapshot_parts_wf_def snapshot_id_roundtrip_parts)
qed

section \<open>Validation\<close>

lemma lang_re_unified_name:
  assumes "fs \<noteq> []" "id_part fs"
  shows "fs \<in> lang re_unified"
proof -
  have "fs \<in> lang (Plus (Cls False '':/''))"
    using assms by (intro lang_Plus_class) (auto simp: id_part_def)
  then have "fs @ [] @ [] @ [] \<in> lang re_unified"
    unfolding re_unified_def by (intro lang_SeqI) (simp_all add: star_Nil)
  then show ?thesis by simp
qed

lemma lang_re_dirV1:
  assumes "CHR ''/'' \<notin> set mid" "x \<noteq> CHR 0x0A"
  shows "''dir/v1/'' @ mid @ ''/'' @ [x] \<in> lang re_dirV1"
proof -
  have "mid \<in> lang (Star (Cls False ''/''))"
    unfolding lang.simps(6) using assms(1) by (intro star_class) auto
  moreover have "[x] \<in> lang (Plus Dot)"
    unfolding Dot_def using assms(2) by (intro lang_Plus_class) auto
  moreover have "''dir/v1/'' \<in> lang (Lit (VolumeTypeDirV1 @ ''/''))" "''/'' \<in> lang (Lit ''/'')"
    unfolding lang_Lit by (simp_all add: VolumeTypeDirV1_def)
  ultimately show ?thesis unfolding re_dirV1_def by (intro lang_SeqI)
qed

lemma validate_unified:
  assumes "id_part fs" "id_part ap" "fs \<noteq> []"
    and "length (generateVolumeIdFromComponents VolumeTypeUnified fs ap inner) \<le> maxVolumeIdLength"
  shows "validateVolumeId (generateVolumeIdFromComponents VolumeTypeUnified fs ap inner) = Ok ()"
proof -
  let ?id = "generateVolumeIdFromComponents VolumeTypeUnified fs ap inner"
  let ?rest = "(if ap \<noteq> [] then '':'' @ ap else []) @ (if inner \<noteq> [] then ''/'' @ inner else [])"
  have i: "?id = (VolumeTypeUnified @ ''/'' @ fs) @ ?rest"
    by (simp add: generateVolumeIdFromComponents_def)
  have k: "VolumeTypeUnified \<in> set KnownVolTypes" "VolumeTypeUnified \<noteq> VolumeTypeDirV1"
    by (simp_all add: KnownVolTypes_def VolumeTypeUnified_def VolumeTypeDirV1_def)
  have "(VolumeTypeUnified @ ''/'') @ fs \<in> lang (Seq (Lit (VolumeTypeUnified @ ''/'')) re_unified)"
    using lang_re_unified_name [OF assms(3,1)] by (intro lang_SeqI) simp_all
  from MatchString_prefix [OF this, of ?rest]
  have "MatchString (Seq (Lit (VolumeTypeUnified @ ''/'')) re_unified) ?id"
    unfolding i by (simp only: append_assoc)
  moreover have "HasPrefix ?id VolumeTypeUnified" by (simp add: generateVolumeIdFromComponents_def)
  moreover have "?id \<noteq> []" by (simp add: generateVolumeIdFromComponents_def)
  ultimately show ?thesis
    using assms(4) k volume_id_type [OF k(1) assms(1,2)]
    by (simp add: validateVolumeId_def Let_def)
qed

lemma validate_dirV1:
  assumes "id_part fs" "id_part ap" "inner \<noteq> []" "hd inner \<noteq> CHR 0x0A"
    and "length (generateVolumeIdFromComponents VolumeTypeDirV1 fs ap inner) \<le> maxVolumeIdLength"
  shows "validateVolumeId (generateVolumeIdFromComponents VolumeTypeDirV1 fs ap inner) = Ok ()"
proof -
  let ?id = "generateVolumeIdFromComponents VolumeTypeDirV1 fs ap inner"
  let ?mid = "fs @ (if ap \<noteq> [] then '':'' @ ap else [])"
  obtain x xs where x: "inner = x # xs" using assms(3) by (cases inner) auto
  have i: "?id = (''dir/v1/'' @ ?mid @ ''/'' @ [x]) @ xs"
    using x by (simp add: generateVolumeIdFromComponents_def VolumeTypeDirV1_def)
  have "CHR ''/'' \<notin> set ?mid" using assms(1,2) by (auto simp: id_part_def)
  then have "''dir/v1/'' @ ?mid @ ''/'' @ [x] \<in> lang re_dirV1"
    using assms(4) x by (intro lang_re_dirV1) simp_all
  then have m: "MatchString re_dirV1 ?id" unfolding i by (rule MatchString_prefix)
  have k: "VolumeTypeDirV1 \<in> set KnownVolTypes" by (simp add: KnownVolTypes_def)
  have "?id \<noteq> []" by (simp add: generateVolumeIdFromComponents_def)
  with m show ?thesis
    using assms(5) volume_id_type [OF k assms(1,2)] by (simp add: validateVolumeId_def Let_def)
qed

section \<open>Properties\<close>

text \<open>C3. Every component of a generated volume identifier comes back from the slicing functions:
  type, filesystem and access point unchanged, the inner path with one leading slash.\<close>

theorem volume_id_roundtrip:
  assumes "t \<in> set KnownVolTypes" "id_part fs" "id_part ap"
  shows "let vid = generateVolumeIdFromComponents t fs ap inner
    in sliceVolumeTypeFromVolumeId vid = t \<and> sliceFilesystemNameFromVolumeId vid = fs
      \<and> sliceSnapshotAccessPointFromVolumeId vid = ap
      \<and> sliceInnerPathFromVolumeId vid = (if inner = [] then [] else ''/'' @ inner)"
  unfolding Let_def using volume_id_type [OF assms(1-3)] volume_id_roundtrip_parts [OF assms(1-3)] by simp

theorem volume_id_roundtrip_witness:
  "sliceInnerPathFromVolumeId (generateVolumeIdFromComponents ''dir/v1'' ''fs1'' ''ap1'' ''csi-volumes/x'') = ''/csi-volumes/x''"
proof -
  have "''dir/v1'' \<in> set KnownVolTypes" "id_part ''fs1''" "id_part ''ap1''" by code_simp+
  then show ?thesis using volume_id_roundtrip [of "''dir/v1''" "''fs1''" "''ap1''" "''csi-volumes/x''"] by (simp add: Let_def)
qed

text \<open>Volume identifiers are unique: two well-formed tuples of components have the same
  identifier exactly when they are equal.\<close>

lemma volume_id_unique:
  assumes "volume_parts_wf p" "volume_parts_wf q"
  shows "volume_id_of p = volume_id_of q \<longleftrightarrow> p = q"
  using assms by (rule volume_ids.mk_eq_iff)

lemma volume_id_unique_example:
  "volume_id_of \<lparr> vi_type = ''weka/v2'', vi_filesystem = ''fs'', vi_access_point = ''a'', vi_inner_path = [] \<rparr>
   \<noteq> volume_id_of \<lparr> vi_type = ''weka/v2'', vi_filesystem = ''fs'', vi_access_point = [], vi_inner_path = ''a'' \<rparr>"
  by (subst volume_id_unique) (code_simp, code_simp, simp)

text \<open>C28. A snapshot identifier gives back the filesystem, the name hash, the integrity id and the
  inner path it was made of.\<close>

theorem snapshot_id_roundtrip:
  assumes "snapshot_parts_wf p"
  shows "snapshot_parts_of (snapshot_id_of p) = p"
  using assms by (rule snapshot_ids.parts_mk)

theorem snapshot_id_roundtrip_witness:
  "snapshot_parts_of (snapshot_id_of \<lparr> si_filesystem = ''fs'', si_name_hash = ''h'', si_integrity_id = ''i'', si_inner_path = ''/d'' \<rparr>)
   = \<lparr> si_filesystem = ''fs'', si_name_hash = ''h'', si_integrity_id = ''i'', si_inner_path = ''/d'' \<rparr>"
  by (rule snapshot_id_roundtrip) code_simp



text \<open>C29. A volume identifier the driver generates passes its own validation, whenever the filesystem
  name is not empty, the identifier is not longer than the limit and a directory volume has an
  inner path.\<close>

theorem generated_id_valid:
  assumes "volume_parts_wf p" "vi_filesystem p \<noteq> []" "length (volume_id_of p) \<le> maxVolumeIdLength"
    and "vi_type p = VolumeTypeDirV1 \<Longrightarrow> vi_inner_path p \<noteq> [] \<and> hd (vi_inner_path p) \<noteq> CHR 0x0A"
  shows "validateVolumeId (volume_id_of p) = Ok ()"
proof (cases "vi_type p = VolumeTypeDirV1")
  case True
  with assms show ?thesis by (simp add: volume_id_of_def volume_parts_wf_def validate_dirV1)
next
  case False
  then have "vi_type p = VolumeTypeUnified" using assms(1) by (auto simp: volume_parts_wf_def KnownVolTypes_def)
  with assms show ?thesis by (simp add: volume_id_of_def volume_parts_wf_def validate_unified)
qed

theorem generated_id_valid_witness:
  "validateVolumeId (volume_id_of \<lparr> vi_type = ''dir/v1'', vi_filesystem = ''fs'', vi_access_point = [], vi_inner_path = ''d'' \<rparr>) = Ok ()"
proof (rule generated_id_valid)
  let ?p = "\<lparr> vi_type = ''dir/v1'', vi_filesystem = ''fs'', vi_access_point = [], vi_inner_path = ''d'' \<rparr>"
  show "volume_parts_wf ?p" by code_simp
  show "length (volume_id_of ?p) \<le> maxVolumeIdLength" by code_simp
qed simp_all

text \<open>The range of allowed characters ends at 58, the code of the colon, so a CSI name with a
  colon keeps it in the access point, and the access point sliced from the identifier is not the one
  that was put in.\<close>

lemma access_point_colon:
  "sliceSnapshotAccessPointFromVolumeId
     (generateVolumeIdFromComponents VolumeTypeUnified ''fs''
        (generateWekaSnapAccessPointForSnapBasedVol ''a:b'') []) = ''a''
   \<and> generateWekaSnapAccessPointForSnapBasedVol ''a:b'' \<noteq> ''a''"
proof -
  have a: "getAsciiPart ''a:b'' 12 = ''a:b''" by code_simp
  define h where "h = take 12 (getStringSha1AsB32 ''a:b'')"
  have ap: "generateWekaSnapAccessPointForSnapBasedVol ''a:b'' = ''a:b-'' @ h"
    by (simp add: generateWekaSnapAccessPointForSnapBasedVol_def generateWekaObjectNameBase_def
        MaxHashLengthForObjectNames_def a h_def)
  have h: "id_part h" by (simp add: h_def)
  then have "CHR ''/'' \<notin> set (''fs:a:b-'' @ h)" "CHR '':'' \<notin> set (''b-'' @ h)" by (auto simp: id_part_def)
  then have "strings_Split (CHR ''/'') (''weka/v2/fs:a:b-'' @ h) = [''weka'', ''v2'', ''fs:a:b-'' @ h]"
    "strings_Split (CHR '':'') (''fs:a:b-'' @ h) = [''fs'', ''a'', ''b-'' @ h]" by simp_all
  then show ?thesis
    by (simp add: ap generateVolumeIdFromComponents_def VolumeTypeUnified_def
        sliceSnapshotAccessPointFromVolumeId_def numeral_2_eq_2)
qed

text \<open>Stripping the mount point by cutset also strips the leading characters of the address that
  occur in the mount point: the address read back for \<open>10.0.0.1\<close> under a mount point with a \<open>1\<close>
  in its name is \<open>0.0.0.1\<close>.\<close>

lemma mount_ip_cutset:
  "GetMountIpFromActualMountPoint (Some [''10.0.0.1:/fs1 /m/fs1-10.0.0.1 nfs4 rw 0 0'']) ''/m/fs1'' = Ok ''0.0.0.1''"
  by code_simp

end
