(* ===== verification/Go_Net.thy ===== *)
theory Go_Net
  imports Go_Stdlib
begin

text \<open>
  The part of Go's \<open>net\<close> and \<open>strconv\<close> packages the API client uses: textual IP addresses,
  CIDR masks, decimal numbers; and the networks of \<open>pkg/wekafs/apiclient/utils.go\<close>.  An address
  is kept as 32 bits when \<open>To4\<close> is not nil and as eight 16-bit groups otherwise.
\<close>

section \<open>Definitions\<close>

subsection \<open>Numbers\<close>

definition digit_val :: "char \<Rightarrow> int option" where
  "digit_val c = (if CHR ''0'' \<le> c \<and> c \<le> CHR ''9'' then Some (of_char c - 48) else None)"

definition hex_val :: "char \<Rightarrow> int option" where
  "hex_val c =
     (if CHR ''0'' \<le> c \<and> c \<le> CHR ''9'' then Some (of_char c - 48)
      else if CHR ''a'' \<le> c \<and> c \<le> CHR ''f'' then Some (of_char c - 87)
      else if CHR ''A'' \<le> c \<and> c \<le> CHR ''F'' then Some (of_char c - 55) else None)"

fun digits_acc :: "(char \<Rightarrow> int option) \<Rightarrow> int \<Rightarrow> int \<Rightarrow> string \<Rightarrow> int option" where
  "digits_acc dv radix acc [] = Some acc"
| "digits_acc dv radix acc (c # cs) =
     (case dv c of None \<Rightarrow> None | Some d \<Rightarrow> digits_acc dv radix (acc * radix + d) cs)"

text \<open>\<open>strconv.Atoi\<close>: an optional sign, at least one digit, the range of a 64-bit \<open>int\<close>.\<close>

definition strconv_Atoi :: "string \<Rightarrow> int option" where
  "strconv_Atoi s =
     (let neg = HasPrefix s ''-'';
          ds = (if HasPrefix s ''-'' \<or> HasPrefix s ''+'' then tl s else s)
      in if ds = [] then None
         else case digits_acc digit_val 10 0 ds of
                None \<Rightarrow> None
              | Some n \<Rightarrow> let v = (if neg then - n else n) in if in_int64 v then Some v else None)"

text \<open>Decimal text of a natural number, as \<open>strconv.FormatUint\<close> and \<open>fmt.Sprint\<close> print it.\<close>

function show_nat :: "nat \<Rightarrow> string" where
  "show_nat n = (if n < 10 then [char_of (48 + n)] else show_nat (n div 10) @ [char_of (48 + n mod 10)])"
  by pat_completeness auto
termination by (relation "measure id") auto

definition show_int :: "int \<Rightarrow> string" where
  "show_int i = (if i < 0 then ''-'' @ show_nat (nat (- i)) else show_nat (nat i))"

subsection \<open>Addresses\<close>

datatype ip_addr = IPv4 "32 word" | IPv6 "16 word list"

definition parse_octet :: "string \<Rightarrow> int option" where
  "parse_octet s =
     (if s = [] \<or> length s > 3 \<or> (length s > 1 \<and> hd s = CHR ''0'') then None
      else case digits_acc digit_val 10 0 s of
             Some n \<Rightarrow> if n \<le> 255 then Some n else None
           | None \<Rightarrow> None)"

definition parse_ipv4 :: "string \<Rightarrow> 32 word option" where
  "parse_ipv4 s =
     (case map parse_octet (strings_Split (CHR ''.'') s) of
        [Some a, Some b, Some c, Some d] \<Rightarrow> Some (word_of_int (((a * 256 + b) * 256 + c) * 256 + d))
      | _ \<Rightarrow> None)"

definition parse_group :: "string \<Rightarrow> 16 word option" where
  "parse_group s =
     (if s = [] \<or> length s > 4 then None else map_option word_of_int (digits_acc hex_val 16 0 s))"

text \<open>The groups of one side of an IPv6 address; the last may be a dotted IPv4 address.\<close>

fun parse_groups :: "string list \<Rightarrow> 16 word list option" where
  "parse_groups [] = Some []"
| "parse_groups [s] =
     (case parse_ipv4 s of
        Some w \<Rightarrow> Some [ucast (drop_bit 16 w), ucast w]
      | None \<Rightarrow> map_option (\<lambda>g. [g]) (parse_group s))"
| "parse_groups (s # t # ss) =
     (case (parse_group s, parse_groups (t # ss)) of (Some g, Some gs) \<Rightarrow> Some (g # gs) | _ \<Rightarrow> None)"

fun split_ellipsis :: "string \<Rightarrow> (string \<times> string) option" where
  "split_ellipsis (a # b # s) =
     (if a = CHR '':'' \<and> b = CHR '':'' then Some ([], s)
      else map_option (\<lambda>(l, r). (a # l, r)) (split_ellipsis (b # s)))"
| "split_ellipsis _ = None"

definition side_groups :: "string \<Rightarrow> 16 word list option" where
  "side_groups s = (if s = [] then Some [] else parse_groups (strings_Split (CHR '':'') s))"

definition left_groups :: "string \<Rightarrow> 16 word list option" where
  "left_groups s = (if s = [] then Some [] else those (map parse_group (strings_Split (CHR '':'') s)))"

definition parse_ipv6 :: "string \<Rightarrow> 16 word list option" where
  "parse_ipv6 s =
     (case split_ellipsis s of
        None \<Rightarrow>
          (case side_groups s of Some gs \<Rightarrow> if length gs = 8 then Some gs else None | None \<Rightarrow> None)
      | Some (l, r) \<Rightarrow>
          (case (left_groups l, side_groups r) of
             (Some gl, Some gr) \<Rightarrow>
               if length gl + length gr < 8 then Some (gl @ replicate (8 - length gl - length gr) 0 @ gr) else None
           | _ \<Rightarrow> None))"

definition net_ParseIP :: "string \<Rightarrow> ip_addr option" where
  "net_ParseIP s =
     (if CHR '':'' \<in> set s
      then (case parse_ipv6 s of
              None \<Rightarrow> None
            | Some gs \<Rightarrow>
                if take 6 gs = [0, 0, 0, 0, 0, 0xFFFF]
                then Some (IPv4 (push_bit 16 (ucast (gs ! 6)) OR ucast (gs ! 7)))
                else Some (IPv6 gs))
      else map_option IPv4 (parse_ipv4 s))"

definition isValidIPv6Address :: "string \<Rightarrow> bool" where
  "isValidIPv6Address ipStr = (case net_ParseIP ipStr of Some (IPv6 gs) \<Rightarrow> True | _ \<Rightarrow> False)"

definition isValidIPv4Address :: "string \<Rightarrow> bool" where
  "isValidIPv4Address ipStr = (case net_ParseIP ipStr of Some (IPv4 w) \<Rightarrow> True | _ \<Rightarrow> False)"

definition is_alnum :: "char \<Rightarrow> bool" where
  "is_alnum c \<longleftrightarrow> (CHR ''0'' \<le> c \<and> c \<le> CHR ''9'') \<or> (CHR ''a'' \<le> c \<and> c \<le> CHR ''z'') \<or> (CHR ''A'' \<le> c \<and> c \<le> CHR ''Z'')"

text \<open>
  The anchored host name pattern: labels of at most 63 characters that start and end with an
  alphanumeric character and hold hyphens inside; the last label has at least two characters.
\<close>

definition host_label :: "string \<Rightarrow> bool" where
  "host_label l \<longleftrightarrow> l \<noteq> [] \<and> length l \<le> 63 \<and> is_alnum (hd l) \<and> is_alnum (last l)
     \<and> (\<forall>c\<in>set l. is_alnum c \<or> c = CHR ''-'')"

definition isValidHostname :: "string \<Rightarrow> bool" where
  "isValidHostname hostname \<longleftrightarrow>
     length hostname \<le> 253 \<and>
     (let labels = strings_Split (CHR ''.'') hostname
      in (\<forall>l\<in>set labels. host_label l) \<and> length (last labels) \<ge> 2)"

subsection \<open>Networks\<close>

definition ipv4_string :: "32 word \<Rightarrow> string" where
  "ipv4_string w =
     strings_Join ''.'' (map (\<lambda>i. show_nat (unat (drop_bit i w AND 255))) [24, 16, 8, 0])"

text \<open>\<open>net.CIDRMask\<close> and the bits of an address.\<close>

definition cidr_mask :: "nat \<Rightarrow> 32 word" where
  "cidr_mask n = push_bit (32 - n) (NOT 0)"

definition ip_bits :: "ip_addr \<Rightarrow> bool list" where
  "ip_bits a =
     (case a of
        IPv4 w \<Rightarrow> rev (map (bit w) [0..<32])
      | IPv6 gs \<Rightarrow> concat (map (\<lambda>g. rev (map (bit g) [0..<16])) gs))"

fun group_of_bits :: "bool list \<Rightarrow> 16 word" where
  "group_of_bits bs = word_of_nat (bits_val bs)"

definition mask_of_len :: "nat \<Rightarrow> ip_addr \<Rightarrow> ip_addr" where
  "mask_of_len n a =
     (case a of
        IPv4 _ \<Rightarrow> IPv4 (cidr_mask n)
      | IPv6 _ \<Rightarrow>
          IPv6 (map (\<lambda>i. group_of_bits (map (\<lambda>j. 16 * i + j < n) [0..<16])) [0..<8]))"

text \<open>\<open>net.ParseCIDR\<close>: address, then a decimal prefix length within the address size.\<close>

definition net_ParseCIDR :: "string \<Rightarrow> (ip_addr \<times> nat) option" where
  "net_ParseCIDR s =
     (case strings_Split (CHR ''/'') s of
        [a, m] \<Rightarrow>
          (case (net_ParseIP a, if m = [] then None else digits_acc digit_val 10 0 m) of
             (Some ip, Some n) \<Rightarrow> if n \<le> int (length (ip_bits ip)) then Some (ip, nat n) else None
           | _ \<Rightarrow> None)
      | _ \<Rightarrow> None)"

definition cidr_contains :: "ip_addr \<Rightarrow> nat \<Rightarrow> ip_addr \<Rightarrow> bool" where
  "cidr_contains base n a \<longleftrightarrow>
     length (ip_bits base) = length (ip_bits a) \<and> take n (ip_bits base) = take n (ip_bits a)"

record Network =
  nIP :: "ip_addr option"
  nSubnet :: "ip_addr option"

text \<open>The loop that counts the set bits of a 32-bit mask.\<close>

function mask_loop :: "32 word \<Rightarrow> nat \<Rightarrow> nat" where
  "mask_loop m cidrBits =
     (if m = 0 then cidrBits else mask_loop (drop_bit 1 m) (cidrBits + unat (m AND 1)))"
  by pat_completeness auto
termination
proof (relation "measure (\<lambda>(m, _). unat m)")
  fix m :: "32 word" and b :: nat
  assume "m \<noteq> 0"
  then have "unat m div 2 < unat m" by (simp add: unat_gt_0)
  moreover have "unat (drop_bit 1 m) = unat m div 2" by (subst unat_drop_bit_eq) (simp add: drop_bit_Suc)
  ultimately show "((drop_bit 1 m, b + unat (m AND 1)), (m, b)) \<in> measure (\<lambda>(m, _). unat m)"
    by (simp only: in_measure case_prod_conv)
qed simp

text \<open>\<open>Subnet.To4()\<close> is nil for an IPv6 subnet and for a subnet that did not parse.\<close>

definition GetMaskBits :: "Network \<Rightarrow> nat" where
  "GetMaskBits n = (case nSubnet n of Some (IPv4 m) \<Rightarrow> mask_loop m 0 | _ \<Rightarrow> 0)"

definition parseNetworkString :: "string \<Rightarrow> Network go" where
  "parseNetworkString s =
     (if CHR ''/'' \<in> set s
      then (let parts = strings_Split (CHR ''/'') s
            in if length parts \<noteq> 2 then Err (Plain ''invalid CIDR notation'')
               else (let ip = net_ParseIP (parts ! 0)
                     in case net_ParseIP (parts ! 1) of
                          Some subnet \<Rightarrow> Ok \<lparr> nIP = ip, nSubnet = Some subnet \<rparr>
                        | None \<Rightarrow>
                            (case net_ParseCIDR s of
                               None \<Rightarrow> Err (Plain ''invalid CIDR notation'')
                             | Some (a, n) \<Rightarrow> Ok \<lparr> nIP = ip, nSubnet = Some (mask_of_len n a) \<rparr>)))
      else Ok \<lparr> nIP = net_ParseIP s, nSubnet = net_ParseIP ''255.255.255.255'' \<rparr>)"

text \<open>
  The first \<open>ParseCIDR\<close> of the source gets a dotted mask and always fails; the second gets the
  number of set bits.
\<close>

definition ContainsIPAddress :: "Network \<Rightarrow> string \<Rightarrow> bool" where
  "ContainsIPAddress n ipStr =
     (case net_ParseIP ipStr of
        None \<Rightarrow> False
      | Some ip \<Rightarrow>
          (case nIP n of
             None \<Rightarrow> False
           | Some base \<Rightarrow> cidr_contains base (GetMaskBits n) ip))"

section \<open>Mask bits and membership\<close>

declare mask_loop.simps [simp del] show_nat.simps [simp del]

lemma bits_set_shift: "card {i. bit (w :: 32 word) i} = (if bit w 0 then 1 else 0) + card {i. bit (drop_bit 1 w) i}"
proof -
  have fin: "finite {i. bit (v :: 32 word) i}" for v
    by (rule finite_subset [of _ "{..<32}"]) (auto dest: bit_imp_le_length)
  have "{i. bit w i} = (if bit w 0 then {0} else {}) \<union> Suc ` {i. bit (drop_bit 1 w) i}"
  proof (intro set_eqI)
    fix i show "i \<in> {i. bit w i} \<longleftrightarrow> i \<in> (if bit w 0 then {0} else {}) \<union> Suc ` {i. bit (drop_bit 1 w) i}"
      by (cases i) (auto simp: bit_drop_bit_eq)
  qed
  moreover have "(if bit w 0 then {0} else {}) \<inter> Suc ` {i. bit (drop_bit 1 w) i} = {}" by auto
  moreover have "card (Suc ` {i. bit (drop_bit 1 w) i}) = card {i. bit (drop_bit 1 w) i}"
    by (rule card_image) simp
  ultimately show ?thesis using fin [of "drop_bit 1 w"] by (simp add: card_Un_disjoint)
qed

lemma mask_loop_card: "mask_loop m b = b + card {i. bit m i}"
proof (induction m b rule: mask_loop.induct)
  case (1 m b)
  have u: "unat (m AND 1) = (if bit m 0 then 1 else 0)"
    by (simp add: and_one_eq odd_iff_mod_2_eq_one bit_0)
  show ?case
  proof (cases "m = 0")
    case True
    then show ?thesis by (simp add: mask_loop.simps)
  next
    case False
    with 1 u have "mask_loop (drop_bit 1 m) (b + unat (m AND 1)) = b + unat (m AND 1) + card {i. bit (drop_bit 1 m) i}"
      by blast
    with False u show ?thesis by (subst mask_loop.simps) (simp only: if_False bits_set_shift [of m] add.assoc)
  qed
qed

lemma bits_cidr_mask: "n \<le> 32 \<Longrightarrow> {i. bit (cidr_mask n) i} = {32 - n..<32}"
  by (auto simp: cidr_mask_def bit_push_bit_iff bit_not_iff bit_mask_iff dest: bit_imp_le_length)

lemma mask_loop_cidr: "n \<le> 32 \<Longrightarrow> mask_loop (cidr_mask n) 0 = n"
  by (simp add: mask_loop_card bits_cidr_mask)

lemma nth_ip_bits4: "i < 32 \<Longrightarrow> ip_bits (IPv4 w) ! i = bit w (31 - i)"
  by (simp add: ip_bits_def rev_nth)

lemma length_ip_bits4 [simp]: "length (ip_bits (IPv4 w)) = 32"
  by (simp add: ip_bits_def)

lemma cidr_contains_iff:
  assumes "n \<le> 32"
  shows "cidr_contains (IPv4 b) n (IPv4 a) \<longleftrightarrow> a AND cidr_mask n = b AND cidr_mask n"
proof -
  have "cidr_contains (IPv4 b) n (IPv4 a) \<longleftrightarrow> (\<forall>i<n. bit b (31 - i) = bit a (31 - i))"
    using assms by (auto simp: cidr_contains_def list_eq_iff_nth_eq nth_ip_bits4)
  also have "\<dots> \<longleftrightarrow> (\<forall>i. 32 - n \<le> i \<and> i < 32 \<longrightarrow> bit a i = bit b i)"
    (is "?L \<longleftrightarrow> ?R")
  proof
    assume h: ?L
    show ?R
    proof (rule allI, rule impI)
      fix i assume i: "32 - n \<le> i \<and> i < 32"
      then have "31 - i < n" "31 - (31 - i) = i" using assms by auto
      with h show "bit a i = bit b i" by metis
    qed
  next
    assume h: ?R
    show ?L
    proof (rule allI, rule impI)
      fix i assume "i < n"
      then have "32 - n \<le> 31 - i \<and> 31 - i < 32" using assms by auto
      with h show "bit b (31 - i) = bit a (31 - i)" by blast
    qed
  qed
  also have "\<dots> \<longleftrightarrow> (\<forall>i<32. (bit a i \<and> bit (cidr_mask n) i) = (bit b i \<and> bit (cidr_mask n) i))"
  proof -
    have "bit (cidr_mask n) i \<longleftrightarrow> 32 - n \<le> i \<and> i < 32" for i
      using bits_cidr_mask [OF assms] by (simp add: set_eq_iff)
    then show ?thesis by blast
  qed
  also have "\<dots> \<longleftrightarrow> a AND cidr_mask n = b AND cidr_mask n"
    by (simp add: bit_eq_iff bit_and_iff)
  finally show ?thesis .
qed

section \<open>Properties\<close>



end
