(* ===== verification/Environment.thy ===== *)
theory Environment
  imports Naming Go_Net
begin

text \<open>
  Everything outside the driver, as one record of functions over an unspecified world state \<open>'w\<close>:
  the HTTP server of the Weka cluster, the clock and the random source, the kernel's files and mount
  table, extended attributes and the Kubernetes API.  Every operation of the model takes the record
  as its first argument and threads the world; a theorem that holds for all records holds whatever
  the cluster and the host do.  A concrete record, used by the witnesses, is an ordinary value.
\<close>

section \<open>Documents and HTTP\<close>

text \<open>A JSON document.  The text is not modelled: a request carries a document, and a reply carries
  a document or the fact that the text does not parse.\<close>

datatype json =
    JNull | JBool bool | JNum int | JStr string | JArr "json list" | JObj "(string \<times> json) list"

record http_request =
  rq_method :: string
  rq_host :: string
  rq_path :: string
  rq_token :: "string option"
  rq_query :: "(string \<times> string) list"   \<comment> \<open>the tagged, non-empty fields of the query struct\<close>
  rq_body :: "json option"

datatype http_reply =
    NoReply                     \<comment> \<open>\<open>client.Do\<close> returned an error\<close>
  | BrokenBody int              \<comment> \<open>status, but the body could not be read\<close>
  | Reply int "json option"     \<comment> \<open>status and body, \<open>None\<close> when it is not JSON\<close>

text \<open>Field access of a decoded struct: a missing field, one of another type or a number out of the
  range of the field's type is the zero value.\<close>

fun jfield :: "string \<Rightarrow> json \<Rightarrow> json" where
  "jfield k (JObj fs) = (case map_of fs k of Some v \<Rightarrow> v | None \<Rightarrow> JNull)"
| "jfield k _ = JNull"

fun jstr :: "json \<Rightarrow> string" where
  "jstr (JStr s) = s"
| "jstr _ = []"

fun jint :: "json \<Rightarrow> int" where
  "jint (JNum n) = (if in_int64 n then n else 0)"
| "jint _ = 0"

fun juint :: "json \<Rightarrow> int" where
  "juint (JNum n) = (if 0 \<le> n \<and> n < 2 ^ 64 then n else 0)"
| "juint _ = 0"

fun jbool :: "json \<Rightarrow> bool" where
  "jbool (JBool b) = b"
| "jbool _ = False"

fun jarr :: "json \<Rightarrow> json list" where
  "jarr (JArr xs) = xs"
| "jarr _ = []"

text \<open>A UUID is kept as its text; \<open>uuid.Nil\<close> is the zero value.\<close>

type_synonym uuid = string

definition uuid_Nil :: uuid where
  "uuid_Nil = ''00000000-0000-0000-0000-000000000000''"

fun juuid :: "json \<Rightarrow> uuid" where
  "juuid (JStr s) = s"
| "juuid _ = uuid_Nil"

section \<open>The world\<close>

datatype path_kind = Missing | Directory | OtherFile

text \<open>A persistent volume as the Kubernetes API lists it: the fields the driver reads.\<close>

record persistent_volume =
  pv_driver :: "string option"      \<comment> \<open>\<open>Spec.CSI.Driver\<close>, \<open>None\<close> when \<open>Spec.CSI\<close> is nil\<close>
  pv_handle :: string
  pv_capacity :: "int option"       \<comment> \<open>\<open>Spec.Capacity[storage].Value()\<close>, \<open>None\<close> when the entry is missing\<close>

text \<open>What the driver reads of \<open>syscall.Statfs_t\<close>.\<close>

record statfs =
  sf_Blocks :: int
  sf_Bavail :: int
  sf_Bsize :: int
  sf_Files :: int
  sf_Ffree :: int

record 'w env =
  env_http :: "http_request \<Rightarrow> 'w \<Rightarrow> http_reply \<times> 'w"
  env_now :: "'w \<Rightarrow> int \<times> 'w"
  env_sleep :: "int \<Rightarrow> 'w \<Rightarrow> 'w"
  env_intn :: "int \<Rightarrow> 'w \<Rightarrow> int \<times> 'w"
  env_version_ge :: "string \<Rightarrow> (string \<Rightarrow> bool) option"
  env_stat :: "string \<Rightarrow> 'w \<Rightarrow> path_kind"
  env_stat_err :: "string \<Rightarrow> 'w \<Rightarrow> go_error option"   \<comment> \<open>the error of \<open>os.Stat\<close>\<close>
  env_read_file :: "string \<Rightarrow> 'w \<Rightarrow> string list option"
  env_read_dir :: "string \<Rightarrow> 'w \<Rightarrow> string list option"
  env_mkdir_all :: "string \<Rightarrow> 'w \<Rightarrow> go_error option \<times> 'w"
  env_mkdir :: "string \<Rightarrow> 'w \<Rightarrow> go_error option \<times> 'w"
  env_chmod :: "string \<Rightarrow> int \<Rightarrow> 'w \<Rightarrow> go_error option \<times> 'w"
  env_chown :: "string \<Rightarrow> int \<Rightarrow> int \<Rightarrow> 'w \<Rightarrow> go_error option \<times> 'w"
  env_exec :: "string \<Rightarrow> 'w \<Rightarrow> go_error option \<times> 'w"   \<comment> \<open>a shell command\<close>
  env_remove :: "string \<Rightarrow> 'w \<Rightarrow> go_error option \<times> 'w"
  env_remove_all :: "string \<Rightarrow> 'w \<Rightarrow> go_error option \<times> 'w"
  env_rename :: "string \<Rightarrow> string \<Rightarrow> 'w \<Rightarrow> go_error option \<times> 'w"
  env_inode :: "string \<Rightarrow> 'w \<Rightarrow> int option"
  env_statfs_free :: "string \<Rightarrow> 'w \<Rightarrow> int option"
  env_statfs :: "string \<Rightarrow> 'w \<Rightarrow> statfs option"
  env_xattr_get :: "string \<Rightarrow> string \<Rightarrow> 'w \<Rightarrow> string option"
  env_xattr_set :: "string \<Rightarrow> string \<Rightarrow> string \<Rightarrow> 'w \<Rightarrow> go_error option \<times> 'w"
  env_mount :: "string \<Rightarrow> string \<Rightarrow> string \<Rightarrow> string list \<Rightarrow> string list \<Rightarrow> 'w \<Rightarrow> go_error option \<times> 'w"
  env_unmount :: "string \<Rightarrow> 'w \<Rightarrow> go_error option \<times> 'w"
  env_list_pvs :: "'w \<Rightarrow> persistent_volume list option"
  env_pod :: "string \<Rightarrow> string \<Rightarrow> 'w \<Rightarrow> (string, string) gomap option"   \<comment> \<open>annotations, by namespace and name\<close>
  env_pvc :: "string \<Rightarrow> string \<Rightarrow> 'w \<Rightarrow> (string, string) gomap option"
  env_node :: "string \<Rightarrow> 'w \<Rightarrow> (string, string) gomap option option"   \<comment> \<open>labels of a node, which may be a nil map\<close>
  env_update_node :: "string \<Rightarrow> (string, string) gomap option \<Rightarrow> 'w \<Rightarrow> go_error option \<times> 'w"
  env_in_cluster :: bool   \<comment> \<open>a client of the Kubernetes API can be made\<close>
  env_regexp :: "string \<Rightarrow> (string \<Rightarrow> bool) option"   \<comment> \<open>\<open>regexp.Compile\<close> and \<open>MatchString\<close>\<close>
  env_local_ips :: "'w \<Rightarrow> string list option"
  env_route_ip :: "string \<Rightarrow> 'w \<Rightarrow> string option"   \<comment> \<open>the local address a packet to the host leaves from\<close>
  env_getenv :: "string \<Rightarrow> string"
  env_hostname :: "string option"
  env_polls :: nat   \<comment> \<open>how often a polling loop evaluates its condition before it is given up\<close>

text \<open>A world in which nothing answers: the base of the concrete environments of the witnesses.\<close>

definition null_env :: "'w env" where
  "null_env =
     \<lparr> env_http = (\<lambda>r w. (NoReply, w)), env_now = (\<lambda>w. (1, w)), env_sleep = (\<lambda>d w. w),
       env_intn = (\<lambda>n w. (0, w)), env_version_ge = (\<lambda>v. None), env_stat = (\<lambda>p w. Missing),
       env_stat_err = (\<lambda>p w. Some (Plain ''no such file or directory'')),
       env_read_file = (\<lambda>p w. None), env_read_dir = (\<lambda>p w. None), env_mkdir_all = (\<lambda>p w. (None, w)),
       env_mkdir = (\<lambda>p w. (None, w)), env_chmod = (\<lambda>p m w. (None, w)), env_chown = (\<lambda>p u g w. (None, w)),
       env_exec = (\<lambda>c w. (None, w)),
       env_remove = (\<lambda>p w. (None, w)), env_remove_all = (\<lambda>p w. (None, w)),
       env_rename = (\<lambda>p q w. (None, w)), env_inode = (\<lambda>p w. None), env_statfs_free = (\<lambda>p w. None),
       env_statfs = (\<lambda>p w. None),
       env_xattr_get = (\<lambda>p k w. None), env_xattr_set = (\<lambda>p k v w. (None, w)),
       env_mount = (\<lambda>s t f o' k w. (None, w)), env_unmount = (\<lambda>p w. (None, w)),
       env_list_pvs = (\<lambda>w. None), env_pod = (\<lambda>n p w. None), env_pvc = (\<lambda>n p w. None),
       env_node = (\<lambda>n w. None), env_update_node = (\<lambda>n l w. (None, w)), env_in_cluster = False,
       env_regexp = (\<lambda>p. None), env_local_ips = (\<lambda>w. None),
       env_route_ip = (\<lambda>h w. None), env_getenv = (\<lambda>k. []), env_hostname = None, env_polls = 2 \<rparr>"

section \<open>Stateful calls\<close>

text \<open>
  A Go function that reads and writes state and returns a value or an error, and the ways the sources
  compose such functions: in sequence with \<open>if err != nil { return err }\<close>, and with a handler for the
  error.  A call that does not return ends the whole computation.
\<close>

type_synonym ('s, 'a) call = "'s \<Rightarrow> 'a go \<times> 's"

definition go_return :: "'a \<Rightarrow> ('s, 'a) call" where
  "go_return x s = (Ok x, s)"

definition go_raise :: "go_error \<Rightarrow> ('s, 'a) call" where
  "go_raise e s = (Err e, s)"

definition go_panic :: "('s, 'a) call" where
  "go_panic s = (Panic, s)"

definition go_bind :: "('s, 'a) call \<Rightarrow> ('a \<Rightarrow> ('s, 'b) call) \<Rightarrow> ('s, 'b) call" where
  "go_bind m f s =
     (case m s of (Ok x, s1) \<Rightarrow> f x s1 | (Err e, s1) \<Rightarrow> (Err e, s1) | (Panic, s1) \<Rightarrow> (Panic, s1))"

definition go_catch :: "('s, 'a) call \<Rightarrow> (go_error \<Rightarrow> ('s, 'a) call) \<Rightarrow> ('s, 'a) call" where
  "go_catch m h s =
     (case m s of (Ok x, s1) \<Rightarrow> (Ok x, s1) | (Err e, s1) \<Rightarrow> h e s1 | (Panic, s1) \<Rightarrow> (Panic, s1))"

text \<open>A call whose error is kept as a value, for code that inspects it and goes on.\<close>

definition go_try :: "('s, 'a) call \<Rightarrow> ('s, (go_error, 'a) outcome) call" where
  "go_try m s = (case m s of (Panic, s1) \<Rightarrow> (Panic, s1) | (r, s1) \<Rightarrow> (Ok r, s1))"

fun go_each :: "('x \<Rightarrow> ('s, unit) call) \<Rightarrow> 'x list \<Rightarrow> ('s, unit) call" where
  "go_each f [] = go_return ()"
| "go_each f (x # xs) = go_bind (f x) (\<lambda>_. go_each f xs)"

text \<open>A predicate on states that a call keeps, however it ends.\<close>

definition keeps :: "('s \<Rightarrow> bool) \<Rightarrow> ('s, 'a) call \<Rightarrow> bool" where
  "keeps P m \<longleftrightarrow> (\<forall>s. P s \<longrightarrow> P (snd (m s)))"

section \<open>Laws of stateful calls\<close>

lemma go_bind_simps [simp, go_simps]:
  "m s = (Ok x, s1) \<Longrightarrow> go_bind m f s = f x s1"
  "m s = (Err e, s1) \<Longrightarrow> go_bind m f s = (Err e, s1)"
  "m s = (Panic, s1) \<Longrightarrow> go_bind m f s = (Panic, s1)"
  by (simp_all add: go_bind_def)

lemma go_catch_simps [simp, go_simps]:
  "m s = (Ok x, s1) \<Longrightarrow> go_catch m h s = (Ok x, s1)"
  "m s = (Err e, s1) \<Longrightarrow> go_catch m h s = h e s1"
  "m s = (Panic, s1) \<Longrightarrow> go_catch m h s = (Panic, s1)"
  by (simp_all add: go_catch_def)

lemma go_try_simps [simp, go_simps]:
  "m s = (Ok x, s1) \<Longrightarrow> go_try m s = (Ok (Ok x), s1)"
  "m s = (Err e, s1) \<Longrightarrow> go_try m s = (Ok (Err e), s1)"
  "m s = (Panic, s1) \<Longrightarrow> go_try m s = (Panic, s1)"
  by (simp_all add: go_try_def)

lemma go_basic_simps [simp, go_simps]:
  "go_return x s = (Ok x, s)" "go_raise e s = (Err e, s)" "go_panic s = (Panic, s)"
  by (simp_all add: go_return_def go_raise_def go_panic_def)

lemma go_bind_assoc: "go_bind (go_bind m f) g = go_bind m (\<lambda>x. go_bind (f x) g)"
  by (rule ext) (simp add: go_bind_def split: prod.split outcome.split)

lemma go_bind_OkE:
  assumes "go_bind m f s = (Ok y, s2)"
  obtains x s1 where "m s = (Ok x, s1)" "f x s1 = (Ok y, s2)"
  using assms by (auto simp: go_bind_def split: prod.splits outcome.splits)

lemma keepsD: "keeps P m \<Longrightarrow> P s \<Longrightarrow> m s = (r, s1) \<Longrightarrow> P s1"
  by (metis keeps_def snd_conv)

lemma keepsI: "(\<And>s r s1. P s \<Longrightarrow> m s = (r, s1) \<Longrightarrow> P s1) \<Longrightarrow> keeps P m"
  by (simp add: keeps_def) (metis prod.collapse)

lemma keeps_basic [simp, intro]: "keeps P (go_return x)" "keeps P (go_raise e)" "keeps P go_panic"
  by (simp_all add: keeps_def)

lemma keeps_bind [intro]: "keeps P m \<Longrightarrow> (\<And>x. keeps P (f x)) \<Longrightarrow> keeps P (go_bind m f)"
  by (rule keepsI) (auto simp: go_bind_def split: prod.splits outcome.splits dest: keepsD)

lemma keeps_catch [intro]: "keeps P m \<Longrightarrow> (\<And>e. keeps P (h e)) \<Longrightarrow> keeps P (go_catch m h)"
  by (rule keepsI) (auto simp: go_catch_def split: prod.splits outcome.splits dest: keepsD)

lemma keeps_try [intro]: "keeps P m \<Longrightarrow> keeps P (go_try m)"
  by (rule keepsI) (auto simp: go_try_def split: prod.splits outcome.splits dest: keepsD)

lemma keeps_each [intro]: "(\<And>x. keeps P (f x)) \<Longrightarrow> keeps P (go_each f xs)"
  by (induction xs) auto

end
