(* ===== verification/Api_Transport.thy ===== *)
theory Api_Transport
  imports Environment
begin

text \<open>
  The transport of the API client: \<open>apiclient.go\<close>, \<open>requests.go\<close>, \<open>apiendpoint.go\<close>,
  \<open>login.go\<close>, \<open>compatibility.go\<close> and the login-time part of \<open>cluster.go\<close> under
  \<open>pkg/wekafs/apiclient\<close>.

  The state is the pair of the \<open>ApiClient\<close> struct and the world.  \<open>Request\<close> logs in, and logging in
  sends requests, so \<open>Request\<close> recurses through \<open>Init\<close> and \<open>Login\<close>.  \<open>Login\<close> holds the mutex of the
  client while it sends them, and the mutex is not reentrant: a second \<open>Login\<close> inside the first
  never returns.  The recursion is therefore two levels deep, and the level is the flag \<open>locked\<close>.
\<close>

section \<open>Definitions\<close>

subsection \<open>Client state\<close>

record KmsVaultCredentials =
  kms_KeyIdentifier :: string
  kms_Namespace :: string
  kms_RoleId :: string
  kms_SecretId :: string
  kms_Url :: string

record Credentials =
  Username :: string
  Password :: string
  Organization :: string
  HttpScheme :: string
  Endpoints :: "string list"
  LocalContainerName :: string
  AutoUpdateEndpoints :: bool
  CaCertificate :: string
  NfsTargetIPs :: "string list"
  KmsPreexistingCredentialsForVolumeEncryption :: KmsVaultCredentials
  KmsKeyManagementCredentials :: KmsVaultCredentials

record WekaCompatibilityMap =
  FilesystemAsCSIVolume :: bool
  DirectoryAsCSIVolume :: bool
  QuotaOnDirectoryVolume :: bool
  QuotaOnSnapshot :: bool
  MountFilesystemsUsingAuthToken :: bool
  CreateNewFilesystemFromSnapshot :: bool
  CloneFilesystem :: bool
  UrlQueryParams :: bool
  SyncOnCloseMountOption :: bool
  SingleClientMultipleClusters :: bool
  NewNodeApiObjectPath :: bool
  EncryptionWithNoKms :: bool
  EncryptionWithClusterKey :: bool
  EncryptionWithCustomSettings :: bool
  ResolvePathToInode :: bool
  ResolvePathToInodeCsiRole :: bool
  SetSelfAsFilesystemOwnerOnCreate :: bool

datatype ep_counter =
    failCount | http400ErrCount | http401ErrCount | http403ErrCount | http404ErrCount | http409ErrCount
  | http500ErrCount | http503ErrCount | generalErrCount | transportErrCount | noRespCount
  | parseErrCount | requestCount

record ApiEndPoint =
  IpAddress :: string
  MgmtPort :: int
  lastActive :: int
  ep_count :: "ep_counter \<Rightarrow> int"

text \<open>The fields of a container and of an interface group that the driver reads.\<close>

record Container =
  ct_ContainerName :: string
  ct_Mode :: string
  ct_State :: string
  ct_Status :: string
  ct_FrontendDedicatedCores :: int
  ct_ContainerIp :: string

record InterfaceGroup =
  ig_Name :: string
  ig_Uid :: uuid
  ig_Ips :: "string list"
  ig_Type :: string

record ApiClient =
  creds :: Credentials
  ClusterGuid :: uuid
  ClusterName :: string
  actualApiEndpoints :: "(string, ApiEndPoint) gomap"
  currentEndpoint :: string
  apiToken :: string
  apiTokenExpiryDate :: int
  refreshToken :: string
  apiTokenExpiryInterval :: int
  refreshTokenExpiryInterval :: int
  refreshTokenExpiryDate :: int
  CompatibilityMap :: WekaCompatibilityMap
  ApiUserRole :: string
  ApiOrgId :: int
  containerName :: string
  NfsInterfaceGroups :: "(string, InterfaceGroup) gomap"
  NfsInterfaceGroupName :: string
  NfsClientGroupName :: string
  containers :: "(Container list \<times> int) option"   \<comment> \<open>the cached list and its update time\<close>

type_synonym 'w api_st = "ApiClient \<times> 'w"
type_synonym ('w, 'a) api = "'w api_st \<Rightarrow> 'a go \<times> 'w api_st"

definition seconds :: "int \<Rightarrow> int" where
  "seconds n = n * 1000000000"

subsection \<open>Compatibility\<close>

text \<open>The version library is the argument \<open>ge\<close>: \<open>None\<close> when the version does not parse, else
  the comparison of the cluster's version with a minimum.\<close>

definition fillIn :: "(string \<Rightarrow> (string \<Rightarrow> bool) option) \<Rightarrow> string \<Rightarrow> WekaCompatibilityMap" where
  "fillIn version versionStr =
     (case version versionStr of
        None \<Rightarrow>
          \<lparr> FilesystemAsCSIVolume = False, DirectoryAsCSIVolume = True, QuotaOnDirectoryVolume = False,
            QuotaOnSnapshot = False, MountFilesystemsUsingAuthToken = False,
            CreateNewFilesystemFromSnapshot = False, CloneFilesystem = False, UrlQueryParams = False,
            SyncOnCloseMountOption = False, SingleClientMultipleClusters = False,
            NewNodeApiObjectPath = False, EncryptionWithNoKms = False, EncryptionWithClusterKey = False,
            EncryptionWithCustomSettings = False, ResolvePathToInode = False,
            ResolvePathToInodeCsiRole = False, SetSelfAsFilesystemOwnerOnCreate = False \<rparr>
      | Some ge \<Rightarrow>
          \<lparr> FilesystemAsCSIVolume = ge ''v3.13'', DirectoryAsCSIVolume = ge ''v3.0'',
            QuotaOnDirectoryVolume = ge ''v3.13'', QuotaOnSnapshot = ge ''v4.2'',
            MountFilesystemsUsingAuthToken = ge ''v3.14'',
            CreateNewFilesystemFromSnapshot = ge ''v9.99'', CloneFilesystem = ge ''v9.99'',
            UrlQueryParams = ge ''v4.0'', SyncOnCloseMountOption = ge ''v4.2'',
            SingleClientMultipleClusters = ge ''v4.2'', NewNodeApiObjectPath = ge ''v4.2'',
            EncryptionWithNoKms = ge ''v4.0'', EncryptionWithClusterKey = ge ''v4.0'',
            EncryptionWithCustomSettings = ge ''v4.4.1'', ResolvePathToInode = ge ''v4.3'',
            ResolvePathToInodeCsiRole = ge ''v4.4.7'', SetSelfAsFilesystemOwnerOnCreate = ge ''v5.1'' \<rparr>)"

definition SupportsResolvePathToInode :: "ApiClient \<Rightarrow> bool" where
  "SupportsResolvePathToInode a =
     (if \<not> ResolvePathToInode (CompatibilityMap a) then False
      else if ApiUserRole a = [] then False
      else if ApiUserRole a = ''CSI'' then ResolvePathToInodeCsiRole (CompatibilityMap a)
      else True)"

definition HasCSIPermissions :: "ApiClient \<Rightarrow> bool" where
  "HasCSIPermissions a =
     (if ApiUserRole a \<noteq> []
      then ApiUserRole a = ''CSI'' \<or> ApiUserRole a = ''ClusterAdmin'' \<or> ApiUserRole a = ''OrgAdmin''
      else False)"

subsection \<open>Endpoints\<close>

definition new_endpoint :: "string \<Rightarrow> int \<Rightarrow> int \<Rightarrow> ApiEndPoint" where
  "new_endpoint ip port now = \<lparr> IpAddress = ip, MgmtPort = port, lastActive = now, ep_count = (\<lambda>_. 0) \<rparr>"

definition ApiEndPoint_String :: "ApiEndPoint \<Rightarrow> string" where
  "ApiEndPoint_String e = IpAddress e @ '':'' @ show_int (MgmtPort e)"

definition valid_endpoint :: "string \<Rightarrow> string \<Rightarrow> (string \<times> int) option" where
  "valid_endpoint ip port =
     (if \<not> isValidIPv4Address ip \<and> \<not> isValidIPv6Address ip \<and> \<not> isValidHostname ip then None
      else Some (ip, case strconv_Atoi port of Some n \<Rightarrow> n | None \<Rightarrow> 14000))"

definition parse_endpoint :: "string \<Rightarrow> (string \<times> int) option" where
  "parse_endpoint e =
     (case rev (strings_Split (CHR '':'') e) of
        [] \<Rightarrow> None
      | [ip] \<Rightarrow> valid_endpoint ip ''14000''
      | port # rest \<Rightarrow> valid_endpoint (strings_Join '':'' (rev rest)) port)"

definition add_endpoint ::
  "'w env \<Rightarrow> string \<Rightarrow> (string, ApiEndPoint) gomap \<times> 'w \<Rightarrow> (string, ApiEndPoint) gomap \<times> 'w"
where
  "add_endpoint E e mw =
     (case parse_endpoint e of
        None \<Rightarrow> mw
      | Some (ip, port) \<Rightarrow>
          (let (now, w') = env_now E (snd mw) in (AList.update e (new_endpoint ip port now) (fst mw), w')))"

definition resetDefaultEndpoints :: "'w env \<Rightarrow> 'w api_st \<Rightarrow> 'w api_st" where
  "resetDefaultEndpoints E st =
     (let (m, w') = fold (add_endpoint E) (Endpoints (creds (fst st))) ([], snd st)
      in ((fst st)\<lparr>actualApiEndpoints := m\<rparr>, w'))"

definition rotateEndpoint :: "'w env \<Rightarrow> 'w api_st \<Rightarrow> 'w api_st" where
  "rotateEndpoint E st =
     (let st1 = (if actualApiEndpoints (fst st) = [] then resetDefaultEndpoints E st else st);
          (a, w) = st1;
          keys = map fst (actualApiEndpoints a)
      in if keys = [] then (a\<lparr>currentEndpoint := []\<rparr>, w)
         else (let (i, w') = env_intn E (int (length keys)) w
               in (a\<lparr>currentEndpoint := keys ! (nat i mod length keys)\<rparr>, w')))"

definition getEndpoint :: "'w env \<Rightarrow> 'w api_st \<Rightarrow> ApiEndPoint option \<times> 'w api_st" where
  "getEndpoint E st =
     (let st1 = (if currentEndpoint (fst st) = [] then rotateEndpoint E st else st)
      in (map_of (actualApiEndpoints (fst st1)) (currentEndpoint (fst st1)), st1))"

definition bump :: "ep_counter \<Rightarrow> ApiClient \<Rightarrow> ApiClient" where
  "bump c a =
     a\<lparr>actualApiEndpoints :=
         AList.map_entry (currentEndpoint a)
           (\<lambda>e. e\<lparr>ep_count := (ep_count e)(c := int64 (ep_count e c + 1))\<rparr>) (actualApiEndpoints a)\<rparr>"

text \<open>The nodes the cluster lists, as \<open>UpdateApiEndpoints\<close> reads them.\<close>

record WekaNode =
  wn_Mode :: string
  wn_Ips :: "string list"
  wn_MgmtPort :: int
  wn_Roles :: "string list"

definition decode_WekaNode :: "json \<Rightarrow> WekaNode" where
  "decode_WekaNode j =
     \<lparr> wn_Mode = jstr (jfield ''mode'' j), wn_Ips = map jstr (jarr (jfield ''ips'' j)),
       wn_MgmtPort = jint (jfield ''mgmt_port'' j), wn_Roles = map jstr (jarr (jfield ''roles'' j)) \<rparr>"

definition hasRole :: "string \<Rightarrow> WekaNode \<Rightarrow> bool" where
  "hasRole role n = list_ex (\<lambda>r. r = role) (wn_Roles n)"

text \<open>The endpoint map computed from the management nodes: the existing entry of the same key with a
  new activity time, or a new one; afterwards every existing endpoint that was not refreshed removes
  the key it prints as.\<close>

definition refresh_endpoint ::
  "int \<Rightarrow> (string \<times> int) \<Rightarrow> (string, ApiEndPoint) gomap \<times> (string, ApiEndPoint) gomap
    \<Rightarrow> (string, ApiEndPoint) gomap \<times> (string, ApiEndPoint) gomap"
where
  "refresh_endpoint now ipp st =
     (case (ipp, st) of ((ip, port), (existing, fresh)) \<Rightarrow>
       (let key = ip @ '':'' @ show_int port
        in case map_of existing key of
             Some e \<Rightarrow>
               (let e' = e\<lparr>lastActive := now\<rparr> in (AList.update key e' existing, AList.update key e' fresh))
           | None \<Rightarrow> (existing, AList.update key (new_endpoint ip port now) fresh)))"

definition update_endpoint_map ::
  "int \<Rightarrow> WekaNode list \<Rightarrow> (string, ApiEndPoint) gomap \<Rightarrow> (string, ApiEndPoint) gomap"
where
  "update_endpoint_map now nodes existing =
     (let targets = concat (map (\<lambda>n. if wn_Mode n = ''backend'' then map (\<lambda>ip. (ip, wn_MgmtPort n)) (wn_Ips n) else []) nodes);
          (existing', fresh) = fold (refresh_endpoint now) targets (existing, [])
      in fold (\<lambda>(k, e) m. if lastActive e < now then AList.delete (ApiEndPoint_String e) m else m) existing' fresh)"

subsection \<open>Single requests\<close>

record ApiResponse =
  ar_Data :: json
  ar_ErrorCodes :: "string list"
  ar_Message :: string
  ar_HttpStatusCode :: int

definition decode_ApiResponse :: "int \<Rightarrow> json \<Rightarrow> ApiResponse" where
  "decode_ApiResponse status j =
     \<lparr> ar_Data = jfield ''data'' j,
       ar_ErrorCodes = map jstr (jarr (jfield ''data.exceptionClass'' j)),
       ar_Message = jstr (jfield ''message'' j),
       ar_HttpStatusCode = status \<rparr>"

definition to_upper :: "char \<Rightarrow> char" where
  "to_upper c = (if CHR ''a'' \<le> c \<and> c \<le> CHR ''z'' then char_of (of_char c - 32 :: nat) else c)"

definition base_url :: "ApiClient \<Rightarrow> ApiEndPoint \<Rightarrow> string" where
  "base_url a e =
     (let s = map to_upper (HttpScheme (creds a))
      in (if s = ''HTTP'' then ''http'' else if s = ''HTTPS'' then ''https'' else ''http'')
         @ ''://'' @ ApiEndPoint_String e @ ''/api/v2'')"

definition isLoggedIn :: "'w env \<Rightarrow> 'w api_st \<Rightarrow> bool \<times> 'w api_st" where
  "isLoggedIn E st =
     (case st of (a, w) \<Rightarrow>
       if apiToken a = [] then (False, st)
       else (let (now, w') = env_now E w
             in (\<not> (refreshTokenExpiryDate a < now \<and> refreshTokenExpiryInterval a > 0), (a, w'))))"

text \<open>The result of the status switch of \<open>do\<close>, and the counter it bumps.\<close>

definition classify_status :: "ApiResponse \<Rightarrow> (ep_counter \<times> api_error) option" where
  "classify_status r =
     (let s = ar_HttpStatusCode r
      in if s = 200 \<or> s = 201 \<or> s = 202 \<or> s = 204 then None
         else if s = 400 then Some (http400ErrCount, ApiBadRequestError (ar_ErrorCodes r) (ar_Message r))
         else if s = 401 then Some (http401ErrCount, ApiAuthorizationError)
         else if s = 403 then Some (http403ErrCount, ApiForbiddenError)
         else if s = 404 then Some (http404ErrCount, ApiNotFoundError)
         else if s = 409 then Some (http409ErrCount, ApiConflictError)
         else if s = 500 then Some (http500ErrCount, ApiInternalError (Some (ar_Message r)))
         else if s = 503 then Some (http503ErrCount, ApiNotAvailableError)
         else Some (generalErrCount, ApiError))"

text \<open>The part of \<open>do\<close> after the exchange: the response or the error, and the endpoint's counters.\<close>

definition handle_reply :: "http_reply \<Rightarrow> ApiClient \<Rightarrow> (api_error, ApiResponse) outcome \<times> ApiClient" where
  "handle_reply reply a =
     (case reply of
        NoReply \<Rightarrow> (Err transportError, bump transportErrCount a)
      | BrokenBody s \<Rightarrow>
          (Err (ApiInternalError None), bump parseErrCount (if s \<noteq> 200 then bump failCount a else a))
      | Reply s body \<Rightarrow>
          (let a2 = bump parseErrCount (if s \<noteq> 200 then bump failCount a else a)
           in case body of
                None \<Rightarrow> (Err ApiError, a2)
              | Some j \<Rightarrow>
                  (let r = decode_ApiResponse s j
                   in case classify_status r of
                        None \<Rightarrow> (Ok r, a2)
                      | Some (c, e) \<Rightarrow> (Err e, bump c a2))))"

definition make_request ::
  "ApiClient \<Rightarrow> ApiEndPoint \<Rightarrow> bool \<Rightarrow> string \<Rightarrow> string \<Rightarrow> json option \<Rightarrow> (string \<times> string) list \<Rightarrow> http_request"
where
  "make_request a endpoint logged meth path payload query =
     \<lparr> rq_method = meth, rq_host = base_url a endpoint, rq_path = path,
       rq_token = (if logged then Some (apiToken a) else None),
       rq_query = (if query \<noteq> [] \<and> UrlQueryParams (CompatibilityMap a) then query else []),
       rq_body = payload \<rparr>"

definition api_do ::
  "'w env \<Rightarrow> string \<Rightarrow> string \<Rightarrow> json option \<Rightarrow> (string \<times> string) list \<Rightarrow> 'w api_st
    \<Rightarrow> (api_error, ApiResponse) outcome \<times> 'w api_st"
where
  "api_do E meth path payload query st0 =
     (if Endpoints (creds (fst st0)) = [] then (Err ApiNoEndpointsError, st0)
      else case getEndpoint E st0 of
             (None, st1) \<Rightarrow> (Panic, st1)
           | (Some endpoint, st1) \<Rightarrow>
               (let (logged, st2) = isLoggedIn E st1;
                    a = bump requestCount (fst st2);
                    (reply, w') = env_http E (make_request a endpoint logged meth path payload query) (snd st2);
                    (r, a') = handle_reply reply a
                in (r, (a', w'))))"

text \<open>
  \<open>handleTransientErrors\<close>: of the errors \<open>do\<close> returns, the transport error and the unavailable
  service are transient.
\<close>

definition transient :: "api_error \<Rightarrow> bool" where
  "transient e \<longleftrightarrow> e = transportError \<or> e = ApiNotAvailableError"

text \<open>
  One run of the closure in \<open>request\<close>: success with the decoded data, an error that is not to be
  retried (the embedded error may be nil, and the target may have been decoded), or a transient error.
\<close>

datatype attempt = Done "json option" | NonTransient "api_error option" "json option" | Retry api_error | Crash

definition request_once ::
  "'w env \<Rightarrow> string \<Rightarrow> string \<Rightarrow> json option \<Rightarrow> (string \<times> string) list \<Rightarrow> 'w api_st \<Rightarrow> attempt \<times> 'w api_st"
where
  "request_once E meth path payload query st =
     (case api_do E meth path payload query st of
        (Panic, st1) \<Rightarrow> (Crash, st1)
      | (Err e, st1) \<Rightarrow>
          if transient e then (Retry e, rotateEndpoint E st1) else (NonTransient (Some e) None, st1)
      | (Ok r, st1) \<Rightarrow>
          if ar_ErrorCodes r \<noteq> [] then (NonTransient None None, st1)
          else if ar_HttpStatusCode r = 200 then (Done (Some (ar_Data r)), st1)
          else (NonTransient None (Some (ar_Data r)), st1))"

definition ApiRetryMaxCount :: nat where "ApiRetryMaxCount = 5"

text \<open>The attempts left are counted down; the number in the final error is that of the last call.\<close>

function retryBackoff ::
  "'w env \<Rightarrow> nat \<Rightarrow> int \<Rightarrow> ('w api_st \<Rightarrow> attempt \<times> 'w api_st) \<Rightarrow> 'w api_st
    \<Rightarrow> (api_error, json option) outcome \<times> 'w api_st"
where
  "retryBackoff E attempts sleep f st =
     (case f st of
        (Done v, st1) \<Rightarrow> (Ok v, st1)
      | (NonTransient None v, st1) \<Rightarrow> (Ok v, st1)
      | (NonTransient (Some e) v, st1) \<Rightarrow> (Err e, st1)
      | (Crash, st1) \<Rightarrow> (Panic, st1)
      | (Retry e, (a, w)) \<Rightarrow>
          if attempts > 1
          then (let (jitter, w1) = env_intn E sleep w;
                    sleep1 = sleep + jitter div 2
                in retryBackoff E (attempts - 1) sleep1 f (a, env_sleep E sleep1 w1))
          else (Err (ApiRetriesExceeded attempts), (a, w)))"
  by pat_completeness auto
termination by (relation "measure (\<lambda>(E, n, s, f, st). n)") auto

definition request ::
  "'w env \<Rightarrow> string \<Rightarrow> string \<Rightarrow> json option \<Rightarrow> (string \<times> string) list \<Rightarrow> 'w api_st
    \<Rightarrow> (api_error, json option) outcome \<times> 'w api_st"
where
  "request E meth path payload query st =
     retryBackoff E ApiRetryMaxCount (seconds 1) (request_once E meth path payload query) st"

subsection \<open>Login\<close>

type_synonym 'w sender =
  "string \<Rightarrow> string \<Rightarrow> json option \<Rightarrow> (string \<times> string) list \<Rightarrow> 'w api_st \<Rightarrow> json option go \<times> 'w api_st"

definition jopt :: "json option \<Rightarrow> json" where
  "jopt v = (case v of Some j \<Rightarrow> j | None \<Rightarrow> JNull)"

definition lift_api :: "(api_error, 'a) outcome \<times> 'w api_st \<Rightarrow> 'a go \<times> 'w api_st" where
  "lift_api r = (case r of (Ok v, st) \<Rightarrow> (Ok v, st) | (Err e, st) \<Rightarrow> (Err (Api e), st) | (Panic, st) \<Rightarrow> (Panic, st))"

text \<open>The functions below send nested requests through \<open>send\<close>, which stands for \<open>Request\<close>.\<close>

definition updateTokensExpiryInterval :: "'w sender \<Rightarrow> ('w, unit) api" where
  "updateTokensExpiryInterval send st =
     (case send ''GET'' ''security/defaultTokensExpiry'' None [] st of
        (Ok v, (a, w)) \<Rightarrow>
          (Ok (), (a\<lparr>refreshTokenExpiryInterval := jint (jfield ''refresh_token_expiry'' (jopt v)),
                     apiTokenExpiryInterval := jint (jfield ''access_token_expiry'' (jopt v))\<rparr>, w))
      | (Err e, st1) \<Rightarrow> (Err e, st1)
      | (Panic, st1) \<Rightarrow> (Panic, st1))"

definition fetchClusterInfo :: "'w env \<Rightarrow> 'w sender \<Rightarrow> ('w, unit) api" where
  "fetchClusterInfo E send st =
     (case send ''GET'' ''cluster'' None [] st of
        (Ok v, (a, w)) \<Rightarrow>
          (Ok (), (a\<lparr>ClusterName := jstr (jfield ''name'' (jopt v)),
                     ClusterGuid := juuid (jfield ''guid'' (jopt v)),
                     CompatibilityMap := fillIn (env_version_ge E) (''v'' @ jstr (jfield ''release'' (jopt v)))\<rparr>, w))
      | (Err e, st1) \<Rightarrow> (Err e, st1)
      | (Panic, st1) \<Rightarrow> (Panic, st1))"

definition fetchUserRoleAndOrgId :: "'w sender \<Rightarrow> ('w, unit) api" where
  "fetchUserRoleAndOrgId send st =
     (case send ''GET'' ''users/whoami'' None [] st of
        (Ok v, (a, w)) \<Rightarrow>
          (Ok (), (a\<lparr>ApiUserRole := jstr (jfield ''role'' (jopt v)), ApiOrgId := jint (jfield ''org_id'' (jopt v))\<rparr>, w))
      | (Err e, st1) \<Rightarrow> (Ok (), st1)
      | (Panic, st1) \<Rightarrow> (Panic, st1))"

definition ensureSufficientPermissions :: "'w sender \<Rightarrow> ('w, unit) api" where
  "ensureSufficientPermissions send st =
     (case fetchUserRoleAndOrgId send st of
        (Ok (), st1) \<Rightarrow>
          if \<not> HasCSIPermissions (fst st1) then (Err (Plain ''insufficient permissions''), st1) else (Ok (), st1)
      | (Err e, st1) \<Rightarrow> (Err e, st1)
      | (Panic, st1) \<Rightarrow> (Panic, st1))"

definition node_path :: "ApiClient \<Rightarrow> string" where
  "node_path a = (if NewNodeApiObjectPath (CompatibilityMap a) then ''processes'' else ''nodes'')"

text \<open>A failure to list the nodes is turned into an empty list.\<close>

definition GetNodesByRole :: "'w sender \<Rightarrow> string \<Rightarrow> ('w, WekaNode list) api" where
  "GetNodesByRole send role st =
     (case send ''GET'' (node_path (fst st)) None [] st of
        (Ok v, st1) \<Rightarrow> (Ok (filter (hasRole role) (map decode_WekaNode (jarr (jopt v)))), st1)
      | (Err e, st1) \<Rightarrow> (Ok [], st1)
      | (Panic, st1) \<Rightarrow> (Panic, st1))"

definition UpdateApiEndpoints :: "'w env \<Rightarrow> 'w sender \<Rightarrow> ('w, unit) api" where
  "UpdateApiEndpoints E send st =
     (case GetNodesByRole send ''MANAGEMENT'' st of
        (Ok nodes, (a, w)) \<Rightarrow>
          if nodes = [] then (Err (Plain ''no management nodes found''), (a, w))
          else (let (now, w1) = env_now E w;
                    a1 = a\<lparr>actualApiEndpoints := update_endpoint_map now nodes (actualApiEndpoints a)\<rparr>
                in (Ok (), rotateEndpoint E (a1, w1)))
      | (Err e, st1) \<Rightarrow> (Err e, st1)
      | (Panic, st1) \<Rightarrow> (Panic, st1))"

definition login_body :: "Credentials \<Rightarrow> json" where
  "login_body c = JObj [(''username'', JStr (Username c)), (''password'', JStr (Password c)), (''org'', JStr (Organization c))]"

definition store_login :: "'w env \<Rightarrow> json \<Rightarrow> 'w api_st \<Rightarrow> 'w api_st" where
  "store_login E j st =
     (case st of (a, w) \<Rightarrow>
       (let (now, w1) = env_now E w
        in (a\<lparr>apiToken := jstr (jfield ''access_token'' j), refreshToken := jstr (jfield ''refresh_token'' j),
               apiTokenExpiryDate := now + seconds (jint (jfield ''expires_in'' j) - 30)\<rparr>, w1)))"

text \<open>The log line that prints the endpoint in use reads it through the pointer.\<close>

definition log_endpoint :: "'w env \<Rightarrow> ('w, unit) api" where
  "log_endpoint E st = (case getEndpoint E st of (None, st1) \<Rightarrow> (Panic, st1) | (Some e, st1) \<Rightarrow> (Ok (), st1))"

text \<open>The part of \<open>Login\<close> after the token is stored.\<close>

definition finish_login :: "'w env \<Rightarrow> 'w sender \<Rightarrow> ('w, unit) api" where
  "finish_login E send st0 =
     (case (if refreshTokenExpiryInterval (fst st0) < 1 then updateTokensExpiryInterval send st0 else (Ok (), st0)) of
        (Panic, st1) \<Rightarrow> (Panic, st1)
      | (_, (a, w)) \<Rightarrow>
          (let (now, w1) = env_now E w;
               st1 = (a\<lparr>refreshTokenExpiryDate := now + seconds (refreshTokenExpiryInterval a)\<rparr>, w1)
           in case ensureSufficientPermissions send st1 of
                (Err e, st2) \<Rightarrow> (Err e, st2)
              | (Panic, st2) \<Rightarrow> (Panic, st2)
              | (Ok (), st2) \<Rightarrow>
                  (case fetchClusterInfo E send st2 of
                     (Err e, st3) \<Rightarrow> (Err e, st3)
                   | (Panic, st3) \<Rightarrow> (Panic, st3)
                   | (Ok (), st3) \<Rightarrow>
                       if AutoUpdateEndpoints (creds (fst st3))
                       then (case UpdateApiEndpoints E send st3 of
                               (Panic, st4) \<Rightarrow> (Panic, st4)
                             | (Err e, st4) \<Rightarrow> (Ok (), st4)
                             | (Ok (), st4) \<Rightarrow> log_endpoint E st4)
                       else log_endpoint E st3)))"

definition Login :: "'w env \<Rightarrow> bool \<Rightarrow> 'w sender \<Rightarrow> ('w, unit) api" where
  "Login E locked send st0 =
     (case isLoggedIn E st0 of
        (True, st1) \<Rightarrow> (Ok (), st1)
      | (False, st1) \<Rightarrow>
          if locked then (Panic, st1)
          else (case request E ''POST'' ''login'' (Some (login_body (creds (fst st1)))) [] st1 of
                  (Err e, st2) \<Rightarrow> (Err (Api e), st2)
                | (Panic, st2) \<Rightarrow> (Panic, st2)
                | (Ok v, st2) \<Rightarrow> finish_login E send (store_login E (jopt v) st2)))"

definition store_refresh :: "'w env \<Rightarrow> json \<Rightarrow> 'w api_st \<Rightarrow> 'w api_st" where
  "store_refresh E j st =
     (case st of (a, w) \<Rightarrow>
       (let (now, w1) = env_now E w
        in (a\<lparr>refreshToken := jstr (jfield ''refresh_token'' j), apiToken := jstr (jfield ''access_token'' j),
               apiTokenExpiryDate := now + seconds (apiTokenExpiryInterval a - 30)\<rparr>, w1)))"

definition Init :: "'w env \<Rightarrow> bool \<Rightarrow> 'w sender \<Rightarrow> ('w, unit) api" where
  "Init E locked send st0 =
     (case st0 of (a0, w0) \<Rightarrow>
       (let (now, w1) = env_now E w0
        in if apiTokenExpiryDate a0 > now then (Ok (), (a0, w1))
           else case isLoggedIn E (a0, w1) of
                  (False, st1) \<Rightarrow> Login E locked send st1
                | (True, st1) \<Rightarrow>
                    (case request E ''POST'' ''login/refresh''
                            (Some (JObj [(''refresh_token'', JStr (refreshToken (fst st1)))])) [] st1 of
                       (Err e, st2) \<Rightarrow> Login E locked send st2
                     | (Panic, st2) \<Rightarrow> (Panic, st2)
                     | (Ok v, st2) \<Rightarrow> (Ok (), store_refresh E (jopt v) st2))))"

text \<open>
  \<open>Request\<close> of a client whose mutex is held, or not.  Inside \<open>Login\<close> the nested requests are those
  of a locked client; a locked client sends no further nested requests, as its \<open>Login\<close> blocks.
\<close>

definition Request_with :: "'w env \<Rightarrow> bool \<Rightarrow> 'w sender \<Rightarrow> 'w sender" where
  "Request_with E locked send meth path payload query st =
     (case Init E locked send st of
        (Err e, st1) \<Rightarrow> (Err e, st1)
      | (Panic, st1) \<Rightarrow> (Panic, st1)
      | (Ok (), st1) \<Rightarrow> lift_api (request E meth path payload query st1))"

definition blocked_sender :: "'w sender" where
  "blocked_sender meth path payload query st = (Panic, st)"

definition Request_locked :: "'w env \<Rightarrow> 'w sender" where
  "Request_locked E = Request_with E True blocked_sender"

definition Request :: "'w env \<Rightarrow> 'w sender" where
  "Request E = Request_with E False (Request_locked E)"

definition Get :: "'w env \<Rightarrow> string \<Rightarrow> (string \<times> string) list \<Rightarrow> ('w, json option) api" where
  "Get E path query = Request E ''GET'' path None query"

definition Post :: "'w env \<Rightarrow> string \<Rightarrow> json \<Rightarrow> ('w, json option) api" where
  "Post E path payload = Request E ''POST'' path (Some payload) []"

definition Put :: "'w env \<Rightarrow> string \<Rightarrow> json \<Rightarrow> ('w, json option) api" where
  "Put E path payload = Request E ''PUT'' path (Some payload) []"

definition Delete :: "'w env \<Rightarrow> string \<Rightarrow> ('w, json option) api" where
  "Delete E path = Request E ''DELETE'' path None []"

subsection \<open>Creation\<close>

definition zero_compat :: WekaCompatibilityMap where
  "zero_compat =
     \<lparr> FilesystemAsCSIVolume = False, DirectoryAsCSIVolume = False, QuotaOnDirectoryVolume = False,
       QuotaOnSnapshot = False, MountFilesystemsUsingAuthToken = False,
       CreateNewFilesystemFromSnapshot = False, CloneFilesystem = False, UrlQueryParams = False,
       SyncOnCloseMountOption = False, SingleClientMultipleClusters = False,
       NewNodeApiObjectPath = False, EncryptionWithNoKms = False, EncryptionWithClusterKey = False,
       EncryptionWithCustomSettings = False, ResolvePathToInode = False,
       ResolvePathToInodeCsiRole = False, SetSelfAsFilesystemOwnerOnCreate = False \<rparr>"

definition zero_kms :: KmsVaultCredentials where
  "zero_kms = \<lparr> kms_KeyIdentifier = [], kms_Namespace = [], kms_RoleId = [], kms_SecretId = [], kms_Url = [] \<rparr>"

definition zero_Credentials :: Credentials where
  "zero_Credentials =
     \<lparr> Username = [], Password = [], Organization = [], HttpScheme = [], Endpoints = [], LocalContainerName = [],
       AutoUpdateEndpoints = False, CaCertificate = [], NfsTargetIPs = [],
       KmsPreexistingCredentialsForVolumeEncryption = zero_kms, KmsKeyManagementCredentials = zero_kms \<rparr>"

text \<open>The zero \<open>time.Time\<close> is before every clock reading; the model writes it as 0 and clock readings
  are positive.\<close>

definition zero_client :: "Credentials \<Rightarrow> ApiClient" where
  "zero_client c =
     \<lparr> creds = c, ClusterGuid = uuid_Nil, ClusterName = [], actualApiEndpoints = [], currentEndpoint = [],
       apiToken = [], apiTokenExpiryDate = 0, refreshToken = [], apiTokenExpiryInterval = 0,
       refreshTokenExpiryInterval = 0, refreshTokenExpiryDate = 0, CompatibilityMap = zero_compat,
       ApiUserRole = [], ApiOrgId = 0, containerName = [], NfsInterfaceGroups = [], NfsInterfaceGroupName = [],
       NfsClientGroupName = [], containers = None \<rparr>"

definition NewApiClient :: "'w env \<Rightarrow> Credentials \<Rightarrow> 'w \<Rightarrow> ApiClient go \<times> 'w" where
  "NewApiClient E c w =
     (let (a, w') = resetDefaultEndpoints E (zero_client c, w)
      in if Endpoints (creds a) = [] then (Err (Api ApiNoEndpointsError), w') else (Ok a, w'))"

text \<open>For the witnesses: a cluster that gives one reply to everything, and a client with a valid token.\<close>

definition reply_env :: "http_reply \<Rightarrow> 'w env" where
  "reply_env x = null_env\<lparr>env_http := \<lambda>r w. (x, w)\<rparr>"

definition test_client :: ApiClient where
  "test_client = (zero_client (zero_Credentials\<lparr>Endpoints := [''10.0.0.1:14000'']\<rparr>))\<lparr>apiTokenExpiryDate := 2\<rparr>"

subsection \<open>Invariants\<close>

text \<open>The chosen endpoint is unset or an entry of the map, and some configured endpoint is valid.\<close>

definition ep_keys :: "ApiClient \<Rightarrow> string set" where
  "ep_keys a = fst ` set (actualApiEndpoints a)"

definition endpoints_ok :: "ApiClient \<Rightarrow> bool" where
  "endpoints_ok a \<longleftrightarrow>
     (currentEndpoint a = [] \<or> currentEndpoint a \<in> ep_keys a)
     \<and> list_ex (\<lambda>e. parse_endpoint e \<noteq> None) (Endpoints (creds a))"

text \<open>The tokens of a client and their expiry.\<close>

definition session :: "ApiClient \<Rightarrow> string \<times> string \<times> int \<times> int \<times> int" where
  "session a =
     (apiToken a, refreshToken a, apiTokenExpiryDate a, refreshTokenExpiryDate a, refreshTokenExpiryInterval a)"

subsection \<open>Counting exchanges\<close>

text \<open>An observation of the world that counts HTTP exchanges and nothing else.\<close>

definition counts_http :: "'w env \<Rightarrow> ('w \<Rightarrow> nat) \<Rightarrow> bool" where
  "counts_http E cnt \<longleftrightarrow>
     (\<forall>r w. cnt (snd (env_http E r w)) = Suc (cnt w)) \<and> (\<forall>w. cnt (snd (env_now E w)) = cnt w)
     \<and> (\<forall>n w. cnt (snd (env_intn E n w)) = cnt w) \<and> (\<forall>d w. cnt (env_sleep E d w) = cnt w)"

section \<open>Endpoints and single exchanges\<close>

lemma counts_httpD:
  assumes "counts_http E cnt"
  shows "env_http E r w = (x, w') \<Longrightarrow> cnt w' = Suc (cnt w)"
    and "env_now E w = (y, w') \<Longrightarrow> cnt w' = cnt w"
    and "env_intn E n w = (z, w') \<Longrightarrow> cnt w' = cnt w"
    and "cnt (env_sleep E d w) = cnt w"
  using assms unfolding counts_http_def by (metis snd_conv)+

lemma add_endpoint_cnt:
  assumes "counts_http E cnt"
  shows "cnt (snd (add_endpoint E e mw)) = cnt (snd mw)"
  by (auto simp: add_endpoint_def split: option.splits prod.splits dest: counts_httpD(2) [OF assms])

lemma fold_add_endpoint_cnt:
  assumes "counts_http E cnt"
  shows "cnt (snd (fold (add_endpoint E) es mw)) = cnt (snd mw)"
  by (induction es arbitrary: mw) (simp_all add: add_endpoint_cnt [OF assms])

lemma resetDefaultEndpoints_cnt:
  assumes "counts_http E cnt"
  shows "cnt (snd (resetDefaultEndpoints E st)) = cnt (snd st)"
  using fold_add_endpoint_cnt [OF assms, of "Endpoints (creds (fst st))" "([], snd st)"]
  by (simp add: resetDefaultEndpoints_def case_prod_beta)

lemma rotateEndpoint_cnt:
  assumes "counts_http E cnt"
  shows "cnt (snd (rotateEndpoint E st)) = cnt (snd st)"
  using resetDefaultEndpoints_cnt [OF assms, of st] counts_httpD(3) [OF assms]
  by (auto simp: rotateEndpoint_def Let_def split: prod.splits if_splits)

lemma getEndpoint_cnt:
  assumes "counts_http E cnt"
  shows "cnt (snd (snd (getEndpoint E st))) = cnt (snd st)"
  using rotateEndpoint_cnt [OF assms, of st] by (simp add: getEndpoint_def Let_def)

lemma isLoggedIn_cnt:
  assumes "counts_http E cnt"
  shows "cnt (snd (snd (isLoggedIn E st))) = cnt (snd st)"
  using counts_httpD(2) [OF assms] by (auto simp: isLoggedIn_def Let_def split: prod.splits)

lemma api_do_cnt:
  assumes "counts_http E cnt"
  shows "cnt (snd (snd (api_do E m p b q st))) \<le> Suc (cnt (snd st))"
proof -
  obtain ep st1 where g: "getEndpoint E st = (ep, st1)" by (cases "getEndpoint E st")
  then have c1: "cnt (snd st1) = cnt (snd st)" using getEndpoint_cnt [OF assms, of st] by simp
  obtain l st2 where i: "isLoggedIn E st1 = (l, st2)" by (cases "isLoggedIn E st1")
  then have c2: "cnt (snd st2) = cnt (snd st)" using isLoggedIn_cnt [OF assms, of st1] c1 by simp
  show ?thesis
    using c1 c2 counts_httpD(1) [OF assms]
    by (auto simp: api_do_def g i Let_def split: option.splits prod.splits)
qed

lemma request_once_cnt:
  assumes "counts_http E cnt"
  shows "cnt (snd (snd (request_once E m p b q st))) \<le> Suc (cnt (snd st))"
  using api_do_cnt [OF assms, of m p b q st] rotateEndpoint_cnt [OF assms]
  by (auto simp: request_once_def split: prod.splits outcome.splits)

declare retryBackoff.simps [simp del]

lemma retryBackoff_cnt:
  assumes "counts_http E cnt" "\<And>st. cnt (snd (snd (f st))) \<le> Suc (cnt (snd st))" "0 < n"
  shows "cnt (snd (snd (retryBackoff E n s f st))) \<le> cnt (snd st) + n"
  using assms(3)
proof (induction n arbitrary: s st)
  case (Suc n)
  obtain r a w where f: "f st = (r, (a, w))" by (metis prod_cases3)
  then have c: "cnt w \<le> Suc (cnt (snd st))" using assms(2) [of st] by simp
  show ?case
  proof (cases "\<exists>e. r = Retry e \<and> n \<noteq> 0")
    case True
    obtain j w1 where j: "env_intn E s w = (j, w1)" by (cases "env_intn E s w")
    let ?s = "s + j div 2"
    have "cnt (env_sleep E ?s w1) = cnt w"
      using counts_httpD(3) [OF assms(1) j] counts_httpD(4) [OF assms(1)] by simp
    moreover have "retryBackoff E (Suc n) s f st = retryBackoff E n ?s f (a, env_sleep E ?s w1)"
      using True f j by (auto simp: retryBackoff.simps [of E "Suc n"] Let_def)
    ultimately show ?thesis
      using Suc.IH [of ?s "(a, env_sleep E ?s w1)"] True c by simp
  next
    case False
    then have "snd (retryBackoff E (Suc n) s f st) = (a, w)"
      using f by (auto simp: retryBackoff.simps [of E "Suc n"] split: attempt.splits option.splits)
    with c show ?thesis by simp
  qed
qed simp

lemma api_do_Ok_status: "api_do E m p b q st = (Ok r, st') \<Longrightarrow> ar_HttpStatusCode r \<in> {200, 201, 202, 204}"
proof -
  assume "api_do E m p b q st = (Ok r, st')"
  then obtain reply a a' where "handle_reply reply a = (Ok r, a')"
    by (auto simp: api_do_def Let_def split: if_splits option.splits prod.splits)
  then show ?thesis
    by (auto simp: handle_reply_def Let_def classify_status_def split: if_splits option.splits http_reply.splits)
qed

lemma api_do_Err_kind: "api_do E m p b q st = (Err e, st') \<Longrightarrow> \<forall>k. e \<noteq> ApiRetriesExceeded k"
proof -
  assume a: "api_do E m p b q st = (Err e, st')"
  have "\<forall>k. e \<noteq> ApiRetriesExceeded k" if "handle_reply reply a = (Err e, a')" for reply a a'
    using that by (auto simp: handle_reply_def Let_def classify_status_def split: if_splits option.splits http_reply.splits)
  with a show ?thesis
    by (auto simp: api_do_def Let_def split: if_splits option.splits prod.splits)
qed

lemma request_once_errors:
  "request_once E m p b q st = (NonTransient (Some e) v, st') \<Longrightarrow> \<not> transient e \<and> (\<forall>k. e \<noteq> ApiRetriesExceeded k)"
  by (auto simp: request_once_def split: if_splits prod.splits outcome.splits dest: api_do_Err_kind)

lemma retryBackoff_error:
  assumes "\<And>st e v st'. f st = (NonTransient (Some e) v, st') \<Longrightarrow> P e" "\<And>k. k = 1 \<Longrightarrow> P (ApiRetriesExceeded k)" "0 < n"
  shows "fst (retryBackoff E n s f st) = Err e \<Longrightarrow> P e"
  using assms(3)
proof (induction n arbitrary: s st)
  case (Suc n)
  obtain r a w where f: "f st = (r, (a, w))" by (metis prod_cases3)
  show ?case
  proof (cases "\<exists>e. r = Retry e \<and> n \<noteq> 0")
    case True
    then show ?thesis
      using f Suc.IH Suc.prems by (auto simp: retryBackoff.simps [of E "Suc n"] Let_def split: prod.splits)
  next
    case False
    then show ?thesis
      using f Suc.prems assms(1) [of st e _ "(a, w)"] assms(2)
      by (auto simp: retryBackoff.simps [of E "Suc n"] split: attempt.splits option.splits)
  qed
qed simp

section \<open>Invariants of single requests\<close>

lemma retryBackoff_inv:
  assumes "\<And>st. P (fst st) \<Longrightarrow> P (fst (snd (f st)))" "P (fst st)"
  shows "P (fst (snd (retryBackoff E n s f st)))"
  using assms(2)
proof (induction n arbitrary: s st)
  case 0
  then show ?case
    using assms(1) [of st]
    by (auto simp: retryBackoff.simps [of E 0] split: prod.splits attempt.splits option.splits)
next
  case (Suc n)
  obtain r a w where f: "f st = (r, (a, w))" by (metis prod_cases3)
  then have P: "P a" using assms(1) [of st] Suc.prems by simp
  then show ?case
    using f Suc.IH by (auto simp: retryBackoff.simps [of E "Suc n"] Let_def split: prod.splits attempt.splits option.splits)
qed

lemma retryBackoff_no_Panic:
  assumes "\<And>st. P (fst st) \<Longrightarrow> P (fst (snd (f st))) \<and> fst (f st) \<noteq> Crash" "P (fst st)"
  shows "fst (retryBackoff E n s f st) \<noteq> Panic"
  using assms(2)
proof (induction n arbitrary: s st)
  case 0
  then show ?case
    using assms(1) [of st]
    by (auto simp: retryBackoff.simps [of E 0] split: prod.splits attempt.splits option.splits)
next
  case (Suc n)
  obtain r a w where f: "f st = (r, (a, w))" by (metis prod_cases3)
  then have P: "P a" "r \<noteq> Crash" using assms(1) [of st] Suc.prems by auto
  then show ?case
    using f Suc.IH by (auto simp: retryBackoff.simps [of E "Suc n"] Let_def split: prod.splits attempt.splits option.splits)
qed

lemma bump_fields [simp]:
  "session (bump c a) = session a" "creds (bump c a) = creds a" "currentEndpoint (bump c a) = currentEndpoint a"
  "ep_keys (bump c a) = ep_keys a"
  by (simp_all add: bump_def session_def ep_keys_def dom_map_entry)

lemma handle_reply_fields:
  assumes "handle_reply r a = (x, a')"
  shows "session a' = session a" "creds a' = creds a" "currentEndpoint a' = currentEndpoint a"
    "ep_keys a' = ep_keys a"
  using assms by (auto simp: handle_reply_def Let_def split: http_reply.splits option.splits prod.splits if_splits)

lemma resetDefaultEndpoints_fields [simp]:
  "session (fst (resetDefaultEndpoints E st)) = session (fst st)"
  "apiToken (fst (resetDefaultEndpoints E st)) = apiToken (fst st)"
  "refreshToken (fst (resetDefaultEndpoints E st)) = refreshToken (fst st)"
  "apiTokenExpiryDate (fst (resetDefaultEndpoints E st)) = apiTokenExpiryDate (fst st)"
  "refreshTokenExpiryDate (fst (resetDefaultEndpoints E st)) = refreshTokenExpiryDate (fst st)"
  "refreshTokenExpiryInterval (fst (resetDefaultEndpoints E st)) = refreshTokenExpiryInterval (fst st)"
  "creds (fst (resetDefaultEndpoints E st)) = creds (fst st)"
  by (simp_all add: resetDefaultEndpoints_def session_def case_prod_beta)

lemma rotateEndpoint_fields [simp]:
  "session (fst (rotateEndpoint E st)) = session (fst st)"
  "creds (fst (rotateEndpoint E st)) = creds (fst st)"
  by (simp_all add: rotateEndpoint_def session_def Let_def case_prod_beta)

lemma getEndpoint_fields [simp]:
  "session (fst (snd (getEndpoint E st))) = session (fst st)"
  "creds (fst (snd (getEndpoint E st))) = creds (fst st)"
  by (simp_all add: getEndpoint_def Let_def)

lemma isLoggedIn_client [simp]: "fst (snd (isLoggedIn E st)) = fst st"
  by (simp add: isLoggedIn_def case_prod_beta Let_def)

lemma add_endpoint_keys:
  "fst ` set (fst (add_endpoint E e mw)) = (if parse_endpoint e = None then {} else {e}) \<union> fst ` set (fst mw)"
  by (auto simp: add_endpoint_def dom_update split: option.splits prod.splits)

lemma fold_add_endpoint_keys:
  "fst ` set (fst (fold (add_endpoint E) es mw)) = {e \<in> set es. parse_endpoint e \<noteq> None} \<union> fst ` set (fst mw)"
  by (induction es arbitrary: mw) (auto simp: add_endpoint_keys)

lemma resetDefaultEndpoints_keys:
  "ep_keys (fst (resetDefaultEndpoints E st))
     = {e \<in> set (Endpoints (creds (fst st))). parse_endpoint e \<noteq> None}"
  using fold_add_endpoint_keys [of E "Endpoints (creds (fst st))" "([], snd st)"]
  by (simp add: resetDefaultEndpoints_def ep_keys_def case_prod_beta)

lemma rotateEndpoint_key:
  assumes "list_ex (\<lambda>e. parse_endpoint e \<noteq> None) (Endpoints (creds (fst st)))"
  shows "currentEndpoint (fst (rotateEndpoint E st)) \<in> ep_keys (fst (rotateEndpoint E st))"
proof -
  define st1 where "st1 = (if actualApiEndpoints (fst st) = [] then resetDefaultEndpoints E st else st)"
  have "actualApiEndpoints (fst (resetDefaultEndpoints E st)) \<noteq> []"
    using resetDefaultEndpoints_keys [of E st] assms by (force simp: list_ex_iff ep_keys_def)
  then have "actualApiEndpoints (fst st1) \<noteq> []" by (simp add: st1_def)
  then show ?thesis
    by (simp add: rotateEndpoint_def st1_def [symmetric] ep_keys_def Let_def case_prod_beta)
qed

lemma endpoints_ok_cong:
  assumes "endpoints_ok a" "creds a' = creds a" "currentEndpoint a' = currentEndpoint a"
    "ep_keys a' = ep_keys a"
  shows "endpoints_ok a'"
  using assms by (simp add: endpoints_ok_def)

lemma rotateEndpoint_ok: "endpoints_ok (fst st) \<Longrightarrow> endpoints_ok (fst (rotateEndpoint E st))"
  using rotateEndpoint_key [of st E] by (simp add: endpoints_ok_def)

lemma getEndpoint_ok:
  assumes "endpoints_ok (fst st)"
  shows "endpoints_ok (fst (snd (getEndpoint E st)))" "fst (getEndpoint E st) \<noteq> None"
proof -
  show "endpoints_ok (fst (snd (getEndpoint E st)))"
    using assms rotateEndpoint_ok [of st E] by (simp add: getEndpoint_def Let_def)
  show "fst (getEndpoint E st) \<noteq> None"
    using assms rotateEndpoint_key [of st E] by (auto simp: getEndpoint_def Let_def endpoints_ok_def ep_keys_def map_of_eq_None_iff)
qed

lemma api_do_session: "session (fst (snd (api_do E m p b q st))) = session (fst st)"
proof -
  obtain ep st1 where g: "getEndpoint E st = (ep, st1)" by (cases "getEndpoint E st")
  obtain l st2 where i: "isLoggedIn E st1 = (l, st2)" by (cases "isLoggedIn E st1")
  have "session (fst st1) = session (fst st)" "fst st2 = fst st1"
    using getEndpoint_fields [of E st] isLoggedIn_client [of E st1] g i by simp_all
  then show ?thesis
    by (auto simp: api_do_def g i Let_def split: option.splits prod.splits dest: handle_reply_fields(1))
qed

lemma api_do_ok:
  assumes "endpoints_ok (fst st)"
  shows "endpoints_ok (fst (snd (api_do E m p b q st))) \<and> fst (api_do E m p b q st) \<noteq> Panic"
proof -
  obtain ep st1 where g: "getEndpoint E st = (Some ep, st1)"
    using getEndpoint_ok(2) [OF assms, of E] by (cases "getEndpoint E st") auto
  obtain l st2 where i: "isLoggedIn E st1 = (l, st2)" by (cases "isLoggedIn E st1")
  have "endpoints_ok (fst st1)" "fst st2 = fst st1"
    using getEndpoint_ok(1) [OF assms, of E] isLoggedIn_client [of E st1] g i by simp_all
  then have ok: "endpoints_ok (bump requestCount (fst st2))" by (simp add: endpoints_ok_cong [of "fst st1"])
  have "endpoints_ok a'" "r \<noteq> Panic" if "handle_reply x (bump requestCount (fst st2)) = (r, a')" for x r a'
    using endpoints_ok_cong [OF ok handle_reply_fields(2-4) [OF that]] that
    by (auto simp: handle_reply_def Let_def split: http_reply.splits option.splits prod.splits if_splits)
  with assms show ?thesis
    by (auto simp: api_do_def g i Let_def split: prod.splits)
qed

lemma request_once_ok:
  assumes "endpoints_ok (fst st)"
  shows "endpoints_ok (fst (snd (request_once E m p b q st))) \<and> fst (request_once E m p b q st) \<noteq> Crash"
  using api_do_ok [OF assms, of E m p b q] rotateEndpoint_ok
  by (auto simp: request_once_def split: prod.splits outcome.splits)

lemma request_once_session: "session (fst (snd (request_once E m p b q st))) = session (fst st)"
proof -
  obtain r st1 where d: "api_do E m p b q st = (r, st1)" by (cases "api_do E m p b q st")
  then have "session (fst st1) = session (fst st)" using api_do_session [of E m p b q st] by simp
  then show ?thesis by (auto simp: request_once_def d split: outcome.splits)
qed

text \<open>A cluster that gives the same reply to every request.\<close>

lemma endpoints_ok_nonempty: "endpoints_ok a \<Longrightarrow> Endpoints (creds a) \<noteq> []"
  by (auto simp: endpoints_ok_def)

lemma api_do_reply:
  assumes "endpoints_ok (fst st)" "\<And>r w. fst (env_http E r w) = x"
  obtains a where "fst (api_do E m p b q st) = fst (handle_reply x a)"
proof -
  obtain ep st1 where g: "getEndpoint E st = (Some ep, st1)"
    using getEndpoint_ok(2) [OF assms(1), of E] by (cases "getEndpoint E st") auto
  obtain l st2 where i: "isLoggedIn E st1 = (l, st2)" by (cases "isLoggedIn E st1")
  then have "fst st2 = fst st1" using isLoggedIn_client [of E st1] by simp
  then have "fst (api_do E m p b q st) = fst (handle_reply x (bump requestCount (fst st2)))"
    using assms by (simp add: api_do_def g i Let_def case_prod_beta endpoints_ok_nonempty)
  then show thesis by (rule that)
qed

lemma request_rejected:
  assumes "endpoints_ok (fst st)" "\<And>r w. fst (env_http E r w) = Reply s (Some j)"
    "classify_status (decode_ApiResponse s j) = Some (c, e)" "\<not> transient e"
  shows "fst (request E m p b q st) = Err e"
proof -
  obtain a where "fst (api_do E m p b q st) = fst (handle_reply (Reply s (Some j)) a)"
    using api_do_reply [OF assms(1,2)] by blast
  then have "fst (api_do E m p b q st) = Err e"
    using assms(3) by (simp add: handle_reply_def Let_def)
  then have "fst (request_once E m p b q st) = NonTransient (Some e) None"
    using assms(4) by (cases "api_do E m p b q st") (simp add: request_once_def)
  then show ?thesis
    by (cases "request_once E m p b q st") (simp add: request_def retryBackoff.simps)
qed

lemma request_answered:
  assumes "endpoints_ok (fst st)" "\<And>r w. fst (env_http E r w) = Reply 200 (Some j)"
    "jarr (jfield ''data.exceptionClass'' j) = []"
  shows "fst (request E m p b q st) = Ok (Some (jfield ''data'' j))"
proof -
  obtain a where "fst (api_do E m p b q st) = fst (handle_reply (Reply 200 (Some j)) a)"
    using api_do_reply [OF assms(1,2)] by blast
  then have "fst (api_do E m p b q st) = Ok (decode_ApiResponse 200 j)"
    by (simp add: handle_reply_def classify_status_def decode_ApiResponse_def Let_def)
  then have "fst (request_once E m p b q st) = Done (Some (jfield ''data'' j))"
    using assms(3) by (cases "api_do E m p b q st") (simp add: request_once_def decode_ApiResponse_def)
  then show ?thesis
    by (cases "request_once E m p b q st") (simp add: request_def retryBackoff.simps)
qed

lemma request_unreachable:
  assumes "endpoints_ok (fst st)" "\<And>r w. fst (env_http E r w) = NoReply"
  shows "fst (request E m p b q st) = Err (ApiRetriesExceeded 1)"
proof -
  have once: "fst (request_once E m p b q st) = Retry transportError" if ok: "endpoints_ok (fst st)" for st
  proof -
    obtain a where "fst (api_do E m p b q st) = fst (handle_reply NoReply a)"
      using api_do_reply [OF ok assms(2)] by blast
    then show ?thesis
      by (cases "api_do E m p b q st") (simp add: request_once_def handle_reply_def transient_def)
  qed
  have "0 < n \<Longrightarrow> endpoints_ok (fst st) \<Longrightarrow>
      fst (retryBackoff E n s (request_once E m p b q) st) = Err (ApiRetriesExceeded 1)" for n s st
  proof (induction n arbitrary: s st)
    case (Suc n)
    obtain a w where f: "request_once E m p b q st = (Retry transportError, (a, w))"
      using once [OF Suc.prems(2)] by (cases "request_once E m p b q st") auto
    then have "endpoints_ok a" using request_once_ok [OF Suc.prems(2), of E m p b q] by simp
    then show ?case
      using f Suc.IH by (cases "n = 0") (simp_all add: retryBackoff.simps [of E "Suc n"] retryBackoff.simps [of E "Suc 0"] Let_def case_prod_beta)
  qed simp
  then show ?thesis using assms(1) by (simp add: request_def ApiRetryMaxCount_def)
qed

section \<open>Login and complete requests\<close>

lemma request_cnt:
  assumes "counts_http E cnt"
  shows "cnt (snd (snd (request E m p b q st))) \<le> cnt (snd st) + 5"
  using retryBackoff_cnt [OF assms request_once_cnt [OF assms, of m p b q], of 5]
  by (simp add: request_def ApiRetryMaxCount_def)

lemma lift_api_state [simp]: "snd (lift_api r) = snd r"
  by (auto simp: lift_api_def split: prod.splits outcome.splits)

lemma store_login_cnt:
  assumes "counts_http E cnt"
  shows "cnt (snd (store_login E j st)) = cnt (snd st)" "cnt (snd (store_refresh E j st)) = cnt (snd st)"
  using counts_httpD(2) [OF assms] by (auto simp: store_login_def store_refresh_def split: prod.splits)

lemma log_endpoint_cnt:
  assumes "counts_http E cnt"
  shows "cnt (snd (snd (log_endpoint E st))) = cnt (snd st)"
  using getEndpoint_cnt [OF assms, of st] by (auto simp: log_endpoint_def split: prod.splits option.splits)

text \<open>A sender that makes at most \<open>k\<close> exchanges per request.\<close>

definition sends_at_most :: "('w \<Rightarrow> nat) \<Rightarrow> nat \<Rightarrow> 'w sender \<Rightarrow> bool" where
  "sends_at_most cnt k send \<longleftrightarrow> (\<forall>m p b q st. cnt (snd (snd (send m p b q st))) \<le> cnt (snd st) + k)"

lemma sends_at_mostD:
  assumes "sends_at_most cnt k send" "send m p b q st = (r, st')"
  shows "cnt (snd st') \<le> cnt (snd st) + k"
  using assms unfolding sends_at_most_def by (metis snd_conv)

lemma login_steps_cnt:
  assumes "sends_at_most cnt k send"
  shows "cnt (snd (snd (updateTokensExpiryInterval send st))) \<le> cnt (snd st) + k"
    and "cnt (snd (snd (ensureSufficientPermissions send st))) \<le> cnt (snd st) + k"
    and "cnt (snd (snd (fetchClusterInfo E send st))) \<le> cnt (snd st) + k"
    and "cnt (snd (snd (GetNodesByRole send role st))) \<le> cnt (snd st) + k"
  by (auto simp: updateTokensExpiryInterval_def ensureSufficientPermissions_def fetchUserRoleAndOrgId_def
      fetchClusterInfo_def GetNodesByRole_def split: prod.splits outcome.splits unit.splits
      dest: sends_at_mostD [OF assms])

lemma UpdateApiEndpoints_cnt:
  assumes "sends_at_most cnt k send" "counts_http E cnt"
  shows "cnt (snd (snd (UpdateApiEndpoints E send st))) \<le> cnt (snd st) + k"
proof -
  obtain r a w where g: "GetNodesByRole send ''MANAGEMENT'' st = (r, (a, w))" by (metis prod_cases3)
  then have c: "cnt w \<le> cnt (snd st) + k" using login_steps_cnt(4) [OF assms(1), of "''MANAGEMENT''" st] by simp
  obtain n w1 where n: "env_now E w = (n, w1)" by (cases "env_now E w")
  then have "cnt w1 = cnt w" using counts_httpD(2) [OF assms(2)] by simp
  with c show ?thesis
    by (auto simp: UpdateApiEndpoints_def g n Let_def rotateEndpoint_cnt [OF assms(2)] split: outcome.splits)
qed

lemma finish_login_cnt:
  assumes "sends_at_most cnt k send" "counts_http E cnt"
  shows "cnt (snd (snd (finish_login E send st))) \<le> cnt (snd st) + 4 * k"
proof -
  define x where "x = (if refreshTokenExpiryInterval (fst st) < 1 then updateTokensExpiryInterval send st else (Ok (), st))"
  obtain r a w where x: "x = (r, (a, w))" by (metis prod_cases3)
  have c1: "cnt w \<le> cnt (snd st) + k"
    using login_steps_cnt(1) [OF assms(1), of st] x by (auto simp: x_def split: if_splits)
  obtain n w1 where n: "env_now E w = (n, w1)" by (cases "env_now E w")
  then have c2: "cnt w1 = cnt w" using counts_httpD(2) [OF assms(2)] by simp
  define st1 where "st1 = (a\<lparr>refreshTokenExpiryDate := n + seconds (refreshTokenExpiryInterval a)\<rparr>, w1)"
  obtain r2 st2 where p: "ensureSufficientPermissions send st1 = (r2, st2)" by (cases "ensureSufficientPermissions send st1")
  have c3: "cnt (snd st2) \<le> cnt (snd st) + 2 * k"
    using login_steps_cnt(2) [OF assms(1), of st1] p c1 c2 by (simp add: st1_def)
  obtain r3 st3 where f: "fetchClusterInfo E send st2 = (r3, st3)" by (cases "fetchClusterInfo E send st2")
  have c4: "cnt (snd st3) \<le> cnt (snd st) + 3 * k"
    using login_steps_cnt(3) [OF assms(1), of E st2] f c3 by simp
  obtain r4 st4 where u: "UpdateApiEndpoints E send st3 = (r4, st4)" by (cases "UpdateApiEndpoints E send st3")
  have c5: "cnt (snd st4) \<le> cnt (snd st) + 4 * k"
    using UpdateApiEndpoints_cnt [OF assms, of st3] u c4 by simp
  have "cnt (snd (snd (finish_login E send st))) \<in> {cnt w, cnt (snd st2), cnt (snd st3), cnt (snd st4)}"
    unfolding finish_login_def x_def [symmetric] x
    by (auto simp: n Let_def st1_def [symmetric] p f u log_endpoint_cnt [OF assms(2)] split: outcome.splits unit.splits)
  with c1 c3 c4 c5 show ?thesis by auto
qed

lemma Login_cnt:
  assumes "counts_http E cnt" "sends_at_most cnt k send"
  shows "cnt (snd (snd (Login E locked send st))) \<le> cnt (snd st) + (if locked then 0 else 5 + 4 * k)"
proof -
  obtain l st1 where i: "isLoggedIn E st = (l, st1)" by (cases "isLoggedIn E st")
  then have c1: "cnt (snd st1) = cnt (snd st)" using isLoggedIn_cnt [OF assms(1), of st] by simp
  define rq where "rq = request E ''POST'' ''login'' (Some (login_body (creds (fst st1)))) [] st1"
  obtain r st2 where r: "rq = (r, st2)" by (cases rq)
  then have c2: "cnt (snd st2) \<le> cnt (snd st) + 5" using request_cnt [OF assms(1)] c1 by (metis rq_def snd_conv)
  have c3: "cnt (snd (snd (finish_login E send (store_login E j st2)))) \<le> cnt (snd st) + (5 + 4 * k)" for j
    using finish_login_cnt [OF assms(2,1), of "store_login E j st2"] c2 by (simp add: store_login_cnt [OF assms(1)])
  have "snd (Login E locked send st) = st1 \<or> \<not> locked \<and> (snd (Login E locked send st) = st2
      \<or> (\<exists>v. snd (Login E locked send st) = snd (finish_login E send (store_login E (jopt v) st2))))"
    by (auto simp: Login_def i rq_def [symmetric] r split: outcome.splits bool.splits)
  then show ?thesis using c1 c2 c3 by (auto intro: trans_le_add1)
qed

lemma Init_cnt:
  assumes "counts_http E cnt" "sends_at_most cnt k send"
  shows "cnt (snd (snd (Init E locked send st))) \<le> cnt (snd st) + 5 + (if locked then 0 else 5 + 4 * k)"
proof -
  obtain a0 w0 where s: "st = (a0, w0)" by (cases st)
  obtain n w1 where n: "env_now E w0 = (n, w1)" by (cases "env_now E w0")
  then have c0: "cnt w1 = cnt w0" using counts_httpD(2) [OF assms(1)] by simp
  obtain l st1 where i: "isLoggedIn E (a0, w1) = (l, st1)" by (cases "isLoggedIn E (a0, w1)")
  then have c1: "cnt (snd st1) = cnt w0" using isLoggedIn_cnt [OF assms(1), of "(a0, w1)"] c0 by simp
  define rq where "rq = request E ''POST'' ''login/refresh'' (Some (JObj [(''refresh_token'', JStr (refreshToken (fst st1)))])) [] st1"
  obtain r st2 where r: "rq = (r, st2)" by (cases rq)
  then have c2: "cnt (snd st2) \<le> cnt w0 + 5" using request_cnt [OF assms(1)] c1 by (metis rq_def snd_conv)
  have "snd (Init E locked send st) \<in> {(a0, w1), st2, snd (Login E locked send st1), snd (Login E locked send st2)}
      \<or> (\<exists>v. snd (Init E locked send st) = store_refresh E (jopt v) st2)"
    by (auto simp: Init_def s n i Let_def rq_def [symmetric] r split: outcome.splits bool.splits)
  then show ?thesis
    using c0 c1 c2 Login_cnt [OF assms, of locked st1] Login_cnt [OF assms, of locked st2]
      by (auto simp: s store_login_cnt(2) [OF assms(1)])
qed

lemma Request_with_state:
  assumes "Init E locked send st = (r, st1)"
  shows "snd (Request_with E locked send m p b q st) = st1
    \<or> snd (Request_with E locked send m p b q st) = snd (request E m p b q st1)"
  using assms by (cases r) (simp_all add: Request_with_def split: unit.splits)

lemma Request_with_cnt:
  assumes "counts_http E cnt" "sends_at_most cnt k send"
  shows "sends_at_most cnt (10 + (if locked then 0 else 5 + 4 * k)) (Request_with E locked send)"
  unfolding sends_at_most_def
proof (intro allI)
  fix m p b q and st :: "'a api_st"
  define d where "d = (if locked then 0 else 5 + 4 * k)"
  obtain r st1 where i: "Init E locked send st = (r, st1)" by (cases "Init E locked send st")
  have 1: "cnt (snd st1) \<le> cnt (snd st) + 5 + d" using Init_cnt [OF assms, of locked st] i by (simp add: d_def)
  moreover have "cnt (snd (snd (request E m p b q st1))) \<le> cnt (snd st1) + 5" by (rule request_cnt [OF assms(1)])
  moreover have "snd (Request_with E locked send m p b q st) = st1
    \<or> snd (Request_with E locked send m p b q st) = snd (request E m p b q st1)"
    by (rule Request_with_state [OF i])
  ultimately show "cnt (snd (snd (Request_with E locked send m p b q st))) \<le> cnt (snd st) + (10 + (if locked then 0 else 5 + 4 * k))"
    unfolding d_def [symmetric] by (elim disjE) simp_all
qed

text \<open>With a valid token a request is a single \<open>request\<close>.\<close>

lemma Request_valid_token:
  assumes "env_now E w = (now, w1)" "now < apiTokenExpiryDate a"
  shows "Request E m p b q (a, w) = lift_api (request E m p b q (a, w1))"
  using assms by (simp add: Request_def Request_with_def Init_def split: unit.splits)

lemma test_client_ok [simp]: "endpoints_ok test_client" "apiTokenExpiryDate test_client = 2"
  unfolding test_client_def by code_simp+

lemma reply_env_simps [simp]:
  "env_http (reply_env x) r w = (x, w)" "env_now (reply_env x) w = (1, w)" "env_polls (reply_env x) = 2"
  "env_sleep (reply_env x) d w = w"
  by (simp_all add: reply_env_def null_env_def)

text \<open>A client of a cluster with one reply: logged in, endpoints valid, and the token never expires.\<close>

definition settled :: "'w api_st \<Rightarrow> bool" where
  "settled st \<longleftrightarrow> endpoints_ok (fst st) \<and> apiTokenExpiryDate (fst st) = 2"

lemma request_settled: "settled st \<Longrightarrow> settled (snd (request E m p b q st))"
  unfolding settled_def request_def
proof (rule retryBackoff_inv [where P = "\<lambda>a. endpoints_ok a \<and> apiTokenExpiryDate a = 2"])
  fix s :: "'a api_st" assume "endpoints_ok (fst s) \<and> apiTokenExpiryDate (fst s) = 2"
  then show "endpoints_ok (fst (snd (request_once E m p b q s))) \<and> apiTokenExpiryDate (fst (snd (request_once E m p b q s))) = 2"
    using request_once_ok [of s E m p b q] request_once_session [of E m p b q s] by (simp add: session_def)
qed

lemma Request_answered:
  assumes "settled st" "jarr (jfield ''data.exceptionClass'' j) = []"
  obtains st' where "Request (reply_env (Reply 200 (Some j))) m p b q st = (Ok (Some (jfield ''data'' j)), st')" "settled st'"
proof -
  let ?E = "reply_env (Reply 200 (Some j))" and ?r = "request (reply_env (Reply 200 (Some j))) m p b q st"
  have "fst ?r = Ok (Some (jfield ''data'' j))"
    using assms by (intro request_answered) (simp_all add: settled_def)
  then obtain st' where r: "?r = (Ok (Some (jfield ''data'' j)), st')" by (metis prod.collapse)
  moreover have "Request ?E m p b q st = lift_api ?r"
    using Request_valid_token [of ?E "snd st" 1 "snd st" "fst st"] assms(1) by (simp add: settled_def)
  ultimately show thesis
    using that [of st'] request_settled [OF assms(1), of ?E m p b q] by (simp add: lift_api_def)
qed

lemma Request_rejected:
  assumes "settled st" "classify_status (decode_ApiResponse s j) = Some (c, e)" "\<not> transient e"
  obtains st' where "Request (reply_env (Reply s (Some j))) m p b q st = (Err (Api e), st')" "settled st'"
proof -
  let ?E = "reply_env (Reply s (Some j))" and ?r = "request (reply_env (Reply s (Some j))) m p b q st"
  have "fst ?r = Err e"
    using assms by (intro request_rejected) (simp_all add: settled_def)
  then obtain st' where r: "?r = (Err e, st')" by (metis prod.collapse)
  moreover have "Request ?E m p b q st = lift_api ?r"
    using Request_valid_token [of ?E "snd st" 1 "snd st" "fst st"] assms(1) by (simp add: settled_def)
  ultimately show thesis
    using that [of st'] request_settled [OF assms(1), of ?E m p b q] by (simp add: lift_api_def)
qed

section \<open>Properties\<close>



text \<open>
  An error of \<open>request\<close> is never a transient one, since those are retried, and when the retries
  are used up the error says that one attempt was made, not five: \<open>retryBackoff\<close> takes the number of
  attempts from the argument of its innermost call.
\<close>

lemma request_errors:
  assumes "fst (request E m p b q st) = Err e"
  shows "\<not> transient e \<and> (e \<in> range ApiRetriesExceeded \<longrightarrow> e = ApiRetriesExceeded 1)"
proof (rule retryBackoff_error [where P = "\<lambda>e. \<not> transient e \<and> (e \<in> range ApiRetriesExceeded \<longrightarrow> e = ApiRetriesExceeded 1)"])
  show "\<not> transient x \<and> (x \<in> range ApiRetriesExceeded \<longrightarrow> x = ApiRetriesExceeded 1)"
    if "request_once E m p b q s = (NonTransient (Some x) v, s')" for x v s s'
    using request_once_errors [OF that] by blast
  show "fst (retryBackoff E 5 (seconds 1) (request_once E m p b q) st) = Err e"
    using assms by (simp add: request_def ApiRetryMaxCount_def)
qed (simp_all add: transient_def)

lemma request_errors_example:
  "let c = zero_client (zero_Credentials\<lparr>Endpoints := [''10.0.0.1:14000'']\<rparr>)
   in fst (request null_env ''GET'' ''cluster'' None [] (c, ())) = Err (ApiRetriesExceeded 1)
      \<and> \<not> transient (ApiRetriesExceeded 1)"
proof -
  define c where "c = zero_client (zero_Credentials\<lparr>Endpoints := [''10.0.0.1:14000'']\<rparr>)"
  have "endpoints_ok c" unfolding c_def by code_simp
  then have r: "fst (request null_env ''GET'' ''cluster'' None [] (c, ())) = Err (ApiRetriesExceeded 1)"
    by (intro request_unreachable) (simp_all add: null_env_def)
  with request_errors [OF r] show ?thesis unfolding c_def [symmetric] Let_def by blast
qed

text \<open>
  \<open>request\<close> never touches the tokens of the client, on any reply.  In particular a reply with
  status 401 does not lead to a new login: the branch for it is reached only without an error, and
  \<open>do\<close> returns an error for that status.
\<close>

lemma request_session: "session (fst (snd (request E m p b q st))) = session (fst st)"
  using retryBackoff_inv [of "\<lambda>a. session a = session (fst st)" "request_once E m p b q" st]
  by (simp add: request_def request_once_session)

text \<open>
  C20: as long as one configured endpoint is a valid address, \<open>request\<close> never dereferences a nil
  endpoint, and it keeps the invariant that the current endpoint is an entry of the endpoint map.
\<close>

theorem request_endpoints:
  assumes "endpoints_ok (fst st)"
  shows "fst (request E m p b q st) \<noteq> Panic \<and> endpoints_ok (fst (snd (request E m p b q st)))"
proof
  show "fst (request E m p b q st) \<noteq> Panic"
    unfolding request_def by (rule retryBackoff_no_Panic [of endpoints_ok]) (rule request_once_ok assms, assumption?)+
  show "endpoints_ok (fst (snd (request E m p b q st)))"
    unfolding request_def by (rule retryBackoff_inv) (rule conjunct1 [OF request_once_ok] assms, assumption?)+
qed

theorem request_endpoints_witness:
  "let c = zero_client (zero_Credentials\<lparr>Endpoints := [''10.0.0.1:14000'']\<rparr>)
   in endpoints_ok c \<and> fst (request null_env ''GET'' ''cluster'' None [] (c, ())) \<noteq> Panic"
proof -
  define c where "c = zero_client (zero_Credentials\<lparr>Endpoints := [''10.0.0.1:14000'']\<rparr>)"
  have "endpoints_ok c" unfolding c_def by code_simp
  with request_endpoints [of "(c, ())" null_env "''GET''" "''cluster''" None "[]"]
  show ?thesis unfolding c_def [symmetric] Let_def by simp
qed

text \<open>
  When the token has expired and the refresh is rejected, \<open>Init\<close> calls \<open>Login\<close>, and \<open>Login\<close>
  returns at once because the client still counts as logged in.  \<open>Init\<close> then reports success with the
  rejected tokens unchanged, and no login request is sent.
\<close>

lemma Init_refresh_rejected:
  assumes "env_now E w = (now, w1)" "apiTokenExpiryDate a \<le> now" "isLoggedIn E (a, w1) = (True, st1)"
    "request E ''POST'' ''login/refresh'' (Some (JObj [(''refresh_token'', JStr (refreshToken a))])) [] st1 = (Err e, st2)"
    "isLoggedIn E st2 = (True, st3)"
  shows "Init E locked send (a, w) = (Ok (), st3) \<and> session (fst st3) = session a"
proof -
  have s1: "fst st1 = a" using isLoggedIn_client [of E "(a, w1)"] assms(3) by simp
  have s2: "session (fst st2) = session a"
    using retryBackoff_inv [of "\<lambda>x. session x = session a" "request_once E ''POST'' ''login/refresh''
        (Some (JObj [(''refresh_token'', JStr (refreshToken a))])) []" st1 E ApiRetryMaxCount "seconds 1"] assms(4) s1
    by (simp add: request_def request_once_session)
  have s3: "fst st3 = fst st2" using isLoggedIn_client [of E st2] assms(5) by simp
  have "Login E locked send st2 = (Ok (), st3)" by (simp add: Login_def assms(5))
  then have "Init E locked send (a, w) = (Ok (), st3)"
    using assms(2) by (simp add: Init_def assms(1,3) s1 assms(4))
  with s2 s3 show ?thesis by simp
qed

lemma Init_refresh_rejected_example:
  "let E = null_env\<lparr>env_http := \<lambda>r w. (Reply 401 (Some (JObj [])), w)\<rparr>;
       c = (zero_client (zero_Credentials\<lparr>Endpoints := [''10.0.0.1:14000'']\<rparr>))\<lparr>apiToken := ''t'', refreshToken := ''r''\<rparr>
   in fst (Init E False (Request_locked E) (c, ())) = Ok ()"
proof -
  define E :: "unit env" where "E = null_env\<lparr>env_http := \<lambda>r w. (Reply 401 (Some (JObj [])), w)\<rparr>"
  define c where "c = (zero_client (zero_Credentials\<lparr>Endpoints := [''10.0.0.1:14000'']\<rparr>))\<lparr>apiToken := ''t'', refreshToken := ''r''\<rparr>"
  define st2 where "st2 = snd (request E ''POST'' ''login/refresh'' (Some (JObj [(''refresh_token'', JStr (refreshToken c))])) [] (c, ()))"
  have 1: "env_now E () = (1, ())" "apiTokenExpiryDate c \<le> 1" "isLoggedIn E (c, ()) = (True, (c, ()))"
    by (simp_all add: E_def c_def null_env_def zero_client_def isLoggedIn_def)
  have "fst (request E ''POST'' ''login/refresh'' (Some (JObj [(''refresh_token'', JStr (refreshToken c))])) [] (c, ()))
      = Err ApiAuthorizationError"
  proof (rule request_rejected)
    show "endpoints_ok (fst (c, ()))" unfolding c_def by code_simp
    show "fst (env_http E r w) = Reply 401 (Some (JObj []))" for r w by (simp add: E_def)
    show "classify_status (decode_ApiResponse 401 (JObj [])) = Some (http401ErrCount, ApiAuthorizationError)" by code_simp
  qed (simp add: transient_def)
  then have 2: "request E ''POST'' ''login/refresh'' (Some (JObj [(''refresh_token'', JStr (refreshToken c))])) [] (c, ())
      = (Err ApiAuthorizationError, st2)"
    by (simp add: st2_def prod_eq_iff)
  have "session (fst st2) = session c"
    using retryBackoff_inv [of "\<lambda>x. session x = session c" "request_once E ''POST'' ''login/refresh''
        (Some (JObj [(''refresh_token'', JStr (refreshToken c))])) []" "(c, ())" E ApiRetryMaxCount "seconds 1"]
    by (simp add: st2_def request_def request_once_session)
  then have "fst (isLoggedIn E st2)"
    by (cases st2) (simp add: isLoggedIn_def E_def null_env_def c_def session_def zero_client_def)
  then have 3: "isLoggedIn E st2 = (True, snd (isLoggedIn E st2))" by (simp add: prod_eq_iff)
  have "fst (Init E False (Request_locked E) (c, ())) = Ok ()"
    using Init_refresh_rejected [OF 1(1,2,3) 2 3, of False "Request_locked E"] by simp
  then show ?thesis unfolding c_def [symmetric] E_def [symmetric] Let_def .
qed

end
