(* ===== verification/Api_Objects.thy ===== *)
theory Api_Objects
  imports Api_Transport
begin

text \<open>
  The objects of the cluster API: \<open>filesystem.go\<close>, \<open>snapshot.go\<close>, \<open>quota.go\<close>, \<open>resolvepath.go\<close>,
  \<open>kms.go\<close>, \<open>encryption.go\<close>, the reflective comparison of \<open>utils.go\<close> and the two operations of \<open>nfs.go\<close>
  that a filesystem deletion needs, all under \<open>pkg/wekafs/apiclient\<close>.

  The lookups of file systems, snapshots and quotas follow one pattern (list, filter by the immutable fields,
  demand exactly one).  The locale \<open>object_lookup\<close> states the contract of the pattern once and is
  interpreted for each of them.
\<close>

section \<open>Definitions\<close>

subsection \<open>Reflection\<close>

text \<open>A struct as \<open>reflect\<close> sees it: field names and values.  Reading a field that does not exist
  gives the zero \<open>reflect.Value\<close>, whose \<open>IsZero\<close> panics.\<close>

datatype field_val = FStr string | FInt int | FUuid uuid | FList "string list option"

type_synonym struct = "(string \<times> field_val) list"

fun IsZero :: "field_val \<Rightarrow> bool" where
  "IsZero (FStr s) = (s = [])"
| "IsZero (FInt n) = (n = 0)"
| "IsZero (FUuid u) = (u = uuid_Nil)"
| "IsZero (FList l) = (l = None)"

fun ObjectsAreEqual :: "string list \<Rightarrow> struct \<Rightarrow> struct \<Rightarrow> bool go" where
  "ObjectsAreEqual [] o1 o2 = Ok True"
| "ObjectsAreEqual (f # fs) o1 o2 =
     (case map_of o1 f of
        None \<Rightarrow> Panic
      | Some q \<Rightarrow>
          if IsZero q then ObjectsAreEqual fs o1 o2
          else (case map_of o2 f of
                  None \<Rightarrow> Panic
                | Some v \<Rightarrow> if q = v then ObjectsAreEqual fs o1 o2 else Ok False))"

fun ObjectRequestHasRequiredFields :: "string list \<Rightarrow> struct \<Rightarrow> bool go" where
  "ObjectRequestHasRequiredFields [] r = Ok True"
| "ObjectRequestHasRequiredFields (f # fs) r =
     (case map_of r f of
        None \<Rightarrow> Panic
      | Some v \<Rightarrow> bind_outcome (ObjectRequestHasRequiredFields fs r) (\<lambda>b. Ok (\<not> IsZero v \<and> b)))"

text \<open>The guard \<open>if !r.hasRequiredFields() { return RequestMissingParams }\<close>.\<close>

definition require_fields :: "string list \<Rightarrow> struct \<Rightarrow> ('s, unit) call" where
  "require_fields fs r s =
     (case ObjectRequestHasRequiredFields fs r of
        Ok True \<Rightarrow> (Ok (), s)
      | Ok False \<Rightarrow> (Err (Api RequestMissingParams), s)
      | Err e \<Rightarrow> (Err e, s)
      | Panic \<Rightarrow> (Panic, s))"

text \<open>The loop that appends the listed objects equal to the query.\<close>

fun filter_eq :: "('o \<Rightarrow> bool go) \<Rightarrow> 'o list \<Rightarrow> 'o list go" where
  "filter_eq eq [] = Ok []"
| "filter_eq eq (r # rs) =
     bind_outcome (eq r) (\<lambda>b. bind_outcome (filter_eq eq rs) (\<lambda>xs. Ok (if b then r # xs else xs)))"

definition lift_go :: "'a go \<Rightarrow> ('s, 'a) call" where
  "lift_go r s = (r, s)"

text \<open>The tail of every lookup by filter: exactly one result.\<close>

fun exactly_one :: "'o list \<Rightarrow> 'o go" where
  "exactly_one [] = Err (Api ObjectNotFoundError)"
| "exactly_one [x] = Ok x"
| "exactly_one _ = Err (Api MultipleObjectsFoundError)"

definition url_join :: "string \<Rightarrow> string \<Rightarrow> string" where
  "url_join base elem = base @ ''/'' @ elem"

subsection \<open>Filesystems\<close>

record FileSystem =
  fs_Id :: string
  fs_Name :: string
  fs_Uid :: uuid
  fs_IsRemoving :: bool
  fs_IsCreating :: bool
  fs_IsEncrypted :: bool
  fs_IsReady :: bool
  fs_GroupName :: string
  fs_Status :: string
  fs_TotalCapacity :: int
  fs_AvailableSsd :: int
  fs_FreeTotal :: int
  fs_IsThinlyProvisioned :: bool
  fs_ThinProvisioningMinSsd :: int
  fs_ThinProvisioningMaxSsd :: int
  fs_KmsKeyIdentifier :: string
  fs_KmsNamespace :: string
  fs_KmsRole :: string

definition decode_FileSystem :: "json \<Rightarrow> FileSystem" where
  "decode_FileSystem j =
     \<lparr> fs_Id = jstr (jfield ''id'' j), fs_Name = jstr (jfield ''name'' j), fs_Uid = juuid (jfield ''uid'' j),
       fs_IsRemoving = jbool (jfield ''is_removing'' j), fs_IsCreating = jbool (jfield ''is_creating'' j),
       fs_IsEncrypted = jbool (jfield ''is_encrypted'' j), fs_IsReady = jbool (jfield ''is_ready'' j),
       fs_GroupName = jstr (jfield ''group_name'' j), fs_Status = jstr (jfield ''status'' j),
       fs_TotalCapacity = jint (jfield ''total_budget'' j), fs_AvailableSsd = jint (jfield ''available_ssd'' j),
       fs_FreeTotal = jint (jfield ''free_total'' j),
       fs_IsThinlyProvisioned = jbool (jfield ''is_thinly_provisioned'' j),
       fs_ThinProvisioningMinSsd = jint (jfield ''thin_provisioning_min_ssd'' j),
       fs_ThinProvisioningMaxSsd = jint (jfield ''thin_provisioning_max_ssd'' j),
       fs_KmsKeyIdentifier = jstr (jfield ''kms_key_identifier'' j),
       fs_KmsNamespace = jstr (jfield ''kms_namespace'' j), fs_KmsRole = jstr (jfield ''kms_role'' j) \<rparr>"

definition zero_FileSystem :: FileSystem where
  "zero_FileSystem = decode_FileSystem JNull"

definition FileSystem_struct :: "FileSystem \<Rightarrow> struct" where
  "FileSystem_struct fs =
     [(''Name'', FStr (fs_Name fs)), (''TotalCapacity'', FInt (fs_TotalCapacity fs)),
      (''GroupName'', FStr (fs_GroupName fs)), (''Id'', FStr (fs_Id fs)), (''Uid'', FUuid (fs_Uid fs))]"

definition FileSystem_immutable :: "string list" where
  "FileSystem_immutable = [''Name'', ''TotalCapacity'', ''GroupName'', ''Id'']"

definition FileSystem_EQ :: "FileSystem \<Rightarrow> FileSystem \<Rightarrow> bool go" where
  "FileSystem_EQ query r = ObjectsAreEqual FileSystem_immutable (FileSystem_struct query) (FileSystem_struct r)"

definition opt_param :: "string \<Rightarrow> string \<Rightarrow> (string \<times> string) list" where
  "opt_param k v = (if v = [] then [] else [(k, v)])"

definition FileSystem_query :: "FileSystem \<Rightarrow> (string \<times> string) list" where
  "FileSystem_query fs =
     opt_param ''id'' (fs_Id fs) @ opt_param ''name'' (fs_Name fs)
     @ opt_param ''group_name'' (fs_GroupName fs) @ opt_param ''status'' (fs_Status fs)"

definition FileSystem_url :: "uuid \<Rightarrow> string" where
  "FileSystem_url uid = url_join ''fileSystems'' uid"

text \<open>A bad request with an unknown code falls through to success with the result untouched.\<close>

definition GetFileSystemByUid :: "'w env \<Rightarrow> uuid \<Rightarrow> bool \<Rightarrow> ('w, FileSystem) api" where
  "GetFileSystemByUid E uid forceFresh =
     go_catch
       (go_bind (Get E (FileSystem_url uid) [(''force_fresh'', if forceFresh then ''true'' else ''false'')])
          (\<lambda>v. go_return (decode_FileSystem (jopt v))))
       (\<lambda>e. case e of
          Api ApiNotFoundError \<Rightarrow> go_raise (Api ObjectNotFoundError)
        | Api (ApiBadRequestError codes msg) \<Rightarrow>
            if ''FilesystemDoesNotExistException'' \<in> set codes then go_raise (Api ObjectNotFoundError)
            else go_return zero_FileSystem
        | _ \<Rightarrow> go_raise e)"

definition FindFileSystemsByFilter :: "'w env \<Rightarrow> FileSystem \<Rightarrow> ('w, FileSystem list) api" where
  "FindFileSystemsByFilter E query =
     go_bind (Get E ''fileSystems'' (FileSystem_query query))
       (\<lambda>v. lift_go (filter_eq (FileSystem_EQ query) (map decode_FileSystem (jarr (jopt v)))))"

definition GetFileSystemByFilter :: "'w env \<Rightarrow> FileSystem \<Rightarrow> ('w, FileSystem) api" where
  "GetFileSystemByFilter E query = go_bind (FindFileSystemsByFilter E query) (\<lambda>rs. lift_go (exactly_one rs))"

definition GetFileSystemByName :: "'w env \<Rightarrow> string \<Rightarrow> ('w, FileSystem) api" where
  "GetFileSystemByName E name = GetFileSystemByFilter E (zero_FileSystem\<lparr>fs_Name := name\<rparr>)"

record FileSystemCreateRequest =
  fsc_Name :: string
  fsc_GroupName :: string
  fsc_TotalCapacity :: int
  fsc_Encrypted :: bool
  fsc_AllowNoKms :: bool
  fsc_HasPermissions :: bool
  fsc_KmsVaultKeyIdentifier :: string
  fsc_KmsVaultNamespace :: string
  fsc_KmsVaultRoleId :: string
  fsc_KmsVaultSecretId :: string

record EncryptionParams =
  enc_Encrypted :: bool
  enc_AllowNoKms :: bool
  enc_KmsVaultKeyIdentifier :: string
  enc_KmsVaultNamespace :: string
  enc_KmsVaultRoleId :: string
  enc_KmsVaultSecretId :: string

definition NewFilesystemCreateRequest ::
  "string \<Rightarrow> string \<Rightarrow> int \<Rightarrow> EncryptionParams \<Rightarrow> bool \<Rightarrow> FileSystemCreateRequest"
where
  "NewFilesystemCreateRequest name groupName totalCapacity ep setSelfOwnership =
     \<lparr> fsc_Name = name, fsc_GroupName = groupName, fsc_TotalCapacity = totalCapacity,
       fsc_Encrypted = enc_Encrypted ep, fsc_AllowNoKms = enc_AllowNoKms ep,
       fsc_HasPermissions = setSelfOwnership,
       fsc_KmsVaultKeyIdentifier = enc_KmsVaultKeyIdentifier ep, fsc_KmsVaultNamespace = enc_KmsVaultNamespace ep,
       fsc_KmsVaultRoleId = enc_KmsVaultRoleId ep, fsc_KmsVaultSecretId = enc_KmsVaultSecretId ep \<rparr>"

text \<open>\<open>json.Marshal\<close>: fields tagged \<open>omitempty\<close> are left out when zero.\<close>

definition jopt_str :: "string \<Rightarrow> string \<Rightarrow> (string \<times> json) list" where
  "jopt_str k v = (if v = [] then [] else [(k, JStr v)])"

definition jopt_bool :: "string \<Rightarrow> bool \<Rightarrow> (string \<times> json) list" where
  "jopt_bool k b = (if b then [(k, JBool True)] else [])"

definition jopt_uint :: "string \<Rightarrow> int \<Rightarrow> (string \<times> json) list" where
  "jopt_uint k n = (if n = 0 then [] else [(k, JNum n)])"

definition jopt_ptr :: "string \<Rightarrow> int option \<Rightarrow> (string \<times> json) list" where
  "jopt_ptr k n = (case n of None \<Rightarrow> [] | Some x \<Rightarrow> [(k, JNum x)])"

definition FileSystemCreateRequest_json :: "FileSystemCreateRequest \<Rightarrow> json" where
  "FileSystemCreateRequest_json r =
     JObj ([(''name'', JStr (fsc_Name r)), (''group_name'', JStr (fsc_GroupName r)),
            (''total_capacity'', JNum (fsc_TotalCapacity r))]
       @ jopt_bool ''encrypted'' (fsc_Encrypted r) @ jopt_bool ''allow_no_kms'' (fsc_AllowNoKms r)
       @ jopt_bool ''has_permissions'' (fsc_HasPermissions r)
       @ jopt_str ''kms_vault_key_identifier'' (fsc_KmsVaultKeyIdentifier r)
       @ jopt_str ''kms_vault_namespace'' (fsc_KmsVaultNamespace r)
       @ jopt_str ''kms_vault_role_id'' (fsc_KmsVaultRoleId r)
       @ jopt_str ''kms_vault_secret_id'' (fsc_KmsVaultSecretId r))"

definition FileSystemCreateRequest_struct :: "FileSystemCreateRequest \<Rightarrow> struct" where
  "FileSystemCreateRequest_struct r =
     [(''Name'', FStr (fsc_Name r)), (''GroupName'', FStr (fsc_GroupName r)), (''TotalCapacity'', FInt (fsc_TotalCapacity r))]"

text \<open>
  The loop of \<open>WaitFilesystemReady\<close>.  It ends when the clock has moved by the waiting period; the
  first argument bounds the iterations for a clock that does not move.  A failed lookup is repeated
  without a pause.
\<close>

definition clock :: "'w env \<Rightarrow> ('w, int) api" where
  "clock E st = (case env_now E (snd st) of (now, w1) \<Rightarrow> (Ok now, (fst st, w1)))"

definition pause :: "'w env \<Rightarrow> int \<Rightarrow> ('w, unit) api" where
  "pause E d st = (Ok (), (fst st, env_sleep E d (snd st)))"

primrec wait_ready :: "nat \<Rightarrow> 'w env \<Rightarrow> string \<Rightarrow> int \<Rightarrow> int \<Rightarrow> ('w, FileSystem) api" where
  "wait_ready 0 E name period start = go_panic"
| "wait_ready (Suc n) E name period start =
     go_bind (clock E) (\<lambda>now.
       if now - start < period
       then go_bind (go_try (GetFileSystemByName E name)) (\<lambda>r.
              case r of
                Ok fs \<Rightarrow>
                  if fs_IsReady fs then go_return fs
                  else if fs_IsRemoving fs then go_raise (Api ObjectMarkedForDeletion)
                  else go_bind (pause E (seconds 1)) (\<lambda>_. wait_ready n E name period start)
              | _ \<Rightarrow> wait_ready n E name period start)
       else go_raise (Api AsyncOperationTimedOut))"

definition WaitFilesystemReady :: "'w env \<Rightarrow> string \<Rightarrow> int \<Rightarrow> ('w, FileSystem) api" where
  "WaitFilesystemReady E name period = go_bind (clock E) (\<lambda>start. wait_ready (env_polls E) E name period start)"

text \<open>The caller's object is the reply to the creation; the one that was waited for is dropped.\<close>

definition CreateFileSystem :: "'w env \<Rightarrow> FileSystemCreateRequest \<Rightarrow> ('w, FileSystem) api" where
  "CreateFileSystem E r =
     go_bind (require_fields [''Name'', ''GroupName'', ''TotalCapacity''] (FileSystemCreateRequest_struct r)) (\<lambda>_.
     go_bind (Post E ''fileSystems'' (FileSystemCreateRequest_json r)) (\<lambda>v.
     go_bind (go_catch (WaitFilesystemReady E (fsc_Name r) (seconds 30))
                (\<lambda>e. go_raise (Plain ''Failed to create a file system''))) (\<lambda>_.
     go_return (decode_FileSystem (jopt v)))))"

record FileSystemResizeRequest =
  fsu_Uid :: uuid
  fsu_TotalCapacity :: "int option"
  fsu_ThinProvisionMinSsd :: "int option"
  fsu_ThinProvisionMaxSsd :: "int option"

definition NewFileSystemResizeRequest :: "uuid \<Rightarrow> int option \<Rightarrow> FileSystemResizeRequest" where
  "NewFileSystemResizeRequest fsUid totalCapacity =
     \<lparr> fsu_Uid = fsUid, fsu_TotalCapacity = totalCapacity, fsu_ThinProvisionMinSsd = None, fsu_ThinProvisionMaxSsd = None \<rparr>"

definition FileSystemResizeRequest_json :: "FileSystemResizeRequest \<Rightarrow> json" where
  "FileSystemResizeRequest_json r =
     JObj (jopt_ptr ''total_capacity'' (fsu_TotalCapacity r)
       @ jopt_ptr ''thin_provision_min_ssd'' (fsu_ThinProvisionMinSsd r)
       @ jopt_ptr ''thin_provision_max_ssd'' (fsu_ThinProvisionMaxSsd r))"

definition UpdateFileSystem :: "'w env \<Rightarrow> FileSystemResizeRequest \<Rightarrow> ('w, FileSystem) api" where
  "UpdateFileSystem E r =
     go_bind (require_fields [''Uid''] [(''Uid'', FUuid (fsu_Uid r))]) (\<lambda>_.
     go_bind (Put E (FileSystem_url (fsu_Uid r)) (FileSystemResizeRequest_json r)) (\<lambda>v.
     go_return (decode_FileSystem (jopt v))))"

text \<open>Errors other than a missing object are dropped; \<open>code\<close> is the code that says so in a bad request.\<close>

definition deletion_failed :: "string \<Rightarrow> go_error \<Rightarrow> ('s, unit) call" where
  "deletion_failed code e =
     (case e of
        Api ApiNotFoundError \<Rightarrow> go_raise (Api ObjectNotFoundError)
      | Api (ApiBadRequestError codes msg) \<Rightarrow>
          if code \<in> set codes then go_raise (Api ObjectNotFoundError) else go_return ()
      | _ \<Rightarrow> go_return ())"

definition DeleteFileSystem :: "'w env \<Rightarrow> uuid \<Rightarrow> ('w, unit) api" where
  "DeleteFileSystem E uid =
     go_bind (require_fields [''Uid''] [(''Uid'', FUuid uid)]) (\<lambda>_.
     go_catch (go_bind (Delete E (FileSystem_url uid)) (\<lambda>_. go_return ()))
       (deletion_failed ''FilesystemDoesNotExistException''))"

text \<open>The NFS permissions of a filesystem, removed before it is deleted.\<close>

record NfsPermission =
  np_Uid :: uuid
  np_Filesystem :: string
  np_Group :: string
  np_SupportedVersions :: "string list option"
  np_PermissionType :: string
  np_Path :: string
  np_SquashMode :: string

text \<open>A slice: nil when the field is missing.\<close>

fun jslice :: "json \<Rightarrow> string list option" where
  "jslice (JArr xs) = Some (map jstr xs)"
| "jslice _ = None"

definition decode_NfsPermission :: "json \<Rightarrow> NfsPermission" where
  "decode_NfsPermission j =
     \<lparr> np_Uid = juuid (jfield ''uid'' j), np_Filesystem = jstr (jfield ''filesystem'' j),
       np_Group = jstr (jfield ''group'' j), np_SupportedVersions = jslice (jfield ''supported_versions'' j),
       np_PermissionType = jstr (jfield ''permission_type'' j), np_Path = jstr (jfield ''path'' j),
       np_SquashMode = jstr (jfield ''squash_mode'' j) \<rparr>"

definition FindNfsPermissionsByFilesystem :: "'w env \<Rightarrow> string \<Rightarrow> ('w, NfsPermission list) api" where
  "FindNfsPermissionsByFilesystem E fsName =
     go_bind (Get E ''nfs/permissions'' []) (\<lambda>v.
       go_return (filter (\<lambda>p. np_Filesystem p = fsName) (map decode_NfsPermission (jarr (jopt v)))))"

definition DeleteNfsPermission :: "'w env \<Rightarrow> uuid \<Rightarrow> ('w, unit) api" where
  "DeleteNfsPermission E uid =
     go_bind (require_fields [''Uid''] [(''Uid'', FUuid uid)]) (\<lambda>_.
     go_catch (go_bind (Delete E (url_join ''nfs/permissions'' uid)) (\<lambda>_. go_return ()))
       (deletion_failed ''PermissionDoesNotExistException''))"

definition EnsureNoNfsPermissionsForFilesystem :: "'w env \<Rightarrow> string \<Rightarrow> ('w, unit) api" where
  "EnsureNoNfsPermissionsForFilesystem E fsName =
     go_bind (go_catch (FindNfsPermissionsByFilesystem E fsName) (\<lambda>e. go_return [])) (\<lambda>ps.
     go_bind (go_each (\<lambda>p. DeleteNfsPermission E (np_Uid p)) ps) (\<lambda>_.
     if ps = [] then go_return () else pause E (seconds 5)))"

definition GetFileSystemMountToken :: "'w env \<Rightarrow> uuid \<Rightarrow> ('w, string \<times> string) api" where
  "GetFileSystemMountToken E uid =
     go_bind (require_fields [''Uid''] [(''Uid'', FUuid uid)]) (\<lambda>_.
     go_catch
       (go_bind (Get E (url_join (FileSystem_url uid) ''mountToken'') [])
         (\<lambda>v. go_return (jstr (jfield ''mount_token'' (jopt v)), jstr (jfield ''filesystem_name'' (jopt v)))))
       (\<lambda>e. if e = Api ApiForbiddenError then go_raise (Api MountPermissionDenied) else go_raise e))"

definition client :: "('w, ApiClient) api" where
  "client st = (Ok (fst st), st)"

definition GetMountTokenForFilesystemName :: "'w env \<Rightarrow> string \<Rightarrow> ('w, string) api" where
  "GetMountTokenForFilesystemName E fsName =
     go_bind client (\<lambda>a.
     if \<not> MountFilesystemsUsingAuthToken (CompatibilityMap a) then go_return []
     else go_bind (GetFileSystemByName E fsName) (\<lambda>fs.
          go_bind (GetFileSystemMountToken E (fs_Uid fs)) (\<lambda>(token, name).
          if name \<noteq> fsName then go_raise (Plain ''failed to fetch mount token'') else go_return token)))"

subsection \<open>Snapshots\<close>

record Snapshot =
  snap_IsWritable :: bool
  snap_FilesystemId :: string
  snap_FileSystemUid :: uuid
  snap_Filesystem :: string
  snap_Locator :: string
  snap_IsRemoving :: bool
  snap_Name :: string
  snap_Uid :: uuid
  snap_AccessPoint :: string
  snap_CreationTime :: string

definition decode_Snapshot :: "json \<Rightarrow> Snapshot" where
  "decode_Snapshot j =
     \<lparr> snap_IsWritable = jbool (jfield ''isWritable'' j), snap_FilesystemId = jstr (jfield ''filesystemId'' j),
       snap_FileSystemUid = juuid (jfield ''filesystemUid'' j), snap_Filesystem = jstr (jfield ''filesystem'' j),
       snap_Locator = jstr (jfield ''locator'' j), snap_IsRemoving = jbool (jfield ''isRemoving'' j),
       snap_Name = jstr (jfield ''name'' j), snap_Uid = juuid (jfield ''uid'' j),
       snap_AccessPoint = jstr (jfield ''accessPoint'' j), snap_CreationTime = jstr (jfield ''creationTime'' j) \<rparr>"

definition zero_Snapshot :: Snapshot where
  "zero_Snapshot = decode_Snapshot JNull"

definition Snapshot_struct :: "Snapshot \<Rightarrow> struct" where
  "Snapshot_struct s =
     [(''Name'', FStr (snap_Name s)), (''FilesystemId'', FStr (snap_FilesystemId s)), (''Filesystem'', FStr (snap_Filesystem s))]"

definition Snapshot_immutable :: "string list" where
  "Snapshot_immutable = [''Name'', ''FilesystemId'', ''Filesystem'']"

definition Snapshot_EQ :: "Snapshot \<Rightarrow> Snapshot \<Rightarrow> bool go" where
  "Snapshot_EQ query r = ObjectsAreEqual Snapshot_immutable (Snapshot_struct query) (Snapshot_struct r)"

definition Snapshot_query :: "Snapshot \<Rightarrow> (string \<times> string) list" where
  "Snapshot_query s =
     opt_param ''filesystem'' (snap_Filesystem s) @ opt_param ''name'' (snap_Name s)
     @ opt_param ''access_point'' (snap_AccessPoint s)"

definition FindSnapshotsByFilter :: "'w env \<Rightarrow> Snapshot \<Rightarrow> ('w, Snapshot list) api" where
  "FindSnapshotsByFilter E query =
     go_bind (Get E ''snapshots'' (Snapshot_query query))
       (\<lambda>v. lift_go (filter_eq (Snapshot_EQ query) (map decode_Snapshot (jarr (jopt v)))))"

definition FindSnapshotsByFilesystem :: "'w env \<Rightarrow> FileSystem option \<Rightarrow> ('w, Snapshot list) api" where
  "FindSnapshotsByFilesystem E query =
     (case query of
        None \<Rightarrow> go_raise (Plain ''cannot search for snapshots without explicit filesystem Uid'')
      | Some fs \<Rightarrow>
          if fs_Uid fs = uuid_Nil then go_raise (Plain ''cannot search for snapshots without explicit filesystem Uid'')
          else FindSnapshotsByFilter E (zero_Snapshot\<lparr>snap_Filesystem := fs_Name fs\<rparr>))"

definition GetSnapshotByFilter :: "'w env \<Rightarrow> Snapshot \<Rightarrow> ('w, Snapshot) api" where
  "GetSnapshotByFilter E query = go_bind (FindSnapshotsByFilter E query) (\<lambda>rs. lift_go (exactly_one rs))"

definition GetSnapshotByName :: "'w env \<Rightarrow> string \<Rightarrow> ('w, Snapshot) api" where
  "GetSnapshotByName E name = GetSnapshotByFilter E (zero_Snapshot\<lparr>snap_Name := name\<rparr>)"

definition Snapshot_url :: "uuid \<Rightarrow> string" where
  "Snapshot_url uid = url_join ''snapshots'' uid"

definition GetSnapshotByUid :: "'w env \<Rightarrow> uuid \<Rightarrow> ('w, Snapshot) api" where
  "GetSnapshotByUid E uid = go_bind (Get E (Snapshot_url uid) []) (\<lambda>v. go_return (decode_Snapshot (jopt v)))"

record SnapshotCreateRequest =
  snapc_FsUid :: uuid
  snapc_Name :: string
  snapc_AccessPoint :: string
  snapc_SourceSnapUid :: "uuid option"
  snapc_IsWritable :: bool

definition NewSnapshotCreateRequest ::
  "string \<Rightarrow> string \<Rightarrow> uuid \<Rightarrow> uuid option \<Rightarrow> bool \<Rightarrow> SnapshotCreateRequest"
where
  "NewSnapshotCreateRequest name accessPoint fsUid sourceSnapUid isWritable =
     \<lparr> snapc_FsUid = fsUid, snapc_Name = name, snapc_AccessPoint = accessPoint,
       snapc_SourceSnapUid = sourceSnapUid, snapc_IsWritable = isWritable \<rparr>"

definition SnapshotCreateRequest_json :: "SnapshotCreateRequest \<Rightarrow> json" where
  "SnapshotCreateRequest_json r =
     JObj ([(''fs_uid'', JStr (snapc_FsUid r)), (''name'', JStr (snapc_Name r)), (''access_point'', JStr (snapc_AccessPoint r))]
       @ (case snapc_SourceSnapUid r of None \<Rightarrow> [] | Some u \<Rightarrow> [(''source_snap_uid'', JStr u)])
       @ jopt_bool ''is_writable'' (snapc_IsWritable r))"

definition CreateSnapshot :: "'w env \<Rightarrow> SnapshotCreateRequest \<Rightarrow> ('w, Snapshot) api" where
  "CreateSnapshot E r =
     go_bind (require_fields [''Name'', ''FsUid''] [(''Name'', FStr (snapc_Name r)), (''FsUid'', FUuid (snapc_FsUid r))]) (\<lambda>_.
     go_bind (Post E ''snapshots'' (SnapshotCreateRequest_json r)) (\<lambda>v.
     go_return (decode_Snapshot (jopt v))))"

record SnapshotUpdateRequest =
  snapu_Uid :: uuid
  snapu_NewName :: string
  snapu_AccessPoint :: string
  snapu_IsWritable :: bool

definition UpdateSnapshot :: "'w env \<Rightarrow> SnapshotUpdateRequest \<Rightarrow> ('w, Snapshot) api" where
  "UpdateSnapshot E r =
     go_bind (require_fields [''Uid''] [(''Uid'', FUuid (snapu_Uid r))]) (\<lambda>_.
     go_bind (Put E (Snapshot_url (snapu_Uid r))
                (JObj [(''new_name'', JStr (snapu_NewName r)), (''access_point'', JStr (snapu_AccessPoint r)),
                       (''is_writable'', JBool (snapu_IsWritable r))])) (\<lambda>v.
     go_return (decode_Snapshot (jopt v))))"

text \<open>Unlike the deletion of a filesystem, every other error is returned.\<close>

definition DeleteSnapshot :: "'w env \<Rightarrow> uuid \<Rightarrow> ('w, unit) api" where
  "DeleteSnapshot E uid =
     go_bind (require_fields [''Uid''] [(''Uid'', FUuid uid)]) (\<lambda>_.
     go_catch (go_bind (Delete E (Snapshot_url uid)) (\<lambda>_. go_return ()))
       (\<lambda>e. case e of
          Api ApiNotFoundError \<Rightarrow> go_raise (Api ObjectNotFoundError)
        | Api (ApiBadRequestError codes msg) \<Rightarrow>
            if ''SnapshotDoesNotExistException'' \<in> set codes then go_raise (Api ObjectNotFoundError) else go_raise e
        | _ \<Rightarrow> go_raise e))"

subsection \<open>Quotas\<close>

datatype QuotaType = QuotaTypeHard | QuotaTypeSoft

definition MaxQuotaSize :: int where
  "MaxQuotaSize = 9223372036854775807"

record Quota =
  q_FilesystemUid :: uuid
  q_InodeId :: int
  q_TotalBytes :: int
  q_HardLimitBytes :: int
  q_SoftLimitBytes :: int
  q_Status :: string

definition decode_Quota :: "json \<Rightarrow> Quota" where
  "decode_Quota j =
     \<lparr> q_FilesystemUid = uuid_Nil, q_InodeId = juint (jfield ''inode_id'' j),
       q_TotalBytes = juint (jfield ''total_bytes'' j), q_HardLimitBytes = juint (jfield ''hard_limit_bytes'' j),
       q_SoftLimitBytes = juint (jfield ''soft_limit_bytes'' j), q_Status = jstr (jfield ''status'' j) \<rparr>"

definition GetQuotaType :: "Quota \<Rightarrow> QuotaType" where
  "GetQuotaType q = (if q_HardLimitBytes q \<le> q_SoftLimitBytes q then QuotaTypeHard else QuotaTypeSoft)"

definition GetCapacityLimit :: "Quota \<Rightarrow> int" where
  "GetCapacityLimit q = (if GetQuotaType q = QuotaTypeHard then q_HardLimitBytes q else q_SoftLimitBytes q)"

definition Quota_base :: "uuid \<Rightarrow> string" where
  "Quota_base fsUid = url_join (FileSystem_url fsUid) ''quota''"

definition Quota_url :: "uuid \<Rightarrow> int \<Rightarrow> string" where
  "Quota_url fsUid inode = url_join (Quota_base fsUid) (show_int inode)"

text \<open>The names of the fields as the struct has them, and as the comparison asks for them.\<close>

definition Quota_struct :: "Quota \<Rightarrow> struct" where
  "Quota_struct q = [(''FilesystemUid'', FUuid (q_FilesystemUid q)), (''InodeId'', FInt (q_InodeId q))]"

definition Quota_immutable :: "string list" where
  "Quota_immutable = [''filesystemUid'', ''inodeId'']"

definition Quota_EQ :: "Quota \<Rightarrow> Quota \<Rightarrow> bool go" where
  "Quota_EQ query r = ObjectsAreEqual Quota_immutable (Quota_struct query) (Quota_struct r)"

record QuotaRequest =
  qr_filesystemUid :: uuid
  qr_inodeId :: int
  qr_HardLimitBytes :: int
  qr_SoftLimitBytes :: int
  qr_quotaType :: QuotaType
  qr_capacityLimit :: int

text \<open>The create and the update request are built alike.\<close>

definition NewQuotaRequest :: "uuid \<Rightarrow> int \<Rightarrow> QuotaType \<Rightarrow> int \<Rightarrow> QuotaRequest" where
  "NewQuotaRequest fsUid inodeId quotaType capacityLimit =
     \<lparr> qr_filesystemUid = fsUid, qr_inodeId = inodeId,
       qr_HardLimitBytes = (if quotaType = QuotaTypeHard then capacityLimit else MaxQuotaSize),
       qr_SoftLimitBytes = capacityLimit,
       qr_quotaType = quotaType, qr_capacityLimit = capacityLimit \<rparr>"

definition QuotaRequest_json :: "QuotaRequest \<Rightarrow> json" where
  "QuotaRequest_json r =
     JObj (jopt_uint ''hard_limit_bytes'' (qr_HardLimitBytes r) @ jopt_uint ''soft_limit_bytes'' (qr_SoftLimitBytes r)
       @ [(''grace_seconds'', JNum 0)])"

definition GetQuotaByFileSystemAndInode :: "'w env \<Rightarrow> uuid \<Rightarrow> int \<Rightarrow> ('w, Quota) api" where
  "GetQuotaByFileSystemAndInode E fsUid inodeId =
     (if inodeId = 0 then go_raise (Api RequestMissingParams)
      else go_bind
        (go_catch (Get E (Quota_url fsUid inodeId) [])
          (\<lambda>e. case e of
             Api ApiNotFoundError \<Rightarrow> go_raise (Api ObjectNotFoundError)
           | Api (ApiInternalError None) \<Rightarrow> go_panic
           | Api (ApiInternalError (Some msg)) \<Rightarrow>
               if strings_Contains msg ''Directory has no quota'' then go_raise (Api ObjectNotFoundError) else go_raise e
           | _ \<Rightarrow> go_raise e))
        (\<lambda>v. go_return ((decode_Quota (jopt v))\<lparr>q_FilesystemUid := fsUid, q_InodeId := inodeId\<rparr>)))"

definition QuotaStatusActive :: string where
  "QuotaStatusActive = ''ACTIVE''"

definition IsQuotaActive :: "'w env \<Rightarrow> uuid \<Rightarrow> int \<Rightarrow> ('w, bool) api" where
  "IsQuotaActive E fsUid inodeId =
     go_bind (GetQuotaByFileSystemAndInode E fsUid inodeId) (\<lambda>q. go_return (q_Status q = QuotaStatusActive))"

text \<open>
  \<open>wait.Poll\<close> of the Kubernetes libraries: the condition is evaluated after each interval until it
  holds, fails, or the time is up.  How often is \<open>env_polls\<close>.
\<close>

primrec poll :: "nat \<Rightarrow> 'w env \<Rightarrow> int \<Rightarrow> ('w, bool) api \<Rightarrow> ('w, unit) api" where
  "poll 0 E interval cond = go_raise (Plain ''timed out waiting for the condition'')"
| "poll (Suc n) E interval cond =
     go_bind (pause E interval) (\<lambda>_. go_bind cond (\<lambda>done'. if done' then go_return () else poll n E interval cond))"

definition WaitForQuotaActive :: "'w env \<Rightarrow> uuid \<Rightarrow> int \<Rightarrow> ('w, unit) api" where
  "WaitForQuotaActive E fsUid inodeId = poll (env_polls E) E (seconds 1) (IsQuotaActive E fsUid inodeId)"

definition quota_type_field :: "QuotaType \<Rightarrow> field_val" where
  "quota_type_field t = FStr (if t = QuotaTypeHard then ''HARD'' else ''SOFT'')"

definition CreateQuota :: "'w env \<Rightarrow> QuotaRequest \<Rightarrow> bool \<Rightarrow> ('w, Quota) api" where
  "CreateQuota E qr waitForCompletion =
     go_bind (require_fields [''inodeId'', ''filesystemUid'', ''quotaType'', ''capacityLimit'']
       [(''filesystemUid'', FUuid (qr_filesystemUid qr)), (''inodeId'', FInt (qr_inodeId qr)),
        (''quotaType'', quota_type_field (qr_quotaType qr)), (''capacityLimit'', FInt (qr_capacityLimit qr))]) (\<lambda>_.
     go_bind (Put E (Quota_url (qr_filesystemUid qr) (qr_inodeId qr)) (QuotaRequest_json qr)) (\<lambda>v.
     if waitForCompletion
     then (let q = (decode_Quota (jopt v))\<lparr>q_FilesystemUid := qr_filesystemUid qr, q_InodeId := qr_inodeId qr\<rparr>
           in go_bind (WaitForQuotaActive E (q_FilesystemUid q) (q_InodeId q)) (\<lambda>_. go_return q))
     else go_return (decode_Quota (jopt v))))"

definition FindQuotaByFilter :: "'w env \<Rightarrow> Quota \<Rightarrow> ('w, Quota list) api" where
  "FindQuotaByFilter E query =
     (if q_FilesystemUid query = uuid_Nil then go_raise (Api RequestMissingParams)
      else go_bind (Get E (Quota_base (q_FilesystemUid query)) [])
        (\<lambda>v. lift_go (filter_eq (Quota_EQ query)
           (map (\<lambda>j. (decode_Quota j)\<lparr>q_FilesystemUid := q_FilesystemUid query\<rparr>) (jarr (jopt v))))))"

definition GetQuotaByFilter :: "'w env \<Rightarrow> Quota \<Rightarrow> ('w, Quota) api" where
  "GetQuotaByFilter E query = go_bind (FindQuotaByFilter E query) (\<lambda>rs. lift_go (exactly_one rs))"

definition UpdateQuota :: "'w env \<Rightarrow> QuotaRequest \<Rightarrow> ('w, Quota) api" where
  "UpdateQuota E r =
     go_bind (Put E (Quota_url (qr_filesystemUid r) (qr_inodeId r)) (QuotaRequest_json r))
       (\<lambda>v. go_return (decode_Quota (jopt v)))"

definition DeleteQuota :: "'w env \<Rightarrow> uuid \<Rightarrow> int \<Rightarrow> ('w, unit) api" where
  "DeleteQuota E fsUid inodeId =
     go_bind (require_fields [''filesystemUid'', ''inodeId'']
       [(''filesystemUid'', FUuid fsUid), (''InodeId'', FInt inodeId), (''Path'', FStr [])]) (\<lambda>_.
     go_bind (Delete E (url_join (url_join (FileSystem_url fsUid) ''quotas'') (show_int inodeId))) (\<lambda>_. go_return ()))"

subsection \<open>Paths and keys\<close>

text \<open>\<open>strconv.ParseUint(s, 10, 64)\<close>.\<close>

definition ParseUint64 :: "string \<Rightarrow> int go" where
  "ParseUint64 s =
     (case (if s = [] then None else digits_acc digit_val 10 0 s) of
        Some n \<Rightarrow> if n < 2 ^ 64 then Ok n else Err (Plain ''value out of range'')
      | None \<Rightarrow> Err (Plain ''invalid syntax''))"

definition ResolvePathToInode :: "'w env \<Rightarrow> uuid \<Rightarrow> string \<Rightarrow> ('w, int) api" where
  "ResolvePathToInode E fsUid path =
     (if path = [] then go_raise (Api RequestMissingParams)
      else go_bind
        (go_catch (Get E (url_join (FileSystem_url fsUid) ''resolvePath'') [(''path'', path)])
          (\<lambda>e. case e of
             Api ApiNotFoundError \<Rightarrow> go_raise (Api ObjectNotFoundError)
           | Api (ApiBadRequestError codes msg) \<Rightarrow>
               if strings_Contains msg ''PATH_NOT_FOUND'' then go_raise (Api ObjectNotFoundError) else go_return None
           | _ \<Rightarrow> go_raise e))
        (\<lambda>v. let inode = jstr (jfield ''inode_id'' (jopt v))
             in if inode = [] then go_raise (Api ObjectNotFoundError) else lift_go (ParseUint64 inode)))"

record Kms =
  KmsType :: string
  kms_AuthMethod :: string

definition IsSupportedForEncryptionKeyPerFilesystem :: "Kms \<Rightarrow> bool" where
  "IsSupportedForEncryptionKeyPerFilesystem k \<longleftrightarrow>
     KmsType k = ''HashiCorpVault'' \<and> kms_AuthMethod k = ''RoleId/SecretId''"

definition IsSupportedForCommonEncryptionKey :: "Kms \<Rightarrow> bool" where
  "IsSupportedForCommonEncryptionKey k \<longleftrightarrow> KmsType k = ''HashiCorpVault'' \<or> KmsType k = ''KMIP''"

definition getKms :: "'w env \<Rightarrow> ('w, Kms) api" where
  "getKms E =
     go_bind (Get E ''/kms'' []) (\<lambda>v.
       go_return \<lparr> KmsType = jstr (jfield ''kms_type'' (jopt v)),
                   kms_AuthMethod = jstr (jfield ''auth_method'' (jfield ''params'' (jopt v))) \<rparr>)"

definition GetKmsConfiguration :: "'w env \<Rightarrow> ('w, Kms) api" where
  "GetKmsConfiguration E =
     go_bind (getKms E) (\<lambda>kms.
       if IsSupportedForCommonEncryptionKey kms then go_return kms
       else go_raise (Plain ''KMS configuration is not supported''))"

definition IsEncryptionEnabled :: "'w env \<Rightarrow> ('w, bool) api" where
  "IsEncryptionEnabled E =
     go_bind client (\<lambda>a.
     if \<not> EncryptionWithClusterKey (CompatibilityMap a) then go_return False
     else go_bind (go_try (GetKmsConfiguration E)) (\<lambda>r.
          case r of Ok kms \<Rightarrow> go_return (IsSupportedForCommonEncryptionKey kms) | _ \<Rightarrow> go_return False))"

definition AllowsCustomEncryptionSettings :: "'w env \<Rightarrow> ('w, bool) api" where
  "AllowsCustomEncryptionSettings E =
     go_bind client (\<lambda>a.
     if \<not> EncryptionWithCustomSettings (CompatibilityMap a) then go_return False
     else go_bind (go_try (GetKmsConfiguration E)) (\<lambda>r.
          case r of
            Ok kms \<Rightarrow> go_return (IsSupportedForCommonEncryptionKey kms \<and> IsSupportedForEncryptionKeyPerFilesystem kms)
          | _ \<Rightarrow> go_return False))"

subsection \<open>Lookup contracts\<close>

text \<open>What the immutable fields of a query demand of an object.\<close>

definition fs_matches :: "FileSystem \<Rightarrow> FileSystem \<Rightarrow> bool" where
  "fs_matches q r \<longleftrightarrow>
     (fs_Name q = [] \<or> fs_Name r = fs_Name q) \<and> (fs_TotalCapacity q = 0 \<or> fs_TotalCapacity r = fs_TotalCapacity q)
     \<and> (fs_GroupName q = [] \<or> fs_GroupName r = fs_GroupName q) \<and> (fs_Id q = [] \<or> fs_Id r = fs_Id q)"

definition snap_matches :: "Snapshot \<Rightarrow> Snapshot \<Rightarrow> bool" where
  "snap_matches q r \<longleftrightarrow>
     (snap_Name q = [] \<or> snap_Name r = snap_Name q) \<and> (snap_FilesystemId q = [] \<or> snap_FilesystemId r = snap_FilesystemId q)
     \<and> (snap_Filesystem q = [] \<or> snap_Filesystem r = snap_Filesystem q)"

text \<open>The objects the cluster lists for a query, if it answers.\<close>

definition listing :: "(json \<Rightarrow> 'o) \<Rightarrow> ('s, json option) call \<Rightarrow> 's \<Rightarrow> 'o list option" where
  "listing dec m s = (case m s of (Ok v, _) \<Rightarrow> Some (map dec (jarr (jopt v))) | _ \<Rightarrow> None)"

definition filesystems_listed :: "'w env \<Rightarrow> FileSystem \<Rightarrow> 'w api_st \<Rightarrow> FileSystem list option" where
  "filesystems_listed E q = listing decode_FileSystem (Get E ''fileSystems'' (FileSystem_query q))"

definition snapshots_listed :: "'w env \<Rightarrow> Snapshot \<Rightarrow> 'w api_st \<Rightarrow> Snapshot list option" where
  "snapshots_listed E q = listing decode_Snapshot (Get E ''snapshots'' (Snapshot_query q))"

section \<open>Lookup\<close>

locale object_lookup =
  fixes find :: "'q \<Rightarrow> ('s, 'o list) call"
    and get :: "'q \<Rightarrow> ('s, 'o) call"
    and listed :: "'q \<Rightarrow> 's \<Rightarrow> 'o list option"
    and matches :: "'q \<Rightarrow> 'o \<Rightarrow> bool"
  assumes find_listed: "find q s = (Ok xs, s') \<Longrightarrow> \<exists>ys. listed q s = Some ys \<and> xs = filter (matches q) ys"
    and listed_find: "listed q s = Some ys \<Longrightarrow> \<exists>s'. find q s = (Ok (filter (matches q) ys), s')"
    and get_find: "get q = go_bind (find q) (\<lambda>rs. lift_go (exactly_one rs))"
begin

lemma exactly_one_Ok: "exactly_one rs = Ok x \<longleftrightarrow> rs = [x]"
  by (cases rs rule: exactly_one.cases) auto

lemma exactly_one_total: "exactly_one rs \<noteq> Panic"
  by (cases rs rule: exactly_one.cases) auto

lemma get_unique:
  assumes "get q s = (Ok x, s')"
  shows "\<exists>ys. listed q s = Some ys \<and> filter (matches q) ys = [x]"
proof -
  obtain rs s1 where "find q s = (Ok rs, s1)" "lift_go (exactly_one rs) s1 = (Ok x, s')"
    using assms unfolding get_find by (rule go_bind_OkE)
  then show ?thesis using find_listed by (force simp: lift_go_def exactly_one_Ok)
qed

lemma get_sound: "get q s = (Ok x, s') \<Longrightarrow> matches q x"
  using get_unique [of q s x s'] by (metis filter_eq_Cons_iff)

lemma get_complete:
  assumes "listed q s = Some ys"
  shows "fst (get q s) = exactly_one (filter (matches q) ys)"
proof -
  obtain s' where "find q s = (Ok (filter (matches q) ys), s')" using listed_find [OF assms] by blast
  then show ?thesis unfolding get_find by (simp add: lift_go_def)
qed

lemma get_duplicate:
  assumes "listed q s = Some ys" "i < j" "j < length ys" "matches q (ys ! i)" "matches q (ys ! j)"
  shows "fst (get q s) = Err (Api MultipleObjectsFoundError)"
proof -
  have ys: "ys = take (Suc i) ys @ drop (Suc i) ys" by simp
  have "ys ! i \<in> set (filter (matches q) (take (Suc i) ys))"
    using assms by (auto simp: in_set_conv_nth)
  moreover have "ys ! j \<in> set (filter (matches q) (drop (Suc i) ys))"
  proof -
    have "drop (Suc i) ys ! (j - Suc i) = ys ! j" "j - Suc i < length (drop (Suc i) ys)" using assms by auto
    then have "ys ! j \<in> set (drop (Suc i) ys)" by (metis nth_mem)
    then show ?thesis using assms by simp
  qed
  ultimately obtain a as b bs where
    "filter (matches q) (take (Suc i) ys) = a # as" "filter (matches q) (drop (Suc i) ys) = b # bs"
    by (metis list.exhaust list.set_intros(1) empty_iff list.set(1))
  then have "filter (matches q) ys = a # as @ b # bs" by (metis ys filter_append append_Cons)
  then show ?thesis unfolding get_complete [OF assms(1)] by (cases as) simp_all
qed

end

lemma filter_eq_Ok: "(\<And>r. eq r = Ok (P r)) \<Longrightarrow> filter_eq eq rs = Ok (filter P rs)"
  by (induction rs) auto

lemma FileSystem_EQ: "FileSystem_EQ q r = Ok (fs_matches q r)"
  by (auto simp: FileSystem_EQ_def FileSystem_immutable_def FileSystem_struct_def fs_matches_def)

lemma Snapshot_EQ: "Snapshot_EQ q r = Ok (snap_matches q r)"
  by (auto simp: Snapshot_EQ_def Snapshot_immutable_def Snapshot_struct_def snap_matches_def)

lemma FindFileSystems_listed:
  "FindFileSystemsByFilter E q s =
     (case Get E ''fileSystems'' (FileSystem_query q) s of
        (Ok v, s1) \<Rightarrow> (Ok (filter (fs_matches q) (map decode_FileSystem (jarr (jopt v)))), s1)
      | (Err e, s1) \<Rightarrow> (Err e, s1) | (Panic, s1) \<Rightarrow> (Panic, s1))"
  by (simp add: FindFileSystemsByFilter_def go_bind_def lift_go_def filter_eq_Ok [OF FileSystem_EQ] split: prod.split outcome.split)

lemma FindSnapshots_listed:
  "FindSnapshotsByFilter E q s =
     (case Get E ''snapshots'' (Snapshot_query q) s of
        (Ok v, s1) \<Rightarrow> (Ok (filter (snap_matches q) (map decode_Snapshot (jarr (jopt v)))), s1)
      | (Err e, s1) \<Rightarrow> (Err e, s1) | (Panic, s1) \<Rightarrow> (Panic, s1))"
  by (simp add: FindSnapshotsByFilter_def go_bind_def lift_go_def filter_eq_Ok [OF Snapshot_EQ] split: prod.split outcome.split)

interpretation filesystems: object_lookup "FindFileSystemsByFilter E" "GetFileSystemByFilter E" "filesystems_listed E" fs_matches
  for E :: "'w env"
  by unfold_locales
    (auto simp: FindFileSystems_listed filesystems_listed_def listing_def GetFileSystemByFilter_def
      split: prod.splits outcome.splits)

interpretation snapshots: object_lookup "FindSnapshotsByFilter E" "GetSnapshotByFilter E" "snapshots_listed E" snap_matches
  for E :: "'w env"
  by unfold_locales
    (auto simp: FindSnapshots_listed snapshots_listed_def listing_def GetSnapshotByFilter_def
      split: prod.splits outcome.splits)

lemma zero_FileSystem_simps [simp]:
  "fs_Name zero_FileSystem = []" "fs_TotalCapacity zero_FileSystem = 0" "fs_GroupName zero_FileSystem = []"
  "fs_Id zero_FileSystem = []" "fs_Uid zero_FileSystem = uuid_Nil" "fs_Status zero_FileSystem = []"
  by (simp_all add: zero_FileSystem_def decode_FileSystem_def)

lemma zero_Snapshot_simps [simp]:
  "snap_Name zero_Snapshot = []" "snap_FilesystemId zero_Snapshot = []" "snap_Filesystem zero_Snapshot = []"
  "snap_AccessPoint zero_Snapshot = []"
  by (simp_all add: zero_Snapshot_def decode_Snapshot_def)

lemma wait_ready_sound:
  "wait_ready n E name period start st = (Ok fs, st') \<Longrightarrow> fs_IsReady fs \<and> (\<exists>s s'. GetFileSystemByName E name s = (Ok fs, s'))"
proof (induction n arbitrary: st)
  case (Suc n)
  then show ?case
    by (auto simp: go_bind_def go_try_def split: prod.splits outcome.splits if_splits)
qed simp

lemma DeleteQuota_panics: "DeleteQuota E fsUid inodeId st = (Panic, st)"
  by (simp add: DeleteQuota_def require_fields_def)

lemma deletion_failed_error: "fst (deletion_failed code e s) = Err x \<Longrightarrow> x = Api ObjectNotFoundError"
  by (auto simp: deletion_failed_def split: go_error.splits api_error.splits if_splits)

lemma require_fields_error: "fst (require_fields fs r s) = Err x \<Longrightarrow> x = Api RequestMissingParams"
proof -
  have "ObjectRequestHasRequiredFields fs r \<noteq> Err y" for y
    by (induction fs) (auto simp: bind_outcome_def split: option.splits outcome.splits)
  then show "fst (require_fields fs r s) = Err x \<Longrightarrow> x = Api RequestMissingParams"
    by (auto simp: require_fields_def split: outcome.splits bool.splits)
qed

lemma go_bind_ErrE:
  assumes "fst (go_bind m f s) = Err e"
  obtains "fst (m s) = Err e" | x s1 where "m s = (Ok x, s1)" "fst (f x s1) = Err e"
  using assms by (auto simp: go_bind_def split: prod.splits outcome.splits)

lemma go_catch_ErrE:
  assumes "fst (go_catch m h s) = Err e"
  obtains e' s1 where "m s = (Err e', s1)" "fst (h e' s1) = Err e"
  using assms by (auto simp: go_catch_def split: prod.splits outcome.splits)

section \<open>Properties\<close>

text \<open>
  C27: a successful lookup of a filesystem by name returns the only filesystem of that name in the
  cluster's listing.
\<close>

theorem GetFileSystemByName_unique:
  assumes "GetFileSystemByName E name st = (Ok fs, st')" "name \<noteq> []"
  shows "\<exists>ys. filesystems_listed E (zero_FileSystem\<lparr>fs_Name := name\<rparr>) st = Some ys
           \<and> filter (\<lambda>r. fs_Name r = name) ys = [fs]"
proof -
  have "fs_matches (zero_FileSystem\<lparr>fs_Name := name\<rparr>) = (\<lambda>r. fs_Name r = name)"
    using assms(2) by (auto simp: fs_matches_def fun_eq_iff)
  then show ?thesis
    using filesystems.get_unique [OF assms(1) [unfolded GetFileSystemByName_def]] by simp
qed


text \<open>
  C38: the quota the driver writes reads back as what was asked for: from the limits of the request the
  quota's type and capacity are recovered, unless a soft quota of the maximal size is asked for.
\<close>

theorem quota_roundtrip:
  assumes "qr = NewQuotaRequest uid inode qt cap" "qt = QuotaTypeHard \<or> cap < MaxQuotaSize"
    "q_HardLimitBytes q = qr_HardLimitBytes qr" "q_SoftLimitBytes q = qr_SoftLimitBytes qr"
  shows "GetQuotaType q = qt \<and> GetCapacityLimit q = cap"
proof -
  have "GetQuotaType q = qt"
    using assms by (cases qt) (auto simp: NewQuotaRequest_def GetQuotaType_def)
  then show ?thesis
    using assms by (cases qt) (simp_all add: GetCapacityLimit_def NewQuotaRequest_def)
qed

theorem quota_roundtrip_witness:
  "GetQuotaType \<lparr> q_FilesystemUid = uuid_Nil, q_InodeId = 7, q_TotalBytes = 0,
       q_HardLimitBytes = MaxQuotaSize, q_SoftLimitBytes = 1000, q_Status = [] \<rparr> = QuotaTypeSoft"
  using quota_roundtrip [of "NewQuotaRequest uuid_Nil 7 QuotaTypeSoft 1000" uuid_Nil 7 QuotaTypeSoft 1000
      "\<lparr> q_FilesystemUid = uuid_Nil, q_InodeId = 7, q_TotalBytes = 0, q_HardLimitBytes = MaxQuotaSize, q_SoftLimitBytes = 1000, q_Status = [] \<rparr>"]
  by (simp add: NewQuotaRequest_def MaxQuotaSize_def)

text \<open>
  \<open>DeleteFileSystem\<close> reports an error only when the filesystem does not exist or the request has
  no identifier; any other failure (no login, a refusal, an internal error, exhausted retries) is
  reported as success.
\<close>

lemma DeleteFileSystem_errors:
  assumes "fst (DeleteFileSystem E uid st) = Err e"
  shows "e = Api ObjectNotFoundError \<or> e = Api RequestMissingParams"
  using assms unfolding DeleteFileSystem_def
  by (elim go_bind_ErrE go_catch_ErrE) (auto dest: require_fields_error deletion_failed_error)

lemma settled_test_client [simp]: "settled (test_client, w)"
  by (simp add: settled_def)

text \<open>A cluster whose every reply lists one ready filesystem, for the witnesses.\<close>

definition one_filesystem :: json where
  "one_filesystem = JObj [(''data'', JArr [JObj [(''name'', JStr ''a''), (''is_ready'', JBool True)]])]"

lemma one_filesystem_data:
  "jfield ''data'' one_filesystem = JArr [JObj [(''name'', JStr ''a''), (''is_ready'', JBool True)]]"
  "jarr (jfield ''data.exceptionClass'' one_filesystem) = []"
  by (simp_all add: one_filesystem_def)

lemma one_filesystem_Get:
  assumes "settled st"
  obtains st' where "Get (reply_env (Reply 200 (Some one_filesystem))) p q st = (Ok (Some (jfield ''data'' one_filesystem)), st')" "settled st'"
  using Request_answered [OF assms one_filesystem_data(2)] unfolding Get_def by blast

lemma one_filesystem_lookup:
  assumes "settled st"
  obtains st' where "GetFileSystemByName (reply_env (Reply 200 (Some one_filesystem))) ''a'' st
      = (Ok (decode_FileSystem (JObj [(''name'', JStr ''a''), (''is_ready'', JBool True)])), st')"
proof -
  obtain st' where "Get (reply_env (Reply 200 (Some one_filesystem))) ''fileSystems''
      (FileSystem_query (zero_FileSystem\<lparr>fs_Name := ''a''\<rparr>)) st = (Ok (Some (jfield ''data'' one_filesystem)), st')"
    using one_filesystem_Get [OF assms] by blast
  then have "FindFileSystemsByFilter (reply_env (Reply 200 (Some one_filesystem))) (zero_FileSystem\<lparr>fs_Name := ''a''\<rparr>) st
      = (Ok [decode_FileSystem (JObj [(''name'', JStr ''a''), (''is_ready'', JBool True)])], st')"
    by (simp add: FindFileSystems_listed one_filesystem_data jopt_def fs_matches_def decode_FileSystem_def)
  then show thesis
    by (intro that) (simp add: GetFileSystemByName_def GetFileSystemByFilter_def lift_go_def)
qed

theorem GetFileSystemByName_unique_witness:
  "\<exists>ys. filesystems_listed (reply_env (Reply 200 (Some one_filesystem))) (zero_FileSystem\<lparr>fs_Name := ''a''\<rparr>) (test_client, ()) = Some ys
     \<and> filter (\<lambda>r. fs_Name r = ''a'') ys = [decode_FileSystem (JObj [(''name'', JStr ''a''), (''is_ready'', JBool True)])]"
  by (rule one_filesystem_lookup [OF settled_test_client], rule GetFileSystemByName_unique, assumption) simp


lemma DeleteFileSystem_errors_example:
  "fst (DeleteFileSystem (reply_env (Reply 404 (Some JNull))) ''u'' (test_client, ())) = Err (Api ObjectNotFoundError)
   \<and> Api ObjectNotFoundError \<noteq> Api RequestMissingParams"
proof -
  have c: "classify_status (decode_ApiResponse 404 JNull) = Some (http404ErrCount, ApiNotFoundError)" "\<not> transient ApiNotFoundError"
    by (simp_all add: classify_status_def decode_ApiResponse_def transient_def)
  have "\<exists>s1. Delete (reply_env (Reply 404 (Some JNull))) (FileSystem_url ''u'') (test_client, ()) = (Err (Api ApiNotFoundError), s1)"
    unfolding Delete_def by (rule Request_rejected [OF settled_test_client c]) (rule exI)
  then obtain s1 where d: "Delete (reply_env (Reply 404 (Some JNull))) (FileSystem_url ''u'') (test_client, ()) = (Err (Api ApiNotFoundError), s1)"
    by (elim exE)
  have "require_fields [''Uid''] [(''Uid'', FUuid ''u'')] (test_client, ()) = (Ok (), (test_client, ()))"
    by (simp add: require_fields_def uuid_Nil_def)
  then have "fst (DeleteFileSystem (reply_env (Reply 404 (Some JNull))) ''u'' (test_client, ())) = Err (Api ObjectNotFoundError)"
    using d by (simp add: DeleteFileSystem_def deletion_failed_def)
  with DeleteFileSystem_errors [OF this] show ?thesis by simp
qed

end
