(* ===== verification/Api_Cluster.thy ===== *)
theory Api_Cluster
  imports Api_Objects
begin

text \<open>
  The part of the API client that prepares mounts: the local containers (\<open>cluster.go\<close>), the NFS
  interface groups (\<open>interfacegroup.go\<close>) and the NFS permissions, client groups and rules (\<open>nfs.go\<close>),
  under \<open>pkg/wekafs/apiclient\<close>.
\<close>

section \<open>Definitions\<close>

subsection \<open>State access\<close>

definition modify_client :: "(ApiClient \<Rightarrow> ApiClient) \<Rightarrow> ('w, unit) api" where
  "modify_client f st = (Ok (), (f (fst st), snd st))"

definition observe :: "('w \<Rightarrow> 'a) \<Rightarrow> ('w, 'a) api" where
  "observe f st = (Ok (f (snd st)), st)"

definition random_below :: "'w env \<Rightarrow> nat \<Rightarrow> ('w, nat) api" where
  "random_below E n st = (case env_intn E (int n) (snd st) of (i, w1) \<Rightarrow> (Ok (nat i mod n), (fst st, w1)))"

subsection \<open>Frontends of the kernel driver\<close>

record ProcFsContainer =
  pc_ContainerName :: string
  pc_Pid :: int
  pc_ContainerId :: int
  pc_Connected :: bool

text \<open>\<open>strings.Split\<close> with a separator of more than one character: the part up to the first
  occurrence, then the parts of the rest.\<close>

function strings_SplitOn :: "string \<Rightarrow> string \<Rightarrow> string \<Rightarrow> string list" where
  "strings_SplitOn sep acc [] = [rev acc]"
| "strings_SplitOn sep acc (x # xs) =
     (if sep \<noteq> [] \<and> HasPrefix (x # xs) sep then rev acc # strings_SplitOn sep [] (drop (length sep) (x # xs))
      else strings_SplitOn sep (x # acc) xs)"
  by pat_completeness auto
termination by (relation "measure (\<lambda>(sep, acc, s). length s)") auto

definition parse_frontend :: "string \<Rightarrow> ProcFsContainer option" where
  "parse_frontend line =
     (if \<not> strings_Contains line ''Container='' then None
      else let name = strings_Split (CHR '' '') (strings_Split (CHR ''='') line ! 1) ! 0;
               words = strings_Split (CHR '' '') line
           in if length words < 3 then None
              else case strconv_Atoi (strings_Split (CHR '':'') (words ! 2) ! 0) of
                     None \<Rightarrow> None
                   | Some idInt \<Rightarrow>
                       if strings_Contains line ''Frontend is not connected''
                       then Some \<lparr> pc_ContainerName = name, pc_Pid = 0, pc_ContainerId = idInt, pc_Connected = False \<rparr>
                       else if \<not> strings_Contains line ''Connected frontend pid'' then None
                       else let pidParts = strings_SplitOn ''pid '' [] line
                            in if length pidParts < 2 then None
                               else case strconv_Atoi (TrimSpace (pidParts ! 1)) of
                                      None \<Rightarrow> None
                                    | Some pid \<Rightarrow>
                                        Some \<lparr> pc_ContainerName = name, pc_Pid = pid, pc_ContainerId = idInt, pc_Connected = True \<rparr>)"

definition ProcFsPath :: string where
  "ProcFsPath = ''/proc/wekafs/interface''"

definition GetFrontendsFromDriver :: "'w env \<Rightarrow> 'w \<Rightarrow> ProcFsContainer list go" where
  "GetFrontendsFromDriver E w =
     (case env_read_file E ProcFsPath w of
        None \<Rightarrow> Err (Plain ''cannot read the driver interface'')
      | Some ls \<Rightarrow> Ok (List.map_filter parse_frontend ls))"

definition getLocalContainersFromDriver :: "'w env \<Rightarrow> 'w \<Rightarrow> ProcFsContainer list go" where
  "getLocalContainersFromDriver E w =
     bind_outcome (GetFrontendsFromDriver E w) (\<lambda>fs. Ok (filter pc_Connected fs))"

definition isWekaRunning :: "'w env \<Rightarrow> 'w \<Rightarrow> bool" where
  "isWekaRunning E w =
     (if \<not> isWekaDriverLoaded (env_read_file E ''/proc/modules'' w) then False
      else case GetFrontendsFromDriver E w of
             Ok frontends \<Rightarrow> frontends \<noteq> [] \<and> filter (\<lambda>f. \<not> pc_Connected f) frontends = []
           | _ \<Rightarrow> False)"

subsection \<open>Containers\<close>

definition GetFreeCapacity :: "'w env \<Rightarrow> ('w, int) api" where
  "GetFreeCapacity E =
     go_bind (Get E ''cluster'' []) (\<lambda>v. go_return (juint (jfield ''unprovisioned_bytes'' (jfield ''capacity'' (jopt v)))))"

definition decode_Container :: "json \<Rightarrow> Container" where
  "decode_Container j =
     \<lparr> ct_ContainerName = jstr (jfield ''container_name'' j), ct_Mode = jstr (jfield ''mode'' j),
       ct_State = jstr (jfield ''state'' j), ct_Status = jstr (jfield ''status'' j),
       ct_FrontendDedicatedCores = jint (jfield ''frontend_dedicated_cores'' j),
       ct_ContainerIp = jstr (jfield ''container_ip'' j) \<rparr>"

text \<open>The cached list when it is less than a minute old.\<close>

definition cached_containers :: "'w env \<Rightarrow> ('w, Container list option) api" where
  "cached_containers E =
     go_bind client (\<lambda>a. case containers a of
       None \<Rightarrow> go_return None
     | Some (cs, updated) \<Rightarrow>
         go_bind (clock E) (\<lambda>now. go_return (if updated > now - seconds 60 then Some cs else None)))"

definition getContainers :: "'w env \<Rightarrow> ('w, Container list) api" where
  "getContainers E =
     go_bind (cached_containers E) (\<lambda>c1. case c1 of Some cs \<Rightarrow> go_return cs | None \<Rightarrow>
     go_bind (cached_containers E) (\<lambda>c2. case c2 of Some cs \<Rightarrow> go_return cs | None \<Rightarrow>
     go_bind (Get E ''containers'' []) (\<lambda>v.
     go_bind (clock E) (\<lambda>now.
       let cs = map decode_Container (jarr (jopt v))
       in go_bind (modify_client (\<lambda>a. a\<lparr>containers := Some (cs, now)\<rparr>)) (\<lambda>_. go_return cs)))))"

definition frontend_container :: "ProcFsContainer list \<Rightarrow> string list \<Rightarrow> bool \<Rightarrow> Container \<Rightarrow> bool" where
  "frontend_container procs ips allowProtocolContainers c =
     (if procs \<noteq> [] \<and> ct_ContainerName c \<notin> set (map pc_ContainerName procs) then False
      else if ips \<noteq> [] \<and> ct_ContainerIp c \<notin> set ips then False
      else if ct_Mode c = ''backend'' then ct_FrontendDedicatedCores c \<ge> 1 \<and> allowProtocolContainers
      else if ct_State c \<noteq> ''ACTIVE'' \<or> ct_Status c \<noteq> ''UP'' then False
      else True)"

definition filterFrontendContainers ::
  "'w env \<Rightarrow> 'w \<Rightarrow> Container list \<Rightarrow> ProcFsContainer list \<Rightarrow> bool \<Rightarrow> Container list"
where
  "filterFrontendContainers E w cs procs allowProtocolContainers =
     (let ips = (case env_local_ips E w of Some l \<Rightarrow> l | None \<Rightarrow> [])
      in filter (frontend_container procs ips allowProtocolContainers) cs)"

definition frontend_candidates :: "'w env \<Rightarrow> ProcFsContainer list \<Rightarrow> Container list \<Rightarrow> bool \<Rightarrow> ('w, Container list) api" where
  "frontend_candidates E procs cs allowProtocolContainers =
     go_bind (observe (\<lambda>w. filterFrontendContainers E w cs procs False)) (\<lambda>ret.
     if ret = [] \<and> allowProtocolContainers then observe (\<lambda>w. filterFrontendContainers E w cs procs True) else go_return ret)"

definition pick_container :: "'w env \<Rightarrow> Container list \<Rightarrow> ('w, Container) api" where
  "pick_container E ret =
     (case ret of
        [] \<Rightarrow> go_raise (Plain ''could not find any local client container'')
      | [c] \<Rightarrow> go_return c
      | _ \<Rightarrow> go_bind (random_below E (length ret)) (\<lambda>i. go_return (ret ! i)))"

definition GetLocalContainer :: "'w env \<Rightarrow> bool \<Rightarrow> ('w, Container) api" where
  "GetLocalContainer E allowProtocolContainers =
     go_bind (observe (getLocalContainersFromDriver E)) (\<lambda>r.
     go_bind (getContainers E) (\<lambda>cs.
     go_bind (frontend_candidates E (case r of Ok ps \<Rightarrow> ps | _ \<Rightarrow> []) cs allowProtocolContainers) (pick_container E)))"

definition set_containerName :: "string \<Rightarrow> ('w, string) api" where
  "set_containerName n = go_bind (modify_client (\<lambda>a. a\<lparr>containerName := n\<rparr>)) (\<lambda>_. go_return n)"

definition EnsureLocalContainer :: "'w env \<Rightarrow> bool \<Rightarrow> string \<Rightarrow> ('w, string) api" where
  "EnsureLocalContainer E allowProtocolContainers configuredContainerName =
     go_bind client (\<lambda>a.
     if containerName a \<noteq> [] then go_return (containerName a)
     else if configuredContainerName \<noteq> [] then set_containerName configuredContainerName
     else if LocalContainerName (creds a) \<noteq> [] then set_containerName (LocalContainerName (creds a))
     else if \<not> SingleClientMultipleClusters (CompatibilityMap a) then go_return []
     else go_bind (observe (getLocalContainersFromDriver E)) (\<lambda>r.
       case r of
         Ok [c] \<Rightarrow> go_return (pc_ContainerName c)
       | _ \<Rightarrow> go_bind (GetLocalContainer E allowProtocolContainers) (\<lambda>c. set_containerName (ct_ContainerName c))))"

subsection \<open>Interface groups\<close>

definition decode_InterfaceGroup :: "json \<Rightarrow> InterfaceGroup" where
  "decode_InterfaceGroup j =
     \<lparr> ig_Name = jstr (jfield ''name'' j), ig_Uid = juuid (jfield ''uid'' j),
       ig_Ips = map jstr (jarr (jfield ''ips'' j)), ig_Type = jstr (jfield ''type'' j) \<rparr>"

definition GetInterfaceGroupsByType :: "'w env \<Rightarrow> string \<Rightarrow> ('w, InterfaceGroup list) api" where
  "GetInterfaceGroupsByType E groupType =
     go_catch
       (go_bind (Get E ''interfaceGroups'' [])
         (\<lambda>v. go_return (filter (\<lambda>g. ig_Type g = groupType) (map decode_InterfaceGroup (jarr (jopt v))))))
       (\<lambda>e. go_return [])"

text \<open>The loop over the NFS groups: the first named one, or the first with an address when no name is asked for.\<close>

fun choose_group :: "string \<Rightarrow> InterfaceGroup list \<Rightarrow> InterfaceGroup go" where
  "choose_group name [] = Err (Plain ''no nfs interface group of that name found'')"
| "choose_group name (g # gs) =
     (if ig_Name g = name \<or> name = []
      then (if ig_Ips g = []
            then (if name = [] then choose_group name gs
                  else Err (Plain ''no IP addresses found for nfs interface group''))
            else Ok g)
      else choose_group name gs)"

definition group_key :: "string \<Rightarrow> string" where
  "group_key name = (if name = [] then ''default'' else name)"

definition fetchNfsInterfaceGroup :: "'w env \<Rightarrow> string \<Rightarrow> ('w, unit) api" where
  "fetchNfsInterfaceGroup E name =
     go_bind (GetInterfaceGroupsByType E ''NFS'') (\<lambda>igs.
     if igs = [] then go_raise (Plain ''no nfs interface groups found'')
     else go_bind (lift_go (choose_group name igs)) (\<lambda>g.
          modify_client (\<lambda>a. a\<lparr>NfsInterfaceGroups := AList.update (group_key name) g (NfsInterfaceGroups a)\<rparr>)))"

definition GetNfsInterfaceGroup :: "'w env \<Rightarrow> string \<Rightarrow> ('w, InterfaceGroup option) api" where
  "GetNfsInterfaceGroup E name =
     go_bind client (\<lambda>a.
     case map_of (NfsInterfaceGroups a) (group_key name) of
       Some g \<Rightarrow> go_return (Some g)
     | None \<Rightarrow>
         go_bind (go_try (fetchNfsInterfaceGroup E name)) (\<lambda>r.
         case r of
           Ok _ \<Rightarrow> go_bind client (\<lambda>a1. go_return (map_of (NfsInterfaceGroups a1) (group_key name)))
         | _ \<Rightarrow> go_return None))"

definition GetRandomIpAddress :: "'w env \<Rightarrow> InterfaceGroup \<Rightarrow> ('w, string) api" where
  "GetRandomIpAddress E g =
     (if ig_Ips g = [] then go_raise (Plain ''no IP addresses found for interface group'')
      else go_bind (random_below E (length (ig_Ips g))) (\<lambda>i. go_return (ig_Ips g ! i)))"

definition hashString :: "string \<Rightarrow> nat \<Rightarrow> nat" where
  "hashString s n = (if n = 0 then 0 else unat (fnv32a s) mod n)"

definition GetIpAddress :: "'w env \<Rightarrow> InterfaceGroup \<Rightarrow> string go" where
  "GetIpAddress E g =
     (if ig_Ips g = [] then Err (Plain ''no IP addresses found for interface group'')
      else case env_hostname E of
             None \<Rightarrow> Err (Plain ''hostname'')
           | Some h \<Rightarrow> Ok (ig_Ips g ! hashString (if h = [] then ''localhost'' else h) (length (ig_Ips g))))"

definition GetNfsMountIp :: "'w env \<Rightarrow> ('w, string) api" where
  "GetNfsMountIp E =
     go_bind client (\<lambda>a.
     let ips = NfsTargetIPs (creds a)
     in if ips \<noteq> [] \<and> hd ips \<noteq> [] then go_bind (random_below E (length ips)) (\<lambda>i. go_return (ips ! i))
        else go_bind (GetNfsInterfaceGroup E (NfsInterfaceGroupName a)) (\<lambda>r.
          case r of
            None \<Rightarrow> go_raise (Plain ''no NFS interface group found'')
          | Some g \<Rightarrow>
              if ig_Ips g = [] then go_raise (Plain ''no IP addresses found for NFS interface group'')
              else GetRandomIpAddress E g))"

text \<open>What a mount needs of a container.\<close>

definition usable_container :: "bool \<Rightarrow> Container \<Rightarrow> bool" where
  "usable_container allow c \<longleftrightarrow>
     (if ct_Mode c = ''backend'' then allow \<and> ct_FrontendDedicatedCores c \<ge> 1 else ct_State c = ''ACTIVE'' \<and> ct_Status c = ''UP'')"

section \<open>Properties\<close>

lemma frontend_container_usable: "frontend_container procs ips allow c \<Longrightarrow> usable_container allow c"
  by (auto simp: frontend_container_def usable_container_def split: if_splits)

lemma usable_container_mono: "usable_container b c \<Longrightarrow> b \<longrightarrow> allow \<Longrightarrow> usable_container allow c"
  by (auto simp: usable_container_def split: if_splits)

lemma random_below_bound: "0 < n \<Longrightarrow> random_below E n st = (Ok i, st') \<Longrightarrow> i < n"
  by (auto simp: random_below_def split: prod.splits)

lemma pick_container_member:
  assumes "pick_container E ret s = (Ok c, s')"
  shows "c \<in> set ret"
proof (cases "length ret \<le> 1")
  case True
  then show ?thesis using assms by (cases ret) (auto simp: pick_container_def)
next
  case False
  then have "go_bind (random_below E (length ret)) (\<lambda>i. go_return (ret ! i)) s = (Ok c, s')"
    using assms by (simp add: pick_container_def split: list.splits)
  then obtain i s1 where r: "random_below E (length ret) s = (Ok i, s1)" and "go_return (ret ! i) s1 = (Ok c, s')"
    by (rule go_bind_OkE)
  then have "c = ret ! i" by simp
  moreover have "i < length ret" using False by (intro random_below_bound [OF _ r]) linarith
  ultimately show ?thesis by simp
qed

lemma filterFrontendContainers_usable:
  "c \<in> set (filterFrontendContainers E w cs procs allow) \<Longrightarrow> usable_container allow c"
  by (auto simp: filterFrontendContainers_def Let_def dest: frontend_container_usable)

lemma frontend_candidates_filtered:
  assumes "frontend_candidates E procs cs allow s = (Ok ret, s')"
  obtains b w where "ret = filterFrontendContainers E w cs procs b" "b \<longrightarrow> allow"
  using assms that by (auto simp: frontend_candidates_def go_bind_def observe_def split: if_splits)

text \<open>
  C39: the local container chosen for a mount is a running client container, or, where protocol
  containers are allowed, a backend container with a frontend core.
\<close>

theorem GetLocalContainer_usable:
  assumes "GetLocalContainer E allow st = (Ok c, st')"
  shows "usable_container allow c"
proof -
  obtain procs cs s ret s1 where f: "frontend_candidates E procs cs allow s = (Ok ret, s1)" and p: "pick_container E ret s1 = (Ok c, st')"
    by (rule go_bind_OkE [OF assms [unfolded GetLocalContainer_def]], erule go_bind_OkE, erule go_bind_OkE) (rule that)
  obtain b w where "ret = filterFrontendContainers E w cs procs b" "b \<longrightarrow> allow"
    using f by (rule frontend_candidates_filtered)
  with pick_container_member [OF p] show ?thesis
    by (auto intro: usable_container_mono dest: filterFrontendContainers_usable)
qed

theorem GetLocalContainer_usable_witness:
  "\<exists>st'. GetLocalContainer null_env False
     (test_client\<lparr>containers := Some ([\<lparr> ct_ContainerName = ''c'', ct_Mode = ''client'', ct_State = ''ACTIVE'', ct_Status = ''UP'',
        ct_FrontendDedicatedCores = 1, ct_ContainerIp = ''10.0.0.2'' \<rparr>], 1)\<rparr>, ())
   = (Ok \<lparr> ct_ContainerName = ''c'', ct_Mode = ''client'', ct_State = ''ACTIVE'', ct_Status = ''UP'',
        ct_FrontendDedicatedCores = 1, ct_ContainerIp = ''10.0.0.2'' \<rparr>, st')
   \<and> usable_container False \<lparr> ct_ContainerName = ''c'', ct_Mode = ''client'', ct_State = ''ACTIVE'', ct_Status = ''UP'',
        ct_FrontendDedicatedCores = 1, ct_ContainerIp = ''10.0.0.2'' \<rparr>"
proof -
  define c where "c = \<lparr> ct_ContainerName = ''c'', ct_Mode = ''client'', ct_State = ''ACTIVE'', ct_Status = ''UP'',
        ct_FrontendDedicatedCores = 1, ct_ContainerIp = ''10.0.0.2'' \<rparr>"
  define st where "st = (test_client\<lparr>containers := Some ([c], 1)\<rparr>, ())"
  have 1: "getContainers null_env st = (Ok [c], st)"
    by (simp add: getContainers_def cached_containers_def go_bind_def client_def clock_def null_env_def seconds_def st_def)
  have 2: "frontend_candidates null_env [] [c] False st = (Ok [c], st)"
    by (simp add: frontend_candidates_def observe_def go_bind_def filterFrontendContainers_def null_env_def frontend_container_def c_def)
  have 3: "observe (getLocalContainersFromDriver null_env) st = (Ok (Err (Plain ''cannot read the driver interface'')), st)"
    by (simp add: observe_def getLocalContainersFromDriver_def GetFrontendsFromDriver_def null_env_def)
  have l: "GetLocalContainer null_env False st = (Ok c, st)"
    using 1 2 3 by (simp add: GetLocalContainer_def pick_container_def)
  show ?thesis
    using l GetLocalContainer_usable [OF l] unfolding st_def c_def by (intro exI conjI)
qed

end
