(* ===== verification/Api_Nfs.thy ===== *)
theory Api_Nfs
  imports Api_Cluster
begin

text \<open>
  NFS permissions, client groups and client group rules: \<open>pkg/wekafs/apiclient/nfs.go\<close>.  The text of
  an address is \<open>net.IP.String\<close>.
\<close>

section \<open>Definitions\<close>

subsection \<open>Addresses as text\<close>

definition hex_digits :: "16 word \<Rightarrow> string" where
  "hex_digits g =
     (let ds = map (\<lambda>i. hex_alphabet ! unat (drop_bit i g AND 15)) [12, 8, 4, 0]; s = dropWhile (\<lambda>c. c = CHR ''0'') ds
      in if s = [] then ''0'' else s)"

text \<open>The first longest run of at least two zero groups, as position and length.\<close>

fun zero_run :: "nat \<Rightarrow> 16 word list \<Rightarrow> nat \<times> nat" where
  "zero_run i [] = (0, 0)"
| "zero_run i (g # gs) =
     (let here = length (takeWhile (\<lambda>x. x = 0) (g # gs)); (j, best) = zero_run (Suc i) gs
      in if here \<ge> 2 \<and> here \<ge> best then (i, here) else (j, best))"

definition ipv6_string :: "16 word list \<Rightarrow> string" where
  "ipv6_string gs =
     (let (i, n) = zero_run 0 gs
      in if n = 0 then strings_Join '':'' (map hex_digits gs)
         else strings_Join '':'' (map hex_digits (take i gs)) @ ''::'' @ strings_Join '':'' (map hex_digits (drop (i + n) gs)))"

definition ip_String :: "ip_addr option \<Rightarrow> string" where
  "ip_String a = (case a of None \<Rightarrow> ''<nil>'' | Some (IPv4 w) \<Rightarrow> ipv4_string w | Some (IPv6 gs) \<Rightarrow> ipv6_string gs)"

definition AsNfsRule :: "Network \<Rightarrow> string" where
  "AsNfsRule n = ip_String (nIP n) @ ''/'' @ ip_String (nSubnet n)"

subsection \<open>Versions\<close>

definition NfsVersion_AsOption :: "string \<Rightarrow> string" where
  "NfsVersion_AsOption n = (let ret = TrimLeft n ''V'' in if HasPrefix ret ''3.'' then ''3'' else ret)"

definition NfsVersion_AsWeka :: "string \<Rightarrow> string" where
  "NfsVersion_AsWeka n = strings_Split (CHR ''.'') n ! 0"

definition slice_of :: "string list option \<Rightarrow> string list" where
  "slice_of s = (case s of Some l \<Rightarrow> l | None \<Rightarrow> [])"

definition NfsVersions_Matches :: "string list \<Rightarrow> string list \<Rightarrow> bool" where
  "NfsVersions_Matches s other = list_all (\<lambda>v. v \<in> set other) s"

subsection \<open>Permissions\<close>

definition NfsPermission_Matches :: "NfsPermission \<Rightarrow> NfsPermission \<Rightarrow> bool" where
  "NfsPermission_Matches n o' \<longleftrightarrow>
     np_SquashMode n = np_SquashMode o' \<and> np_Filesystem n = np_Filesystem o' \<and> np_Group n = np_Group o'
     \<and> np_Path n = np_Path o' \<and> np_PermissionType n = np_PermissionType o'
     \<and> NfsVersions_Matches (slice_of (np_SupportedVersions n)) (slice_of (np_SupportedVersions o'))"

definition NfsPermission_immutable :: "string list" where
  "NfsPermission_immutable = [''Group'', ''Filesystem'', ''SupportedVersions'', ''PermissionType'', ''Path'', ''SquashMode'']"

definition NfsPermission_struct :: "NfsPermission \<Rightarrow> struct" where
  "NfsPermission_struct p =
     [(''Group'', FStr (np_Group p)), (''Filesystem'', FStr (np_Filesystem p)), (''SupportedVersions'', FList (np_SupportedVersions p)),
      (''PermissionType'', FStr (np_PermissionType p)), (''Path'', FStr (np_Path p)), (''SquashMode'', FStr (np_SquashMode p))]"

text \<open>Here the listed object is the first argument of the comparison, so its zero fields match anything.\<close>

definition NfsPermission_EQ :: "NfsPermission \<Rightarrow> NfsPermission \<Rightarrow> bool go" where
  "NfsPermission_EQ r query = ObjectsAreEqual NfsPermission_immutable (NfsPermission_struct r) (NfsPermission_struct query)"

definition NfsPermission_found :: "NfsPermission \<Rightarrow> NfsPermission \<Rightarrow> bool go" where
  "NfsPermission_found query r =
     bind_outcome (NfsPermission_EQ r query) (\<lambda>b. Ok (b \<or> NfsPermission_Matches query r))"

definition FindNfsPermissionsByFilter :: "'w env \<Rightarrow> NfsPermission \<Rightarrow> ('w, NfsPermission list) api" where
  "FindNfsPermissionsByFilter E query =
     go_bind (Get E ''nfs/permissions'' [])
       (\<lambda>v. lift_go (filter_eq (NfsPermission_found query) (map decode_NfsPermission (jarr (jopt v)))))"

definition GetNfsPermissionByFilter :: "'w env \<Rightarrow> NfsPermission \<Rightarrow> ('w, NfsPermission) api" where
  "GetNfsPermissionByFilter E query = go_bind (FindNfsPermissionsByFilter E query) (\<lambda>rs. lift_go (exactly_one rs))"

record NfsPermissionCreateRequest =
  npc_Filesystem :: string
  npc_Group :: string
  npc_Path :: string
  npc_PermissionType :: string
  npc_SquashMode :: string
  npc_AnonUid :: int
  npc_AnonGid :: int
  npc_SupportedVersions :: "string list option"

definition NfsPermissionCreateRequest_json :: "NfsPermissionCreateRequest \<Rightarrow> json" where
  "NfsPermissionCreateRequest_json r =
     JObj ([(''filesystem'', JStr (npc_Filesystem r)), (''group'', JStr (npc_Group r)), (''path'', JStr (npc_Path r)),
            (''permission_type'', JStr (npc_PermissionType r)), (''squash_mode'', JStr (npc_SquashMode r)),
            (''anon_uid'', JNum (npc_AnonUid r)), (''anon_gid'', JNum (npc_AnonGid r))]
       @ (case npc_SupportedVersions r of None \<Rightarrow> [] | Some vs \<Rightarrow> [(''supported_versions'', JArr (map JStr vs))])
       @ [(''priority'', JNum 0)])"

definition CreateNfsPermission :: "'w env \<Rightarrow> NfsPermissionCreateRequest \<Rightarrow> ('w, unit) api" where
  "CreateNfsPermission E r =
     go_bind (require_fields [''Filesystem'', ''Group'', ''Path'', ''PermissionType'', ''SquashMode'', ''SupportedVersions'']
       [(''Filesystem'', FStr (npc_Filesystem r)), (''Group'', FStr (npc_Group r)), (''Path'', FStr (npc_Path r)),
        (''PermissionType'', FStr (npc_PermissionType r)), (''SquashMode'', FStr (npc_SquashMode r)),
        (''SupportedVersions'', FList (npc_SupportedVersions r))]) (\<lambda>_.
     go_bind (Post E ''nfs/permissions'' (NfsPermissionCreateRequest_json r)) (\<lambda>_. go_return ()))"

definition wanted_permission :: "string \<Rightarrow> string \<Rightarrow> string \<Rightarrow> NfsPermission" where
  "wanted_permission fsName grp version =
     \<lparr> np_Uid = uuid_Nil, np_Filesystem = fsName, np_Group = grp, np_SupportedVersions = Some [NfsVersion_AsWeka version],
       np_PermissionType = ''RW'', np_Path = ''/'', np_SquashMode = ''none'' \<rparr>"

definition EnsureNfsPermission :: "'w env \<Rightarrow> string \<Rightarrow> string \<Rightarrow> string \<Rightarrow> ('w, bool) api" where
  "EnsureNfsPermission E fsName grp version =
     go_catch (go_bind (GetNfsPermissionByFilter E (wanted_permission fsName grp version)) (\<lambda>_. go_return False))
       (\<lambda>e. if e = Api ObjectNotFoundError
            then go_bind (CreateNfsPermission E
                   \<lparr> npc_Filesystem = fsName, npc_Group = grp, npc_Path = ''/'', npc_PermissionType = ''RW'',
                     npc_SquashMode = ''none'', npc_AnonUid = 65534, npc_AnonGid = 65534,
                     npc_SupportedVersions = Some [''V3'', ''V4''] \<rparr>) (\<lambda>_. go_return True)
            else go_raise e)"

subsection \<open>Client groups\<close>

record NfsClientGroupRule =
  ncr_NfsClientGroupUid :: uuid
  ncr_Type :: string
  ncr_Uid :: uuid
  ncr_Rule :: string

record NfsClientGroup =
  ncg_Uid :: uuid
  ncg_Rules :: "NfsClientGroupRule list"
  ncg_Name :: string

definition decode_NfsClientGroupRule :: "json \<Rightarrow> NfsClientGroupRule" where
  "decode_NfsClientGroupRule j =
     \<lparr> ncr_NfsClientGroupUid = uuid_Nil, ncr_Type = jstr (jfield ''type'' j), ncr_Uid = juuid (jfield ''uid'' j),
       ncr_Rule = jstr (jfield ''rule'' j) \<rparr>"

definition decode_NfsClientGroup :: "json \<Rightarrow> NfsClientGroup" where
  "decode_NfsClientGroup j =
     \<lparr> ncg_Uid = juuid (jfield ''uid'' j), ncg_Rules = map decode_NfsClientGroupRule (jarr (jfield ''rules'' j)),
       ncg_Name = jstr (jfield ''name'' j) \<rparr>"

definition zero_NfsClientGroup :: NfsClientGroup where
  "zero_NfsClientGroup = decode_NfsClientGroup JNull"

definition NfsClientGroup_EQ :: "NfsClientGroup \<Rightarrow> NfsClientGroup \<Rightarrow> bool go" where
  "NfsClientGroup_EQ r query = ObjectsAreEqual [''Name''] [(''Name'', FStr (ncg_Name r))] [(''Name'', FStr (ncg_Name query))]"

definition FindNfsClientGroupsByFilter :: "'w env \<Rightarrow> NfsClientGroup \<Rightarrow> ('w, NfsClientGroup list) api" where
  "FindNfsClientGroupsByFilter E query =
     go_bind (Get E ''nfs/clientGroups'' (opt_param ''name'' (ncg_Name query)))
       (\<lambda>v. lift_go (filter_eq (\<lambda>r. NfsClientGroup_EQ r query) (map decode_NfsClientGroup (jarr (jopt v)))))"

definition GetNfsClientGroupByFilter :: "'w env \<Rightarrow> NfsClientGroup \<Rightarrow> ('w, NfsClientGroup) api" where
  "GetNfsClientGroupByFilter E query = go_bind (FindNfsClientGroupsByFilter E query) (\<lambda>rs. lift_go (exactly_one rs))"

definition GetNfsClientGroupByName :: "'w env \<Rightarrow> string \<Rightarrow> ('w, NfsClientGroup) api" where
  "GetNfsClientGroupByName E name = GetNfsClientGroupByFilter E (zero_NfsClientGroup\<lparr>ncg_Name := name\<rparr>)"

definition NfsClientGroup_url :: "uuid \<Rightarrow> string" where
  "NfsClientGroup_url uid = url_join ''nfs/clientGroups'' uid"

text \<open>As for filesystems, a bad request with another code ends in success with an empty group.\<close>

definition GetNfsClientGroupByUid :: "'w env \<Rightarrow> uuid \<Rightarrow> ('w, NfsClientGroup) api" where
  "GetNfsClientGroupByUid E uid =
     go_catch (go_bind (Get E (NfsClientGroup_url uid) []) (\<lambda>v. go_return (decode_NfsClientGroup (jopt v))))
       (\<lambda>e. case e of
          Api ApiNotFoundError \<Rightarrow> go_raise (Api ObjectNotFoundError)
        | Api (ApiBadRequestError codes msg) \<Rightarrow>
            if ''ClientGroupDoesNotExistException'' \<in> set codes then go_raise (Api ObjectNotFoundError)
            else go_return zero_NfsClientGroup
        | _ \<Rightarrow> go_raise e)"

definition CreateNfsClientGroup :: "'w env \<Rightarrow> string \<Rightarrow> ('w, NfsClientGroup) api" where
  "CreateNfsClientGroup E name =
     go_bind (require_fields [''Name''] [(''Name'', FStr name)]) (\<lambda>_.
     go_bind (Post E ''nfs/clientGroups'' (JObj [(''name'', JStr name)])) (\<lambda>v. go_return (decode_NfsClientGroup (jopt v))))"

text \<open>A failure to create the group is reported as success with an empty group.\<close>

definition EnsureCsiPluginNfsClientGroup :: "'w env \<Rightarrow> ('w, NfsClientGroup \<times> bool) api" where
  "EnsureCsiPluginNfsClientGroup E =
     go_bind (modify_client (\<lambda>a. if NfsClientGroupName a = [] then a\<lparr>NfsClientGroupName := ''WekaCSIPluginClients''\<rparr> else a)) (\<lambda>_.
     go_bind client (\<lambda>a.
     go_catch (go_bind (GetNfsClientGroupByName E (NfsClientGroupName a)) (\<lambda>g. go_return (g, False)))
       (\<lambda>e. if e \<noteq> Api ObjectNotFoundError then go_raise e
            else go_catch (go_bind (CreateNfsClientGroup E (NfsClientGroupName a)) (\<lambda>g. go_return (g, True)))
                   (\<lambda>e'. go_return (zero_NfsClientGroup, False)))))"

definition DeleteNfsClientGroup :: "'w env \<Rightarrow> uuid \<Rightarrow> ('w, unit) api" where
  "DeleteNfsClientGroup E uid =
     go_bind (require_fields [''Uid''] [(''Uid'', FUuid uid)]) (\<lambda>_.
     go_catch (go_bind (Delete E (NfsClientGroup_url uid)) (\<lambda>_. go_return ()))
       (deletion_failed ''FilesystemDoesNotExistException''))"

subsection \<open>Client group rules\<close>

definition IsIPRule :: "NfsClientGroupRule \<Rightarrow> bool" where
  "IsIPRule r \<longleftrightarrow> ncr_Type r = ''IP''"

definition GetNetwork :: "NfsClientGroupRule \<Rightarrow> Network option" where
  "GetNetwork r =
     (if \<not> IsIPRule r then None else case parseNetworkString (ncr_Rule r) of Ok n \<Rightarrow> Some n | _ \<Rightarrow> None)"

definition IsEligibleForIP :: "NfsClientGroupRule \<Rightarrow> string \<Rightarrow> bool" where
  "IsEligibleForIP r ip = (case GetNetwork r of None \<Rightarrow> False | Some n \<Rightarrow> ContainsIPAddress n ip)"

text \<open>
  The networks are used without a test for nil.  The argument is evaluated first, then the receiver is
  dereferenced, unless the argument is not an address.
\<close>

definition IsSupersetOf :: "NfsClientGroupRule \<Rightarrow> NfsClientGroupRule \<Rightarrow> bool go" where
  "IsSupersetOf r other =
     (if IsIPRule r \<and> IsIPRule other
      then case GetNetwork other of
             None \<Rightarrow> Panic
           | Some n2 \<Rightarrow>
               (let ip = ip_String (nIP n2)
                in if net_ParseIP ip = None then Ok False
                   else case GetNetwork r of None \<Rightarrow> Panic | Some n1 \<Rightarrow> Ok (ContainsIPAddress n1 ip))
      else Ok False)"

definition NfsClientGroupRule_EQ :: "NfsClientGroupRule \<Rightarrow> NfsClientGroupRule \<Rightarrow> bool go" where
  "NfsClientGroupRule_EQ r query = ObjectsAreEqual [''Rule''] [(''Rule'', FStr (ncr_Rule r))] [(''Rule'', FStr (ncr_Rule query))]"

definition rule_found :: "NfsClientGroupRule \<Rightarrow> NfsClientGroupRule \<Rightarrow> bool go" where
  "rule_found query r =
     bind_outcome (NfsClientGroupRule_EQ r query) (\<lambda>b. if b then Ok True else IsSupersetOf r query)"

definition FindNfsClientGroupRulesByFilter :: "'w env \<Rightarrow> NfsClientGroupRule \<Rightarrow> ('w, NfsClientGroupRule list) api" where
  "FindNfsClientGroupRulesByFilter E query =
     go_bind (GetNfsClientGroupByUid E (ncr_NfsClientGroupUid query)) (\<lambda>cg. lift_go (filter_eq (rule_found query) (ncg_Rules cg)))"

definition GetNfsClientGroupRuleByFilter :: "'w env \<Rightarrow> NfsClientGroupRule \<Rightarrow> ('w, NfsClientGroupRule) api" where
  "GetNfsClientGroupRuleByFilter E query = go_bind (FindNfsClientGroupRulesByFilter E query) (\<lambda>rs. lift_go (exactly_one rs))"

definition GetNfsClientGroupRules :: "'w env \<Rightarrow> ('w, NfsClientGroupRule list) api" where
  "GetNfsClientGroupRules E = go_bind (EnsureCsiPluginNfsClientGroup E) (\<lambda>(cg, created). go_return (ncg_Rules cg))"

record NfsClientGroupRuleCreateRequest =
  nrc_NfsClientGroupUid :: uuid
  nrc_Type :: string
  nrc_Hostname :: string
  nrc_Ip :: string

definition NewNfsClientGroupRuleCreateRequest :: "uuid \<Rightarrow> string \<Rightarrow> string \<Rightarrow> NfsClientGroupRuleCreateRequest option" where
  "NewNfsClientGroupRuleCreateRequest cgUid ruleType rule =
     (if ruleType = ''DNS''
      then Some \<lparr> nrc_NfsClientGroupUid = cgUid, nrc_Type = ruleType, nrc_Hostname = rule, nrc_Ip = [] \<rparr>
      else if ruleType = ''IP''
      then (case parseNetworkString rule of
              Ok n \<Rightarrow> Some \<lparr> nrc_NfsClientGroupUid = cgUid, nrc_Type = ruleType, nrc_Hostname = [], nrc_Ip = AsNfsRule n \<rparr>
            | _ \<Rightarrow> None)
      else Some \<lparr> nrc_NfsClientGroupUid = cgUid, nrc_Type = ruleType, nrc_Hostname = [], nrc_Ip = [] \<rparr>)"

definition CreateNfsClientGroupRule :: "'w env \<Rightarrow> NfsClientGroupRuleCreateRequest option \<Rightarrow> ('w, unit) api" where
  "CreateNfsClientGroupRule E req =
     (case req of
        None \<Rightarrow> go_panic
      | Some r \<Rightarrow>
          go_bind (require_fields [''Type''] [(''Type'', FStr (nrc_Type r))]) (\<lambda>_.
          go_bind (Post E (url_join (NfsClientGroup_url (nrc_NfsClientGroupUid r)) ''rules'')
                     (JObj (jopt_str ''dns'' (nrc_Hostname r) @ jopt_str ''ip'' (nrc_Ip r)))) (\<lambda>_. go_return ())))"

definition EnsureNfsClientGroupRuleForIp :: "'w env \<Rightarrow> NfsClientGroup \<Rightarrow> string \<Rightarrow> ('w, bool) api" where
  "EnsureNfsClientGroupRuleForIp E cg ip =
     go_bind (lift_go (parseNetworkString ip)) (\<lambda>r.
     let q = \<lparr> ncr_NfsClientGroupUid = ncg_Uid cg, ncr_Type = ''IP'', ncr_Uid = uuid_Nil, ncr_Rule = AsNfsRule r \<rparr>
     in go_catch (go_bind (GetNfsClientGroupRuleByFilter E q) (\<lambda>_. go_return False))
          (\<lambda>e. if e = Api ObjectNotFoundError
               then go_bind (CreateNfsClientGroupRule E (NewNfsClientGroupRuleCreateRequest (ncg_Uid cg) ''IP'' (ncr_Rule q)))
                      (\<lambda>_. go_return True)
               else go_raise e))"

definition EnsureNfsPermissions :: "'w env \<Rightarrow> string \<Rightarrow> string \<Rightarrow> string \<Rightarrow> ('w, unit) api" where
  "EnsureNfsPermissions E fsName version clientGroupName =
     go_bind (GetNfsClientGroupByName E (if clientGroupName = [] then ''WekaCSIPluginClients'' else clientGroupName)) (\<lambda>cg.
     go_bind (EnsureNfsPermission E fsName (ncg_Name cg) version) (\<lambda>created.
     if created then pause E (seconds 5) else go_return ()))"

definition GetNodeIpAddress :: "'w env \<Rightarrow> string" where
  "GetNodeIpAddress E = (let ret = env_getenv E ''KUBE_NODE_IP_ADDRESS'' in if ret \<noteq> [] then ret else ''127.0.0.1'')"

definition RegisterNfsClientGroup :: "'w env \<Rightarrow> ('w, unit) api" where
  "RegisterNfsClientGroup E =
     go_bind (GetNfsMountIp E) (\<lambda>targetIp.
     go_bind (observe (env_route_ip E targetIp)) (\<lambda>routed.
     let nodeIP = (case routed of Some ip \<Rightarrow> ip | None \<Rightarrow> GetNodeIpAddress E)
     in go_bind (EnsureCsiPluginNfsClientGroup E) (\<lambda>(cg, created).
        go_bind (if created then modify_client (\<lambda>a. a\<lparr>NfsClientGroupName := ncg_Name cg\<rparr>) else go_return ()) (\<lambda>_.
        go_bind (EnsureNfsClientGroupRuleForIp E cg nodeIP) (\<lambda>created2.
        if created \<or> created2 then pause E (seconds 5) else go_return ())))))"

subsection \<open>Lookup contracts\<close>

text \<open>The comparison of a listed permission or group with a query: the non-zero fields of the listed object must agree.\<close>

definition perm_matches :: "NfsPermission \<Rightarrow> NfsPermission \<Rightarrow> bool" where
  "perm_matches q r \<longleftrightarrow>
     ((np_Group r = [] \<or> np_Group r = np_Group q) \<and> (np_Filesystem r = [] \<or> np_Filesystem r = np_Filesystem q)
      \<and> (np_SupportedVersions r = None \<or> np_SupportedVersions r = np_SupportedVersions q)
      \<and> (np_PermissionType r = [] \<or> np_PermissionType r = np_PermissionType q)
      \<and> (np_Path r = [] \<or> np_Path r = np_Path q) \<and> (np_SquashMode r = [] \<or> np_SquashMode r = np_SquashMode q))
     \<or> NfsPermission_Matches q r"

definition group_matches :: "NfsClientGroup \<Rightarrow> NfsClientGroup \<Rightarrow> bool" where
  "group_matches q r \<longleftrightarrow> ncg_Name r = [] \<or> ncg_Name r = ncg_Name q"

definition permissions_listed :: "'w env \<Rightarrow> NfsPermission \<Rightarrow> 'w api_st \<Rightarrow> NfsPermission list option" where
  "permissions_listed E q = listing decode_NfsPermission (Get E ''nfs/permissions'' [])"

definition groups_listed :: "'w env \<Rightarrow> NfsClientGroup \<Rightarrow> 'w api_st \<Rightarrow> NfsClientGroup list option" where
  "groups_listed E q = listing decode_NfsClientGroup (Get E ''nfs/clientGroups'' (opt_param ''name'' (ncg_Name q)))"

section \<open>Lookup\<close>

lemma ObjectsAreEqual_total:
  assumes "list_all (\<lambda>f. map_of o1 f \<noteq> None \<and> map_of o2 f \<noteq> None) fs"
  shows "ObjectsAreEqual fs o1 o2 = Ok (list_all (\<lambda>f. IsZero (the (map_of o1 f)) \<or> map_of o1 f = map_of o2 f) fs)"
  using assms by (induction fs) auto

lemma NfsPermission_EQ_total:
  "NfsPermission_EQ r q = Ok (list_all (\<lambda>f. IsZero (the (map_of (NfsPermission_struct r) f))
     \<or> map_of (NfsPermission_struct r) f = map_of (NfsPermission_struct q) f) NfsPermission_immutable)"
  unfolding NfsPermission_EQ_def
  by (rule ObjectsAreEqual_total) (simp add: NfsPermission_immutable_def NfsPermission_struct_def)

lemma NfsPermission_found: "NfsPermission_found q r = Ok (perm_matches q r)"
  unfolding NfsPermission_found_def NfsPermission_EQ_total perm_matches_def
  by (simp add: NfsPermission_immutable_def NfsPermission_struct_def)

lemma NfsClientGroup_EQ: "NfsClientGroup_EQ r q = Ok (group_matches q r)"
  by (auto simp: NfsClientGroup_EQ_def group_matches_def)

lemma FindNfsPermissions_listed:
  "FindNfsPermissionsByFilter E q s =
     (case Get E ''nfs/permissions'' [] s of
        (Ok v, s1) \<Rightarrow> (Ok (filter (perm_matches q) (map decode_NfsPermission (jarr (jopt v)))), s1)
      | (Err e, s1) \<Rightarrow> (Err e, s1) | (Panic, s1) \<Rightarrow> (Panic, s1))"
  by (simp add: FindNfsPermissionsByFilter_def go_bind_def lift_go_def filter_eq_Ok [OF NfsPermission_found] split: prod.split outcome.split)

lemma FindNfsClientGroups_listed:
  "FindNfsClientGroupsByFilter E q s =
     (case Get E ''nfs/clientGroups'' (opt_param ''name'' (ncg_Name q)) s of
        (Ok v, s1) \<Rightarrow> (Ok (filter (group_matches q) (map decode_NfsClientGroup (jarr (jopt v)))), s1)
      | (Err e, s1) \<Rightarrow> (Err e, s1) | (Panic, s1) \<Rightarrow> (Panic, s1))"
  by (simp add: FindNfsClientGroupsByFilter_def go_bind_def lift_go_def filter_eq_Ok [OF NfsClientGroup_EQ] split: prod.split outcome.split)

interpretation nfs_permissions: object_lookup "FindNfsPermissionsByFilter E" "GetNfsPermissionByFilter E" "permissions_listed E" perm_matches
  for E :: "'w env"
  by unfold_locales
    (auto simp: FindNfsPermissions_listed permissions_listed_def listing_def GetNfsPermissionByFilter_def
      split: prod.splits outcome.splits)

interpretation nfs_client_groups: object_lookup "FindNfsClientGroupsByFilter E" "GetNfsClientGroupByFilter E" "groups_listed E" group_matches
  for E :: "'w env"
  by unfold_locales
    (auto simp: FindNfsClientGroups_listed groups_listed_def listing_def GetNfsClientGroupByFilter_def
      split: prod.splits outcome.splits)

section \<open>Permissions that are already there\<close>

lemma wanted_permission_matches:
  "NfsVersions_Matches [NfsVersion_AsWeka version] (slice_of (np_SupportedVersions p)) \<Longrightarrow>
   np_Filesystem p = fsName \<Longrightarrow> np_Group p = grp \<Longrightarrow> np_PermissionType p = ''RW'' \<Longrightarrow> np_Path p = ''/'' \<Longrightarrow>
   np_SquashMode p = ''none'' \<Longrightarrow> perm_matches (wanted_permission fsName grp version) p"
  by (simp add: perm_matches_def NfsPermission_Matches_def wanted_permission_def slice_of_def)

text \<open>A rule whose text is not a network makes the comparison dereference nil.\<close>

lemma IsSupersetOf_nil:
  "IsSupersetOf \<lparr> ncr_NfsClientGroupUid = uuid_Nil, ncr_Type = ''IP'', ncr_Uid = uuid_Nil, ncr_Rule = ''10.0.0.0/24/1'' \<rparr>
     \<lparr> ncr_NfsClientGroupUid = uuid_Nil, ncr_Type = ''IP'', ncr_Uid = uuid_Nil, ncr_Rule = ''10.0.0.1'' \<rparr> = Panic"
  by code_simp

section \<open>Properties\<close>

text \<open>
  When the cluster lists exactly one permission that fits a mount, ensuring the permission only
  reads the list: nothing is created and the state is that after the listing.
\<close>

lemma EnsureNfsPermission_existing:
  assumes "Get E ''nfs/permissions'' [] st = (Ok v, st1)"
    "filter (perm_matches (wanted_permission fsName grp version)) (map decode_NfsPermission (jarr (jopt v))) = [p]"
  shows "EnsureNfsPermission E fsName grp version st = (Ok False, st1)"
  using assms
  by (simp add: EnsureNfsPermission_def GetNfsPermissionByFilter_def FindNfsPermissions_listed lift_go_def go_catch_def go_bind_def)

definition one_permission :: json where
  "one_permission = JObj [(''data'', JArr [JObj [(''filesystem'', JStr ''f''), (''group'', JStr ''g''),
     (''supported_versions'', JArr [JStr ''V3'', JStr ''V4'']), (''permission_type'', JStr ''RW''),
     (''path'', JStr ''/''), (''squash_mode'', JStr ''none'')]])]"

lemma one_permission_found:
  "filter (perm_matches (wanted_permission ''f'' ''g'' ''V4'')) (map decode_NfsPermission (jarr (jopt (Some (jfield ''data'' one_permission)))))
     = [decode_NfsPermission (hd (jarr (jfield ''data'' one_permission)))]"
  by code_simp

lemma EnsureNfsPermission_existing_example:
  "\<exists>st'. EnsureNfsPermission (reply_env (Reply 200 (Some one_permission))) ''f'' ''g'' ''V4'' (test_client, ()) = (Ok False, st')"
proof (rule Request_answered [OF settled_test_client])
  show "jarr (jfield ''data.exceptionClass'' one_permission) = []" by (simp add: one_permission_def)
  fix st' :: "unit api_st"
  assume "Request (reply_env (Reply 200 (Some one_permission))) ''GET'' ''nfs/permissions'' None [] (test_client, ())
    = (Ok (Some (jfield ''data'' one_permission)), st')"
  then have "Get (reply_env (Reply 200 (Some one_permission))) ''nfs/permissions'' [] (test_client, ())
    = (Ok (Some (jfield ''data'' one_permission)), st')"
    by (simp only: Get_def)
  from EnsureNfsPermission_existing [OF this one_permission_found] show ?thesis by (rule exI)
qed

end
