(* ===== verification/Driver_Config.thy ===== *)
theory Driver_Config
  imports Api_Nfs
begin

text \<open>
  The driver's configuration (\<open>pkg/wekafs/driverconfig.go\<close>) and the store of API clients
  (\<open>ApiStore\<close> in \<open>pkg/wekafs/wekafs.go\<close>).  The store maps the hash of a set of credentials to a
  client; the pointer to a stored client is modelled by its key, so two callers that get the same key
  share one client.  The lemmas show that the store only grows, that a failed login leaves it alone,
  and which parts of the credentials tell two clients apart.
\<close>

section \<open>Definitions\<close>

subsection \<open>Configuration\<close>

record DriverConfig =
  dc_DynamicVolPath :: string
  dc_VolumePrefix :: string
  dc_SnapshotPrefix :: string
  dc_SeedSnapshotPrefix :: string
  dc_allowAutoFsCreation :: bool
  dc_allowAutoFsExpansion :: bool
  dc_allowSnapshotsOfDirectoryVolumes :: bool
  dc_advertiseSnapshotSupport :: bool
  dc_advertiseVolumeCloneSupport :: bool
  dc_debugPath :: string
  dc_allowInsecureHttps :: bool
  dc_alwaysAllowSnapshotVolumes :: bool
  dc_mutuallyExclusiveOptions :: "mutuallyExclusiveMountOptionSet list"
  dc_maxConcurrencyPerOp :: "(string, int) gomap"
  dc_grpcRequestTimeout :: int
  dc_healthProbeWekaTimeout :: int
  dc_allowProtocolContainers :: bool
  dc_allowNfsFailback :: bool
  dc_useNfs :: bool
  dc_interfaceGroupName :: string
  dc_clientGroupName :: string
  dc_nfsProtocolVersion :: string
  dc_csiVersion :: string
  dc_skipGarbageCollection :: bool
  dc_waitForObjectDeletion :: bool
  dc_allowEncryptionWithoutKms :: bool
  dc_tracingUrl :: string
  dc_manageNodeTopologyLabels :: bool
  dc_wekafsContainerName :: string
  dc_enforceDirVolTotalCapacity :: bool
  dc_setOwnershipOnDynamicFilesystems :: bool
  dc_allowMountOptionOverrides :: bool
  dc_keepThinProvisioningRatioOnExpand :: bool

text \<open>The exclusive sets of the command line, and the built-in set when there is none.\<close>

definition exclusive_sets :: "string list \<Rightarrow> mutuallyExclusiveMountOptionSet list" where
  "exclusive_sets mutuallyExclusiveMountOptions =
     (let sets = map (strings_Split (CHR '','')) mutuallyExclusiveMountOptions
      in if sets = [] then [[''writecache'', ''coherent'', ''readcache'']] else sets)"

definition concurrency_limits :: "int \<Rightarrow> int \<Rightarrow> int \<Rightarrow> int \<Rightarrow> int \<Rightarrow> int \<Rightarrow> int \<Rightarrow> (string, int) gomap" where
  "concurrency_limits createVolume deleteVolume expandVolume createSnapshot deleteSnapshot nodePublish nodeUnpublish =
     [(''CreateVolume'', createVolume), (''DeleteVolume'', deleteVolume), (''ExpandVolume'', expandVolume),
      (''CreateSnapshot'', createSnapshot), (''DeleteSnapshot'', deleteSnapshot),
      (''NodePublishVolume'', nodePublish), (''NodeUnpublishVolume'', nodeUnpublish)]"

definition NewDriverConfig ::
  "string \<Rightarrow> string \<Rightarrow> string \<Rightarrow> string \<Rightarrow> string \<Rightarrow> bool \<Rightarrow> bool \<Rightarrow> bool \<Rightarrow> bool \<Rightarrow> bool \<Rightarrow> bool \<Rightarrow> bool
    \<Rightarrow> string list \<Rightarrow> int \<Rightarrow> int \<Rightarrow> int \<Rightarrow> int \<Rightarrow> int \<Rightarrow> int \<Rightarrow> int \<Rightarrow> int \<Rightarrow> int \<Rightarrow> bool \<Rightarrow> bool \<Rightarrow> bool
    \<Rightarrow> string \<Rightarrow> string \<Rightarrow> string \<Rightarrow> string \<Rightarrow> bool \<Rightarrow> bool \<Rightarrow> bool \<Rightarrow> string \<Rightarrow> bool \<Rightarrow> string \<Rightarrow> bool \<Rightarrow> bool
    \<Rightarrow> bool \<Rightarrow> bool \<Rightarrow> DriverConfig"
where
  "NewDriverConfig dynamicVolPath VolumePrefix SnapshotPrefix SeedSnapshotPrefix debugPath
     allowAutoFsCreation allowAutoFsExpansion allowSnapshotsOfDirectoryVolumes
     suppressnapshotSupport suppressVolumeCloneSupport allowInsecureHttps alwaysAllowSnapshotVolumes
     mutuallyExclusiveMountOptions
     maxCreateVolumeReqs maxDeleteVolumeReqs maxExpandVolumeReqs maxCreateSnapshotReqs maxDeleteSnapshotReqs
     maxNodePublishVolumeReqs maxNodeUnpublishVolumeReqs
     grpcRequestTimeoutSeconds healthProbeWekaTimeoutSeconds
     allowProtocolContainers allowNfsFailback useNfs interfaceGroupName clientGroupName nfsProtocolVersion
     version skipGarbageCollection waitForObjectDeletion allowEncryptionWithoutKms tracingUrl
     manageNodeTopologyLabels wekafsContainerName enforceDirVolTotalCapacity setOwnershipOnDynamicFilesystems
     allowMountOptionOverrides keepThinProvisioningRatioOnExpand =
     \<lparr> dc_DynamicVolPath = dynamicVolPath,
       dc_VolumePrefix = VolumePrefix,
       dc_SnapshotPrefix = SnapshotPrefix,
       dc_SeedSnapshotPrefix = SeedSnapshotPrefix,
       dc_allowAutoFsCreation = allowAutoFsCreation,
       dc_allowAutoFsExpansion = allowAutoFsExpansion,
       dc_allowSnapshotsOfDirectoryVolumes = allowSnapshotsOfDirectoryVolumes,
       dc_advertiseSnapshotSupport = (\<not> suppressnapshotSupport),
       dc_advertiseVolumeCloneSupport = (\<not> suppressVolumeCloneSupport),
       dc_debugPath = debugPath,
       dc_allowInsecureHttps = allowInsecureHttps,
       dc_alwaysAllowSnapshotVolumes = alwaysAllowSnapshotVolumes,
       dc_mutuallyExclusiveOptions = exclusive_sets mutuallyExclusiveMountOptions,
       dc_maxConcurrencyPerOp =
         concurrency_limits maxCreateVolumeReqs maxDeleteVolumeReqs maxExpandVolumeReqs maxCreateSnapshotReqs
           maxDeleteSnapshotReqs maxNodePublishVolumeReqs maxNodeUnpublishVolumeReqs,
       dc_grpcRequestTimeout = int64 (seconds grpcRequestTimeoutSeconds),
       dc_healthProbeWekaTimeout = int64 (seconds healthProbeWekaTimeoutSeconds),
       dc_allowProtocolContainers = allowProtocolContainers,
       dc_allowNfsFailback = allowNfsFailback,
       dc_useNfs = useNfs,
       dc_interfaceGroupName = interfaceGroupName,
       dc_clientGroupName = clientGroupName,
       dc_nfsProtocolVersion = nfsProtocolVersion,
       dc_csiVersion = version,
       dc_skipGarbageCollection = skipGarbageCollection,
       dc_waitForObjectDeletion = waitForObjectDeletion,
       dc_allowEncryptionWithoutKms = allowEncryptionWithoutKms,
       dc_tracingUrl = tracingUrl,
       dc_manageNodeTopologyLabels = manageNodeTopologyLabels,
       dc_wekafsContainerName = wekafsContainerName,
       dc_enforceDirVolTotalCapacity = enforceDirVolTotalCapacity,
       dc_setOwnershipOnDynamicFilesystems = setOwnershipOnDynamicFilesystems,
       dc_allowMountOptionOverrides = allowMountOptionOverrides,
       dc_keepThinProvisioningRatioOnExpand = keepThinProvisioningRatioOnExpand \<rparr>"

definition DriverConfig_isInDevMode :: "DriverConfig \<Rightarrow> bool" where
  "DriverConfig_isInDevMode dc \<longleftrightarrow> dc_debugPath dc \<noteq> []"

datatype CsiPluginMode = CsiModeNode | CsiModeController | CsiModeAll

text \<open>An unknown mode ends the process (\<open>log.Fatal\<close>).\<close>

definition GetCsiPluginMode :: "string \<Rightarrow> CsiPluginMode go" where
  "GetCsiPluginMode mode =
     (if mode = ''node'' then Ok CsiModeNode
      else if mode = ''controller'' then Ok CsiModeController
      else if mode = ''all'' then Ok CsiModeAll
      else Panic)"

subsection \<open>The hash of a client\<close>

definition InsecureString :: "KmsVaultCredentials \<Rightarrow> string" where
  "InsecureString k =
     ''KmsVaultCredentials(KeyIdentifier: '' @ kms_KeyIdentifier k @ '', Namespace: '' @ kms_Namespace k
       @ '', RoleId: '' @ kms_RoleId k @ '', SecretId: '' @ kms_SecretId k @ '', Url: '' @ kms_Url k @ '')''"

text \<open>\<open>fmt.Sprintln\<close> of a slice of strings.\<close>

definition print_slice :: "string list \<Rightarrow> string" where
  "print_slice xs = ''['' @ strings_Join '' '' xs @ '']''"

definition generateHash :: "Credentials \<Rightarrow> 32 word" where
  "generateHash c =
     fnv32a (strings_Join '' ''
       [Username c, Password c, Organization c, print_slice (Endpoints c), print_slice (NfsTargetIPs c),
        LocalContainerName c, CaCertificate c,
        InsecureString (KmsPreexistingCredentialsForVolumeEncryption c),
        InsecureString (KmsKeyManagementCredentials c)] @ [CHR 0x0A])"

subsection \<open>The store of clients\<close>

record ApiStore =
  apis :: "(32 word, ApiClient) gomap"
  legacySecrets :: "(string, string) gomap option"
  store_config :: DriverConfig

type_synonym ('w, 'a) store_call = "(ApiStore \<times> 'w, 'a) call"

definition getByHash :: "ApiStore \<Rightarrow> 32 word \<Rightarrow> ApiClient option" where
  "getByHash api key = map_of (apis api) key"

text \<open>The first client of that cluster in the iteration order of the map.\<close>

definition getByClusterGuid :: "ApiStore \<Rightarrow> uuid \<Rightarrow> ApiClient go" where
  "getByClusterGuid api guid =
     (case filter (\<lambda>e. ClusterGuid (snd e) = guid) (apis api) of
        e # _ \<Rightarrow> Ok (snd e)
      | [] \<Rightarrow> Err (Plain ''could not get API client by cluster guid''))"

definition newline :: string where
  "newline = [CHR 0x0A]"

definition TrimSuffix :: "string \<Rightarrow> string \<Rightarrow> string" where
  "TrimSuffix s p = (if HasSuffix s p then take (length s - length p) s else s)"

definition lines_to_commas :: "string \<Rightarrow> string" where
  "lines_to_commas s = map (\<lambda>c. if c = CHR 0x0A then CHR '','' else c) s"

definition clean_value :: "string \<Rightarrow> string" where
  "clean_value s = TrimSpace (TrimSuffix s newline)"

definition secret :: "(string, string) gomap \<Rightarrow> string \<Rightarrow> string" where
  "secret secrets k = (case map_of secrets k of Some v \<Rightarrow> v | None \<Rightarrow> [])"

definition split_hosts :: "string \<Rightarrow> string list" where
  "split_hosts raw = map clean_value (strings_Split (CHR '','') raw)"

text \<open>The credentials read from a secret; a missing key is the empty string.\<close>

definition credentials_from_secrets :: "(string, string) gomap \<Rightarrow> Credentials go" where
  "credentials_from_secrets secrets =
     (let endpointsRaw = TrimSpace (lines_to_commas (TrimSuffix (secret secrets ''endpoints'') newline));
          nfsTargetIpsRaw = TrimSpace (lines_to_commas (TrimSuffix (secret secrets ''nfsTargetIps'') newline))
      in if endpointsRaw = []
         then Err (Plain ''no valid endpoints defined in secret, cannot create API client'')
         else Ok
           \<lparr> Username = clean_value (secret secrets ''username''),
             Password = TrimSuffix (secret secrets ''password'') newline,
             Organization = clean_value (secret secrets ''organization''),
             HttpScheme = clean_value (secret secrets ''scheme''),
             Endpoints = split_hosts endpointsRaw,
             LocalContainerName = clean_value (secret secrets ''localContainerName''),
             AutoUpdateEndpoints = (clean_value (secret secrets ''autoUpdateEndpoints'') = ''true''),
             CaCertificate = secret secrets ''caCertificate'',
             NfsTargetIPs = (if nfsTargetIpsRaw = [] then [] else split_hosts nfsTargetIpsRaw),
             KmsPreexistingCredentialsForVolumeEncryption =
               \<lparr> kms_KeyIdentifier = clean_value (secret secrets ''kmsVaultKeyIdentifierForFilesystemEncryption''),
                 kms_Namespace = clean_value (secret secrets ''kmsVaultNamespaceForFilesystemEncryption''),
                 kms_RoleId = clean_value (secret secrets ''kmsVaultRoleIdForFilesystemEncryption''),
                 kms_SecretId = clean_value (secret secrets ''kmsVaultSecretIdForFilesystemEncryption''),
                 kms_Url = [] \<rparr>,
             KmsKeyManagementCredentials = zero_kms \<rparr>)"

text \<open>The part of \<open>fromCredentials\<close> that works on the new client alone.\<close>

definition SupportsAuthenticatedMounts :: "ApiClient \<Rightarrow> bool" where
  "SupportsAuthenticatedMounts a = MountFilesystemsUsingAuthToken (CompatibilityMap a)"

definition RootOrganizationName :: string where
  "RootOrganizationName = ''Root''"

definition register_client :: "'w env \<Rightarrow> DriverConfig \<Rightarrow> ('w, unit) api" where
  "register_client E cfg =
     (if (dc_allowNfsFailback cfg \<or> dc_useNfs cfg) \<and> \<not> DriverConfig_isInDevMode cfg
      then go_bind (modify_client (\<lambda>a. a\<lparr>NfsInterfaceGroupName := dc_interfaceGroupName cfg,
                                       NfsClientGroupName := dc_clientGroupName cfg\<rparr>))
             (\<lambda>_. RegisterNfsClientGroup E)
      else go_return ())"

definition init_client :: "'w env \<Rightarrow> DriverConfig \<Rightarrow> Credentials \<Rightarrow> ('w, unit) api" where
  "init_client E cfg c =
     go_bind (Init E False (Request_locked E)) (\<lambda>_.
     go_bind client (\<lambda>a.
       if \<not> SupportsAuthenticatedMounts a \<and> Organization c \<noteq> RootOrganizationName
       then go_raise (Plain ''Using Organization is not supported on Weka cluster'')
       else register_client E cfg))"

definition fromCredentials :: "'w env \<Rightarrow> Credentials \<Rightarrow> ('w, 32 word) store_call" where
  "fromCredentials E c s =
     (case NewApiClient E c (snd s) of
        (Err e, w1) \<Rightarrow> (Err (Plain ''could not create API client object from supplied params''), (fst s, w1))
      | (Panic, w1) \<Rightarrow> (Panic, (fst s, w1))
      | (Ok newClient, w1) \<Rightarrow>
          (let hash = generateHash c
           in case getByHash (fst s) hash of
                Some existingApi \<Rightarrow> (Ok hash, (fst s, w1))
              | None \<Rightarrow>
                  (case init_client E (store_config (fst s)) c (newClient, w1) of
                     (Err e, (a, w2)) \<Rightarrow> (Err e, (fst s, w2))
                   | (Panic, (a, w2)) \<Rightarrow> (Panic, (fst s, w2))
                   | (Ok (), (a, w2)) \<Rightarrow> (Ok hash, ((fst s)\<lparr>apis := AList.update hash a (apis (fst s))\<rparr>, w2)))))"

definition fromSecrets :: "'w env \<Rightarrow> (string, string) gomap \<Rightarrow> ('w, 32 word) store_call" where
  "fromSecrets E secrets = go_bind (lift_go (credentials_from_secrets secrets)) (fromCredentials E)"

text \<open>\<open>None\<close> is the nil client of the legacy mode.\<close>

definition GetClientFromSecrets :: "'w env \<Rightarrow> (string, string) gomap \<Rightarrow> ('w, 32 word option) store_call" where
  "GetClientFromSecrets E secrets s =
     (if secrets = []
      then (case legacySecrets (fst s) of
              Some legacy \<Rightarrow> go_bind (fromSecrets E legacy) (\<lambda>h. go_return (Some h)) s
            | None \<Rightarrow> (Ok None, s))
      else go_bind (fromSecrets E secrets) (\<lambda>h. go_return (Some h)) s)"

definition NewApiStore :: "DriverConfig \<Rightarrow> (string, string) gomap option \<Rightarrow> ApiStore" where
  "NewApiStore cfg default_secrets = \<lparr> apis = [], legacySecrets = default_secrets, store_config = cfg \<rparr>"

text \<open>A store is well formed when its map is and the keys are the hashes of the credentials it was
  asked for; \<open>extends\<close> is growth without replacement.\<close>

definition store_extends :: "ApiStore \<Rightarrow> ApiStore \<Rightarrow> bool" where
  "store_extends s s' \<longleftrightarrow>
     (\<forall>h a. map_of (apis s) h = Some a \<longrightarrow> map_of (apis s') h = Some a)
     \<and> legacySecrets s' = legacySecrets s \<and> store_config s' = store_config s \<and> (map_wf (apis s) \<longrightarrow> map_wf (apis s'))"

definition default_config :: DriverConfig where
  "default_config =
     NewDriverConfig ''csi-volumes'' ''csivol-'' ''csisnp-'' ''csisnp-seed-'' [] True True True False False False False []
       1 1 1 1 1 1 1 30 5 False False False [] [] ''4.1'' ''v1'' False False False [] False [] False False False False"

definition one_client_store :: ApiStore where
  "one_client_store = (NewApiStore default_config None)\<lparr>apis := [(generateHash (creds test_client), test_client)]\<rparr>"

section \<open>Lemmas\<close>

lemma store_extends_refl [simp]: "store_extends s s"
  by (simp add: store_extends_def)

lemma store_extends_add:
  "map_of (apis s) h = None \<Longrightarrow> store_extends s (s\<lparr>apis := AList.update h a (apis s)\<rparr>)"
  by (auto simp: store_extends_def)

lemma fromCredentials_cases:
  assumes "fromCredentials E c (s, w) = (r, (s', w'))"
  shows "s' = s \<and> (\<forall>h. r = Ok h \<longrightarrow> h = generateHash c \<and> map_of (apis s) h \<noteq> None)
    \<or> map_of (apis s) (generateHash c) = None \<and> r = Ok (generateHash c)
        \<and> (\<exists>a. s' = s\<lparr>apis := AList.update (generateHash c) a (apis s)\<rparr>)"
  using assms
  by (auto simp: fromCredentials_def getByHash_def Let_def split: prod.splits outcome.splits option.splits unit.splits)

lemma generateHash_scheme:
  "generateHash (c\<lparr>HttpScheme := sch, AutoUpdateEndpoints := b\<rparr>) = generateHash c"
  by (simp add: generateHash_def)

lemma NewApiClient_nonempty: "Endpoints c \<noteq> [] \<Longrightarrow> \<exists>a w'. NewApiClient E c w = (Ok a, w')"
  by (cases "fold (add_endpoint E) (Endpoints c) ([], w)")
    (simp add: NewApiClient_def resetDefaultEndpoints_def zero_client_def)

lemma fromCredentials_stored:
  assumes "Endpoints c \<noteq> []" "map_of (apis s) (generateHash c) \<noteq> None"
  shows "\<exists>w'. fromCredentials E c (s, w) = (Ok (generateHash c), (s, w'))"
proof -
  from NewApiClient_nonempty [OF assms(1), of E w] obtain a w' where "NewApiClient E c w = (Ok a, w')" by blast
  with assms(2) show ?thesis by (auto simp: fromCredentials_def getByHash_def Let_def)
qed

lemma fromCredentials_Endpoints:
  "fromCredentials E c (s, w) = (Ok h, (s', w')) \<Longrightarrow> Endpoints c \<noteq> []"
  by (auto simp: fromCredentials_def NewApiClient_def resetDefaultEndpoints_def zero_client_def Let_def split: prod.splits if_splits)

lemma one_client_stored:
  "\<exists>w'. fromCredentials null_env (creds test_client) (one_client_store, w) =
     (Ok (generateHash (creds test_client)), (one_client_store, w'))"
  by (rule fromCredentials_stored) (simp_all add: one_client_store_def test_client_def zero_client_def)

section \<open>Properties\<close>

text \<open>
  C40: the store of API clients only grows: whatever a call with any credentials does, every client that
  was stored stays where it was, and a call that fails changes nothing.  A call that succeeds returns the
  key of a stored client.
\<close>

theorem fromCredentials_monotone:
  assumes "fromCredentials E c (s, w) = (r, (s', w'))"
  shows "store_extends s s' \<and> (\<forall>e. r = Err e \<longrightarrow> s' = s) \<and> (\<forall>h. r = Ok h \<longrightarrow> map_of (apis s') h \<noteq> None)"
  using fromCredentials_cases [OF assms] by (auto intro: store_extends_add)

theorem fromCredentials_monotone_witness:
  "\<exists>w'. fromCredentials null_env (creds test_client) (one_client_store, ()) = (Ok (generateHash (creds test_client)), (one_client_store, w'))
    \<and> map_of (apis one_client_store) (generateHash (creds test_client)) \<noteq> None"
proof -
  from one_client_stored [of "()"] obtain w' where a: "fromCredentials null_env (creds test_client) (one_client_store, ()) =
      (Ok (generateHash (creds test_client)), (one_client_store, w'))" by (elim exE)
  from fromCredentials_monotone [OF a] a show ?thesis by (intro exI [of _ w'] conjI) simp_all
qed

text \<open>
  The hash does not cover the HTTP scheme: once a client exists, credentials that differ only in the
  scheme or in the endpoint update flag get the same client, and the store is not changed.  A secret
  whose scheme is changed from \<open>http\<close> to \<open>https\<close> therefore has no effect on a running driver.
\<close>

lemma fromCredentials_scheme:
  assumes "fromCredentials E c (s, w) = (Ok h, (s1, w1))"
  shows "\<exists>w2. fromCredentials E (c\<lparr>HttpScheme := sch, AutoUpdateEndpoints := b\<rparr>) (s1, w1) = (Ok h, (s1, w2))"
proof -
  from fromCredentials_cases [OF assms] have "h = generateHash c" "map_of (apis s1) h \<noteq> None" by auto
  with fromCredentials_stored [of "c\<lparr>HttpScheme := sch, AutoUpdateEndpoints := b\<rparr>" s1] fromCredentials_Endpoints [OF assms]
  show ?thesis by (simp add: generateHash_scheme)
qed

lemma fromCredentials_scheme_example:
  "\<exists>w2. fromCredentials null_env ((creds test_client)\<lparr>HttpScheme := ''https'', AutoUpdateEndpoints := True\<rparr>) (one_client_store, ())
     = (Ok (generateHash (creds test_client)), (one_client_store, w2))"
proof -
  from one_client_stored [of "()"] obtain w' where a: "fromCredentials null_env (creds test_client) (one_client_store, ()) =
      (Ok (generateHash (creds test_client)), (one_client_store, w'))" by (elim exE)
  from fromCredentials_scheme [OF a, where sch = "''https''" and b = True] show ?thesis by simp
qed

end
