(* ===== verification/Mounts.thy ===== *)
theory Mounts
  imports Driver_Config "HOL-Library.Multiset"
begin

text \<open>
  The mounters: \<open>wekafsmounter.go\<close>, \<open>wekafsmount.go\<close>, \<open>nfsmounter.go\<close>, \<open>nfsmount.go\<close> and the
  helpers of \<open>utilities.go\<close> and \<open>interfaces.go\<close> they use.  A mounter counts, for every pair of mount
  point and options, how many callers hold the mount; the kernel mount is made for the first and removed
  for the last.  Both transports share the counting code, which is written once here
  (\<open>incRef_with\<close>, \<open>decRef_with\<close>) and instantiated with the transport's own mount and unmount.

  The mutex of the mounter is held for the whole of \<open>incRef\<close>, \<open>decRef\<close> and \<open>gcInactiveMounts\<close>, so
  each is one step of the relation \<open>mounter_step\<close>, in which any number of callers interleave.
\<close>

section \<open>Definitions\<close>

subsection \<open>State\<close>

text \<open>What a call of the driver sees: the API client of the request (\<open>None\<close> is the nil pointer), the
  mount map, the SELinux flag and the garbage collector of the mounter, and the world.\<close>

record innerPathVolGc =
  gc_isRunning :: "(string, bool) gomap"
  gc_isDeferred :: "(string, bool) gomap"
  gc_spawned :: "string list"   \<comment> \<open>purge goroutines that were started and have not taken the lock yet\<close>
  gc_retries :: "string list"   \<comment> \<open>goroutines that wait to start a purge again\<close>

record 'w sys =
  sys_client :: "ApiClient option"
  sys_mountMap :: "(string, int) gomap"
  sys_selinux :: "bool option"
  sys_gc :: innerPathVolGc
  sys_world :: 'w

type_synonym ('w, 'a) sys_call = "('w sys, 'a) call"

text \<open>A method of the API client, called through the pointer.\<close>

definition on_client :: "('w, 'a) api \<Rightarrow> ('w, 'a) sys_call" where
  "on_client m s =
     (case sys_client s of
        None \<Rightarrow> (Panic, s)
      | Some a \<Rightarrow> (case m (a, sys_world s) of (r, (a', w')) \<Rightarrow> (r, s\<lparr>sys_client := Some a', sys_world := w'\<rparr>)))"

definition the_client :: "('w, ApiClient option) sys_call" where
  "the_client s = (Ok (sys_client s), s)"

definition look :: "('w \<Rightarrow> 'a) \<Rightarrow> ('w, 'a) sys_call" where
  "look f s = (Ok (f (sys_world s)), s)"

text \<open>A system call that reports an error or nothing.\<close>

definition os_call :: "('w \<Rightarrow> go_error option \<times> 'w) \<Rightarrow> ('w, unit) sys_call" where
  "os_call f s =
     (case f (sys_world s) of
        (Some e, w') \<Rightarrow> (Err e, s\<lparr>sys_world := w'\<rparr>)
      | (None, w') \<Rightarrow> (Ok (), s\<lparr>sys_world := w'\<rparr>))"

definition ignore_error :: "('s, unit) call \<Rightarrow> ('s, unit) call" where
  "ignore_error m = go_catch m (\<lambda>_. go_return ())"

definition sleep :: "'w env \<Rightarrow> int \<Rightarrow> ('w, unit) sys_call" where
  "sleep E d s = (Ok (), s\<lparr>sys_world := env_sleep E d (sys_world s)\<rparr>)"

text \<open>\<open>deferUmount\<close> as the sources use it, \<open>defer deferUmount(unmount, &retErr)\<close>: the body runs, then
  the unmount, whose error is reported only when the body had none.\<close>

definition deferUmount :: "('s, unit) call \<Rightarrow> ('s, 'a) call \<Rightarrow> ('s, 'a) call" where
  "deferUmount fn body =
     go_bind (go_try body) (\<lambda>r. go_bind (go_try fn) (\<lambda>u. lift_go
       (case r of Ok x \<Rightarrow> (case u of Err e \<Rightarrow> Err e | _ \<Rightarrow> Ok x) | Err e \<Rightarrow> Err e | Panic \<Rightarrow> Panic)))"

subsection \<open>Paths\<close>

definition PathExists :: "'w env \<Rightarrow> string \<Rightarrow> ('w, bool) sys_call" where
  "PathExists E p =
     go_bind (look (env_stat E p)) (\<lambda>k.
       case k of Missing \<Rightarrow> go_return False | Directory \<Rightarrow> go_return True | OtherFile \<Rightarrow> go_panic)"

definition proc_mounts :: "'w env \<Rightarrow> 'w \<Rightarrow> string list option" where
  "proc_mounts E w = env_read_file E ''/proc/mounts'' w"

definition isMounted :: "'w env \<Rightarrow> string \<Rightarrow> ('w, bool) sys_call" where
  "isMounted E mountPoint =
     go_bind (PathExists E mountPoint) (\<lambda>ex.
       if ex then look (\<lambda>w. PathIsWekaMount (proc_mounts E w) mountPoint) else go_return False)"

subsection \<open>Reference counting\<close>

definition refCount :: "'w sys \<Rightarrow> string \<Rightarrow> int" where
  "refCount s idx = (case map_of (sys_mountMap s) idx of Some n \<Rightarrow> n | None \<Rightarrow> 0)"

definition set_refCount :: "string \<Rightarrow> int \<Rightarrow> ('w, unit) sys_call" where
  "set_refCount idx n s = (Ok (), s\<lparr>sys_mountMap := AList.update idx n (sys_mountMap s)\<rparr>)"

definition get_refCount :: "string \<Rightarrow> ('w, int) sys_call" where
  "get_refCount idx s = (Ok (refCount s idx), s)"

definition ensure_mounted :: "int \<Rightarrow> ('w, bool) sys_call \<Rightarrow> ('w, unit) sys_call \<Rightarrow> ('w, unit) sys_call" where
  "ensure_mounted n mounted doMount =
     go_bind (if n = 0 then doMount else go_return ()) (\<lambda>_.
       if 0 < n then go_bind mounted (\<lambda>m. if \<not> m then doMount else go_return ()) else go_return ())"

definition incRef_with :: "string \<Rightarrow> ('w, bool) sys_call \<Rightarrow> ('w, unit) sys_call \<Rightarrow> ('w, unit) sys_call" where
  "incRef_with idx mounted doMount =
     go_bind (get_refCount idx) (\<lambda>n.
     go_bind (ensure_mounted n mounted doMount) (\<lambda>_. set_refCount idx (n + 1)))"

definition unmount_last :: "int \<Rightarrow> ('w, bool) sys_call \<Rightarrow> ('w, unit) sys_call \<Rightarrow> ('w, unit) sys_call" where
  "unmount_last n mounted doUnmount =
     (if n = 1 then go_bind mounted (\<lambda>m. if m then doUnmount else go_return ()) else go_return ())"

definition decRef_with :: "string \<Rightarrow> ('w, bool) sys_call \<Rightarrow> ('w, unit) sys_call \<Rightarrow> ('w, unit) sys_call" where
  "decRef_with idx mounted doUnmount =
     go_bind (get_refCount idx) (\<lambda>n.
     go_bind (unmount_last n mounted doUnmount) (\<lambda>_.
       if 0 < n then set_refCount idx (n - 1) else go_return ()))"

text \<open>Entries with count zero are removed; the range deletes only the key it is at.\<close>

definition gcInactiveMounts :: "('w, unit) sys_call" where
  "gcInactiveMounts s =
     (Ok (), s\<lparr>sys_mountMap := fold AList.delete (map fst (filter (\<lambda>e. snd e = 0) (sys_mountMap s))) (sys_mountMap s)\<rparr>)"

subsection \<open>The WekaFS transport\<close>

definition mountBaseDirForRole :: "CsiPluginMode \<Rightarrow> string" where
  "mountBaseDirForRole mode =
     (case mode of
        CsiModeNode \<Rightarrow> ''/run/weka-fs-mounts-node''
      | CsiModeController \<Rightarrow> ''/run/weka-fs-mounts-controller''
      | CsiModeAll \<Rightarrow> ''/run/weka-fs-mounts'')"

record wekafsMounter =
  wm_debugPath :: string
  wm_allowProtocolContainers :: bool
  wm_config :: DriverConfig
  wm_mountBaseDir :: string

text \<open>The constructor does not set \<open>allowProtocolContainers\<close>, which keeps its zero value.\<close>

definition newWekafsMounter :: "DriverConfig \<Rightarrow> string \<Rightarrow> CsiPluginMode \<Rightarrow> wekafsMounter" where
  "newWekafsMounter cfg debugPath mode =
     \<lparr> wm_debugPath = debugPath, wm_allowProtocolContainers = False, wm_config = cfg,
       wm_mountBaseDir = mountBaseDirForRole mode \<rparr>"

record wekafsMount =
  wk_mounter :: wekafsMounter
  wk_fsName :: string
  wk_mountPoint :: string
  wk_mountOptions :: MountOptions
  wk_containerName :: string

definition mount_path :: "string \<Rightarrow> string \<Rightarrow> MountOptions \<Rightarrow> string" where
  "mount_path base fsName options =
     base @ ''/'' @ getAsciiPart fsName 64 @ ''-''
       @ getStringSha1AsB32 (fsName @ '':'' @ MountOptions_String options)"

definition wekafs_NewMount :: "wekafsMounter \<Rightarrow> string \<Rightarrow> MountOptions \<Rightarrow> wekafsMount" where
  "wekafs_NewMount M fsName options =
     \<lparr> wk_mounter = M, wk_fsName = fsName, wk_mountPoint = mount_path (wm_mountBaseDir M) fsName options,
       wk_mountOptions = options, wk_containerName = [] \<rparr>"

definition wekafs_getMountPoint :: "wekafsMount \<Rightarrow> string" where
  "wekafs_getMountPoint m =
     (if wk_containerName m \<noteq> [] then wk_mountPoint m @ ''-'' @ wk_containerName m else wk_mountPoint m)"

definition wekafs_isInDevMode :: "wekafsMount \<Rightarrow> bool" where
  "wekafs_isInDevMode m \<longleftrightarrow> wm_debugPath (wk_mounter m) \<noteq> []"

definition wekafs_isMounted :: "'w env \<Rightarrow> wekafsMount \<Rightarrow> ('w, bool) sys_call" where
  "wekafs_isMounted E m = isMounted E (wekafs_getMountPoint m)"

definition wekafs_getRefcountIdx :: "wekafsMount \<Rightarrow> string" where
  "wekafs_getRefcountIdx m = wekafs_getMountPoint m @ ''^'' @ MountOptions_String (wk_mountOptions m)"

definition wekafs_ensureLocalContainerName :: "'w env \<Rightarrow> wekafsMount \<Rightarrow> ('w, wekafsMount) sys_call" where
  "wekafs_ensureLocalContainerName E m =
     (if wk_containerName m \<noteq> [] then go_return m
      else go_bind the_client (\<lambda>a.
        if a = None \<or> wekafs_isInDevMode m then go_return m
        else go_catch
               (go_bind (on_client (EnsureLocalContainer E (wm_allowProtocolContainers (wk_mounter m))
                                      (dc_wekafsContainerName (wm_config (wk_mounter m)))))
                  (\<lambda>name. go_return (m\<lparr>wk_containerName := name\<rparr>)))
               (\<lambda>_. go_return m)))"

definition bind_mount :: "'w env \<Rightarrow> string \<Rightarrow> string \<Rightarrow> string \<Rightarrow> ('w, unit) sys_call" where
  "bind_mount E debugPath fsName mountPoint =
     (let fakePath = filepath_Join [debugPath, fsName]
      in go_bind (go_catch (os_call (env_mkdir_all E fakePath)) (\<lambda>_. go_panic)) (\<lambda>_.
           os_call (env_mount E fakePath mountPoint [] [''bind''] [])))"

definition mount_token :: "'w env \<Rightarrow> string \<Rightarrow> ('w, string list) sys_call" where
  "mount_token E fsName =
     go_bind the_client (\<lambda>a.
       if a = None then go_return []
       else go_bind (on_client (GetMountTokenForFilesystemName E fsName)) (\<lambda>mountToken. go_return [''token='' @ mountToken]))"

definition wekafs_doMount :: "'w env \<Rightarrow> wekafsMount \<Rightarrow> MountOptions \<Rightarrow> ('w, unit) sys_call" where
  "wekafs_doMount E m mountOptions =
     go_bind (os_call (env_mkdir_all E (wekafs_getMountPoint m))) (\<lambda>_.
       if \<not> wekafs_isInDevMode m
       then go_bind (look (isWekaRunning E)) (\<lambda>running.
              if \<not> running then go_raise (Plain ''weka is not running, cannot mount'')
              else go_bind (mount_token E (wk_fsName m)) (\<lambda>sensitive.
                (let opts = (if wk_containerName m \<noteq> []
                             then AddOption mountOptions (''container_name='' @ wk_containerName m) else mountOptions)
                 in os_call (env_mount E (wk_fsName m) (wekafs_getMountPoint m) ''wekafs''
                               (MountOptions_Strings opts) sensitive))))
       else bind_mount E (wm_debugPath (wk_mounter m)) (wk_fsName m) (wekafs_getMountPoint m))"

definition wekafs_doUnmount :: "'w env \<Rightarrow> wekafsMount \<Rightarrow> ('w, unit) sys_call" where
  "wekafs_doUnmount E m =
     go_bind (os_call (env_unmount E (wekafs_getMountPoint m))) (\<lambda>_.
     go_bind (wekafs_isMounted E m) (\<lambda>still.
       if still then go_raise (Plain ''mount point still exists in /proc/mounts after umount'')
       else ignore_error (os_call (env_remove E (wekafs_getMountPoint m)))))"

definition wekafs_incRef :: "'w env \<Rightarrow> wekafsMount \<Rightarrow> ('w, unit) sys_call" where
  "wekafs_incRef E m =
     incRef_with (wekafs_getRefcountIdx m) (wekafs_isMounted E m) (wekafs_doMount E m (wk_mountOptions m))"

definition wekafs_decRef :: "'w env \<Rightarrow> wekafsMount \<Rightarrow> ('w, unit) sys_call" where
  "wekafs_decRef E m = decRef_with (wekafs_getRefcountIdx m) (wekafs_isMounted E m) (wekafs_doUnmount E m)"

definition wekafs_locateContainerName :: "'w env \<Rightarrow> wekafsMount \<Rightarrow> ('w, wekafsMount) sys_call" where
  "wekafs_locateContainerName E m =
     (if wk_containerName m \<noteq> [] then go_return m
      else go_bind (look (proc_mounts E)) (\<lambda>pm.
             go_bind (lift_go (GetMountContainerNameFromActualMountPoint pm (wk_mountPoint m)))
               (\<lambda>name. go_return (m\<lparr>wk_containerName := name\<rparr>))))"

text \<open>\<open>getSelinuxStatus\<close> of both mounters: a positive answer is kept.\<close>

definition mounter_getSelinuxStatus :: "'w env \<Rightarrow> ('w, bool) sys_call" where
  "mounter_getSelinuxStatus E s =
     (if sys_selinux s = Some True then (Ok True, s)
      else (let b = getSelinuxStatus (env_read_file E ''/etc/selinux/config'' (sys_world s))
            in (Ok b, s\<lparr>sys_selinux := Some b\<rparr>)))"

text \<open>A successful mount returns the mount point and the object whose \<open>decRef\<close> is the unmount function.\<close>

definition wekafs_mountWithOptions :: "'w env \<Rightarrow> wekafsMounter \<Rightarrow> string \<Rightarrow> MountOptions \<Rightarrow> ('w, string \<times> wekafsMount) sys_call" where
  "wekafs_mountWithOptions E M fsName mountOptions =
     go_bind (mounter_getSelinuxStatus E) (\<lambda>selinux.
     go_bind (wekafs_ensureLocalContainerName E (wekafs_NewMount M fsName (setSelinux mountOptions selinux ''wekafs''))) (\<lambda>m.
     go_bind (wekafs_incRef E m) (\<lambda>_. go_return (wekafs_getMountPoint m, m))))"

definition wekafs_Mount :: "'w env \<Rightarrow> wekafsMounter \<Rightarrow> string \<Rightarrow> ('w, string \<times> wekafsMount) sys_call" where
  "wekafs_Mount E M fs = wekafs_mountWithOptions E M fs getDefaultMountOptions"

definition wekafs_unmountWithOptions :: "'w env \<Rightarrow> wekafsMounter \<Rightarrow> string \<Rightarrow> MountOptions \<Rightarrow> ('w, unit) sys_call" where
  "wekafs_unmountWithOptions E M fsName options =
     go_bind (mounter_getSelinuxStatus E) (\<lambda>selinux.
     go_bind (wekafs_locateContainerName E (wekafs_NewMount M fsName (setSelinux options selinux ''wekafs''))) (wekafs_decRef E))"

subsection \<open>The NFS transport\<close>

record nfsMounter =
  nm_debugPath :: string
  nm_clientGroupName :: string
  nm_nfsProtocolVersion :: string
  nm_exclusiveMountOptions :: "mutuallyExclusiveMountOptionSet list"
  nm_mountBaseDir :: string

definition newNfsMounter :: "DriverConfig \<Rightarrow> string \<Rightarrow> CsiPluginMode \<Rightarrow> nfsMounter" where
  "newNfsMounter cfg debugPath mode =
     \<lparr> nm_debugPath = debugPath, nm_clientGroupName = dc_clientGroupName cfg,
       nm_nfsProtocolVersion = dc_nfsProtocolVersion cfg,
       nm_exclusiveMountOptions = dc_mutuallyExclusiveOptions cfg, nm_mountBaseDir = mountBaseDirForRole mode \<rparr>"

record nfsMount =
  nf_mounter :: nfsMounter
  nf_fsName :: string
  nf_mountPoint :: string
  nf_mountOptions :: MountOptions
  nf_mountIpAddress :: string
  nf_protocolVersion :: string

definition nfs_NewMount :: "nfsMounter \<Rightarrow> string \<Rightarrow> MountOptions \<Rightarrow> nfsMount" where
  "nfs_NewMount M fsName options =
     \<lparr> nf_mounter = M, nf_fsName = fsName, nf_mountPoint = mount_path (nm_mountBaseDir M) fsName options,
       nf_mountOptions = options, nf_mountIpAddress = [], nf_protocolVersion = ''V'' @ nm_nfsProtocolVersion M \<rparr>"

definition nfs_getMountPoint :: "nfsMount \<Rightarrow> string" where
  "nfs_getMountPoint m = nf_mountPoint m @ ''-'' @ nf_mountIpAddress m"

definition nfs_getMountOptions :: "nfsMount \<Rightarrow> MountOptions" where
  "nfs_getMountOptions m = AddOption (nf_mountOptions m) (''vers='' @ NfsVersion_AsOption (nf_protocolVersion m))"

definition nfs_isMounted :: "'w env \<Rightarrow> nfsMount \<Rightarrow> ('w, bool) sys_call" where
  "nfs_isMounted E m = isMounted E (nfs_getMountPoint m)"

definition nfs_getRefcountIdx :: "nfsMount \<Rightarrow> string" where
  "nfs_getRefcountIdx m = nfs_getMountPoint m @ ''^'' @ MountOptions_String (AsNfs (nfs_getMountOptions m))"

definition nfs_ensureMountIpAddress :: "'w env \<Rightarrow> nfsMount \<Rightarrow> ('w, nfsMount) sys_call" where
  "nfs_ensureMountIpAddress E m =
     (if nf_mountIpAddress m = []
      then go_bind (on_client (GetNfsMountIp E)) (\<lambda>ip. go_return (m\<lparr>nf_mountIpAddress := ip\<rparr>))
      else go_return m)"

text \<open>The retry loop: \<open>n\<close> attempts, a pause after each failure, the last error at the end.\<close>

fun nfs_mount_retry :: "'w env \<Rightarrow> nat \<Rightarrow> ('w, unit) sys_call \<Rightarrow> go_error \<Rightarrow> ('w, unit) sys_call" where
  "nfs_mount_retry E 0 attempt err = go_raise err"
| "nfs_mount_retry E (Suc n) attempt err =
     go_catch attempt (\<lambda>e. go_bind (sleep E (seconds 2)) (\<lambda>_. nfs_mount_retry E n attempt e))"

definition nfs_doMount :: "'w env \<Rightarrow> nfsMount \<Rightarrow> MountOptions \<Rightarrow> ('w, unit) sys_call" where
  "nfs_doMount E m mountOptions =
     go_bind the_client (\<lambda>ac.
       case ac of
         None \<Rightarrow> go_raise (Plain ''no API client for mount, cannot do NFS mount'')
       | Some a \<Rightarrow>
           if ApiOrgId a \<noteq> 0 then go_raise (Plain ''cannot mount NFS volumes with non-Root organization'')
           else if nm_debugPath (nf_mounter m) = []
           then go_bind (go_catch (on_client (EnsureNfsPermissions E (nf_fsName m) ''V4'' (nm_clientGroupName (nf_mounter m))))
                           (\<lambda>_. go_raise (Plain ''failed to ensure NFS permissions''))) (\<lambda>_.
                go_bind (os_call (env_mkdir_all E (nfs_getMountPoint m))) (\<lambda>_.
                  nfs_mount_retry E 3
                    (os_call (env_mount E (nf_mountIpAddress m @ '':/'' @ nf_fsName m) (nfs_getMountPoint m) ''nfs''
                                (MountOptions_Strings mountOptions) []))
                    (Plain [])))
           else bind_mount E (nm_debugPath (nf_mounter m)) (nf_fsName m) (nfs_getMountPoint m))"

definition nfs_doUnmount :: "'w env \<Rightarrow> nfsMount \<Rightarrow> ('w, unit) sys_call" where
  "nfs_doUnmount E m =
     go_bind (os_call (env_unmount E (nfs_getMountPoint m))) (\<lambda>_.
       ignore_error (os_call (env_remove E (nfs_getMountPoint m))))"

definition nfs_incRef :: "'w env \<Rightarrow> nfsMount \<Rightarrow> ('w, unit) sys_call" where
  "nfs_incRef E m =
     incRef_with (nfs_getRefcountIdx m) (nfs_isMounted E m) (nfs_doMount E m (nfs_getMountOptions m))"

definition nfs_decRef :: "'w env \<Rightarrow> nfsMount \<Rightarrow> ('w, unit) sys_call" where
  "nfs_decRef E m = decRef_with (nfs_getRefcountIdx m) (nfs_isMounted E m) (nfs_doUnmount E m)"

definition nfs_locateMountIP :: "'w env \<Rightarrow> nfsMount \<Rightarrow> ('w, nfsMount) sys_call" where
  "nfs_locateMountIP E m =
     (if nf_mountIpAddress m = []
      then go_bind (look (proc_mounts E)) (\<lambda>pm.
             go_bind (lift_go (GetMountIpFromActualMountPoint pm (nf_mountPoint m)))
               (\<lambda>ip. go_return (m\<lparr>nf_mountIpAddress := ip\<rparr>)))
      else go_return m)"

text \<open>\<open>mountOptions.Merge(mountOptions, exclusives)\<close>: the map is ranged over while it is changed; an
  entry deleted before the range reaches it is not visited.\<close>

definition Merge_self :: "MountOptions \<Rightarrow> mutuallyExclusiveMountOptionSet list \<Rightarrow> MountOptions" where
  "Merge_self opts exclusives =
     opts\<lparr>customOptions :=
       fold AList.delete (excludeOptions opts)
         (fold (\<lambda>e m. if map_of m (fst e) = None then m else merge_option exclusives e m)
            (customOptions opts) (customOptions opts))\<rparr>"

definition nfs_options :: "nfsMounter \<Rightarrow> MountOptions \<Rightarrow> bool \<Rightarrow> MountOptions" where
  "nfs_options M mountOptions selinux =
     Merge_self (AsNfs (setSelinux mountOptions selinux ''nfs'')) (nm_exclusiveMountOptions M)"

definition nfs_mountWithOptions :: "'w env \<Rightarrow> nfsMounter \<Rightarrow> string \<Rightarrow> MountOptions \<Rightarrow> ('w, string \<times> nfsMount) sys_call" where
  "nfs_mountWithOptions E M fsName mountOptions =
     go_bind (mounter_getSelinuxStatus E) (\<lambda>selinux.
     go_bind (nfs_ensureMountIpAddress E (nfs_NewMount M fsName (nfs_options M mountOptions selinux))) (\<lambda>m.
     go_bind (nfs_incRef E m) (\<lambda>_. go_return (nfs_getMountPoint m, m))))"

definition nfs_Mount :: "'w env \<Rightarrow> nfsMounter \<Rightarrow> string \<Rightarrow> ('w, string \<times> nfsMount) sys_call" where
  "nfs_Mount E M fs = nfs_mountWithOptions E M fs getDefaultMountOptions"

definition nfs_unmountWithOptions :: "'w env \<Rightarrow> nfsMounter \<Rightarrow> string \<Rightarrow> MountOptions \<Rightarrow> ('w, unit) sys_call" where
  "nfs_unmountWithOptions E M fsName options =
     go_bind (mounter_getSelinuxStatus E) (\<lambda>selinux.
     go_bind (nfs_locateMountIP E (nfs_NewMount M fsName (nfs_options M options selinux))) (nfs_decRef E))"

subsection \<open>Choice of the transport\<close>

datatype AnyMounter = WekafsMounter wekafsMounter | NfsMounter nfsMounter
datatype AnyMount = WekafsMount wekafsMount | NfsMount nfsMount

definition NewMounter :: "'w env \<Rightarrow> DriverConfig \<Rightarrow> string \<Rightarrow> CsiPluginMode \<Rightarrow> 'w \<Rightarrow> AnyMounter" where
  "NewMounter E cfg debugPath mode w =
     (if dc_useNfs cfg then NfsMounter (newNfsMounter cfg debugPath mode)
      else if dc_allowNfsFailback cfg \<and> \<not> isWekaRunning E w \<and> \<not> DriverConfig_isInDevMode cfg
      then NfsMounter (newNfsMounter cfg debugPath mode)
      else WekafsMounter (newWekafsMounter cfg debugPath mode))"

fun mountWithOptions :: "'w env \<Rightarrow> AnyMounter \<Rightarrow> string \<Rightarrow> MountOptions \<Rightarrow> ('w, string \<times> AnyMount) sys_call" where
  "mountWithOptions E (WekafsMounter M) fsName opts =
     go_bind (wekafs_mountWithOptions E M fsName opts) (\<lambda>(p, m). go_return (p, WekafsMount m))"
| "mountWithOptions E (NfsMounter M) fsName opts =
     go_bind (nfs_mountWithOptions E M fsName opts) (\<lambda>(p, m). go_return (p, NfsMount m))"

fun incRef :: "'w env \<Rightarrow> AnyMount \<Rightarrow> ('w, unit) sys_call" where
  "incRef E (WekafsMount m) = wekafs_incRef E m"
| "incRef E (NfsMount m) = nfs_incRef E m"

fun decRef :: "'w env \<Rightarrow> AnyMount \<Rightarrow> ('w, unit) sys_call" where
  "decRef E (WekafsMount m) = wekafs_decRef E m"
| "decRef E (NfsMount m) = nfs_decRef E m"

fun getRefcountIdx :: "AnyMount \<Rightarrow> string" where
  "getRefcountIdx (WekafsMount m) = wekafs_getRefcountIdx m"
| "getRefcountIdx (NfsMount m) = nfs_getRefcountIdx m"

fun unmountWithOptions :: "'w env \<Rightarrow> AnyMounter \<Rightarrow> string \<Rightarrow> MountOptions \<Rightarrow> ('w, unit) sys_call" where
  "unmountWithOptions E (WekafsMounter M) fsName opts = wekafs_unmountWithOptions E M fsName opts"
| "unmountWithOptions E (NfsMounter M) fsName opts = nfs_unmountWithOptions E M fsName opts"

subsection \<open>Interleaved callers\<close>

text \<open>
  The mounter and the mounts that its callers hold.  A caller may mount, with success or not, and may
  release a mount it holds; a release that fails leaves the mount held.  Between two steps everything but
  the mount map may change: the other callers use other API clients, and the host moves on.
\<close>

inductive mounter_step :: "'w env \<Rightarrow> 'w sys \<times> AnyMount multiset \<Rightarrow> 'w sys \<times> AnyMount multiset \<Rightarrow> bool" for E where
  acquire: "incRef E m s = (Ok (), s') \<Longrightarrow> mounter_step E (s, H) (s', add_mset m H)"
| acquire_fail: "incRef E m s = (Err e, s') \<Longrightarrow> mounter_step E (s, H) (s', H)"
| release: "m \<in># H \<Longrightarrow> decRef E m s = (Ok (), s') \<Longrightarrow> mounter_step E (s, H) (s', H - {#m#})"
| release_fail: "m \<in># H \<Longrightarrow> decRef E m s = (Err e, s') \<Longrightarrow> mounter_step E (s, H) (s', H)"
| collect: "gcInactiveMounts s = (Ok (), s') \<Longrightarrow> mounter_step E (s, H) (s', H)"
| elsewhere: "sys_mountMap s' = sys_mountMap s \<Longrightarrow> mounter_step E (s, H) (s', H)"

inductive mounter_run :: "'w env \<Rightarrow> 'w sys \<times> AnyMount multiset \<Rightarrow> bool" for E where
  start: "sys_mountMap s = [] \<Longrightarrow> mounter_run E (s, {#})"
| step: "mounter_run E p \<Longrightarrow> mounter_step E p q \<Longrightarrow> mounter_run E q"

text \<open>How many of the held mounts have an index.\<close>

definition holders :: "('m \<Rightarrow> 'k) \<Rightarrow> 'm multiset \<Rightarrow> 'k \<Rightarrow> int" where
  "holders key H k = int (size (filter_mset (\<lambda>m. key m = k) H))"

definition counts_wf :: "'w sys \<Rightarrow> bool" where
  "counts_wf s \<longleftrightarrow> map_wf (sys_mountMap s) \<and> (\<forall>idx. 0 \<le> refCount s idx)"

definition held_ok :: "'w sys \<times> AnyMount multiset \<Rightarrow> bool" where
  "held_ok p \<longleftrightarrow> counts_wf (fst p) \<and> refCount (fst p) = holders getRefcountIdx (snd p)"

abbreviation mountMap_is :: "(string, int) gomap \<Rightarrow> 'w sys \<Rightarrow> bool" where
  "mountMap_is mm \<equiv> \<lambda>s. sys_mountMap s = mm"

abbreviation gc_is :: "innerPathVolGc \<Rightarrow> 'w sys \<Rightarrow> bool" where
  "gc_is g \<equiv> \<lambda>s. sys_gc s = g"

text \<open>For the witnesses: a node in development mode, where mounts are bind mounts.\<close>

definition dev_mount :: AnyMount where
  "dev_mount = WekafsMount (wekafs_NewMount (newWekafsMounter default_config ''/tmp/dev'' CsiModeNode) ''fs'' getDefaultMountOptions)"

definition idle_gc :: innerPathVolGc where
  "idle_gc = \<lparr> gc_isRunning = [], gc_isDeferred = [], gc_spawned = [], gc_retries = [] \<rparr>"

definition sys_start :: "unit sys" where
  "sys_start = \<lparr> sys_client = None, sys_mountMap = [], sys_selinux = None, sys_gc = idle_gc, sys_world = () \<rparr>"

definition sys_held :: "int \<Rightarrow> unit sys" where
  "sys_held n = sys_start\<lparr>sys_mountMap := [(getRefcountIdx dev_mount, n)]\<rparr>"

text \<open>A mount that the kernel keeps in its table.\<close>

definition stuck_mount :: wekafsMount where
  "stuck_mount =
     \<lparr> wk_mounter = newWekafsMounter default_config [] CsiModeNode, wk_fsName = ''fs'', wk_mountPoint = ''/m'',
       wk_mountOptions = getDefaultMountOptions, wk_containerName = [] \<rparr>"

definition stuck_env :: "unit env" where
  "stuck_env = null_env\<lparr>env_stat := \<lambda>p w. Directory, env_read_file := \<lambda>p w. Some [''fs /m wekafs rw 0 0'']\<rparr>"

definition dev_mounter :: wekafsMounter where
  "dev_mounter = newWekafsMounter default_config ''/tmp/dev'' CsiModeNode"

definition plain_mount :: wekafsMount where
  "plain_mount = wekafs_NewMount dev_mounter ''fs'' (setSelinux getDefaultMountOptions False ''wekafs'')"

definition sys_plain :: "int \<Rightarrow> unit sys" where
  "sys_plain n = sys_start\<lparr>sys_mountMap := [(wekafs_getRefcountIdx plain_mount, n)], sys_selinux := Some False\<rparr>"

section \<open>Lemmas\<close>

subsection \<open>Frame\<close>

named_theorems mount_keeps \<open>calls that leave a part of the state alone\<close>

lemma keeps_if [mount_keeps]: "(b \<Longrightarrow> keeps P m) \<Longrightarrow> (\<not> b \<Longrightarrow> keeps P n) \<Longrightarrow> keeps P (if b then m else n)"
  by simp

lemma keeps_option [mount_keeps]:
  "keeps P m \<Longrightarrow> (\<And>a. keeps P (f a)) \<Longrightarrow> keeps P (case x of None \<Rightarrow> m | Some a \<Rightarrow> f a)"
  by (cases x) simp_all

lemma keeps_path_kind [mount_keeps]:
  "keeps P a \<Longrightarrow> keeps P b \<Longrightarrow> keeps P c \<Longrightarrow> keeps P (case k of Missing \<Rightarrow> a | Directory \<Rightarrow> b | OtherFile \<Rightarrow> c)"
  by (cases k) simp_all

lemmas keeps_rules = keeps_basic keeps_bind keeps_catch keeps_try
declare keeps_rules [mount_keeps]

lemma keeps_ignore_error [mount_keeps]: "keeps P m \<Longrightarrow> keeps P (ignore_error m)"
  unfolding ignore_error_def by (intro mount_keeps)

text \<open>The parts of the state that only their own operations change: everything else changes the client, the
  SELinux flag and the world.\<close>

locale sys_frame =
  fixes P :: "'w sys \<Rightarrow> bool"
  assumes frame: "P s \<Longrightarrow> P (s\<lparr>sys_client := a, sys_selinux := b, sys_world := w\<rparr>)"
begin

lemma frame_world: "P s \<Longrightarrow> P (s\<lparr>sys_world := w\<rparr>)"
  using frame [where s = s and a = "sys_client s" and b = "sys_selinux s" and w = w] by simp

lemma frame_client: "P s \<Longrightarrow> P (s\<lparr>sys_client := a, sys_world := w\<rparr>)"
  using frame [where s = s and a = a and b = "sys_selinux s" and w = w] by simp

lemma frame_selinux: "P s \<Longrightarrow> P (s\<lparr>sys_selinux := b\<rparr>)"
  using frame [where s = s and a = "sys_client s" and b = b and w = "sys_world s"] by simp

lemma keeps_on_client [mount_keeps]: "keeps P (on_client m)"
  by (rule keepsI) (auto simp: on_client_def split: option.splits prod.splits intro: frame_client)

lemma keeps_reads [mount_keeps]:
  "keeps P the_client" "keeps P (look f)" "keeps P (sleep E d)"
  "keeps P (os_call g)" "keeps P (lift_go r)"
  by (auto intro!: keepsI simp: the_client_def look_def sleep_def os_call_def lift_go_def
      split: option.splits prod.splits intro: frame_world)

lemma keeps_PathExists [mount_keeps]: "keeps P (PathExists E p)"
  unfolding PathExists_def by (intro mount_keeps)

lemma keeps_isMounted [mount_keeps]: "keeps P (isMounted E p)"
  unfolding isMounted_def by (intro mount_keeps)

lemma keeps_bind_mount [mount_keeps]: "keeps P (bind_mount E d f p)"
  unfolding bind_mount_def Let_def by (intro mount_keeps)

lemma keeps_mount_token [mount_keeps]: "keeps P (mount_token E f)"
  unfolding mount_token_def by (intro mount_keeps)

lemma keeps_wekafs_isMounted [mount_keeps]: "keeps P (wekafs_isMounted E m)"
  unfolding wekafs_isMounted_def by (intro mount_keeps)

lemma keeps_nfs_isMounted [mount_keeps]: "keeps P (nfs_isMounted E m)"
  unfolding nfs_isMounted_def by (intro mount_keeps)

lemma keeps_wekafs_doMount [mount_keeps]: "keeps P (wekafs_doMount E m opts)"
  unfolding wekafs_doMount_def Let_def by (intro mount_keeps)

lemma keeps_wekafs_doUnmount [mount_keeps]: "keeps P (wekafs_doUnmount E m)"
  unfolding wekafs_doUnmount_def by (intro mount_keeps)

lemma keeps_nfs_mount_retry [mount_keeps]:
  assumes "keeps P attempt"
  shows "keeps P (nfs_mount_retry E n attempt e)"
  by (induction n arbitrary: e) (auto intro!: mount_keeps assms)

lemma keeps_nfs_doMount [mount_keeps]: "keeps P (nfs_doMount E m opts)"
  unfolding nfs_doMount_def by (intro mount_keeps)

lemma keeps_nfs_doUnmount [mount_keeps]: "keeps P (nfs_doUnmount E m)"
  unfolding nfs_doUnmount_def by (intro mount_keeps)

lemma keeps_mounter_getSelinuxStatus [mount_keeps]: "keeps P (mounter_getSelinuxStatus E)"
  by (rule keepsI) (auto simp: mounter_getSelinuxStatus_def Let_def split: if_splits intro: frame_selinux)

lemma keeps_wekafs_ensureLocalContainerName [mount_keeps]:
  "keeps P (wekafs_ensureLocalContainerName E m)"
  unfolding wekafs_ensureLocalContainerName_def by (intro mount_keeps)

lemma keeps_nfs_ensureMountIpAddress [mount_keeps]: "keeps P (nfs_ensureMountIpAddress E m)"
  unfolding nfs_ensureMountIpAddress_def by (intro mount_keeps)

end

interpretation map_frame: sys_frame "mountMap_is mm" for mm
  by unfold_locales simp

interpretation gc_frame: sys_frame "gc_is g" for g
  by unfold_locales simp

subsection \<open>The counters\<close>

lemma isMounted_eq:
  "isMounted E p s =
     (case env_stat E p (sys_world s) of
        Missing \<Rightarrow> (Ok False, s)
      | Directory \<Rightarrow> (Ok (PathIsWekaMount (proc_mounts E (sys_world s)) p), s)
      | OtherFile \<Rightarrow> (Panic, s))"
  by (simp add: isMounted_def PathExists_def look_def go_bind_def split: path_kind.splits)

lemma refCount_cong: "sys_mountMap s = sys_mountMap s' \<Longrightarrow> refCount s = refCount s'"
  by (simp add: refCount_def fun_eq_iff)

lemma refCount_update:
  "sys_mountMap s' = AList.update idx n (sys_mountMap s) \<Longrightarrow> refCount s' = (refCount s)(idx := n)"
  by (auto simp: refCount_def fun_eq_iff)

lemma counts_wf_update:
  "counts_wf s \<Longrightarrow> 0 \<le> n \<Longrightarrow> sys_mountMap s' = AList.update idx n (sys_mountMap s) \<Longrightarrow> counts_wf s'"
  by (simp add: counts_wf_def refCount_update)

lemma counts_wf_cong: "sys_mountMap s' = sys_mountMap s \<Longrightarrow> counts_wf s \<Longrightarrow> counts_wf s'"
  by (simp add: counts_wf_def refCount_cong [of s' s])

text \<open>The kernel mount of a transport, as the counters see it: two calls that leave the map alone.\<close>

lemma keeps_ensure_mounted [mount_keeps]:
  "keeps P mounted \<Longrightarrow> keeps P doMount \<Longrightarrow> keeps P (ensure_mounted n mounted doMount)"
  unfolding ensure_mounted_def by (intro mount_keeps)

lemma keeps_unmount_last [mount_keeps]:
  "keeps P mounted \<Longrightarrow> keeps P doUnmount \<Longrightarrow> keeps P (unmount_last n mounted doUnmount)"
  unfolding unmount_last_def by (intro mount_keeps)

lemma incRef_with_cases:
  assumes k: "\<And>mm. keeps (mountMap_is mm) mounted" "\<And>mm. keeps (mountMap_is mm) doMount"
    and r: "incRef_with idx mounted doMount s = (r, s')"
  shows "(\<forall>e. r = Err e \<longrightarrow> sys_mountMap s' = sys_mountMap s) \<and>
    (r = Ok () \<longrightarrow> sys_mountMap s' = AList.update idx (refCount s idx + 1) (sys_mountMap s))"
proof -
  obtain r1 s1 where m: "ensure_mounted (refCount s idx) mounted doMount s = (r1, s1)" by (rule prod.exhaust)
  have "keeps (mountMap_is (sys_mountMap s)) (ensure_mounted (refCount s idx) mounted doMount)"
    by (intro mount_keeps k)
  from keepsD [OF this refl m] r m show ?thesis
    by (cases r1) (auto simp: incRef_with_def get_refCount_def set_refCount_def)
qed

lemma decRef_with_cases:
  assumes k: "\<And>mm. keeps (mountMap_is mm) mounted" "\<And>mm. keeps (mountMap_is mm) doUnmount"
    and r: "decRef_with idx mounted doUnmount s = (r, s')"
  shows "(\<forall>e. r = Err e \<longrightarrow> sys_mountMap s' = sys_mountMap s) \<and>
    (r = Ok () \<longrightarrow> sys_mountMap s' =
      (if 0 < refCount s idx then AList.update idx (refCount s idx - 1) (sys_mountMap s) else sys_mountMap s))"
proof -
  obtain r1 s1 where m: "unmount_last (refCount s idx) mounted doUnmount s = (r1, s1)" by (rule prod.exhaust)
  have "keeps (mountMap_is (sys_mountMap s)) (unmount_last (refCount s idx) mounted doUnmount)"
    by (intro mount_keeps k)
  from keepsD [OF this refl m] r m show ?thesis
    by (cases r1) (auto simp: decRef_with_def get_refCount_def set_refCount_def split: if_splits)
qed

lemma refCount_gcInactiveMounts:
  assumes "map_wf (sys_mountMap s)" "gcInactiveMounts s = (Ok (), s')"
  shows "refCount s' = refCount s"
proof
  fix idx
  have "map_of (sys_mountMap s) idx = Some 0" if "idx \<in> fst ` {e \<in> set (sys_mountMap s). snd e = 0}"
    using that assms(1) by auto
  with assms(2) show "refCount s' idx = refCount s idx"
    by (auto simp: refCount_def gcInactiveMounts_def map_of_fold_delete)
qed

lemma counts_wf_gcInactiveMounts: "counts_wf s \<Longrightarrow> gcInactiveMounts s = (Ok (), s') \<Longrightarrow> counts_wf s'"
  using refCount_gcInactiveMounts [of s s'] by (auto simp: counts_wf_def gcInactiveMounts_def)

lemma incRef_cases:
  assumes "incRef E m s = (r, s')"
  shows "(\<forall>e. r = Err e \<longrightarrow> sys_mountMap s' = sys_mountMap s) \<and>
    (r = Ok () \<longrightarrow> sys_mountMap s' = AList.update (getRefcountIdx m) (refCount s (getRefcountIdx m) + 1) (sys_mountMap s))"
proof (cases m)
  case (WekafsMount x)
  with assms have "incRef_with (getRefcountIdx m) (wekafs_isMounted E x) (wekafs_doMount E x (wk_mountOptions x)) s = (r, s')"
    by (simp add: wekafs_incRef_def)
  then show ?thesis by (rule incRef_with_cases [rotated 2]) (rule mount_keeps)+
next
  case (NfsMount x)
  with assms have "incRef_with (getRefcountIdx m) (nfs_isMounted E x) (nfs_doMount E x (nfs_getMountOptions x)) s = (r, s')"
    by (simp add: nfs_incRef_def)
  then show ?thesis by (rule incRef_with_cases [rotated 2]) (rule mount_keeps)+
qed

lemma decRef_cases:
  assumes "decRef E m s = (r, s')"
  shows "(\<forall>e. r = Err e \<longrightarrow> sys_mountMap s' = sys_mountMap s) \<and>
    (r = Ok () \<longrightarrow> sys_mountMap s' =
      (if 0 < refCount s (getRefcountIdx m)
       then AList.update (getRefcountIdx m) (refCount s (getRefcountIdx m) - 1) (sys_mountMap s) else sys_mountMap s))"
proof (cases m)
  case (WekafsMount x)
  with assms have "decRef_with (getRefcountIdx m) (wekafs_isMounted E x) (wekafs_doUnmount E x) s = (r, s')"
    by (simp add: wekafs_decRef_def)
  then show ?thesis by (rule decRef_with_cases [rotated 2]) (rule mount_keeps)+
next
  case (NfsMount x)
  with assms have "decRef_with (getRefcountIdx m) (nfs_isMounted E x) (nfs_doUnmount E x) s = (r, s')"
    by (simp add: nfs_decRef_def)
  then show ?thesis by (rule decRef_with_cases [rotated 2]) (rule mount_keeps)+
qed

section \<open>The contract of a counter\<close>

text \<open>What the callers of a mounter rely on, for any state that counts the holders of a key.\<close>

locale mount_counter =
  fixes count :: "'s \<Rightarrow> 'k \<Rightarrow> int"
    and wf :: "'s \<Rightarrow> bool"
    and key :: "'m \<Rightarrow> 'k"
    and inc :: "'m \<Rightarrow> ('s, unit) call"
    and dec :: "'m \<Rightarrow> ('s, unit) call"
    and collector :: "('s, unit) call"
  assumes inc_Ok: "wf s \<Longrightarrow> inc m s = (Ok (), s') \<Longrightarrow> wf s' \<and> count s' = (count s)(key m := count s (key m) + 1)"
    and inc_Err: "wf s \<Longrightarrow> inc m s = (Err e, s') \<Longrightarrow> wf s' \<and> count s' = count s"
    and dec_Ok: "wf s \<Longrightarrow> 0 < count s (key m) \<Longrightarrow> dec m s = (Ok (), s') \<Longrightarrow>
      wf s' \<and> count s' = (count s)(key m := count s (key m) - 1)"
    and dec_Err: "wf s \<Longrightarrow> dec m s = (Err e, s') \<Longrightarrow> wf s' \<and> count s' = count s"
    and collector_Ok: "wf s \<Longrightarrow> collector s = (Ok (), s') \<Longrightarrow> wf s' \<and> count s' = count s"
    and nonneg: "wf s \<Longrightarrow> 0 \<le> count s k"
begin

lemma balanced:
  assumes "wf s" "inc m s = (Ok (), s1)" "dec m s1 = (Ok (), s2)"
  shows "wf s2 \<and> count s2 = count s"
proof -
  from inc_Ok [OF assms(1,2)] have s1: "wf s1" "count s1 = (count s)(key m := count s (key m) + 1)" by auto
  with nonneg [OF assms(1), of "key m"] have "0 < count s1 (key m)" by simp
  from dec_Ok [OF s1(1) this assms(3)] s1(2) show ?thesis by simp
qed

lemma held_add:
  assumes "wf s" "count s = holders key H" "inc m s = (Ok (), s')"
  shows "wf s' \<and> count s' = holders key (add_mset m H)"
  using inc_Ok [OF assms(1,3)] assms(2) by (auto simp: holders_def)

lemma held_pos: "count s = holders key H \<Longrightarrow> m \<in># H \<Longrightarrow> 0 < count s (key m)"
  by (drule mset_add) (auto simp: holders_def)

lemma held_remove:
  assumes "wf s" "count s = holders key H" "m \<in># H" "dec m s = (Ok (), s')"
  shows "wf s' \<and> count s' = holders key (H - {#m#})"
proof -
  from assms(3) obtain K where "H = add_mset m K" by (rule mset_add)
  with dec_Ok [OF assms(1) held_pos [OF assms(2,3)] assms(4)] assms(2) show ?thesis
    by (auto simp: holders_def)
qed

end

interpretation mounters: mount_counter refCount counts_wf getRefcountIdx "incRef E" "decRef E" gcInactiveMounts
  for E :: "'w env"
proof
  fix s s' :: "'w sys" and m e k
  show "counts_wf s' \<and> refCount s' = (refCount s)(getRefcountIdx m := refCount s (getRefcountIdx m) + 1)"
    if w: "counts_wf s" and "incRef E m s = (Ok (), s')"
  proof -
    from incRef_cases [OF that(2)]
    have *: "sys_mountMap s' = AList.update (getRefcountIdx m) (refCount s (getRefcountIdx m) + 1) (sys_mountMap s)" by simp
    have "0 \<le> refCount s (getRefcountIdx m) + 1" using w by (simp add: counts_wf_def add_increasing2)
    from counts_wf_update [OF w this *] refCount_update [OF *] show ?thesis by simp
  qed
  show "counts_wf s' \<and> refCount s' = refCount s" if w: "counts_wf s" and "incRef E m s = (Err e, s')"
  proof -
    from incRef_cases [OF that(2)] have *: "sys_mountMap s' = sys_mountMap s" by simp
    from counts_wf_cong [OF * w] refCount_cong [OF *] show ?thesis by simp
  qed
  show "counts_wf s' \<and> refCount s' = (refCount s)(getRefcountIdx m := refCount s (getRefcountIdx m) - 1)"
    if w: "counts_wf s" and "0 < refCount s (getRefcountIdx m)" and "decRef E m s = (Ok (), s')"
  proof -
    from decRef_cases [OF that(3)] that(2)
    have *: "sys_mountMap s' = AList.update (getRefcountIdx m) (refCount s (getRefcountIdx m) - 1) (sys_mountMap s)" by simp
    from that(2) have "0 \<le> refCount s (getRefcountIdx m) - 1" by simp
    from counts_wf_update [OF w this *] refCount_update [OF *] show ?thesis by simp
  qed
  show "counts_wf s' \<and> refCount s' = refCount s" if w: "counts_wf s" and "decRef E m s = (Err e, s')"
  proof -
    from decRef_cases [OF that(2)] have *: "sys_mountMap s' = sys_mountMap s" by simp
    from counts_wf_cong [OF * w] refCount_cong [OF *] show ?thesis by simp
  qed
  show "counts_wf s' \<and> refCount s' = refCount s" if "counts_wf s" "gcInactiveMounts s = (Ok (), s')"
    using counts_wf_gcInactiveMounts [OF that] refCount_gcInactiveMounts [OF _ that(2)] that(1) by (simp add: counts_wf_def)
  show "0 \<le> refCount s k" if "counts_wf s" using that by (simp add: counts_wf_def)
qed

inductive_cases mounter_stepE: "mounter_step E (s, H) q"

lemma held_ok_iff: "held_ok (s, H) \<longleftrightarrow> counts_wf s \<and> refCount s = holders getRefcountIdx H"
  by (simp add: held_ok_def)

lemma held_ok_step:
  assumes "mounter_step E p q" "held_ok p"
  shows "held_ok q"
  using assms
proof (induction rule: mounter_step.induct)
  case (acquire m s s' H)
  then show ?case unfolding held_ok_iff by (elim conjE) (rule mounters.held_add)
next
  case (acquire_fail m s e s' H)
  then have "counts_wf s' \<and> refCount s' = refCount s"
    unfolding held_ok_iff by (elim conjE) (rule mounters.inc_Err)
  with acquire_fail.prems show ?case unfolding held_ok_iff by simp
next
  case (release m H s s')
  then show ?case unfolding held_ok_iff by (elim conjE) (rule mounters.held_remove)
next
  case (release_fail m H s e s')
  then have "counts_wf s' \<and> refCount s' = refCount s"
    unfolding held_ok_iff by (elim conjE) (rule mounters.dec_Err)
  with release_fail.prems show ?case unfolding held_ok_iff by simp
next
  case (collect s s' H)
  then have "counts_wf s' \<and> refCount s' = refCount s"
    unfolding held_ok_iff by (elim conjE) (rule mounters.collector_Ok)
  with collect.prems show ?case unfolding held_ok_iff by simp
next
  case (elsewhere s' s H)
  then show ?case
    unfolding held_ok_iff using counts_wf_cong [OF elsewhere.hyps] refCount_cong [OF elsewhere.hyps] by simp
qed

lemma held_ok_run: "mounter_run E p \<Longrightarrow> held_ok p"
proof (induction rule: mounter_run.induct)
  case (start s) then show ?case by (simp add: held_ok_def counts_wf_def refCount_def holders_def fun_eq_iff)
next
  case (step p q) then show ?case by (simp add: held_ok_step)
qed

lemma decRef_with_shared:
  "1 < refCount s idx \<Longrightarrow> decRef_with idx mounted doUnmount s =
    (Ok (), s\<lparr>sys_mountMap := AList.update idx (refCount s idx - 1) (sys_mountMap s)\<rparr>)"
  by (simp add: decRef_with_def unmount_last_def get_refCount_def set_refCount_def)

lemma decRef_shared:
  assumes "1 < refCount s (getRefcountIdx m)"
  shows "decRef E m s =
    (Ok (), s\<lparr>sys_mountMap := AList.update (getRefcountIdx m) (refCount s (getRefcountIdx m) - 1) (sys_mountMap s)\<rparr>)"
  using assms by (cases m) (simp_all add: wekafs_decRef_def nfs_decRef_def decRef_with_shared)

lemma two_holders:
  assumes "m \<in># H" "m' \<in># H - {#m#}" "key m' = key m"
  shows "1 < holders key H (key m)"
proof -
  from assms(1) obtain K where "H = add_mset m K" by (rule mset_add)
  moreover from this assms(2) obtain L where "K = add_mset m' L" by (auto elim: mset_add)
  ultimately show ?thesis using assms(3) by (simp add: holders_def)
qed

lemma go_bind_return: "go_bind (go_return x) f = f x"
  by (rule ext) simp

lemma prepared_incRef:
  assumes "go_bind prep (\<lambda>m. go_bind (inc m) (\<lambda>_. go_return (f m))) s = (Ok y, s1)"
    and "\<And>mm. keeps (mountMap_is mm) prep"
  shows "\<exists>m s0. y = f m \<and> sys_mountMap s0 = sys_mountMap s \<and> inc m s0 = (Ok (), s1)"
proof -
  from assms(1) obtain m s0 where p: "prep s = (Ok m, s0)" "go_bind (inc m) (\<lambda>_. go_return (f m)) s0 = (Ok y, s1)"
    by (rule go_bind_OkE)
  from p(2) obtain s2 where "inc m s0 = (Ok (), s2)" "go_return (f m) s2 = (Ok y, s1)" by (rule go_bind_OkE) simp
  with keepsD [OF assms(2) refl p(1)] show ?thesis by auto
qed

lemma mountWithOptions_incRef:
  assumes "mountWithOptions E M fs opts s = (Ok (p, m), s1)"
  shows "\<exists>s0. sys_mountMap s0 = sys_mountMap s \<and> incRef E m s0 = (Ok (), s1)"
proof (cases M)
  case (WekafsMounter x)
  let ?prep = "go_bind (mounter_getSelinuxStatus E)
    (\<lambda>selinux. wekafs_ensureLocalContainerName E (wekafs_NewMount x fs (setSelinux opts selinux ''wekafs'')))"
  from assms WekafsMounter have
    "go_bind ?prep (\<lambda>m. go_bind (wekafs_incRef E m) (\<lambda>_. go_return (wekafs_getMountPoint m, WekafsMount m))) s = (Ok (p, m), s1)"
    by (simp only: mountWithOptions.simps wekafs_mountWithOptions_def go_bind_assoc go_bind_return prod.case)
  moreover have "keeps (mountMap_is mm) ?prep" for mm by (intro mount_keeps)
  ultimately have "\<exists>y s0. (p, m) = (wekafs_getMountPoint y, WekafsMount y) \<and> sys_mountMap s0 = sys_mountMap s
      \<and> wekafs_incRef E y s0 = (Ok (), s1)" by (rule prepared_incRef)
  then show ?thesis by auto
next
  case (NfsMounter x)
  let ?prep = "go_bind (mounter_getSelinuxStatus E)
    (\<lambda>selinux. nfs_ensureMountIpAddress E (nfs_NewMount x fs (nfs_options x opts selinux)))"
  from assms NfsMounter have
    "go_bind ?prep (\<lambda>m. go_bind (nfs_incRef E m) (\<lambda>_. go_return (nfs_getMountPoint m, NfsMount m))) s = (Ok (p, m), s1)"
    by (simp only: mountWithOptions.simps nfs_mountWithOptions_def go_bind_assoc go_bind_return prod.case)
  moreover have "keeps (mountMap_is mm) ?prep" for mm by (intro mount_keeps)
  ultimately have "\<exists>y s0. (p, m) = (nfs_getMountPoint y, NfsMount y) \<and> sys_mountMap s0 = sys_mountMap s
      \<and> nfs_incRef E y s0 = (Ok (), s1)" by (rule prepared_incRef)
  then show ?thesis by auto
qed

text \<open>The configuration cannot allow protocol containers: the flag does not reach the mounter.\<close>

lemma NewMounter_protocol_containers:
  "NewMounter E cfg d mode w = WekafsMounter M \<Longrightarrow> \<not> wm_allowProtocolContainers M"
  by (auto simp: NewMounter_def newWekafsMounter_def split: if_splits)

lemma dev_doMount:
  fixes s :: "unit sys"
  shows "wm_debugPath (wk_mounter x) \<noteq> [] \<Longrightarrow> wekafs_doMount null_env x opts s = (Ok (), s)"
  by (simp add: wekafs_doMount_def wekafs_isInDevMode_def bind_mount_def os_call_def null_env_def)

lemma dev_isMounted: "isMounted null_env p s = (Ok False, s)"
  by (simp add: isMounted_eq null_env_def)

lemma dev_incRef:
  assumes "0 \<le> n"
  shows "incRef null_env dev_mount (if n = 0 then sys_start else sys_held n) = (Ok (), sys_held (n + 1))"
  using assms
  by (auto simp: dev_mount_def sys_held_def sys_start_def wekafs_incRef_def incRef_with_def ensure_mounted_def
      get_refCount_def refCount_def set_refCount_def wekafs_isMounted_def dev_isMounted
      dev_doMount wekafs_NewMount_def newWekafsMounter_def)

lemma dev_mount_run: "mounter_run null_env (sys_held 1, {#dev_mount#})"
proof -
  have "mounter_run null_env (sys_start, {#})" by (rule start) (simp add: sys_start_def)
  moreover have "incRef null_env dev_mount sys_start = (Ok (), sys_held 1)" using dev_incRef [of 0] by simp
  ultimately show ?thesis using step acquire by fastforce
qed

lemma dev_mount_run2: "mounter_run null_env (sys_held 2, {#dev_mount, dev_mount#})"
proof -
  have "incRef null_env dev_mount (sys_held 1) = (Ok (), sys_held 2)" using dev_incRef [of 1] by simp
  from step [OF dev_mount_run acquire [OF this]] show ?thesis .
qed

lemma dev_mounter_debugPath: "wm_debugPath (wk_mounter plain_mount) \<noteq> []"
  by (simp add: plain_mount_def dev_mounter_def wekafs_NewMount_def newWekafsMounter_def)

lemma plain_incRef:
  "wekafs_incRef null_env plain_mount (sys_start\<lparr>sys_selinux := Some False\<rparr>) = (Ok (), sys_plain 1)"
  by (simp add: wekafs_incRef_def incRef_with_def ensure_mounted_def get_refCount_def set_refCount_def
      refCount_def sys_start_def sys_plain_def dev_doMount dev_mounter_debugPath)

lemma plain_ensure: "wekafs_ensureLocalContainerName null_env plain_mount s = (Ok plain_mount, s)"
proof -
  have "wekafs_isInDevMode plain_mount" by (simp add: wekafs_isInDevMode_def dev_mounter_debugPath)
  then show ?thesis by (simp add: wekafs_ensureLocalContainerName_def the_client_def)
qed

lemma plain_mounted:
  "mountWithOptions null_env (WekafsMounter dev_mounter) ''fs'' getDefaultMountOptions sys_start =
     (Ok (wekafs_getMountPoint plain_mount, WekafsMount plain_mount), sys_plain 1)"
proof -
  have "mounter_getSelinuxStatus null_env sys_start = (Ok False, sys_start\<lparr>sys_selinux := Some False\<rparr>)"
    by (simp add: mounter_getSelinuxStatus_def sys_start_def null_env_def getSelinuxStatus_def)
  note selinux = go_bind_simps(1) [where m = "mounter_getSelinuxStatus null_env" and s = sys_start, OF this]
  have "wekafs_mountWithOptions null_env dev_mounter ''fs'' getDefaultMountOptions sys_start =
      (Ok (wekafs_getMountPoint plain_mount, plain_mount), sys_plain 1)"
    by (simp add: wekafs_mountWithOptions_def selinux plain_mount_def [symmetric] plain_ensure plain_incRef)
  then show ?thesis by simp
qed

lemma plain_released: "decRef null_env (WekafsMount plain_mount) (sys_plain 1) = (Ok (), sys_plain 0)"
  by (simp add: wekafs_decRef_def decRef_with_def unmount_last_def get_refCount_def set_refCount_def refCount_def
      sys_plain_def wekafs_isMounted_def go_bind_simps(1) [OF dev_isMounted])

lemma stuck_path: "wekafs_getMountPoint stuck_mount = ''/m''"
  by (simp add: wekafs_getMountPoint_def stuck_mount_def)

lemma stuck_listed: "PathIsWekaMount (proc_mounts stuck_env w) ''/m''"
proof -
  have "PathIsWekaMount (Some [''fs /m wekafs rw 0 0'']) ''/m''" by code_simp
  then show ?thesis by (simp add: proc_mounts_def stuck_env_def)
qed

section \<open>Properties\<close>

text \<open>
  C1: whatever the interleaving of mounts, releases and collections, and whatever the cluster and the
  host do, the count of every index is the number of mounts of that index that callers hold.
\<close>

theorem mounter_references:
  assumes "mounter_run E (s, H)"
  shows "refCount s idx = holders getRefcountIdx H idx"
  using held_ok_run [OF assms] by (simp add: held_ok_def)

theorem mounter_references_witness: "refCount (sys_held 1) (getRefcountIdx dev_mount) = holders getRefcountIdx {#dev_mount#} (getRefcountIdx dev_mount)"
  by (rule mounter_references [OF dev_mount_run])

text \<open>
  C30: releasing a mount that another caller still holds cannot fail and does not touch the host: the
  kernel mount stays, and the mount is still counted.
\<close>

theorem shared_mount_kept:
  assumes "mounter_run E (s, H)" "m \<in># H" "m' \<in># H - {#m#}" "getRefcountIdx m' = getRefcountIdx m"
  shows "\<exists>s'. decRef E m s = (Ok (), s') \<and> sys_world s' = sys_world s \<and> 0 < refCount s' (getRefcountIdx m')"
proof -
  from held_ok_run [OF assms(1)] two_holders [OF assms(2-4)] have n: "1 < refCount s (getRefcountIdx m)"
    by (simp add: held_ok_def)
  from decRef_shared [OF n] n assms(4) show ?thesis by (auto simp: refCount_def)
qed

theorem shared_mount_kept_witness:
  "\<exists>s'. decRef null_env dev_mount (sys_held 2) = (Ok (), s') \<and> sys_world s' = sys_world (sys_held 2)
     \<and> 0 < refCount s' (getRefcountIdx dev_mount)"
  by (rule shared_mount_kept [OF dev_mount_run2]) simp_all

text \<open>
  C31: mounting with any options and then releasing the mount restores every count, for both transports.
\<close>

theorem mount_release_roundtrip:
  assumes "counts_wf s" "mountWithOptions E M fs opts s = (Ok (p, m), s1)" "decRef E m s1 = (Ok (), s2)"
  shows "counts_wf s2 \<and> refCount s2 = refCount s"
proof -
  from mountWithOptions_incRef [OF assms(2)] obtain s0
    where s0: "sys_mountMap s0 = sys_mountMap s" "incRef E m s0 = (Ok (), s1)" by blast
  from mounters.balanced [OF counts_wf_cong [OF s0(1) assms(1)] s0(2) assms(3)] refCount_cong [OF s0(1)]
  show ?thesis by simp
qed

theorem mount_release_roundtrip_witness:
  "\<exists>s2. decRef null_env (WekafsMount plain_mount) (sys_plain 1) = (Ok (), s2) \<and> counts_wf s2 \<and> refCount s2 = refCount sys_start"
proof -
  have "counts_wf sys_start" by (simp add: counts_wf_def refCount_def sys_start_def)
  from mount_release_roundtrip [OF this plain_mounted plain_released] plain_released show ?thesis
    by (intro exI [of _ "sys_plain 0"] conjI) simp_all
qed

text \<open>
  The WekaFS unmount is verified: when the kernel reports success but the mount is still in the mount
  table, the release fails and the reference is kept, so that the mount is not forgotten.
\<close>

lemma wekafs_decRef_verified:
  assumes "refCount s (wekafs_getRefcountIdx m) = 1"
    and "wekafs_isMounted E m s = (Ok True, s)"
    and "env_unmount E (wekafs_getMountPoint m) (sys_world s) = (None, w1)"
    and "env_stat E (wekafs_getMountPoint m) w1 = Directory"
    and "PathIsWekaMount (proc_mounts E w1) (wekafs_getMountPoint m)"
  shows "\<exists>e s'. wekafs_decRef E m s = (Err e, s') \<and> refCount s' (wekafs_getRefcountIdx m) = 1"
proof -
  have "wekafs_doUnmount E m s =
      (Err (Plain ''mount point still exists in /proc/mounts after umount''), s\<lparr>sys_world := w1\<rparr>)"
    using assms(3-5)
    by (simp add: wekafs_doUnmount_def os_call_def wekafs_isMounted_def isMounted_eq)
  then have "wekafs_decRef E m s =
      (Err (Plain ''mount point still exists in /proc/mounts after umount''), s\<lparr>sys_world := w1\<rparr>)"
    using assms(1,2) by (simp add: wekafs_decRef_def decRef_with_def get_refCount_def unmount_last_def)
  then show ?thesis using assms(1) by (auto simp: refCount_def)
qed

lemma wekafs_decRef_verified_example:
  "\<exists>e s'. wekafs_decRef stuck_env stuck_mount (sys_start\<lparr>sys_mountMap := [(wekafs_getRefcountIdx stuck_mount, 1)]\<rparr>) = (Err e, s')
     \<and> refCount s' (wekafs_getRefcountIdx stuck_mount) = 1"
proof (rule wekafs_decRef_verified [of _ _ stuck_env "()"])
  let ?s = "sys_start\<lparr>sys_mountMap := [(wekafs_getRefcountIdx stuck_mount, 1)]\<rparr>"
  show "refCount ?s (wekafs_getRefcountIdx stuck_mount) = 1" by (simp add: refCount_def)
  show "env_stat stuck_env (wekafs_getMountPoint stuck_mount) () = Directory" by (simp add: stuck_env_def)
  then show "wekafs_isMounted stuck_env stuck_mount ?s = (Ok True, ?s)"
    by (simp add: wekafs_isMounted_def isMounted_eq stuck_path stuck_listed sys_start_def)
  show "PathIsWekaMount (proc_mounts stuck_env ()) (wekafs_getMountPoint stuck_mount)" by (simp add: stuck_path stuck_listed)
  show "env_unmount stuck_env (wekafs_getMountPoint stuck_mount) (sys_world ?s) = (None, ())"
    by (simp add: stuck_env_def null_env_def)
qed

end
