(* ===== verification/Volumes.thy ===== *)
theory Volumes
  imports Mounts
begin

text \<open>
  The volume object of the driver (\<open>pkg/wekafs/volume.go\<close>, with helpers of \<open>utilities.go\<close>).  A
  method of \<open>*Volume\<close> is a call on the pair of the volume and the system; the API client of the volume is
  the client of the system, as every volume of a request is built with the request's client.  A volume is
  a filesystem, a snapshot of one, or a directory inside either; the model has the code that finds out
  whether it exists, creates it, sets and reads its capacity, and removes it.

  Goroutines that only poll for a deletion that has already been requested do not change the state of the
  driver and are not part of the call that starts them.
\<close>

section \<open>Definitions\<close>

subsection \<open>State\<close>

text \<open>The driver side of a CSI snapshot (\<open>Snapshot\<close> in \<open>snapshot.go\<close>); of its source volume only the
  identifier is kept.\<close>

record CsiSnapshot =
  cs_id :: string
  cs_FilesystemName :: string
  cs_SnapshotNameHash :: string
  cs_SnapshotIntegrityId :: string
  cs_SnapshotName :: string
  cs_innerPath :: string
  cs_SourceVolumeId :: "string option"
  cs_srcSnapshotUid :: "uuid option"

text \<open>What a cloned volume reads of its source.\<close>

record SourceVolume =
  sv_id :: string
  sv_SnapshotName :: string
  sv_SnapshotAccessPoint :: string

record Volume =
  v_id :: string
  v_FilesystemName :: string
  v_filesystemGroupName :: string
  v_SnapshotName :: string
  v_SnapshotAccessPoint :: string
  v_SnapshotUuid :: "uuid option"
  v_innerPath :: string
  v_permissions :: int
  v_ownerUid :: int
  v_ownerGid :: int
  v_mountPath :: string
  v_enforceCapacity :: bool
  v_initialFilesystemSize :: int
  v_mountOptions :: MountOptions
  v_encrypted :: "bool option"
  v_manageEncryptionKeys :: bool
  v_encryptWithoutKms :: bool
  v_kmsVaultNamespace :: string
  v_kmsVaultKeyIdentifier :: string
  v_kmsVaultRoleId :: string
  v_KmsVaultSecretId :: string
  v_srcVolume :: "SourceVolume option"
  v_srcSnapshot :: "CsiSnapshot option"
  v_fileSystemObject :: "FileSystem option"

text \<open>What a volume needs of its server (\<open>AnyServer\<close>).\<close>

record Server =
  srv_config :: DriverConfig
  srv_mounter :: AnyMounter
  srv_defaultMountOptions :: MountOptions

definition srv_isInDevMode :: "Server \<Rightarrow> bool" where
  "srv_isInDevMode S = DriverConfig_isInDevMode (srv_config S)"

type_synonym ('w, 'a) vol = "(Volume \<times> 'w sys, 'a) call"

definition on_sys :: "('w, 'a) sys_call \<Rightarrow> ('w, 'a) vol" where
  "on_sys m p = (case m (snd p) of (r, s') \<Rightarrow> (r, (fst p, s')))"

definition this_volume :: "('w, Volume) vol" where
  "this_volume p = (Ok (fst p), p)"

definition modify_volume :: "(Volume \<Rightarrow> Volume) \<Rightarrow> ('w, unit) vol" where
  "modify_volume f p = (Ok (), (f (fst p), snd p))"

abbreviation on_api :: "('w, 'a) api \<Rightarrow> ('w, 'a) vol" where
  "on_api m \<equiv> on_sys (on_client m)"

text \<open>The client's capabilities, read through the pointer.\<close>

definition supports :: "(ApiClient \<Rightarrow> bool) \<Rightarrow> ('w, bool) vol" where
  "supports f = on_api (go_bind client (\<lambda>a. go_return (f a)))"

definition is_bound :: "('w, bool) vol" where
  "is_bound = go_bind (on_sys the_client) (\<lambda>a. go_return (a \<noteq> None))"

subsection \<open>Kind of a volume\<close>

definition isOnSnapshot :: "Volume \<Rightarrow> bool" where
  "isOnSnapshot v \<longleftrightarrow> v_SnapshotUuid v \<noteq> None \<or> v_SnapshotAccessPoint v \<noteq> []"

definition hasInnerPath :: "Volume \<Rightarrow> bool" where
  "hasInnerPath v \<longleftrightarrow> v_innerPath v \<noteq> []"

definition isFilesystem :: "Volume \<Rightarrow> bool" where
  "isFilesystem v \<longleftrightarrow> \<not> isOnSnapshot v \<and> \<not> hasInnerPath v"

definition requiresGc :: "Volume \<Rightarrow> bool" where
  "requiresGc v \<longleftrightarrow> hasInnerPath v \<and> \<not> isOnSnapshot v"

definition hasCustomEncryptionSettings :: "Volume \<Rightarrow> bool" where
  "hasCustomEncryptionSettings v \<longleftrightarrow>
     v_kmsVaultNamespace v \<noteq> [] \<or> v_kmsVaultKeyIdentifier v \<noteq> [] \<or> v_kmsVaultRoleId v \<noteq> [] \<or> v_KmsVaultSecretId v \<noteq> []"

datatype content_source = SourceIsVolume string | SourceIsSnapshot string

definition getCsiContentSource :: "Volume \<Rightarrow> content_source option" where
  "getCsiContentSource v =
     (case v_srcVolume v of
        Some sv \<Rightarrow> Some (SourceIsVolume (sv_id sv))
      | None \<Rightarrow> (case v_srcSnapshot v of Some cs \<Rightarrow> Some (SourceIsSnapshot (cs_id cs)) | None \<Rightarrow> None))"

subsection \<open>Mount options\<close>

definition prune_options :: "ApiClient option \<Rightarrow> MountOptions \<Rightarrow> MountOptions" where
  "prune_options ac opts =
     (let o1 = (if hasOption opts ''sync_on_close''
                then (case ac of
                        Some a \<Rightarrow> if \<not> SyncOnCloseMountOption (CompatibilityMap a) then RemoveOption opts ''sync_on_close'' else opts
                      | None \<Rightarrow> RemoveOption opts ''sync_on_close'')
                else opts);
          o2 = (if hasOption o1 ''ro'' then RemoveOption o1 ''ro'' else o1)
      in if hasOption o2 ''container_name'' then RemoveOption o2 ''container_name'' else o2)"

definition pruneUnsupportedMountOptions :: "('w, unit) vol" where
  "pruneUnsupportedMountOptions =
     go_bind (on_sys the_client) (\<lambda>ac.
       modify_volume (\<lambda>v. v\<lparr>v_mountOptions := prune_options ac (v_mountOptions v)\<rparr>))"

definition initMountOptions :: "('w, unit) vol" where
  "initMountOptions =
     go_bind (modify_volume (\<lambda>v. v\<lparr>v_mountOptions := getDefaultMountOptions\<rparr>)) (\<lambda>_. pruneUnsupportedMountOptions)"

definition setMountOptions :: "Server \<Rightarrow> MountOptions \<Rightarrow> ('w, unit) vol" where
  "setMountOptions S mountOptions =
     modify_volume (\<lambda>v. v\<lparr>v_mountOptions := Merge (v_mountOptions v) mountOptions (dc_mutuallyExclusiveOptions (srv_config S))\<rparr>)"

subsection \<open>Paths\<close>

definition SnapshotsSubDirectory :: string where
  "SnapshotsSubDirectory = ''.snapshots''"

definition GetRelativePath :: "Volume \<Rightarrow> string" where
  "GetRelativePath v =
     filepath_Join (''/'' # (if isOnSnapshot v then [SnapshotsSubDirectory, v_SnapshotAccessPoint v] else [])
       @ (if hasInnerPath v then [v_innerPath v] else []))"

definition GetFullPath :: "Volume \<Rightarrow> string" where
  "GetFullPath v = filepath_Join [v_mountPath v, GetRelativePath v]"

definition full_path :: "('w, string) vol" where
  "full_path = go_bind this_volume (\<lambda>v. go_return (GetFullPath v))"

definition fileExists :: "'w env \<Rightarrow> string \<Rightarrow> ('w, bool) sys_call" where
  "fileExists E p = look (\<lambda>w. env_stat E p w \<noteq> Missing)"

definition pathIsDirectory :: "'w env \<Rightarrow> string \<Rightarrow> ('w, unit) sys_call" where
  "pathIsDirectory E p =
     go_bind (look (env_stat E p)) (\<lambda>k.
       case k of
         Missing \<Rightarrow> go_raise (Status NotFound)
       | Directory \<Rightarrow> go_return ()
       | OtherFile \<Rightarrow> go_raise (Status Internal))"

definition set_xattr :: "'w env \<Rightarrow> string \<Rightarrow> string \<times> string \<Rightarrow> ('w, unit) sys_call" where
  "set_xattr E volPath kv =
     go_catch (os_call (env_xattr_set E volPath (fst kv) (snd kv))) (\<lambda>_. go_raise (Status Internal))"

definition updateXattrs :: "'w env \<Rightarrow> string \<Rightarrow> (string, string) gomap \<Rightarrow> ('w, unit) sys_call" where
  "updateXattrs E volPath attrs = go_each (set_xattr E volPath) attrs"

definition setVolumeProperties :: "'w env \<Rightarrow> string \<Rightarrow> int \<Rightarrow> string \<Rightarrow> ('w, unit) sys_call" where
  "setVolumeProperties E volPath capacity volName =
     updateXattrs E volPath
       ((if volName \<noteq> [] then [(''user.weka_k8s_volname'', volName)] else [])
        @ (if 0 < capacity then [(''user.weka_capacity'', show_int capacity)] else []))"

subsection \<open>Mounting\<close>

definition volume_mount_options :: "Server \<Rightarrow> Volume \<Rightarrow> MountOptions" where
  "volume_mount_options S v =
     MergedWith (srv_defaultMountOptions S) (v_mountOptions v) (dc_mutuallyExclusiveOptions (srv_config S))"

definition MountUnderlyingFS :: "'w env \<Rightarrow> Server \<Rightarrow> ('w, AnyMount) vol" where
  "MountUnderlyingFS E S =
     go_bind this_volume (\<lambda>v.
     go_bind (on_sys (mountWithOptions E (srv_mounter S) (v_FilesystemName v) (volume_mount_options S v))) (\<lambda>(path, m).
     go_bind (modify_volume (\<lambda>v. v\<lparr>v_mountPath := path\<rparr>)) (\<lambda>_. go_return m)))"

text \<open>The unmount function \<open>MountUnderlyingFS\<close> returns.\<close>

definition release_volume :: "'w env \<Rightarrow> AnyMount \<Rightarrow> ('w, unit) vol" where
  "release_volume E m =
     go_bind (go_try (on_sys (decRef E m))) (\<lambda>r.
     go_bind (modify_volume (\<lambda>v. v\<lparr>v_mountPath := []\<rparr>)) (\<lambda>_. lift_go r))"

text \<open>The pattern \<open>err, unmount := v.MountUnderlyingFS(ctx); defer deferUmount(unmount, &retErr)\<close>.\<close>

definition with_mount :: "'w env \<Rightarrow> Server \<Rightarrow> ('w, 'a) vol \<Rightarrow> ('w, 'a) vol" where
  "with_mount E S body = go_bind (MountUnderlyingFS E S) (\<lambda>m. deferUmount (release_volume E m) body)"

definition UnmountUnderlyingFS :: "'w env \<Rightarrow> Server \<Rightarrow> ('w, unit) vol" where
  "UnmountUnderlyingFS E S =
     go_bind this_volume (\<lambda>v.
     go_bind (on_sys (unmountWithOptions E (srv_mounter S) (v_FilesystemName v) (v_mountOptions v))) (\<lambda>_.
       modify_volume (\<lambda>v. v\<lparr>v_mountPath := []\<rparr>)))"

definition vol_isMounted :: "'w env \<Rightarrow> ('w, bool) vol" where
  "vol_isMounted E =
     go_bind this_volume (\<lambda>v.
       on_sys (look (\<lambda>w. v_mountPath v \<noteq> [] \<and> PathIsWekaMount (proc_mounts E w) (v_mountPath v))))"

subsection \<open>Objects of the cluster\<close>

definition missing_as_None :: "('s, 'a) call \<Rightarrow> ('s, 'a option) call" where
  "missing_as_None m =
     go_catch (go_bind m (\<lambda>x. go_return (Some x)))
       (\<lambda>e. if e = Api ObjectNotFoundError then go_return None else go_raise e)"

definition fetch_filesystem :: "'w env \<Rightarrow> string \<Rightarrow> ('w, FileSystem option) vol" where
  "fetch_filesystem E name =
     go_bind is_bound (\<lambda>b.
       if \<not> b then go_raise (Plain ''cannot get object of API-unbound volume'')
       else go_bind (missing_as_None (on_api (GetFileSystemByName E name))) (\<lambda>r.
              case r of
                None \<Rightarrow> go_return None
              | Some fs \<Rightarrow> go_bind (modify_volume (\<lambda>v. v\<lparr>v_fileSystemObject := Some fs\<rparr>)) (\<lambda>_. go_return (Some fs))))"

definition getFilesystemObj :: "'w env \<Rightarrow> bool \<Rightarrow> ('w, FileSystem option) vol" where
  "getFilesystemObj E fromCache =
     go_bind this_volume (\<lambda>v.
       case v_fileSystemObject v of
         Some fs \<Rightarrow> if fromCache \<and> \<not> fs_IsRemoving fs then go_return (Some fs) else fetch_filesystem E (v_FilesystemName v)
       | None \<Rightarrow> fetch_filesystem E (v_FilesystemName v))"

definition find_snapshot :: "'w env \<Rightarrow> string \<Rightarrow> ('w, Snapshot option) vol" where
  "find_snapshot E name =
     go_bind is_bound (\<lambda>b.
       if \<not> b then go_raise (Plain ''cannot get object of API-unbound snapshot'')
       else missing_as_None (on_api (GetSnapshotByName E name)))"

text \<open>The field \<open>snapshotObject\<close> is never set, so the cache of \<open>getSnapshotObj\<close> is always empty.\<close>

definition getSnapshotObj :: "'w env \<Rightarrow> ('w, Snapshot option) vol" where
  "getSnapshotObj E = go_bind this_volume (\<lambda>v. find_snapshot E (v_SnapshotName v))"

definition ErrFilesystemNotFound :: go_error where
  "ErrFilesystemNotFound = Status FailedPrecondition"

definition ErrFilesystemHasUnderlyingSnapshots :: go_error where
  "ErrFilesystemHasUnderlyingSnapshots = Status FailedPrecondition"

definition ErrFilesystemBiggerThanRequested :: go_error where
  "ErrFilesystemBiggerThanRequested = Plain ''could not resize filesystem since it is already larger than requested size''"

definition fileSystemExists :: "'w env \<Rightarrow> ('w, bool) vol" where
  "fileSystemExists E =
     go_bind (getFilesystemObj E False) (\<lambda>r.
       case r of
         None \<Rightarrow> go_return False
       | Some fs \<Rightarrow> go_return (fs_Uid fs \<noteq> uuid_Nil \<and> \<not> fs_IsRemoving fs))"

definition snapshotExists :: "'w env \<Rightarrow> ('w, bool) vol" where
  "snapshotExists E =
     go_bind (getSnapshotObj E) (\<lambda>r.
       case r of
         None \<Rightarrow> go_return False
       | Some sn \<Rightarrow> go_return (snap_Uid sn \<noteq> uuid_Nil \<and> \<not> snap_IsRemoving sn))"

subsection \<open>Existence\<close>

definition mimicDirectoryStructureForDebugMode :: "'w env \<Rightarrow> Server \<Rightarrow> ('w, unit) vol" where
  "mimicDirectoryStructureForDebugMode E S =
     with_mount E S (go_bind full_path (\<lambda>p. on_sys (os_call (env_mkdir_all E p))))"

definition directory_exists :: "'w env \<Rightarrow> ('w, bool) vol" where
  "directory_exists E =
     go_bind full_path (\<lambda>p.
     go_bind (on_sys (PathExists E p)) (\<lambda>ex.
       if \<not> ex then go_return False
       else go_bind (go_catch (on_sys (pathIsDirectory E p)) (\<lambda>_. go_raise (Status Internal))) (\<lambda>_. go_return True)))"

definition inner_path_exists :: "'w env \<Rightarrow> Server \<Rightarrow> ('w, bool) vol" where
  "inner_path_exists E S =
     go_bind this_volume (\<lambda>v. if hasInnerPath v then with_mount E S (directory_exists E) else go_return True)"

definition Volume_Exists :: "'w env \<Rightarrow> Server \<Rightarrow> ('w, bool) vol" where
  "Volume_Exists E S =
     go_bind this_volume (\<lambda>v.
     go_bind is_bound (\<lambda>b.
       if (isOnSnapshot v \<or> isFilesystem v) \<and> \<not> b then go_return False
       else if isFilesystem v then fileSystemExists E
       else if isOnSnapshot v
       then go_bind (snapshotExists E) (\<lambda>ex.
              if \<not> ex then go_return False
              else go_bind (if srv_isInDevMode S then mimicDirectoryStructureForDebugMode E S else go_return ())
                     (\<lambda>_. inner_path_exists E S))
       else inner_path_exists E S))"

subsection \<open>Encryption\<close>

definition store_encryption :: "FileSystem \<Rightarrow> Volume \<Rightarrow> Volume" where
  "store_encryption fs v =
     (let v1 = v\<lparr>v_encrypted := Some (fs_IsEncrypted fs)\<rparr>
      in if fs_IsEncrypted fs
         then v1\<lparr>v_kmsVaultRoleId := (if v_kmsVaultRoleId v = [] then fs_KmsRole fs else v_kmsVaultRoleId v),
                 v_kmsVaultNamespace := (if v_kmsVaultNamespace v = [] then fs_KmsNamespace fs else v_kmsVaultNamespace v),
                 v_kmsVaultKeyIdentifier :=
                   (if v_kmsVaultKeyIdentifier v = [] then fs_KmsKeyIdentifier fs else v_kmsVaultKeyIdentifier v)\<rparr>
         else v1)"

text \<open>The flag is read from the filesystem; a failed existence check or a missing client leaves it unset.\<close>

definition fetch_encryption :: "'w env \<Rightarrow> Server \<Rightarrow> ('w, unit) vol" where
  "fetch_encryption E S =
     go_bind (go_try (Volume_Exists E S)) (\<lambda>r.
     go_bind is_bound (\<lambda>b.
       case r of
         Ok ex \<Rightarrow>
           if b
           then go_bind (getFilesystemObj E True) (\<lambda>fo.
                  if ex
                  then (case fo of None \<Rightarrow> go_panic | Some fs \<Rightarrow> modify_volume (store_encryption fs))
                  else modify_volume (\<lambda>v. v\<lparr>v_encrypted := Some False\<rparr>))
           else go_return ()
       | _ \<Rightarrow> go_return ()))"

definition isEncrypted :: "'w env \<Rightarrow> Server \<Rightarrow> ('w, bool) vol" where
  "isEncrypted E S =
     go_bind this_volume (\<lambda>v.
       case v_encrypted v of
         Some b \<Rightarrow> go_return b
       | None \<Rightarrow>
           if \<not> isFilesystem v then go_return False
           else go_bind (fetch_encryption E S) (\<lambda>_.
                go_bind this_volume (\<lambda>v1. case v_encrypted v1 of Some b \<Rightarrow> go_return b | None \<Rightarrow> go_panic)))"

definition isEncryptedSafe :: "'w env \<Rightarrow> Server \<Rightarrow> ('w, bool) vol" where
  "isEncryptedSafe E S = go_catch (isEncrypted E S) (\<lambda>_. go_return False)"

definition encryption_params :: "bool \<Rightarrow> Volume \<Rightarrow> EncryptionParams" where
  "encryption_params enc v =
     \<lparr> enc_Encrypted = enc, enc_AllowNoKms = v_encryptWithoutKms v,
       enc_KmsVaultKeyIdentifier = v_kmsVaultKeyIdentifier v, enc_KmsVaultNamespace = v_kmsVaultNamespace v,
       enc_KmsVaultRoleId = v_kmsVaultRoleId v, enc_KmsVaultSecretId = v_KmsVaultSecretId v \<rparr>"

text \<open>The checks on the cluster for an encrypted filesystem.\<close>

definition check_encryption :: "'w env \<Rightarrow> Server \<Rightarrow> Volume \<Rightarrow> ('w, unit) vol" where
  "check_encryption E S v =
     (if \<not> dc_allowEncryptionWithoutKms (srv_config S) \<and> v_encryptWithoutKms v then go_raise (Status InvalidArgument)
      else go_bind (supports (\<lambda>a. EncryptionWithClusterKey (CompatibilityMap a))) (\<lambda>ok.
        if \<not> ok then go_raise (Status Internal)
        else if v_manageEncryptionKeys v then go_raise (Status FailedPrecondition)
        else if hasCustomEncryptionSettings v
        then go_bind (supports (\<lambda>a. EncryptionWithCustomSettings (CompatibilityMap a))) (\<lambda>ok.
               if \<not> ok then go_raise (Status FailedPrecondition)
               else go_bind (on_api (AllowsCustomEncryptionSettings E)) (\<lambda>ok.
                      if \<not> ok then go_raise (Status FailedPrecondition) else go_return ()))
        else go_bind (on_api (IsEncryptionEnabled E)) (\<lambda>ok.
               if \<not> ok \<and> \<not> v_encryptWithoutKms v then go_raise (Status FailedPrecondition) else go_return ())))"

definition ensureEncryptionParams :: "'w env \<Rightarrow> Server \<Rightarrow> ('w, EncryptionParams) vol" where
  "ensureEncryptionParams E S =
     go_bind (isEncryptedSafe E S) (\<lambda>enc.
     go_bind this_volume (\<lambda>v.
     go_bind (isEncryptedSafe E S) (\<lambda>enc2.
       go_bind (if enc2 \<and> isFilesystem v then check_encryption E S v else go_return ())
         (\<lambda>_. go_return (encryption_params enc v)))))"

definition enrich :: "Credentials \<Rightarrow> Volume \<Rightarrow> Volume" where
  "enrich c v =
     (let k = KmsPreexistingCredentialsForVolumeEncryption c
      in v\<lparr>v_kmsVaultRoleId := (if kms_RoleId k \<noteq> [] then kms_RoleId k else v_kmsVaultRoleId v),
           v_KmsVaultSecretId := (if kms_SecretId k \<noteq> [] then kms_SecretId k else v_KmsVaultSecretId v),
           v_kmsVaultNamespace :=
             (if v_kmsVaultNamespace v = [] \<and> kms_Namespace k \<noteq> [] then kms_Namespace k else v_kmsVaultNamespace v),
           v_kmsVaultKeyIdentifier :=
             (if v_kmsVaultKeyIdentifier v = [] \<and> kms_KeyIdentifier k \<noteq> [] then kms_KeyIdentifier k
              else v_kmsVaultKeyIdentifier v)\<rparr>)"

definition enrichWithEncryptionParams :: "'w env \<Rightarrow> Server \<Rightarrow> ('w, unit) vol" where
  "enrichWithEncryptionParams E S =
     go_bind (isEncryptedSafe E S) (\<lambda>enc.
     go_bind (on_sys the_client) (\<lambda>ac.
       case ac of
         Some a \<Rightarrow> if enc then modify_volume (enrich (creds a)) else go_return ()
       | None \<Rightarrow> go_return ()))"

subsection \<open>Free and total capacity\<close>

text \<open>\<open>int64(stat.Bavail * uint64(stat.Bsize))\<close> is \<open>env_statfs_free\<close>.\<close>

definition getFilesystemFreeSpaceByApi :: "'w env \<Rightarrow> ('w, int) vol" where
  "getFilesystemFreeSpaceByApi E =
     go_bind is_bound (\<lambda>b.
       if \<not> b then go_raise (Status FailedPrecondition)
       else go_bind (go_catch (getFilesystemObj E True) (\<lambda>_. go_raise (Status FailedPrecondition))) (\<lambda>fo.
              case fo of
                None \<Rightarrow> go_raise ErrFilesystemNotFound
              | Some fs \<Rightarrow>
                  go_bind (go_catch (on_api (GetFileSystemByUid E (fs_Uid fs) True)) (\<lambda>_. go_raise (Status FailedPrecondition)))
                    (\<lambda>fresh. go_return (fs_FreeTotal fresh))))"

definition getFilesystemFreeSpace :: "'w env \<Rightarrow> Server \<Rightarrow> ('w, int) vol" where
  "getFilesystemFreeSpace E S =
     go_bind is_bound (\<lambda>b.
       if b then getFilesystemFreeSpaceByApi E
       else with_mount E S
         (go_bind this_volume (\<lambda>v.
          go_bind (on_sys (look (env_statfs_free E (v_mountPath v)))) (\<lambda>r.
            case r of None \<Rightarrow> go_raise (Status FailedPrecondition) | Some n \<Rightarrow> go_return (int64 n)))))"

definition getFreeSpaceOnStorage :: "'w env \<Rightarrow> ('w, int) vol" where
  "getFreeSpaceOnStorage E =
     go_bind (go_catch (fileSystemExists E) (\<lambda>_. go_raise (Status Internal))) (\<lambda>_.
     go_bind is_bound (\<lambda>b.
       if \<not> b then go_raise (Status FailedPrecondition)
       else go_bind (go_catch (on_api (GetFreeCapacity E)) (\<lambda>_. go_raise (Status FailedPrecondition)))
              (\<lambda>n. go_return (int64 n))))"

definition getFilesystemTotalCapacity :: "'w env \<Rightarrow> ('w, int) vol" where
  "getFilesystemTotalCapacity E =
     go_bind (go_catch (getFilesystemObj E False) (\<lambda>_. go_raise (Status FailedPrecondition))) (\<lambda>fo.
       go_return (case fo of Some fs \<Rightarrow> fs_TotalCapacity fs | None \<Rightarrow> 0))"

definition getMaxCapacity :: "'w env \<Rightarrow> Server \<Rightarrow> ('w, int) vol" where
  "getMaxCapacity E S =
     go_bind this_volume (\<lambda>v.
     go_bind is_bound (\<lambda>b.
       if \<not> b then getFilesystemFreeSpace E S
       else go_bind (getFilesystemTotalCapacity E) (\<lambda>currentFsSize.
         if \<not> dc_allowAutoFsExpansion (srv_config S) \<and> \<not> isFilesystem v then go_return currentFsSize
         else go_bind (getFreeSpaceOnStorage E) (\<lambda>maxFreeCapacity. go_return (int64 (maxFreeCapacity + currentFsSize))))))"

subsection \<open>Quotas\<close>

definition getInodeIdFromApi :: "'w env \<Rightarrow> ('w, int) vol" where
  "getInodeIdFromApi E =
     go_bind (getFilesystemObj E True) (\<lambda>fo.
       case fo of
         None \<Rightarrow> go_raise ErrFilesystemNotFound
       | Some fs \<Rightarrow> go_bind this_volume (\<lambda>v. on_api (ResolvePathToInode E (fs_Uid fs) (GetRelativePath v))))"

definition getInodeId :: "'w env \<Rightarrow> Server \<Rightarrow> ('w, int) vol" where
  "getInodeId E S =
     go_bind (supports SupportsResolvePathToInode) (\<lambda>ok.
       if ok then getInodeIdFromApi E
       else with_mount E S
         (go_bind full_path (\<lambda>p.
          go_bind (on_sys (look (env_inode E p))) (\<lambda>r.
            case r of None \<Rightarrow> go_raise (Plain ''stat failed'') | Some ino \<Rightarrow> go_return ino))))"

text \<open>No explicit enforcement means the default type, which is \<open>HARD\<close>.\<close>

definition quota_type :: "bool option \<Rightarrow> QuotaType" where
  "quota_type enforceCapacity = (case enforceCapacity of Some False \<Rightarrow> QuotaTypeSoft | _ \<Rightarrow> QuotaTypeHard)"

definition setQuota :: "'w env \<Rightarrow> Server \<Rightarrow> bool option \<Rightarrow> int \<Rightarrow> ('w, Quota) vol" where
  "setQuota E S enforceCapacity capacityLimit =
     go_bind (getFilesystemObj E True) (\<lambda>fo.
     go_bind (go_catch (getInodeId E S) (\<lambda>_. go_raise (Plain ''cannot set quota, could not find inode ID of the volume''))) (\<lambda>inodeId.
       case fo of
         None \<Rightarrow> go_panic
       | Some fs \<Rightarrow>
           on_api (CreateQuota E (NewQuotaRequest (fs_Uid fs) inodeId (quota_type enforceCapacity) capacityLimit) True)))"

definition getQuota :: "'w env \<Rightarrow> Server \<Rightarrow> ('w, Quota) vol" where
  "getQuota E S =
     go_bind (getFilesystemObj E True) (\<lambda>fo.
     go_bind (getInodeId E S) (\<lambda>inodeId.
       case fo of None \<Rightarrow> go_panic | Some fs \<Rightarrow> on_api (GetQuotaByFileSystemAndInode E (fs_Uid fs) inodeId)))"

definition getSizeFromQuota :: "'w env \<Rightarrow> Server \<Rightarrow> ('w, int) vol" where
  "getSizeFromQuota E S = go_bind (getQuota E S) (\<lambda>q. go_return (GetCapacityLimit q))"

text \<open>\<open>strconv.ParseInt(s, 10, 64)\<close> accepts what \<open>strconv.Atoi\<close> does on a 64-bit platform.\<close>

definition getSizeFromXattr :: "'w env \<Rightarrow> Server \<Rightarrow> ('w, int) vol" where
  "getSizeFromXattr E S =
     with_mount E S
       (go_bind full_path (\<lambda>p.
        go_bind (on_sys (look (env_xattr_get E p ''user.weka_capacity''))) (\<lambda>r.
          case r of
            None \<Rightarrow> go_raise (Plain ''xattr not set on volume'')
          | Some txt \<Rightarrow>
              (case strconv_Atoi txt of
                 Some n \<Rightarrow> go_return (n mod 2 ^ 64)
               | None \<Rightarrow> go_raise (Plain ''could not parse xattr on volume'')))))"

definition use_quota :: "Server \<Rightarrow> ('w, bool) vol" where
  "use_quota S =
     go_bind is_bound (\<lambda>b.
       if b then go_bind (supports (\<lambda>a. QuotaOnDirectoryVolume (CompatibilityMap a))) (\<lambda>ok. go_return (ok \<and> \<not> srv_isInDevMode S))
       else go_return False)"

definition getCapacityFromQuota :: "'w env \<Rightarrow> Server \<Rightarrow> ('w, int) vol" where
  "getCapacityFromQuota E S =
     with_mount E S
       (go_bind (use_quota S) (\<lambda>uq.
        go_bind (if uq then go_try (getSizeFromQuota E S) else go_return (Err (Plain []))) (\<lambda>r.
          case r of
            Ok sz \<Rightarrow> go_return (int64 sz)
          | _ \<Rightarrow> go_bind (getSizeFromXattr E S) (\<lambda>sz. go_return (int64 sz)))))"

definition Volume_GetCapacity :: "'w env \<Rightarrow> Server \<Rightarrow> ('w, int) vol" where
  "Volume_GetCapacity E S = getCapacityFromQuota E S"

definition volumeExistsAndMatchesCapacity :: "'w env \<Rightarrow> Server \<Rightarrow> int \<Rightarrow> ('w, bool \<times> bool \<times> go_error option) vol" where
  "volumeExistsAndMatchesCapacity E S capacity =
     go_bind (go_try (Volume_Exists E S)) (\<lambda>r.
       case r of
         Err e \<Rightarrow> go_return (False, False, Some e)
       | Panic \<Rightarrow> go_panic
       | Ok ex \<Rightarrow>
           if \<not> ex then go_return (False, False, None)
           else go_bind (go_try (Volume_GetCapacity E S)) (\<lambda>c.
                  case c of
                    Err e \<Rightarrow> go_return (True, False, Some e)
                  | Panic \<Rightarrow> go_panic
                  | Ok n \<Rightarrow> go_return (True, n = capacity, None)))"

subsection \<open>Changing the capacity\<close>

text \<open>\<open>big.Int\<close> arithmetic: a Euclidean division, a panic on a zero divisor, and the low 64 bits at
  the end.\<close>

definition scaleThinSsdOnExpand :: "int \<Rightarrow> int \<Rightarrow> int \<Rightarrow> bool \<Rightarrow> int go" where
  "scaleThinSsdOnExpand oldTotal oldVal newTotal keepRatio =
     (if \<not> keepRatio then Ok oldVal
      else if oldTotal = 0 then Panic
      else Ok (int64 (if 0 < oldTotal then (oldVal * newTotal) div oldTotal else - ((oldVal * newTotal) div (- oldTotal)))))"

definition resize_request :: "DriverConfig \<Rightarrow> FileSystem \<Rightarrow> int \<Rightarrow> FileSystemResizeRequest go" where
  "resize_request cfg fs capLimit =
     (let fsu = NewFileSystemResizeRequest (fs_Uid fs) (Some capLimit);
          keepRatio = dc_keepThinProvisioningRatioOnExpand cfg
      in if fs_IsThinlyProvisioned fs
         then bind_outcome (scaleThinSsdOnExpand (fs_TotalCapacity fs) (fs_ThinProvisioningMinSsd fs) capLimit keepRatio) (\<lambda>minSsd.
              bind_outcome (scaleThinSsdOnExpand (fs_TotalCapacity fs) (fs_ThinProvisioningMaxSsd fs) capLimit keepRatio) (\<lambda>maxSsd.
                Ok (fsu\<lparr>fsu_ThinProvisionMinSsd := Some minSsd, fsu_ThinProvisionMaxSsd := Some maxSsd\<rparr>)))
         else Ok fsu)"

text \<open>The reply overwrites the cached filesystem object.\<close>

definition resizeFilesystem :: "'w env \<Rightarrow> Server \<Rightarrow> int \<Rightarrow> ('w, unit) vol" where
  "resizeFilesystem E S capacity =
     go_bind (getFilesystemObj E False) (\<lambda>fo.
       case fo of
         None \<Rightarrow> go_raise ErrFilesystemNotFound
       | Some fs \<Rightarrow>
           if capacity < fs_TotalCapacity fs then go_raise ErrFilesystemBiggerThanRequested
           else go_bind (lift_go (resize_request (srv_config S) fs capacity)) (\<lambda>fsu.
                go_bind (on_api (UpdateFileSystem E fsu)) (\<lambda>fs1.
                  modify_volume (\<lambda>v. v\<lparr>v_fileSystemObject := Some fs1\<rparr>))))"

definition getCapacityFromFsSize :: "'w env \<Rightarrow> ('w, int) vol" where
  "getCapacityFromFsSize E =
     go_bind (getFilesystemObj E False) (\<lambda>fo.
       case fo of None \<Rightarrow> go_raise ErrFilesystemNotFound | Some fs \<Rightarrow> go_return (fs_TotalCapacity fs))"

definition ensureSufficientFsSizeOnUpdateCapacity :: "'w env \<Rightarrow> Server \<Rightarrow> int \<Rightarrow> ('w, unit) vol" where
  "ensureSufficientFsSizeOnUpdateCapacity E S capacityLimit =
     go_bind this_volume (\<lambda>v.
     go_bind is_bound (\<lambda>b.
       if \<not> b then go_return ()
       else go_bind (go_catch (getCapacityFromFsSize E) (\<lambda>_. go_raise (Status FailedPrecondition))) (\<lambda>currentFsCapacity.
         if currentFsCapacity < capacityLimit
         then if (isOnSnapshot v \<or> hasInnerPath v) \<and> \<not> dc_allowAutoFsExpansion (srv_config S)
              then go_raise (Status FailedPrecondition)
              else go_catch (resizeFilesystem E S capacityLimit) (\<lambda>_. go_raise (Status FailedPrecondition))
         else go_return ())))"

definition updateCapacityQuota :: "'w env \<Rightarrow> Server \<Rightarrow> bool option \<Rightarrow> int \<Rightarrow> ('w, unit) vol" where
  "updateCapacityQuota E S enforceCapacity capacityLimit =
     go_bind (getInodeId E S) (\<lambda>inodeId.
     go_bind (getFilesystemObj E True) (\<lambda>fo.
     go_bind (case fo of
                None \<Rightarrow> go_panic
              | Some fs \<Rightarrow> go_try (on_api (GetQuotaByFileSystemAndInode E (fs_Uid fs) inodeId))) (\<lambda>r.
       case r of
         Err e \<Rightarrow> if e = Api ObjectNotFoundError
                   then go_bind (setQuota E S enforceCapacity (capacityLimit mod 2 ^ 64)) (\<lambda>_. go_return ())
                   else go_raise (Status Internal)
       | _ \<Rightarrow> go_bind (setQuota E S enforceCapacity (capacityLimit mod 2 ^ 64)) (\<lambda>_. go_return ()))))"

definition updateCapacityXattr :: "'w env \<Rightarrow> Server \<Rightarrow> int \<Rightarrow> ('w, unit) vol" where
  "updateCapacityXattr E S capacityLimit =
     (let body = go_bind this_volume (\<lambda>v. on_sys (setVolumeProperties E (GetFullPath v) capacityLimit (v_innerPath v)))
      in go_bind (vol_isMounted E) (\<lambda>m. if \<not> m then with_mount E S body else body))"

text \<open>Whether the capacity is kept as a quota or as an extended attribute.\<close>

definition capacity_in_quota :: "Server \<Rightarrow> ApiClient option \<Rightarrow> bool" where
  "capacity_in_quota S ac =
     (if srv_isInDevMode S then False
      else case ac of
             None \<Rightarrow> False
           | Some a \<Rightarrow>
               if \<not> QuotaOnDirectoryVolume (CompatibilityMap a) then False
               else if \<not> SupportsAuthenticatedMounts a \<and> Organization (creds a) \<noteq> RootOrganizationName then False
               else True)"

definition UpdateCapacity :: "'w env \<Rightarrow> Server \<Rightarrow> bool option \<Rightarrow> int \<Rightarrow> ('w, unit) vol" where
  "UpdateCapacity E S enforceCapacity capacityLimit =
     go_bind (ensureSufficientFsSizeOnUpdateCapacity E S capacityLimit) (\<lambda>_.
     go_bind (on_sys the_client) (\<lambda>ac.
       if capacity_in_quota S ac then updateCapacityQuota E S enforceCapacity capacityLimit
       else updateCapacityXattr E S capacityLimit))"

subsection \<open>Permissions\<close>

definition UpdateParams :: "'w env \<Rightarrow> Server \<Rightarrow> ('w, unit) vol" where
  "UpdateParams E S =
     with_mount E S
       (go_bind this_volume (\<lambda>v.
        go_bind (on_sys (os_call (env_chmod E (GetFullPath v) (v_permissions v)))) (\<lambda>_.
          if int64 (v_ownerUid v + v_ownerGid v) \<noteq> 0
          then on_sys (os_call (env_chown E (GetFullPath v) (v_ownerUid v) (v_ownerGid v)))
          else go_return ())))"

subsection \<open>Seed snapshots\<close>

definition getSeedSnapshotName :: "Server \<Rightarrow> Volume \<Rightarrow> string" where
  "getSeedSnapshotName S v = generateWekaSeedSnapshotName (dc_SeedSnapshotPrefix (srv_config S)) (v_FilesystemName v)"

definition getSeedSnapshotAccessPoint :: "Volume \<Rightarrow> string" where
  "getSeedSnapshotAccessPoint v = generateWekaSeedAccessPoint (v_FilesystemName v)"

text \<open>\<open>Readdirnames(2)\<close> returns at most two names.\<close>

definition isFilesystemEmpty :: "'w env \<Rightarrow> Server \<Rightarrow> ('w, bool) vol" where
  "isFilesystemEmpty E S =
     with_mount E S
       (go_bind this_volume (\<lambda>v.
        go_bind (on_sys (look (env_read_dir E (v_mountPath v)))) (\<lambda>r.
          case r of
            None \<Rightarrow> go_raise (Plain ''open failed'')
          | Some entries \<Rightarrow> go_return (list_all (\<lambda>n. n = SnapshotsSubDirectory) (take 2 entries)))))"

definition getSeedSnapshot :: "'w env \<Rightarrow> Server \<Rightarrow> ('w, Snapshot option) vol" where
  "getSeedSnapshot E S =
     go_bind this_volume (\<lambda>v.
     go_bind (missing_as_None (on_api (GetSnapshotByName E (getSeedSnapshotName S v)))) (\<lambda>r.
       case r of
         None \<Rightarrow> go_return None
       | Some sn \<Rightarrow>
           if snap_Uid sn = uuid_Nil then go_return None
           else if snap_AccessPoint sn \<noteq> getSeedSnapshotAccessPoint v
           then go_raise (Plain ''mismatch detected between seed snapshot identifiers'')
           else if snap_IsWritable sn then go_raise (Plain ''seed snapshot is writable'')
           else go_return (Some sn)))"

definition createSeedSnapshot :: "'w env \<Rightarrow> Server \<Rightarrow> ('w, Snapshot) vol" where
  "createSeedSnapshot E S =
     go_bind this_volume (\<lambda>v.
     go_bind (getFilesystemObj E True) (\<lambda>fo.
       case fo of
         None \<Rightarrow> go_panic
       | Some fs \<Rightarrow>
           on_api (CreateSnapshot E
             (NewSnapshotCreateRequest (getSeedSnapshotName S v) (getSeedSnapshotAccessPoint v) (fs_Uid fs) None False))))"

definition mimic_seed :: "'w env \<Rightarrow> Server \<Rightarrow> ('w, unit) vol" where
  "mimic_seed E S =
     go_bind (MountUnderlyingFS E S) (\<lambda>m.
     go_bind (go_try (go_bind this_volume (\<lambda>v.
                on_sys (os_call (env_mkdir_all E
                  (filepath_Join [v_mountPath v, SnapshotsSubDirectory, getSeedSnapshotAccessPoint v])))))) (\<lambda>r.
     go_bind (ignore_error (release_volume E m)) (\<lambda>_. lift_go r)))"

definition ensureSeedSnapshot :: "'w env \<Rightarrow> Server \<Rightarrow> ('w, Snapshot) vol" where
  "ensureSeedSnapshot E S =
     go_bind (getSeedSnapshot E S) (\<lambda>so.
     go_bind (case so of
                Some sn \<Rightarrow> go_return sn
              | None \<Rightarrow>
                  go_bind (isFilesystemEmpty E S) (\<lambda>empty.
                    if \<not> empty \<and> \<not> srv_isInDevMode S
                    then go_raise (Plain ''cannot create seed snaspshot on non-empty filesystem'')
                    else createSeedSnapshot E S)) (\<lambda>sn.
     go_bind (if srv_isInDevMode S then mimic_seed E S else go_return ()) (\<lambda>_. go_return sn)))"

text \<open>\<open>getObject\<close> of a CSI snapshot: by its name, then by the name without the prefix.  The second result
  is the name under which it was found.\<close>

definition snapshot_getObject :: "'w env \<Rightarrow> DriverConfig \<Rightarrow> CsiSnapshot \<Rightarrow> ('w, Snapshot option \<times> string) sys_call" where
  "snapshot_getObject E cfg cs =
     go_bind the_client (\<lambda>ac.
       if ac = None then go_raise (Status FailedPrecondition)
       else go_bind (missing_as_None (on_client (GetSnapshotByName E (cs_SnapshotName cs)))) (\<lambda>r.
              case r of
                Some sn \<Rightarrow> go_return (Some sn, cs_SnapshotName cs)
              | None \<Rightarrow>
                  go_bind (missing_as_None (on_client (GetSnapshotByName E
                            (TrimPrefix (cs_SnapshotName cs) (dc_SnapshotPrefix cfg))))) (\<lambda>r2.
                    case r2 of
                      Some sn \<Rightarrow>
                        if cs_SnapshotIntegrityId cs = snap_AccessPoint sn then go_return (Some sn, snap_Name sn)
                        else go_return (None, cs_SnapshotName cs)
                    | None \<Rightarrow> go_return (None, cs_SnapshotName cs))))"

text \<open>A failed lookup of a source snapshot counts as no source: only the seed's error is returned.\<close>

definition source_snapshot :: "'w env \<Rightarrow> Server \<Rightarrow> Volume \<Rightarrow> ('w, Snapshot option) vol" where
  "source_snapshot E S v =
     (case v_srcSnapshot v of
        Some cs \<Rightarrow>
          go_catch (go_bind (on_sys (snapshot_getObject E (srv_config S) cs)) (\<lambda>r. go_return (fst r))) (\<lambda>_. go_return None)
      | None \<Rightarrow>
          (case v_srcVolume v of
             Some sv \<Rightarrow>
               if sv_SnapshotAccessPoint sv \<noteq> []
               then go_catch (find_snapshot E (sv_SnapshotName sv)) (\<lambda>_. go_return None)
               else go_return None
           | None \<Rightarrow>
               if isOnSnapshot v
               then go_catch (go_bind (ensureSeedSnapshot E S) (\<lambda>sn. go_return (Some sn))) (\<lambda>_. go_raise (Status Internal))
               else go_return None))"

definition getUidOfSourceSnap :: "'w env \<Rightarrow> Server \<Rightarrow> ('w, uuid option) vol" where
  "getUidOfSourceSnap E S =
     go_bind this_volume (\<lambda>v.
     go_bind (source_snapshot E S v) (\<lambda>r.
       go_return (case r of Some sn \<Rightarrow> if snap_Uid sn = uuid_Nil then None else Some (snap_Uid sn) | None \<Rightarrow> None)))"

subsection \<open>Deletion\<close>

definition getUnderlyingSnapshots :: "'w env \<Rightarrow> ('w, Snapshot list) vol" where
  "getUnderlyingSnapshots E =
     go_bind is_bound (\<lambda>b.
       if \<not> b then go_raise (Plain ''cannot check for underlying snaphots as volume is not bound to API'')
       else go_bind (getFilesystemObj E True) (\<lambda>fo.
              case fo of
                None \<Rightarrow> go_return []
              | Some fs \<Rightarrow> if fs_IsRemoving fs then go_return [] else on_api (FindSnapshotsByFilesystem E (Some fs))))"

definition prevents_deletion :: "string \<Rightarrow> Snapshot \<Rightarrow> bool" where
  "prevents_deletion seedSnapshotName sn \<longleftrightarrow> \<not> snap_IsRemoving sn \<and> snap_Name sn \<noteq> seedSnapshotName"

definition hasUnderlyingSnapshots :: "'w env \<Rightarrow> Server \<Rightarrow> ('w, bool) vol" where
  "hasUnderlyingSnapshots E S =
     go_bind this_volume (\<lambda>v.
       if \<not> isFilesystem v then go_return False
       else go_bind (getUnderlyingSnapshots E) (\<lambda>sns. go_return (list_ex (prevents_deletion (getSeedSnapshotName S v)) sns)))"

definition isAllowedForDeletion :: "'w env \<Rightarrow> Server \<Rightarrow> ('w, bool) vol" where
  "isAllowedForDeletion E S =
     go_bind this_volume (\<lambda>v.
       if \<not> isFilesystem v then go_return True
       else go_catch (go_bind (hasUnderlyingSnapshots E S) (\<lambda>h. go_return (\<not> h))) (\<lambda>_. go_return False))"

definition sys_now :: "'w env \<Rightarrow> ('w, int) sys_call" where
  "sys_now E s = (case env_now E (sys_world s) of (now, w1) \<Rightarrow> (Ok now, s\<lparr>sys_world := w1\<rparr>))"

definition MaxSnapshotDeletionDuration :: int where
  "MaxSnapshotDeletionDuration = seconds 7200"

text \<open>The polling loops; the first argument bounds the iterations for a clock that does not move.\<close>

primrec wait_fs_deleted :: "nat \<Rightarrow> 'w env \<Rightarrow> uuid \<Rightarrow> int \<Rightarrow> ('w, unit) vol" where
  "wait_fs_deleted 0 E fsUid start = go_panic"
| "wait_fs_deleted (Suc n) E fsUid start =
     go_bind (on_sys (sys_now E)) (\<lambda>now.
       if now - start < MaxSnapshotDeletionDuration
       then go_bind (go_try (on_api (GetFileSystemByUid E fsUid False))) (\<lambda>r.
              case r of
                Ok fs \<Rightarrow>
                  if fs_Uid fs \<noteq> uuid_Nil
                  then if fs_IsRemoving fs
                       then go_bind (on_sys (sleep E (seconds 1))) (\<lambda>_. wait_fs_deleted n E fsUid start)
                       else go_raise (Plain ''filesystem not marked for deletion but it should'')
                  else wait_fs_deleted n E fsUid start
              | Err e \<Rightarrow> if e = Api ObjectNotFoundError then go_return () else wait_fs_deleted n E fsUid start
              | Panic \<Rightarrow> go_panic)
       else go_raise (Plain ''Timeout deleting volume''))"

definition waitForFilesystemDeletion :: "'w env \<Rightarrow> uuid \<Rightarrow> ('w, unit) vol" where
  "waitForFilesystemDeletion E fsUid = go_bind (on_sys (sys_now E)) (\<lambda>start. wait_fs_deleted (env_polls E) E fsUid start)"

text \<open>The error text of a snapshot that is not being removed reads \<open>SnapshotUuid\<close> through its pointer.\<close>

primrec wait_snap_deleted :: "nat \<Rightarrow> 'w env \<Rightarrow> uuid \<Rightarrow> int \<Rightarrow> ('w, unit) vol" where
  "wait_snap_deleted 0 E snapUid start = go_panic"
| "wait_snap_deleted (Suc n) E snapUid start =
     go_bind (on_sys (sys_now E)) (\<lambda>now.
       if now - start < MaxSnapshotDeletionDuration
       then go_bind (go_try (on_api (GetSnapshotByUid E snapUid))) (\<lambda>r.
              case r of
                Ok sn \<Rightarrow>
                  if snap_Uid sn \<noteq> uuid_Nil
                  then if snap_IsRemoving sn
                       then go_bind (on_sys (sleep E (seconds 1))) (\<lambda>_. wait_snap_deleted n E snapUid start)
                       else go_bind this_volume (\<lambda>v.
                              if v_SnapshotUuid v = None then go_panic
                              else go_raise (Plain ''snapshot not marked for deletion but it should''))
                  else wait_snap_deleted n E snapUid start
              | Err e \<Rightarrow>
                  if e = Api ObjectNotFoundError \<or> e = Api ApiNotFoundError then go_return ()
                  else wait_snap_deleted n E snapUid start
              | Panic \<Rightarrow> go_panic)
       else go_return ())"

definition waitForSnapshotDeletion :: "'w env \<Rightarrow> uuid \<Rightarrow> ('w, unit) vol" where
  "waitForSnapshotDeletion E snapUid = go_bind (on_sys (sys_now E)) (\<lambda>start. wait_snap_deleted (env_polls E) E snapUid start)"

text \<open>What a failed deletion request means to the volume.\<close>

fun already_gone :: "go_error \<Rightarrow> bool" where
  "already_gone (Api ObjectNotFoundError) = True"
| "already_gone (Api ApiNotFoundError) = True"
| "already_gone (Api (ApiBadRequestError _ _)) = True"
| "already_gone _ = False"

fun uses_nfs :: "AnyMounter \<Rightarrow> bool" where
  "uses_nfs (NfsMounter _) = True"
| "uses_nfs (WekafsMounter _) = False"

definition request_fs_deletion :: "'w env \<Rightarrow> Server \<Rightarrow> FileSystem \<Rightarrow> ('w, bool) vol" where
  "request_fs_deletion E S fs =
     go_bind (if uses_nfs (srv_mounter S) then on_api (EnsureNoNfsPermissionsForFilesystem E (fs_Name fs)) else go_return ()) (\<lambda>_.
     go_bind (modify_volume (\<lambda>v. v\<lparr>v_fileSystemObject := None\<rparr>)) (\<lambda>_.
       go_catch (go_bind (on_api (DeleteFileSystem E (fs_Uid fs))) (\<lambda>_. go_return True))
         (\<lambda>e. if already_gone e then go_return False else go_raise (Status Internal))))"

text \<open>The wait is part of the call only when it is configured.\<close>

definition deleteFilesystem :: "'w env \<Rightarrow> Server \<Rightarrow> ('w, unit) vol" where
  "deleteFilesystem E S =
     go_bind (go_catch (getFilesystemObj E True) (\<lambda>_. go_raise (Status Internal))) (\<lambda>fo.
       case fo of
         None \<Rightarrow> go_return ()
       | Some fs \<Rightarrow>
           if fs_Uid fs = uuid_Nil then go_return ()
           else go_bind (if fs_IsRemoving fs then go_return True else request_fs_deletion E S fs) (\<lambda>wait.
                  if wait \<and> dc_waitForObjectDeletion (srv_config S) then waitForFilesystemDeletion E (fs_Uid fs)
                  else go_return ()))"

definition deleteSnapshot :: "'w env \<Rightarrow> Server \<Rightarrow> ('w, unit) vol" where
  "deleteSnapshot E S =
     go_bind (go_catch (getSnapshotObj E) (\<lambda>_. go_raise (Status Internal))) (\<lambda>so.
       case so of
         None \<Rightarrow> go_return ()
       | Some sn \<Rightarrow>
           if snap_Uid sn = uuid_Nil then go_return ()
           else go_bind (go_catch (go_bind (on_api (DeleteSnapshot E (snap_Uid sn))) (\<lambda>_. go_return True))
                          (\<lambda>e. if already_gone e then go_return False else go_raise (Status Internal))) (\<lambda>wait.
                  if wait \<and> dc_waitForObjectDeletion (srv_config S) then waitForSnapshotDeletion E (snap_Uid sn)
                  else go_return ()))"

definition deleteDirectory :: "'w env \<Rightarrow> Server \<Rightarrow> ('w, unit) vol" where
  "deleteDirectory E S =
     with_mount E S (go_bind full_path (\<lambda>p. ignore_error (on_sys (os_call (env_remove_all E p)))))"

definition Volume_Delete :: "'w env \<Rightarrow> Server \<Rightarrow> ('w, unit) vol" where
  "Volume_Delete E S =
     go_bind this_volume (\<lambda>v.
     go_bind is_bound (\<lambda>b.
       if (isFilesystem v \<or> isOnSnapshot v) \<and> \<not> b then go_raise (Plain ''Failed to delete volume, no API secret exists'')
       else if isFilesystem v
       then go_bind (isAllowedForDeletion E S) (\<lambda>ok.
              if \<not> ok then go_raise ErrFilesystemHasUnderlyingSnapshots else deleteFilesystem E S)
       else if isOnSnapshot v then deleteSnapshot E S
       else deleteDirectory E S))"

subsection \<open>Creation\<close>

definition self_ownership :: "Server \<Rightarrow> ApiClient option \<Rightarrow> bool" where
  "self_ownership S ac =
     (case ac of
        None \<Rightarrow> False
      | Some a \<Rightarrow> dc_setOwnershipOnDynamicFilesystems (srv_config S) \<and> SetSelfAsFilesystemOwnerOnCreate (CompatibilityMap a))"

definition create_filesystem :: "'w env \<Rightarrow> Server \<Rightarrow> Volume \<Rightarrow> EncryptionParams \<Rightarrow> int \<Rightarrow> int \<Rightarrow> ('w, unit) vol" where
  "create_filesystem E S v ep capacity maxStorageCapacity =
     (let fsSize = max capacity (v_initialFilesystemSize v)
      in if maxStorageCapacity < fsSize then go_raise (Status OutOfRange)
         else go_bind (on_sys the_client) (\<lambda>ac.
              go_bind (go_catch (on_api (CreateFileSystem E
                         (NewFilesystemCreateRequest (v_FilesystemName v) (v_filesystemGroupName v) fsSize ep (self_ownership S ac))))
                         (\<lambda>_. go_raise (Status Internal))) (\<lambda>_. go_return ())))"

definition create_snapshot :: "'w env \<Rightarrow> Server \<Rightarrow> Volume \<Rightarrow> ('w, unit) vol" where
  "create_snapshot E S v =
     go_bind (getUidOfSourceSnap E S) (\<lambda>snapSrcUid.
     go_bind (getFilesystemObj E True) (\<lambda>fo.
     go_bind (go_catch (isEncrypted E S) (\<lambda>_. go_raise (Status Internal))) (\<lambda>enc.
       case fo of
         None \<Rightarrow> go_panic
       | Some fs \<Rightarrow>
           if enc \<and> \<not> fs_IsEncrypted fs then go_raise (Status InvalidArgument)
           else go_bind (go_catch (on_api (CreateSnapshot E
                           (NewSnapshotCreateRequest (v_SnapshotName v) (v_SnapshotAccessPoint v) (fs_Uid fs) snapSrcUid True)))
                           (\<lambda>_. go_raise (Status Internal))) (\<lambda>_.
                if srv_isInDevMode S
                then go_catch (mimicDirectoryStructureForDebugMode E S)
                       (\<lambda>e. go_bind (ignore_error (deleteSnapshot E S)) (\<lambda>_. go_raise e))
                else go_return ()))))"

definition check_directory_encryption :: "'w env \<Rightarrow> Server \<Rightarrow> ('w, unit) vol" where
  "check_directory_encryption E S =
     go_bind (go_catch (isEncrypted E S) (\<lambda>_. go_raise (Status Internal))) (\<lambda>enc.
     go_bind is_bound (\<lambda>b.
       if \<not> enc then go_return ()
       else if \<not> b then go_raise (Plain ''cannot create encrypted volume without API binding'')
       else go_bind (getFilesystemObj E True) (\<lambda>fo.
              case fo of
                None \<Rightarrow> go_panic
              | Some fs \<Rightarrow> if \<not> fs_IsEncrypted fs then go_raise (Status InvalidArgument) else go_return ())))"

definition make_directory :: "'w env \<Rightarrow> ('w, unit) vol" where
  "make_directory E =
     go_bind full_path (\<lambda>volPath.
     go_bind (on_sys (os_call (env_mkdir_all E (filepath_Dir volPath)))) (\<lambda>_.
       on_sys (os_call (env_mkdir E volPath))))"

text \<open>Capacity and parameters are set last; for a directory while the mount of its creation is held.\<close>

definition finish_creation :: "'w env \<Rightarrow> Server \<Rightarrow> int \<Rightarrow> ('w, unit) vol" where
  "finish_creation E S capacity =
     go_bind this_volume (\<lambda>v.
     go_bind (UpdateCapacity E S (Some (v_enforceCapacity v)) capacity) (\<lambda>_. UpdateParams E S))"

definition Volume_Create :: "'w env \<Rightarrow> Server \<Rightarrow> int \<Rightarrow> ('w, unit) vol" where
  "Volume_Create E S capacity =
     go_bind this_volume (\<lambda>v.
     go_bind (go_catch (getMaxCapacity E S) (\<lambda>_. go_raise (Status Internal))) (\<lambda>maxStorageCapacity.
       if maxStorageCapacity < capacity then go_raise (Status OutOfRange)
       else go_bind (ensureEncryptionParams E S) (\<lambda>ep.
         if isFilesystem v
         then go_bind (create_filesystem E S v ep capacity maxStorageCapacity) (\<lambda>_. finish_creation E S capacity)
         else if isOnSnapshot v
         then go_bind (create_snapshot E S v) (\<lambda>_. finish_creation E S capacity)
         else go_bind (check_directory_encryption E S) (\<lambda>_.
                with_mount E S (go_bind (make_directory E) (\<lambda>_. finish_creation E S capacity))))))"

definition CanBeOperated :: "Server \<Rightarrow> ('w, unit) vol" where
  "CanBeOperated S =
     go_bind this_volume (\<lambda>v.
     go_bind is_bound (\<lambda>b.
       if isOnSnapshot v \<or> isFilesystem v
       then if \<not> b \<and> \<not> srv_isInDevMode S
            then go_raise (Plain ''Could not obtain a valid API secret configuration for operation'')
            else go_bind (supports (\<lambda>a. FilesystemAsCSIVolume (CompatibilityMap a))) (\<lambda>ok.
                   if \<not> ok then go_raise (Plain ''volume of type Filesystem is not supported'') else go_return ())
       else go_return ()))"

subsection \<open>Parameters of the storage class\<close>

definition lower :: "char \<Rightarrow> char" where
  "lower c = (if CHR ''A'' \<le> c \<and> c \<le> CHR ''Z'' then char_of (of_char c + 32 :: nat) else c)"

text \<open>\<open>strconv.ParseInt(s, 0, 32)\<close>: the base comes from the prefix, underscores may separate digits.\<close>

fun underscores_ok :: "bool \<Rightarrow> char \<Rightarrow> string \<Rightarrow> bool" where
  "underscores_ok hex saw [] = (saw \<noteq> CHR ''_'')"
| "underscores_ok hex saw (c # cs) =
     (if digit_val c \<noteq> None \<or> hex \<and> hex_val c \<noteq> None then underscores_ok hex (CHR ''0'') cs
      else if c = CHR ''_'' then saw = CHR ''0'' \<and> underscores_ok hex (CHR ''_'') cs
      else saw \<noteq> CHR ''_'' \<and> underscores_ok hex (CHR ''!'') cs)"

definition parse_digits :: "int \<Rightarrow> string \<Rightarrow> int option" where
  "parse_digits radix ds =
     digits_acc (\<lambda>c. case hex_val c of Some d \<Rightarrow> if d < radix then Some d else None | None \<Rightarrow> None) radix 0
       (filter (\<lambda>c. c \<noteq> CHR ''_'') ds)"

definition parse_unsigned0 :: "string \<Rightarrow> int option" where
  "parse_unsigned0 s =
     (case s of
        [] \<Rightarrow> None
      | c # cs \<Rightarrow>
          if c \<noteq> CHR ''0''
          then (if underscores_ok False (CHR ''^'') s then parse_digits 10 s else None)
          else if 3 \<le> length s \<and> lower (hd cs) = CHR ''b''
          then (if underscores_ok False (CHR ''0'') (tl cs) then parse_digits 2 (tl cs) else None)
          else if 3 \<le> length s \<and> lower (hd cs) = CHR ''o''
          then (if underscores_ok False (CHR ''0'') (tl cs) then parse_digits 8 (tl cs) else None)
          else if 3 \<le> length s \<and> lower (hd cs) = CHR ''x''
          then (if underscores_ok True (CHR ''0'') (tl cs) then parse_digits 16 (tl cs) else None)
          else (if underscores_ok False (CHR ''^'') s then parse_digits 8 cs else None))"

definition ParseInt_0_32 :: "string \<Rightarrow> int option" where
  "ParseInt_0_32 s =
     (let neg = HasPrefix s ''-'';
          body = (if neg \<or> HasPrefix s ''+'' then tl s else s)
      in case parse_unsigned0 body of
           None \<Rightarrow> None
         | Some n \<Rightarrow> if neg then (if n \<le> 2 ^ 31 then Some (- n) else None) else (if n < 2 ^ 31 then Some n else None))"

definition ParseBool :: "string \<Rightarrow> bool option" where
  "ParseBool s =
     (if s \<in> set [''1'', ''t'', ''T'', ''true'', ''TRUE'', ''True''] then Some True
      else if s \<in> set [''0'', ''f'', ''F'', ''false'', ''FALSE'', ''False''] then Some False
      else None)"

text \<open>One optional parameter: absent, unreadable, or stored in the volume.\<close>

definition with_param ::
  "(string, string) gomap \<Rightarrow> string \<Rightarrow> (string \<Rightarrow> 'p option) \<Rightarrow> ('p \<Rightarrow> Volume \<Rightarrow> Volume) \<Rightarrow> ('w, unit) vol"
where
  "with_param params k parse store =
     (case map_of params k of
        None \<Rightarrow> go_return ()
      | Some txt \<Rightarrow> (case parse txt of None \<Rightarrow> go_raise (Plain k) | Some x \<Rightarrow> modify_volume (store x)))"

definition obtain_basic_params :: "Server \<Rightarrow> (string, string) gomap \<Rightarrow> ('w, unit) vol" where
  "obtain_basic_params S params =
     go_bind (with_param params ''mountOptions'' Some
       (\<lambda>x v. v\<lparr>v_mountOptions := Merge (v_mountOptions v) (NewMountOptionsFromString x) (dc_mutuallyExclusiveOptions (srv_config S))\<rparr>)) (\<lambda>_.
     go_bind (with_param params ''filesystemGroupName'' (\<lambda>x. if x = [] then None else Some x)
       (\<lambda>x v. v\<lparr>v_filesystemGroupName := x\<rparr>)) (\<lambda>_.
     go_bind (with_param params ''permissions'' ParseInt_0_32 (\<lambda>x v. v\<lparr>v_permissions := x mod 2 ^ 32\<rparr>)) (\<lambda>_.
     go_bind (with_param params ''ownerUid'' strconv_Atoi (\<lambda>x v. v\<lparr>v_ownerUid := x\<rparr>)) (\<lambda>_.
     go_bind (with_param params ''ownerGid'' strconv_Atoi (\<lambda>x v. v\<lparr>v_ownerGid := x\<rparr>)) (\<lambda>_.
     go_bind (lift_go (getCapacityEnforcementParam params)) (\<lambda>enforceCapacity.
     go_bind (modify_volume (\<lambda>v. v\<lparr>v_enforceCapacity := enforceCapacity\<rparr>)) (\<lambda>_.
     go_bind (with_param params ''initialFilesystemSizeGB'' strconv_Atoi
       (\<lambda>x v. v\<lparr>v_initialFilesystemSize := int64 (x * 1000000000)\<rparr>)) (\<lambda>_.
       with_param params ''encryptionEnabled'' ParseBool (\<lambda>x v. v\<lparr>v_encrypted := Some x\<rparr>)))))))))"

definition ObtainRequestParams :: "'w env \<Rightarrow> Server \<Rightarrow> (string, string) gomap \<Rightarrow> ('w, unit) vol" where
  "ObtainRequestParams E S params =
     go_bind (obtain_basic_params S params) (\<lambda>_.
     go_bind (isEncryptedSafe E S) (\<lambda>enc.
       if \<not> enc then go_return ()
       else
         go_bind (with_param params ''manageEncryptionKeys'' ParseBool (\<lambda>x v. v\<lparr>v_manageEncryptionKeys := x\<rparr>)) (\<lambda>_.
         go_bind (with_param params ''encryptWithoutKms'' ParseBool (\<lambda>x v. v\<lparr>v_encryptWithoutKms := x\<rparr>)) (\<lambda>_.
         go_bind (with_param params ''kmsVaultNamespace'' Some (\<lambda>x v. v\<lparr>v_kmsVaultNamespace := x\<rparr>)) (\<lambda>_.
           with_param params ''kmsVaultKeyIdentifier'' Some (\<lambda>x v. v\<lparr>v_kmsVaultKeyIdentifier := x\<rparr>))))))"

subsection \<open>Mounts held by others\<close>

text \<open>No mount that was held before is released.\<close>

definition mounts_kept :: "'w sys \<Rightarrow> 'w sys \<Rightarrow> bool" where
  "mounts_kept s s' \<longleftrightarrow> (counts_wf s \<longrightarrow> counts_wf s' \<and> (\<forall>idx. refCount s idx \<le> refCount s' idx))"

definition mount_safe :: "('w, 'a) vol \<Rightarrow> bool" where
  "mount_safe m \<longleftrightarrow> (\<forall>p r p'. m p = (r, p') \<longrightarrow> r \<noteq> Panic \<longrightarrow> mounts_kept (snd p) (snd p'))"

text \<open>For the witnesses: a directory volume of a server in development mode.\<close>

definition dev_server :: Server where
  "dev_server =
     \<lparr> srv_config = default_config, srv_mounter = WekafsMounter dev_mounter,
       srv_defaultMountOptions = getDefaultMountOptions \<rparr>"

definition plain_volume :: Volume where
  "plain_volume =
     \<lparr> v_id = ''dir/v1/fs/d'', v_FilesystemName = ''fs'', v_filesystemGroupName = [], v_SnapshotName = [],
       v_SnapshotAccessPoint = [], v_SnapshotUuid = None, v_innerPath = ''d'', v_permissions = 0, v_ownerUid = 0,
       v_ownerGid = 0, v_mountPath = [], v_enforceCapacity = True, v_initialFilesystemSize = 0,
       v_mountOptions = NewMountOptions [], v_encrypted = None, v_manageEncryptionKeys = False,
       v_encryptWithoutKms = False, v_kmsVaultNamespace = [], v_kmsVaultKeyIdentifier = [], v_kmsVaultRoleId = [],
       v_KmsVaultSecretId = [], v_srcVolume = None, v_srcSnapshot = None, v_fileSystemObject = None \<rparr>"

text \<open>A filesystem volume whose filesystem is known, a snapshot of it as the cluster lists it, and a node
  with a client.\<close>

definition known_filesystem :: FileSystem where
  "known_filesystem = zero_FileSystem\<lparr>fs_Name := ''a'', fs_Uid := ''u''\<rparr>"

definition fs_volume :: Volume where
  "fs_volume = plain_volume\<lparr>v_FilesystemName := ''a'', v_innerPath := [], v_fileSystemObject := Some known_filesystem\<rparr>"

definition one_snapshot :: json where
  "one_snapshot = JObj [(''data'', JArr [JObj [(''name'', JStr ''s''), (''filesystem'', JStr ''a'')]])]"

definition live_snapshot :: Snapshot where
  "live_snapshot = decode_Snapshot (JObj [(''name'', JStr ''s''), (''filesystem'', JStr ''a'')])"

definition sys_bound :: "unit sys" where
  "sys_bound = sys_start\<lparr>sys_client := Some test_client\<rparr>"

definition lost_snapshot :: CsiSnapshot where
  "lost_snapshot =
     \<lparr> cs_id = ''s'', cs_FilesystemName = ''a'', cs_SnapshotNameHash = [], cs_SnapshotIntegrityId = [], cs_SnapshotName = ''s'',
       cs_innerPath = [], cs_SourceVolumeId = None, cs_srcSnapshotUid = None \<rparr>"

section \<open>Lemmas\<close>

subsection \<open>Every operation keeps the mounts of others\<close>

named_theorems mount_safe_intros \<open>calls that release only what they mounted\<close>

lemma mounts_kept_refl [simp]: "mounts_kept s s"
  by (simp add: mounts_kept_def)

lemma mounts_kept_trans: "mounts_kept s s1 \<Longrightarrow> mounts_kept s1 s2 \<Longrightarrow> mounts_kept s s2"
  by (auto simp: mounts_kept_def intro: order_trans)

lemma mounts_kept_cong: "sys_mountMap s' = sys_mountMap s \<Longrightarrow> mounts_kept s s'"
  by (simp add: mounts_kept_def refCount_cong [of s' s] counts_wf_cong)

lemma mount_safeI: "(\<And>p r p'. m p = (r, p') \<Longrightarrow> r \<noteq> Panic \<Longrightarrow> mounts_kept (snd p) (snd p')) \<Longrightarrow> mount_safe m"
  by (simp add: mount_safe_def)

lemma mount_safeD: "mount_safe m \<Longrightarrow> m p = (r, p') \<Longrightarrow> r \<noteq> Panic \<Longrightarrow> mounts_kept (snd p) (snd p')"
  unfolding mount_safe_def by blast

lemma mount_safe_basic [mount_safe_intros]:
  "mount_safe (go_return x)" "mount_safe (go_raise e)" "mount_safe go_panic" "mount_safe (lift_go r)"
  "mount_safe this_volume" "mount_safe (modify_volume f)"
  by (auto intro!: mount_safeI simp: lift_go_def this_volume_def modify_volume_def)

lemma mount_safe_bind [mount_safe_intros]:
  assumes "mount_safe m" "\<And>x. mount_safe (f x)"
  shows "mount_safe (go_bind m f)"
proof (rule mount_safeI)
  fix p r p' assume b: "go_bind m f p = (r, p')" "r \<noteq> Panic"
  obtain q p1 where m: "m p = (q, p1)" by (rule prod.exhaust)
  show "mounts_kept (snd p) (snd p')"
  proof (cases q)
    case (Ok x)
    with b m have "f x p1 = (r, p')" by simp
    from mounts_kept_trans [OF mount_safeD [OF assms(1) m] mount_safeD [OF assms(2) this b(2)]] Ok show ?thesis by simp
  next
    case (Err e)
    with b m mount_safeD [OF assms(1) m] show ?thesis by simp
  next
    case Panic
    with b m show ?thesis by simp
  qed
qed

lemma mount_safe_catch [mount_safe_intros]:
  assumes "mount_safe m" "\<And>e. mount_safe (h e)"
  shows "mount_safe (go_catch m h)"
proof (rule mount_safeI)
  fix p r p' assume b: "go_catch m h p = (r, p')" "r \<noteq> Panic"
  obtain q p1 where m: "m p = (q, p1)" by (rule prod.exhaust)
  show "mounts_kept (snd p) (snd p')"
  proof (cases q)
    case (Err e)
    with b m have "h e p1 = (r, p')" by simp
    from mounts_kept_trans [OF mount_safeD [OF assms(1) m] mount_safeD [OF assms(2) this b(2)]] Err show ?thesis by simp
  next
    case (Ok x)
    with b m mount_safeD [OF assms(1) m] show ?thesis by simp
  next
    case Panic
    with b m show ?thesis by simp
  qed
qed

lemma mount_safe_try [mount_safe_intros]: "mount_safe m \<Longrightarrow> mount_safe (go_try m)"
  by (rule mount_safeI) (auto simp: go_try_def split: prod.splits outcome.splits dest: mount_safeD)

lemma mount_safe_ignore [mount_safe_intros]: "mount_safe m \<Longrightarrow> mount_safe (ignore_error m)"
  unfolding ignore_error_def by (intro mount_safe_intros)

lemma mount_safe_if [mount_safe_intros]: "mount_safe m \<Longrightarrow> mount_safe n \<Longrightarrow> mount_safe (if b then m else n)"
  by simp

lemma mount_safe_option [mount_safe_intros]:
  "mount_safe m \<Longrightarrow> (\<And>a. mount_safe (f a)) \<Longrightarrow> mount_safe (case x of None \<Rightarrow> m | Some a \<Rightarrow> f a)"
  by (cases x) simp_all

lemma mount_safe_outcome [mount_safe_intros]:
  "(\<And>x. mount_safe (f x)) \<Longrightarrow> (\<And>e. mount_safe (g e)) \<Longrightarrow> mount_safe m \<Longrightarrow>
    mount_safe (case r of Ok x \<Rightarrow> f x | Err e \<Rightarrow> g e | Panic \<Rightarrow> m)"
  by (cases r) simp_all

lemma mount_safe_on_sys:
  assumes "\<And>mm. keeps (mountMap_is mm) m"
  shows "mount_safe (on_sys m)"
proof (rule mount_safeI)
  fix p r p' assume "on_sys m p = (r, p')"
  then have "m (snd p) = (r, snd p')" by (auto simp: on_sys_def split: prod.splits)
  from keepsD [OF assms refl this] show "mounts_kept (snd p) (snd p')" by (rule mounts_kept_cong)
qed

lemma mount_safe_reads [mount_safe_intros]:
  "mount_safe (on_sys (on_client m))" "mount_safe (on_sys the_client)" "mount_safe (on_sys (look f))"
  "mount_safe (on_sys (sleep E d))" "mount_safe (on_sys (os_call g))" "mount_safe (on_sys (PathExists E q))"
  by (intro mount_safe_on_sys mount_keeps)+

lemma mount_safe_sys_now [mount_safe_intros]: "mount_safe (on_sys (sys_now E))"
  by (rule mount_safe_on_sys, rule keepsI) (auto simp: sys_now_def split: prod.splits)

lemma mount_safe_pathIsDirectory [mount_safe_intros]: "mount_safe (on_sys (pathIsDirectory E p))"
  unfolding pathIsDirectory_def by (intro mount_safe_on_sys mount_keeps)

lemma mounts_kept_incRef:
  assumes "incRef E m s = (Ok (), s1)" "counts_wf s"
  shows "counts_wf s1" "refCount s1 = (refCount s)(getRefcountIdx m := refCount s (getRefcountIdx m) + 1)"
  using mounters.inc_Ok [OF assms(2,1)] by simp_all

lemma release_kept:
  assumes inc: "incRef E m s0 = (Ok (), s1)" and kept: "mounts_kept s1 s2" and dec: "decRef E m s2 = (r, s3)" and r: "r \<noteq> Panic"
  shows "mounts_kept s0 s3"
  unfolding mounts_kept_def
proof
  assume w: "counts_wf s0"
  note i = mounts_kept_incRef [OF inc w]
  from kept i(1) have k: "counts_wf s2" "\<forall>idx. refCount s1 idx \<le> refCount s2 idx" by (auto simp: mounts_kept_def)
  let ?k = "getRefcountIdx m"
  from k(2) i(2) have le: "refCount s0 ?k + 1 \<le> refCount s2 ?k" by (metis fun_upd_same)
  from mounters.nonneg [OF w, of ?k] le have pos: "0 < refCount s2 ?k" by linarith
  have other: "refCount s0 j \<le> refCount s2 j" for j
    using k(2) [rule_format, of j] i(2) by (cases "j = ?k") auto
  show "counts_wf s3 \<and> (\<forall>idx. refCount s0 idx \<le> refCount s3 idx)"
  proof (cases r)
    case (Ok u)
    then have "decRef E m s2 = (Ok (), s3)" using dec by simp
    from mounters.dec_Ok [OF k(1) pos this] other le show ?thesis by auto
  next
    case (Err e)
    with mounters.dec_Err [OF k(1)] dec other show ?thesis by auto
  next
    case Panic
    with r show ?thesis by simp
  qed
qed

lemma MountUnderlyingFS_incRef:
  assumes "MountUnderlyingFS E S p = (Ok m, p1)"
  shows "\<exists>s0. sys_mountMap s0 = sys_mountMap (snd p) \<and> incRef E m s0 = (Ok (), snd p1)"
proof -
  from assms obtain M path s1 where "mountWithOptions E M (v_FilesystemName (fst p)) (volume_mount_options S (fst p)) (snd p) = (Ok (path, m), s1)"
    and "snd p1 = s1"
    by (auto simp: MountUnderlyingFS_def this_volume_def modify_volume_def on_sys_def elim!: go_bind_OkE split: prod.splits)
  from mountWithOptions_incRef [OF this(1)] this(2) show ?thesis by metis
qed

lemma prepared_incRef_Err:
  assumes "go_bind prep (\<lambda>m. go_bind (inc m) (\<lambda>_. go_return (f m))) s = (Err e, s1)"
    and k: "\<And>mm. keeps (mountMap_is mm) prep"
    and i: "\<And>m s0 e s1. inc m s0 = (Err e, s1) \<Longrightarrow> sys_mountMap s1 = sys_mountMap s0"
  shows "sys_mountMap s1 = sys_mountMap s"
proof -
  obtain r s0 where p: "prep s = (r, s0)" by (rule prod.exhaust)
  note kept = keepsD [OF k refl p]
  show ?thesis
  proof (cases r)
    case (Ok m)
    obtain q s2 where q: "inc m s0 = (q, s2)" by (rule prod.exhaust)
    with assms(1) p Ok i [of m s0] kept show ?thesis by (cases q) auto
  next
    case (Err e')
    with assms(1) p kept show ?thesis by simp
  next
    case Panic
    with assms(1) p show ?thesis by simp
  qed
qed

lemma keeps_mountWithOptions_Err:
  assumes "mountWithOptions E M fs opts s = (Err e, s')"
  shows "sys_mountMap s' = sys_mountMap s"
proof (cases M)
  case (WekafsMounter x)
  let ?prep = "go_bind (mounter_getSelinuxStatus E)
    (\<lambda>selinux. wekafs_ensureLocalContainerName E (wekafs_NewMount x fs (setSelinux opts selinux ''wekafs'')))"
  have k: "keeps (mountMap_is mm) ?prep" for mm by (intro mount_keeps)
  from assms WekafsMounter have
    "go_bind ?prep (\<lambda>m. go_bind (wekafs_incRef E m) (\<lambda>_. go_return (wekafs_getMountPoint m, WekafsMount m))) s = (Err e, s')"
    by (simp only: mountWithOptions.simps wekafs_mountWithOptions_def go_bind_assoc go_bind_return prod.case)
  then show ?thesis
    by (rule prepared_incRef_Err [OF _ k]) (use incRef_cases [of E "WekafsMount _"] in fastforce)
next
  case (NfsMounter x)
  let ?prep = "go_bind (mounter_getSelinuxStatus E)
    (\<lambda>selinux. nfs_ensureMountIpAddress E (nfs_NewMount x fs (nfs_options x opts selinux)))"
  have k: "keeps (mountMap_is mm) ?prep" for mm by (intro mount_keeps)
  from assms NfsMounter have
    "go_bind ?prep (\<lambda>m. go_bind (nfs_incRef E m) (\<lambda>_. go_return (nfs_getMountPoint m, NfsMount m))) s = (Err e, s')"
    by (simp only: mountWithOptions.simps nfs_mountWithOptions_def go_bind_assoc go_bind_return prod.case)
  then show ?thesis
    by (rule prepared_incRef_Err [OF _ k]) (use incRef_cases [of E "NfsMount _"] in fastforce)
qed

lemma MountUnderlyingFS_failed:
  assumes "MountUnderlyingFS E S p = (Err e, p1)"
  shows "sys_mountMap (snd p1) = sys_mountMap (snd p)"
proof -
  obtain r s1 where m: "mountWithOptions E (srv_mounter S) (v_FilesystemName (fst p)) (volume_mount_options S (fst p)) (snd p) = (r, s1)"
    by (rule prod.exhaust)
  with assms have "r = Err e" "snd p1 = s1"
    by (cases r; force simp: MountUnderlyingFS_def this_volume_def modify_volume_def on_sys_def go_bind_def go_return_def)+
  with keeps_mountWithOptions_Err m show ?thesis by simp
qed

lemma release_volume_decRef:
  "release_volume E m p = (r, p') \<Longrightarrow> r \<noteq> Panic \<Longrightarrow> \<exists>q. decRef E m (snd p) = (q, snd p') \<and> q \<noteq> Panic"
  by (cases "decRef E m (snd p)"; cases "fst (decRef E m (snd p))")
    (auto simp: release_volume_def on_sys_def modify_volume_def go_bind_def go_try_def lift_go_def)

text \<open>What mounts the filesystem, runs a body and then releases the mount is safe when the body is.\<close>

lemma mount_safe_bracket:
  assumes body: "mount_safe b"
    and after: "\<And>m p1 r p'. k m p1 = (r, p') \<Longrightarrow> r \<noteq> Panic \<Longrightarrow>
      \<exists>x p2 y. b p1 = (x, p2) \<and> x \<noteq> Panic \<and> release_volume E m p2 = (y, p') \<and> y \<noteq> Panic"
  shows "mount_safe (go_bind (MountUnderlyingFS E S) k)"
proof (rule mount_safeI)
  fix p r p' assume w: "go_bind (MountUnderlyingFS E S) k p = (r, p')" "r \<noteq> Panic"
  obtain q p1 where q: "MountUnderlyingFS E S p = (q, p1)" by (rule prod.exhaust)
  show "mounts_kept (snd p) (snd p')"
  proof (cases q)
    case (Ok m)
    from MountUnderlyingFS_incRef q Ok obtain s0
      where inc: "sys_mountMap s0 = sys_mountMap (snd p)" "incRef E m s0 = (Ok (), snd p1)" by blast
    from w q Ok have d: "k m p1 = (r, p')" by simp
    from after [OF d w(2)] obtain x p2 y where x: "b p1 = (x, p2)" "x \<noteq> Panic" and y: "release_volume E m p2 = (y, p')" "y \<noteq> Panic"
      by blast
    from release_volume_decRef [OF y] obtain z where z: "decRef E m (snd p2) = (z, snd p')" "z \<noteq> Panic" by blast
    have "mounts_kept s0 (snd p')"
      by (rule release_kept [OF inc(2) mount_safeD [OF body x] z])
    with mounts_kept_trans [OF mounts_kept_cong [OF inc(1)]] show ?thesis .
  next
    case (Err e)
    with w q have "p1 = p'" by simp
    with MountUnderlyingFS_failed q Err show ?thesis by (metis mounts_kept_cong)
  next
    case Panic
    with w q show ?thesis by simp
  qed
qed

lemma mount_safe_with_mount [mount_safe_intros]:
  assumes "mount_safe b"
  shows "mount_safe (with_mount E S b)"
  unfolding with_mount_def
proof (rule mount_safe_bracket [OF assms])
  fix m p1 r p' assume "deferUmount (release_volume E m) b p1 = (r, p')" "r \<noteq> Panic"
  then show "\<exists>x p2 y. b p1 = (x, p2) \<and> x \<noteq> Panic \<and> release_volume E m p2 = (y, p') \<and> y \<noteq> Panic"
    by (cases "b p1"; cases "release_volume E m (snd (b p1))")
      (auto simp: deferUmount_def go_bind_def go_try_def lift_go_def split: outcome.splits)
qed

lemma mount_safe_steps [mount_safe_intros]:
  "mount_safe is_bound" "mount_safe (supports f)" "mount_safe full_path"
  unfolding is_bound_def supports_def full_path_def by (intro mount_safe_intros)+

lemma mount_safe_missing [mount_safe_intros]: "mount_safe m \<Longrightarrow> mount_safe (missing_as_None m)"
  unfolding missing_as_None_def by (intro mount_safe_intros)

lemma mount_safe_objects [mount_safe_intros]:
  "mount_safe (fetch_filesystem E n)" "mount_safe (find_snapshot E n)"
  unfolding fetch_filesystem_def find_snapshot_def by (intro mount_safe_intros)+

lemma mount_safe_getFilesystemObj [mount_safe_intros]:
  "mount_safe (getFilesystemObj E c)" "mount_safe (getSnapshotObj E)"
  unfolding getFilesystemObj_def getSnapshotObj_def by (intro mount_safe_intros)+

lemma mount_safe_exists [mount_safe_intros]:
  "mount_safe (fileSystemExists E)" "mount_safe (snapshotExists E)" "mount_safe (directory_exists E)"
  "mount_safe (mimicDirectoryStructureForDebugMode E S)"
  unfolding fileSystemExists_def snapshotExists_def directory_exists_def mimicDirectoryStructureForDebugMode_def
  by (intro mount_safe_intros)+

lemma mount_safe_Volume_Exists [mount_safe_intros]: "mount_safe (Volume_Exists E S)"
  unfolding Volume_Exists_def inner_path_exists_def by (intro mount_safe_intros)

lemma mount_safe_encryption [mount_safe_intros]:
  "mount_safe (isEncrypted E S)" "mount_safe (check_encryption E S v)"
  unfolding isEncrypted_def fetch_encryption_def check_encryption_def by (intro mount_safe_intros)+

lemma mount_safe_ensureEncryptionParams [mount_safe_intros]: "mount_safe (ensureEncryptionParams E S)"
  unfolding ensureEncryptionParams_def isEncryptedSafe_def by (intro mount_safe_intros)

lemma mount_safe_capacity [mount_safe_intros]:
  "mount_safe (getFilesystemFreeSpaceByApi E)" "mount_safe (getFreeSpaceOnStorage E)" "mount_safe (getFilesystemTotalCapacity E)"
  "mount_safe (getCapacityFromFsSize E)" "mount_safe (getSizeFromXattr E S)" "mount_safe (use_quota S)"
  unfolding getFilesystemFreeSpaceByApi_def getFreeSpaceOnStorage_def getFilesystemTotalCapacity_def
    getCapacityFromFsSize_def getSizeFromXattr_def use_quota_def
  by (intro mount_safe_intros)+

lemma mount_safe_getMaxCapacity [mount_safe_intros]: "mount_safe (getMaxCapacity E S)"
  unfolding getMaxCapacity_def getFilesystemFreeSpace_def by (intro mount_safe_intros)

lemma mount_safe_getInodeId [mount_safe_intros]: "mount_safe (getInodeId E S)"
  unfolding getInodeId_def getInodeIdFromApi_def by (intro mount_safe_intros)

lemma mount_safe_quota [mount_safe_intros]:
  "mount_safe (setQuota E S en c)" "mount_safe (getSizeFromQuota E S)"
  unfolding setQuota_def getSizeFromQuota_def getQuota_def by (intro mount_safe_intros)+

lemma mount_safe_GetCapacity [mount_safe_intros]: "mount_safe (Volume_GetCapacity E S)"
  unfolding Volume_GetCapacity_def getCapacityFromQuota_def by (intro mount_safe_intros)

lemma mount_safe_resize [mount_safe_intros]:
  "mount_safe (resizeFilesystem E S c)" "mount_safe (ensureSufficientFsSizeOnUpdateCapacity E S c)"
proof -
  show r: "mount_safe (resizeFilesystem E S c)" for c
    unfolding resizeFilesystem_def by (intro mount_safe_intros)
  show "mount_safe (ensureSufficientFsSizeOnUpdateCapacity E S c)"
    unfolding ensureSufficientFsSizeOnUpdateCapacity_def by (intro mount_safe_intros r)
qed

lemma mount_safe_setVolumeProperties [mount_safe_intros]: "mount_safe (on_sys (setVolumeProperties E p c i))"
  unfolding setVolumeProperties_def updateXattrs_def set_xattr_def by (intro mount_safe_on_sys keeps_each mount_keeps)

lemma mount_safe_UpdateCapacity [mount_safe_intros]: "mount_safe (UpdateCapacity E S en c)"
  unfolding UpdateCapacity_def updateCapacityQuota_def updateCapacityXattr_def vol_isMounted_def Let_def
  by (intro mount_safe_intros)

lemma mount_safe_UpdateParams [mount_safe_intros]: "mount_safe (UpdateParams E S)"
  unfolding UpdateParams_def by (intro mount_safe_intros)

lemma mount_safe_mimic_seed [mount_safe_intros]: "mount_safe (mimic_seed E S)"
  unfolding mimic_seed_def
proof (rule mount_safe_bracket)
  let ?b = "go_bind this_volume (\<lambda>v. on_sys (os_call (env_mkdir_all E
    (filepath_Join [v_mountPath v, SnapshotsSubDirectory, getSeedSnapshotAccessPoint v]))))"
  show "mount_safe ?b" by (intro mount_safe_intros)
  fix m p1 r p' assume "go_bind (go_try ?b) (\<lambda>r. go_bind (ignore_error (release_volume E m)) (\<lambda>_. lift_go r)) p1 = (r, p')" "r \<noteq> Panic"
  then show "\<exists>x p2 y. ?b p1 = (x, p2) \<and> x \<noteq> Panic \<and> release_volume E m p2 = (y, p') \<and> y \<noteq> Panic"
    by (cases "?b p1"; cases "release_volume E m (snd (?b p1))")
      (auto simp: ignore_error_def go_bind_def [of "go_try _"] go_bind_def [of "go_catch _ _"] go_try_def go_catch_def lift_go_def
        split: outcome.splits)
qed

lemma mount_safe_ensureSeedSnapshot [mount_safe_intros]: "mount_safe (ensureSeedSnapshot E S)"
  unfolding ensureSeedSnapshot_def getSeedSnapshot_def isFilesystemEmpty_def createSeedSnapshot_def
  by (intro mount_safe_intros)

lemma mount_safe_getObject [mount_safe_intros]: "mount_safe (on_sys (snapshot_getObject E cfg cs))"
  unfolding snapshot_getObject_def missing_as_None_def by (intro mount_safe_on_sys mount_keeps)

lemma mount_safe_getUidOfSourceSnap [mount_safe_intros]: "mount_safe (getUidOfSourceSnap E S)"
  unfolding getUidOfSourceSnap_def source_snapshot_def by (intro mount_safe_intros)

lemma mount_safe_isAllowedForDeletion [mount_safe_intros]: "mount_safe (isAllowedForDeletion E S)"
  unfolding isAllowedForDeletion_def hasUnderlyingSnapshots_def getUnderlyingSnapshots_def by (intro mount_safe_intros)

lemma mount_safe_waits [mount_safe_intros]:
  "mount_safe (waitForFilesystemDeletion E u)" "mount_safe (waitForSnapshotDeletion E u)"
proof -
  have "mount_safe (wait_fs_deleted n E u st)" for n st
    by (induction n) (simp_all only: wait_fs_deleted.simps, (intro mount_safe_intros | assumption)+)
  then show "mount_safe (waitForFilesystemDeletion E u)"
    unfolding waitForFilesystemDeletion_def by (intro mount_safe_intros)
  have "mount_safe (wait_snap_deleted n E u st)" for n st
    by (induction n) (simp_all only: wait_snap_deleted.simps, (intro mount_safe_intros | assumption)+)
  then show "mount_safe (waitForSnapshotDeletion E u)"
    unfolding waitForSnapshotDeletion_def by (intro mount_safe_intros)
qed

lemma mount_safe_deletes [mount_safe_intros]:
  "mount_safe (deleteFilesystem E S)" "mount_safe (deleteSnapshot E S)" "mount_safe (deleteDirectory E S)"
  unfolding deleteFilesystem_def request_fs_deletion_def deleteSnapshot_def deleteDirectory_def
  by (intro mount_safe_intros)+

lemma mount_safe_Volume_Delete [mount_safe_intros]: "mount_safe (Volume_Delete E S)"
  unfolding Volume_Delete_def by (intro mount_safe_intros)

lemma mount_safe_Volume_Create [mount_safe_intros]: "mount_safe (Volume_Create E S c)"
  unfolding Volume_Create_def create_filesystem_def create_snapshot_def check_directory_encryption_def make_directory_def
    finish_creation_def Let_def
  by (intro mount_safe_intros)

subsection \<open>The volume of the witnesses\<close>

lemma plain_incRef_held: "wekafs_incRef null_env plain_mount (sys_plain 1) = (Ok (), sys_plain 2)"
  by (simp add: wekafs_incRef_def incRef_with_def ensure_mounted_def get_refCount_def set_refCount_def wekafs_isMounted_def
      go_bind_simps(1) [OF dev_isMounted] refCount_def sys_plain_def dev_doMount dev_mounter_debugPath)

lemma plain_decRef_held: "decRef null_env (WekafsMount plain_mount) (sys_plain 2) = (Ok (), sys_plain 1)"
  by (simp add: wekafs_decRef_def decRef_with_def unmount_last_def get_refCount_def set_refCount_def refCount_def sys_plain_def)

lemma plain_mounted_held:
  "mountWithOptions null_env (WekafsMounter dev_mounter) ''fs'' getDefaultMountOptions (sys_plain 1) =
     (Ok (wekafs_getMountPoint plain_mount, WekafsMount plain_mount), sys_plain 2)"
proof -
  have "mounter_getSelinuxStatus null_env (sys_plain 1) = (Ok False, sys_plain 1)"
    by (simp add: mounter_getSelinuxStatus_def sys_plain_def null_env_def getSelinuxStatus_def)
  note selinux = go_bind_simps(1) [where m = "mounter_getSelinuxStatus null_env" and s = "sys_plain 1", OF this]
  have "wekafs_mountWithOptions null_env dev_mounter ''fs'' getDefaultMountOptions (sys_plain 1) =
      (Ok (wekafs_getMountPoint plain_mount, plain_mount), sys_plain 2)"
    by (simp add: wekafs_mountWithOptions_def selinux plain_mount_def [symmetric] plain_ensure plain_incRef_held)
  then show ?thesis by simp
qed

lemma plain_volume_options: "volume_mount_options dev_server plain_volume = getDefaultMountOptions"
  by code_simp

lemma plain_volume_fields [simp]:
  "v_FilesystemName plain_volume = ''fs''" "hasInnerPath plain_volume" "\<not> isOnSnapshot plain_volume"
  "srv_mounter dev_server = WekafsMounter dev_mounter"
  by (simp_all add: plain_volume_def dev_server_def hasInnerPath_def isOnSnapshot_def)

lemma plain_volume_mounted:
  "MountUnderlyingFS null_env dev_server (plain_volume, sys_plain 1) =
     (Ok (WekafsMount plain_mount), (plain_volume\<lparr>v_mountPath := wekafs_getMountPoint plain_mount\<rparr>, sys_plain 2))"
  by (simp add: MountUnderlyingFS_def this_volume_def modify_volume_def on_sys_def plain_volume_options plain_mounted_held
      del: mountWithOptions.simps)

lemma plain_removed: "on_sys (os_call (env_remove_all null_env p)) (v, sys_plain 2) = (Ok (), (v, sys_plain 2))"
  by (simp add: on_sys_def os_call_def null_env_def sys_plain_def sys_start_def)

lemma plain_volume_deleted:
  "Volume_Delete null_env dev_server (plain_volume, sys_plain 1) = (Ok (), (plain_volume\<lparr>v_mountPath := []\<rparr>, sys_plain 1))"
proof -
  have b: "is_bound (plain_volume, sys_plain 1) = (Ok False, (plain_volume, sys_plain 1))"
    by (simp add: is_bound_def on_sys_def the_client_def sys_plain_def sys_start_def go_bind_def)
  have r: "release_volume null_env (WekafsMount plain_mount) (v, sys_plain 2) = (Ok (), (v\<lparr>v_mountPath := []\<rparr>, sys_plain 1))" for v
    by (simp add: release_volume_def on_sys_def modify_volume_def lift_go_def plain_decRef_held del: decRef.simps)
  have "deleteDirectory null_env dev_server (plain_volume, sys_plain 1) =
      (Ok (), (plain_volume\<lparr>v_mountPath := []\<rparr>, sys_plain 1))"
    by (simp add: deleteDirectory_def with_mount_def plain_volume_mounted deferUmount_def full_path_def this_volume_def
        ignore_error_def plain_removed r lift_go_def)
  then show ?thesis
    by (simp add: Volume_Delete_def this_volume_def isFilesystem_def go_bind_simps(1) [where m = is_bound, OF b])
qed

subsection \<open>Paths\<close>

lemma clean_comps_subset: "set (clean_comps rooted cs) \<subseteq> set cs \<union> {''..''}"
proof -
  have "set (foldl (clean_step rooted) out cs) \<subseteq> set out \<union> set cs \<union> {''..''}" for out
  proof (induction cs arbitrary: out)
    case (Cons c cs)
    have "set (clean_step rooted out c) \<subseteq> set out \<union> {c} \<union> {''..''}"
      by (cases out) (auto simp: clean_step_def)
    with Cons.IH [of "clean_step rooted out c"] show ?case by fastforce
  qed auto
  from this [of "[]"] show ?thesis by (simp add: clean_comps_def)
qed

lemma Clean_rooted_no_parent:
  assumes "HasPrefix p ''/''"
  shows "''..'' \<notin> set (strings_Split (CHR ''/'') (filepath_Clean p))"
proof -
  let ?cs = "clean_comps True (strings_Split (CHR ''/'') p)"
  have c: "filepath_Clean p = CHR ''/'' # strings_Join ''/'' ?cs" using assms by (simp add: filepath_Clean_def)
  have n: "''..'' \<notin> set ?cs" using clean_comps_rooted [of "strings_Split (CHR ''/'') p"] by blast
  have s: "x \<in> set ?cs \<Longrightarrow> CHR ''/'' \<notin> set x" for x
    using clean_comps_subset [of True "strings_Split (CHR ''/'') p"] n strings_Split_parts by blast
  show ?thesis
  proof (cases "?cs = []")
    case True
    then show ?thesis by (simp add: c)
  next
    case False
    then have "strings_Split (CHR ''/'') (filepath_Clean p) = [] # ?cs"
      using s by (simp add: c strings_Split_Join)
    with n show ?thesis by simp
  qed
qed

lemma GetRelativePath_no_parent: "''..'' \<notin> set (strings_Split (CHR ''/'') (GetRelativePath v))"
proof -
  have "GetRelativePath v = filepath_Clean (strings_Join ''/'' (''/'' # (if isOnSnapshot v then [SnapshotsSubDirectory, v_SnapshotAccessPoint v] else [])
       @ (if hasInnerPath v then [v_innerPath v] else [])))" (is "_ = filepath_Clean ?j")
    by (simp add: GetRelativePath_def filepath_Join_def)
  moreover have "HasPrefix ?j ''/''" by (simp add: HasPrefix_iff)
  ultimately show ?thesis using Clean_rooted_no_parent by metis
qed

subsection \<open>Deletion is refused\<close>

lemma isAllowedForDeletion_eq:
  assumes "isFilesystem (fst p)" "getUnderlyingSnapshots E p = (r, p')" "r \<noteq> Panic"
  shows "isAllowedForDeletion E S p =
    (Ok (case r of Ok sns \<Rightarrow> \<not> list_ex (prevents_deletion (getSeedSnapshotName S (fst p))) sns | _ \<Rightarrow> False), p')"
  using assms
  by (cases r) (simp_all add: isAllowedForDeletion_def hasUnderlyingSnapshots_def this_volume_def go_bind_def go_catch_def)

lemma is_bound_eq: "is_bound p = (Ok (sys_client (snd p) \<noteq> None), p)"
  by (simp add: is_bound_def on_sys_def the_client_def)

lemma append_nonempty_neq: "s \<noteq> [] \<Longrightarrow> hd s \<noteq> c \<Longrightarrow> [c] \<noteq> s @ u"
  by (cases s) auto

lemma live_snapshot_prevents: "prevents_deletion (getSeedSnapshotName dev_server fs_volume) live_snapshot"
proof -
  have n: "snap_Name live_snapshot = ''s''" "\<not> snap_IsRemoving live_snapshot"
    by (simp_all add: live_snapshot_def decode_Snapshot_def)
  have "dc_SeedSnapshotPrefix (srv_config dev_server) = ''csisnp-seed-''"
    by (simp add: dev_server_def default_config_def NewDriverConfig_def)
  then have "''s'' \<noteq> getSeedSnapshotName dev_server fs_volume"
    unfolding getSeedSnapshotName_def generateWekaSeedSnapshotName_def
    by (intro append_nonempty_neq) simp_all
  with n show ?thesis by (simp only: prevents_deletion_def simp_thms)
qed

lemma known_filesystem_fields [simp]:
  "fs_Uid known_filesystem = ''u''" "fs_Name known_filesystem = ''a''" "\<not> fs_IsRemoving known_filesystem"
  by (simp_all add: known_filesystem_def zero_FileSystem_def decode_FileSystem_def)

lemma one_snapshot_filter:
  "filter_eq (Snapshot_EQ (zero_Snapshot\<lparr>snap_Filesystem := ''a''\<rparr>)) (map decode_Snapshot (jarr (jopt (Some (jfield ''data'' one_snapshot)))))
     = Ok [live_snapshot]"
  by code_simp

lemma one_snapshot_answer:
  assumes "filter_eq (Snapshot_EQ q) (map decode_Snapshot (jarr (jopt (Some (jfield ''data'' one_snapshot))))) = Ok sns"
  shows "\<exists>st'. FindSnapshotsByFilter (reply_env (Reply 200 (Some one_snapshot)) :: unit env) q (test_client, ()) = (Ok sns, st')"
proof (rule Request_answered [OF settled_test_client])
  show "jarr (jfield ''data.exceptionClass'' one_snapshot) = []" by (simp add: one_snapshot_def)
  fix st' :: "unit api_st"
  assume "Request (reply_env (Reply 200 (Some one_snapshot))) ''GET'' ''snapshots'' None (Snapshot_query q) (test_client, ())
      = (Ok (Some (jfield ''data'' one_snapshot)), st')"
  then have "Get (reply_env (Reply 200 (Some one_snapshot))) ''snapshots'' (Snapshot_query q) (test_client, ())
      = (Ok (Some (jfield ''data'' one_snapshot)), st')"
    by (simp only: Get_def)
  note step = go_bind_simps(1) [where m = "Get (reply_env (Reply 200 (Some one_snapshot))) ''snapshots'' (Snapshot_query q)", OF this]
  show "\<exists>st'. FindSnapshotsByFilter (reply_env (Reply 200 (Some one_snapshot))) q (test_client, ()) = (Ok sns, st')"
    by (intro exI [of _ st']) (simp only: FindSnapshotsByFilter_def step assms lift_go_def)
qed

lemmas one_snapshot_found = one_snapshot_answer [OF one_snapshot_filter]

lemma listed_for_known:
  assumes "FindSnapshotsByFilter E (zero_Snapshot\<lparr>snap_Filesystem := ''a''\<rparr>) (test_client, ()) = (Ok sns, (a, w))"
  shows "on_api (FindSnapshotsByFilesystem E (Some known_filesystem)) (v, sys_bound) = (Ok sns, (v, sys_bound\<lparr>sys_client := Some a, sys_world := w\<rparr>))"
proof -
  have "FindSnapshotsByFilesystem E (Some known_filesystem) = FindSnapshotsByFilter E (zero_Snapshot\<lparr>snap_Filesystem := ''a''\<rparr>)"
    by (simp add: FindSnapshotsByFilesystem_def uuid_Nil_def)
  then show ?thesis using assms by (simp add: on_sys_def on_client_def sys_bound_def sys_start_def)
qed

lemma one_snapshot_listed:
  obtains p' where "getUnderlyingSnapshots (reply_env (Reply 200 (Some one_snapshot))) (fs_volume, sys_bound) = (Ok [live_snapshot], p')"
proof -
  let ?E = "reply_env (Reply 200 (Some one_snapshot)) :: unit env"
  obtain a w where "FindSnapshotsByFilter ?E (zero_Snapshot\<lparr>snap_Filesystem := ''a''\<rparr>) (test_client, ()) = (Ok [live_snapshot], (a, w))"
    using one_snapshot_found by (elim exE) (metis surj_pair)
  note l = listed_for_known [OF this]
  have o: "getFilesystemObj ?E True (fs_volume, sys_bound) = (Ok (Some known_filesystem), (fs_volume, sys_bound))"
    by (simp add: getFilesystemObj_def this_volume_def fs_volume_def)
  have b: "is_bound (fs_volume, sys_bound) = (Ok True, (fs_volume, sys_bound))"
    by (simp add: is_bound_eq sys_bound_def)
  have "getUnderlyingSnapshots ?E (fs_volume, sys_bound) = (Ok [live_snapshot], (fs_volume, sys_bound\<lparr>sys_client := Some a, sys_world := w\<rparr>))"
    by (simp add: getUnderlyingSnapshots_def go_bind_simps(1) [where m = is_bound, OF b] o l)
  then show thesis by (rule that)
qed

subsection \<open>Thin provisioning\<close>

lemma scale_bounds:
  fixes t v n :: int
  assumes "0 \<le> v" "v \<le> t" "0 < t" "t \<le> n"
  shows "v \<le> (v * n) div t" "(v * n) div t \<le> n"
proof -
  have "v * t \<le> v * n" using assms by (intro mult_left_mono) auto
  from zdiv_mono1 [OF this assms(3)] assms(3) show "v \<le> (v * n) div t" by simp
  have "v * n \<le> t * n" using assms by (intro mult_right_mono) auto
  from zdiv_mono1 [OF this assms(3)] assms(3) show "(v * n) div t \<le> n" by simp
qed

lemma scaleThinSsdOnExpand_eq:
  assumes "0 \<le> v" "v \<le> t" "0 < t" "t \<le> n" "n < 2 ^ 63"
  shows "scaleThinSsdOnExpand t v n keep = Ok (if keep then (v * n) div t else v)"
proof -
  have "in_int64 ((v * n) div t)"
    using scale_bounds [OF assms(1-4)] assms by (simp add: in_int64_def)
  then show ?thesis using assms(3) by (simp add: scaleThinSsdOnExpand_def int64_id)
qed

subsection \<open>Quota enforcement\<close>

lemma quota_type_default: "quota_type None = quota_type (Some True)"
  by (simp add: quota_type_def)

lemma setQuota_default: "setQuota E S None = setQuota E S (Some True)"
  by (intro ext) (simp only: setQuota_def quota_type_default)

subsection \<open>The encryption flag\<close>

text \<open>Without a client the flag of a filesystem volume stays unset, and reading it through its pointer ends
  the call.\<close>

lemma isEncrypted_unbound:
  assumes "isFilesystem v" "v_encrypted v = None" "sys_client s = None"
  shows "isEncrypted E S (v, s) = (Panic, (v, s))"
proof -
  have b: "is_bound (v, s) = (Ok False, (v, s))" using assms(3) by (simp add: is_bound_eq)
  have e: "go_try (Volume_Exists E S) (v, s) = (Ok (Ok False), (v, s))"
    using assms(1) by (simp add: go_try_def Volume_Exists_def this_volume_def go_bind_simps(1) [where m = is_bound, OF b])
  have "fetch_encryption E S (v, s) = (Ok (), (v, s))"
    by (simp add: fetch_encryption_def go_bind_simps(1) [where m = "go_try (Volume_Exists E S)", OF e]
        go_bind_simps(1) [where m = is_bound, OF b])
  then show ?thesis using assms(1,2) by (simp add: isEncrypted_def this_volume_def)
qed

section \<open>Properties\<close>

text \<open>
  A filesystem volume is not deleted while its filesystem has a snapshot that is neither being removed
  nor the seed snapshot, nor when the snapshots cannot be listed: \<open>Delete\<close> returns an error, and its
  last effect is the listing.
\<close>

lemma Volume_Delete_protected:
  assumes "isFilesystem v" "sys_client s \<noteq> None"
    and "getUnderlyingSnapshots E (v, s) = (r, p')" "r \<noteq> Panic"
    and "\<And>sns. r = Ok sns \<Longrightarrow> \<exists>sn \<in> set sns. prevents_deletion (getSeedSnapshotName S v) sn"
  shows "Volume_Delete E S (v, s) = (Err ErrFilesystemHasUnderlyingSnapshots, p')"
proof -
  have b: "is_bound (v, s) = (Ok True, (v, s))" using assms(2) by (simp add: is_bound_eq)
  have a: "isAllowedForDeletion E S (v, s) = (Ok False, p')"
    using isAllowedForDeletion_eq [of "(v, s)" E r p' S] assms by (cases r) (auto simp: list_ex_iff)
  show ?thesis
    using assms(1)
    by (simp add: Volume_Delete_def this_volume_def go_bind_simps(1) [where m = is_bound, OF b]
        go_bind_simps(1) [where m = "isAllowedForDeletion E S" and s = "(v, s)", OF a])
qed

lemma Volume_Delete_protected_example:
  "\<exists>p'. Volume_Delete (reply_env (Reply 200 (Some one_snapshot))) dev_server (fs_volume, sys_bound) =
     (Err ErrFilesystemHasUnderlyingSnapshots, p')"
proof -
  obtain p' where p': "getUnderlyingSnapshots (reply_env (Reply 200 (Some one_snapshot))) (fs_volume, sys_bound) = (Ok [live_snapshot], p')"
    by (rule one_snapshot_listed)
  have "Volume_Delete (reply_env (Reply 200 (Some one_snapshot))) dev_server (fs_volume, sys_bound) =
      (Err ErrFilesystemHasUnderlyingSnapshots, p')"
  proof (rule Volume_Delete_protected [OF _ _ p'])
    show "isFilesystem fs_volume" by (simp add: fs_volume_def plain_volume_def isFilesystem_def isOnSnapshot_def hasInnerPath_def)
    show "\<exists>sn \<in> set sns. prevents_deletion (getSeedSnapshotName dev_server fs_volume) sn" if "Ok [live_snapshot] = Ok sns" for sns
      using that live_snapshot_prevents by auto
  qed (simp_all add: sys_bound_def)
  then show ?thesis by (rule exI)
qed

text \<open>
  C26: expanding a thinly provisioned filesystem asks for the new total capacity and for SSD bounds that
  stay ordered, never shrink and stay within the new total; where the ratio is kept and the filesystem was
  entirely on SSD, it remains so.
\<close>

theorem resize_request_thin:
  assumes "fs_IsThinlyProvisioned fs" "0 \<le> fs_ThinProvisioningMinSsd fs"
    and "fs_ThinProvisioningMinSsd fs \<le> fs_ThinProvisioningMaxSsd fs"
    and "fs_ThinProvisioningMaxSsd fs \<le> fs_TotalCapacity fs" "0 < fs_TotalCapacity fs"
    and "fs_TotalCapacity fs \<le> capLimit" "capLimit < 2 ^ 63"
  shows "\<exists>minSsd maxSsd. resize_request cfg fs capLimit =
      Ok ((NewFileSystemResizeRequest (fs_Uid fs) (Some capLimit))\<lparr>fsu_ThinProvisionMinSsd := Some minSsd, fsu_ThinProvisionMaxSsd := Some maxSsd\<rparr>)
    \<and> fs_ThinProvisioningMinSsd fs \<le> minSsd \<and> fs_ThinProvisioningMaxSsd fs \<le> maxSsd \<and> minSsd \<le> maxSsd \<and> maxSsd \<le> capLimit
    \<and> (dc_keepThinProvisioningRatioOnExpand cfg \<and> fs_ThinProvisioningMaxSsd fs = fs_TotalCapacity fs \<longrightarrow> maxSsd = capLimit)"
proof -
  let ?t = "fs_TotalCapacity fs" and ?mn = "fs_ThinProvisioningMinSsd fs" and ?mx = "fs_ThinProvisioningMaxSsd fs"
    and ?keep = "dc_keepThinProvisioningRatioOnExpand cfg"
  let ?f = "\<lambda>v. if ?keep then (v * capLimit) div ?t else v"
  have s: "scaleThinSsdOnExpand ?t ?mn capLimit ?keep = Ok (?f ?mn)" "scaleThinSsdOnExpand ?t ?mx capLimit ?keep = Ok (?f ?mx)"
    using assms by (intro scaleThinSsdOnExpand_eq; linarith)+
  have "?mn * capLimit \<le> ?mx * capLimit" using assms by (intro mult_right_mono) auto
  from zdiv_mono1 [OF this assms(5)] have mono: "?f ?mn \<le> ?f ?mx" using assms(3) by simp
  have b: "?mn \<le> ?f ?mn" "?mx \<le> ?f ?mx" "?f ?mx \<le> capLimit"
    using scale_bounds [of ?mn ?t capLimit] scale_bounds [of ?mx ?t capLimit] assms by auto
  show ?thesis
    using assms(1) s mono b assms(5)
    by (intro exI [of _ "?f ?mn"] exI [of _ "?f ?mx"]) (simp add: resize_request_def Let_def)
qed

theorem resize_request_thin_witness:
  "\<exists>minSsd maxSsd. resize_request default_config
      (known_filesystem\<lparr>fs_IsThinlyProvisioned := True, fs_ThinProvisioningMinSsd := 10, fs_ThinProvisioningMaxSsd := 100, fs_TotalCapacity := 100\<rparr>) 250 =
      Ok ((NewFileSystemResizeRequest ''u'' (Some 250))\<lparr>fsu_ThinProvisionMinSsd := Some minSsd, fsu_ThinProvisionMaxSsd := Some maxSsd\<rparr>)
    \<and> 10 \<le> minSsd \<and> minSsd \<le> maxSsd \<and> maxSsd \<le> 250"
  using resize_request_thin [of "known_filesystem\<lparr>fs_IsThinlyProvisioned := True, fs_ThinProvisioningMinSsd := 10,
      fs_ThinProvisioningMaxSsd := 100, fs_TotalCapacity := 100\<rparr>" 250 default_config]
  by (fastforce simp: known_filesystem_def)

text \<open>
  A quota update without an explicit enforcement, as on expansion, is the update that enforces a hard
  limit: a soft quota of the volume does not survive it.
\<close>

lemma UpdateCapacity_hardens:
  "UpdateCapacity E S None capacity = UpdateCapacity E S (Some True) capacity"
  by (simp only: UpdateCapacity_def updateCapacityQuota_def setQuota_default)

text \<open>
  When a volume is to be restored from a snapshot and the lookup of that snapshot fails, the error is
  dropped and the source counts as absent, so the new snapshot is taken of the live filesystem.
\<close>

lemma getUidOfSourceSnap_lookup_failed:
  assumes "v_srcSnapshot v = Some cs" "snapshot_getObject E (srv_config S) cs s = (Err e, s')"
  shows "getUidOfSourceSnap E S (v, s) = (Ok None, (v, s'))"
  using assms by (simp add: getUidOfSourceSnap_def source_snapshot_def this_volume_def on_sys_def)

lemma getUidOfSourceSnap_lookup_failed_example:
  "getUidOfSourceSnap null_env dev_server (plain_volume\<lparr>v_srcSnapshot := Some lost_snapshot\<rparr>, sys_start)
     = (Ok None, (plain_volume\<lparr>v_srcSnapshot := Some lost_snapshot\<rparr>, sys_start))"
  by (rule getUidOfSourceSnap_lookup_failed [of _ lost_snapshot])
    (simp_all add: snapshot_getObject_def the_client_def sys_start_def)



end
