(* ===== verification/Gc.thy ===== *)
theory Gc
  imports Volumes "HOL-Library.Multiset_Order"
begin

text \<open>
  The garbage collector of directory volumes (\<open>gc.go\<close>, \<open>Trash\<close> of \<open>volume.go\<close>).

  A deleted directory volume is renamed into the trash directory of its filesystem and a purge of that
  directory is requested.  Purges run in goroutines of their own.  The collector keeps two flags per
  filesystem under its mutex; \<open>gc_step\<close> and \<open>gc_run\<close> interleave the locked sections of any number of
  requests, purges and retries with everything else that happens on the node.
\<close>

section \<open>Definitions\<close>

subsection \<open>Trash\<close>

definition garbagePath :: string where
  "garbagePath = ''.__internal__wekafs-async-delete''"

text \<open>\<open>filepath.Base\<close>\<close>

definition filepath_Base :: "string \<Rightarrow> string" where
  "filepath_Base path =
     (if path = [] then ''.''
      else let stripped = dropWhile (\<lambda>c. c = CHR ''/'') (rev path)
           in if stripped = [] then ''/'' else rev (takeWhile (\<lambda>c. c \<noteq> CHR ''/'') stripped))"

definition flag :: "(string, bool) gomap \<Rightarrow> string \<Rightarrow> bool" where
  "flag m fs \<longleftrightarrow> map_of m fs = Some True"

text \<open>The locked section of \<open>initiateGarbageCollection\<close>.\<close>

definition initiate :: "string \<Rightarrow> innerPathVolGc \<Rightarrow> innerPathVolGc" where
  "initiate fs g =
     (if flag (gc_isRunning g) fs then g\<lparr>gc_isDeferred := AList.update fs True (gc_isDeferred g)\<rparr>
      else if \<not> flag (gc_isDeferred g) fs then g\<lparr>gc_spawned := fs # gc_spawned g\<rparr>
      else g)"

definition initiateGarbageCollection :: "string \<Rightarrow> ('w, unit) sys_call" where
  "initiateGarbageCollection fs s = (Ok (), s\<lparr>sys_gc := initiate fs (sys_gc s)\<rparr>)"

text \<open>\<open>os.IsExist\<close>\<close>

definition os_IsExist :: "go_error \<Rightarrow> bool" where
  "os_IsExist e \<longleftrightarrow> e = Plain ''file exists''"

text \<open>The part of \<open>moveVolumeToTrash\<close> that runs while the filesystem is mounted.\<close>

definition move_to_trash :: "'w env \<Rightarrow> Volume \<Rightarrow> string \<Rightarrow> ('w, unit) sys_call" where
  "move_to_trash E v path =
     (let volumeTrashLoc = filepath_Join [path, garbagePath];
          fullPath = filepath_Join [path, GetFullPath v];
          newPath = filepath_Join [volumeTrashLoc, filepath_Base fullPath]
      in go_bind (go_catch (os_call (env_mkdir_all E volumeTrashLoc)) (\<lambda>e. if os_IsExist e then go_return () else go_raise e)) (\<lambda>_.
         go_bind (fileExists E fullPath) (\<lambda>ex.
           if \<not> ex then go_return () else os_call (env_rename E fullPath newPath))))"

definition mounted_move :: "'w env \<Rightarrow> Server \<Rightarrow> Volume \<Rightarrow> ('w, unit) sys_call" where
  "mounted_move E S v =
     go_bind (mountWithOptions E (srv_mounter S) (v_FilesystemName v) getDefaultMountOptions) (\<lambda>pm.
       deferUmount (decRef E (snd pm)) (move_to_trash E v (fst pm)))"

text \<open>The deferred request for a purge runs last, whether the move succeeded or not.\<close>

definition moveVolumeToTrash :: "'w env \<Rightarrow> Server \<Rightarrow> Volume \<Rightarrow> ('w, unit) sys_call" where
  "moveVolumeToTrash E S v =
     (if dc_skipGarbageCollection (srv_config S) then mounted_move E S v
      else go_bind (go_try (mounted_move E S v)) (\<lambda>r.
           go_bind (initiateGarbageCollection (v_FilesystemName v)) (\<lambda>_. lift_go r)))"

definition triggerGcVolume :: "'w env \<Rightarrow> Server \<Rightarrow> Volume \<Rightarrow> ('w, unit) sys_call" where
  "triggerGcVolume E S v = moveVolumeToTrash E S v"

definition Trash :: "'w env \<Rightarrow> Server \<Rightarrow> ('w, unit) vol" where
  "Trash E S =
     go_bind this_volume (\<lambda>v.
       if requiresGc v then on_sys (triggerGcVolume E S v) else Volume_Delete E S)"

definition pathIsEmptyDir :: "'w env \<Rightarrow> string \<Rightarrow> ('w, bool) sys_call" where
  "pathIsEmptyDir E p =
     go_bind (look (env_read_dir E p)) (\<lambda>r. go_return (case r of None \<Rightarrow> True | Some entries \<Rightarrow> entries = []))"

subsection \<open>Purges\<close>

text \<open>The command line of the fast deletion; its exit status is that of the last \<open>wc\<close>.\<close>

definition locar_command :: "string \<Rightarrow> string" where
  "locar_command trash =
     ''/locar --type file '' @ trash @ '' | xargs -P128 -n128 rm -f 2>&1 | wc -l; /locar --type dir '' @ trash
     @ '' | /usr/bin/xargs -P128 -n128 rm -rf 2>&1 | wc -l''"

definition purge_start :: "string \<Rightarrow> innerPathVolGc \<Rightarrow> innerPathVolGc" where
  "purge_start fs g = g\<lparr>gc_isRunning := AList.update fs True (gc_isRunning g), gc_spawned := remove1 fs (gc_spawned g)\<rparr>"

text \<open>The work between the locked sections; the result is \<open>succeeded\<close>.\<close>

definition purge_trash :: "'w env \<Rightarrow> string \<Rightarrow> ('w, unit) sys_call" where
  "purge_trash E path =
     (let volumeTrashLoc = filepath_Join [path, garbagePath]
      in go_bind (fileExists E ''/locar'') (\<lambda>fast.
           if fast then os_call (env_exec E (locar_command volumeTrashLoc)) else os_call (env_remove_all E volumeTrashLoc)))"

definition purge_work :: "'w env \<Rightarrow> AnyMounter \<Rightarrow> string \<Rightarrow> ('w, bool) sys_call" where
  "purge_work E M fs =
     go_catch (go_bind (mountWithOptions E M fs getDefaultMountOptions) (\<lambda>pm.
       go_bind (go_try (purge_trash E (fst pm))) (\<lambda>r.
       go_bind (ignore_error (decRef E (snd pm))) (\<lambda>_. go_return (r = Ok ())))))
     (\<lambda>_. go_return False)"

definition purge_end :: "string \<Rightarrow> bool \<Rightarrow> innerPathVolGc \<Rightarrow> innerPathVolGc" where
  "purge_end fs succeeded g =
     (let g1 = g\<lparr>gc_isRunning := AList.update fs False (gc_isRunning g)\<rparr>
      in if flag (gc_isDeferred g) fs
         then g1\<lparr>gc_isDeferred := AList.update fs False (gc_isDeferred g), gc_spawned := fs # gc_spawned g\<rparr>
         else if \<not> succeeded then g1\<lparr>gc_retries := fs # gc_retries g\<rparr>
         else g1)"

definition on_gc :: "(innerPathVolGc \<Rightarrow> innerPathVolGc) \<Rightarrow> 'w sys \<Rightarrow> 'w sys" where
  "on_gc f s = s\<lparr>sys_gc := f (sys_gc s)\<rparr>"

definition purgeLeftovers :: "'w env \<Rightarrow> AnyMounter \<Rightarrow> string \<Rightarrow> ('w, unit) sys_call" where
  "purgeLeftovers E M fs s =
     go_bind (purge_work E M fs) (\<lambda>succeeded s1. (Ok (), on_gc (purge_end fs succeeded) s1)) (on_gc (purge_start fs) s)"

text \<open>A retry that has slept.\<close>

definition retry_purge :: "string \<Rightarrow> innerPathVolGc \<Rightarrow> innerPathVolGc" where
  "retry_purge fs g = initiate fs (g\<lparr>gc_retries := remove1 fs (gc_retries g)\<rparr>)"

subsection \<open>Interleavings\<close>

text \<open>A purge after its first locked section: at work, or before its last locked section.\<close>

datatype purge = Working string | Ending string bool

fun purge_fs :: "purge \<Rightarrow> string" where
  "purge_fs (Working fs) = fs"
| "purge_fs (Ending fs ok) = fs"

text \<open>A configuration is the state of the node, the purges under way, and the filesystems that have trash
  no purge has started on since it was put there.\<close>

type_synonym 'w gc_config = "'w sys \<times> purge multiset \<times> string set"

text \<open>The steps of the goroutines when the purges succeed.  The trash of a purge that has failed waits for a
  purge again.\<close>

inductive gc_step :: "'w env \<Rightarrow> AnyMounter \<Rightarrow> 'w gc_config \<Rightarrow> 'w gc_config \<Rightarrow> bool" for E M where
  gc_begin: "fs \<in> set (gc_spawned (sys_gc s)) \<Longrightarrow>
    gc_step E M (s, A, D) (on_gc (purge_start fs) s, add_mset (Working fs) A, D - {fs})"
| gc_work: "purge_work E M fs s = (Ok True, s') \<Longrightarrow>
    gc_step E M (s, add_mset (Working fs) A, D) (s', add_mset (Ending fs True) A, D)"
| gc_end: "gc_step E M (s, add_mset (Ending fs ok) A, D)
    (on_gc (purge_end fs ok) s, A, if ok then D else insert fs D)"
| gc_retry: "fs \<in> set (gc_retries (sys_gc s)) \<Longrightarrow> gc_step E M (s, A, D) (on_gc (retry_purge fs) s, A, D)"

text \<open>With purges that fail, with requests, and with whatever else happens on the node.\<close>

inductive gc_run :: "'w env \<Rightarrow> AnyMounter \<Rightarrow> 'w gc_config \<Rightarrow> bool" for E M where
  gc_start: "sys_gc s = idle_gc \<Longrightarrow> gc_run E M (s, {#}, {})"
| gc_steps: "gc_run E M c \<Longrightarrow> gc_step E M c c' \<Longrightarrow> gc_run E M c'"
| gc_failure: "gc_run E M (s, add_mset (Working fs) A, D) \<Longrightarrow> purge_work E M fs s = (Ok False, s') \<Longrightarrow>
    gc_run E M (s', add_mset (Ending fs False) A, D)"
| gc_request: "gc_run E M (s, A, D) \<Longrightarrow> initiateGarbageCollection fs s = (Ok (), s') \<Longrightarrow> gc_run E M (s', A, insert fs D)"
| gc_other: "gc_run E M (s, A, D) \<Longrightarrow> sys_gc s' = sys_gc s \<Longrightarrow> gc_run E M (s', A, D)"

definition active :: "purge multiset \<Rightarrow> string \<Rightarrow> bool" where
  "active A fs \<longleftrightarrow> (\<exists>p \<in># A. purge_fs p = fs)"

definition gc_inv :: "innerPathVolGc \<Rightarrow> purge multiset \<Rightarrow> string set \<Rightarrow> bool" where
  "gc_inv g A D \<longleftrightarrow>
     (\<forall>fs. flag (gc_isRunning g) fs \<longrightarrow> active A fs) \<and>
     (\<forall>fs. flag (gc_isDeferred g) fs \<longrightarrow> active A fs) \<and>
     (\<forall>fs \<in> D. fs \<in> set (gc_spawned g) \<or> flag (gc_isDeferred g) fs \<or> fs \<in> set (gc_retries g))"

subsection \<open>The order of the goroutines\<close>

text \<open>What is left to do, from the last section of a successful purge to that of a failed one.\<close>

datatype gc_task = End_of_purge | Work_of_purge | Spawned_purge | Deferred_purge | Waiting_retry | Failed_purge

fun task_rank :: "gc_task \<Rightarrow> nat" where
  "task_rank End_of_purge = 0"
| "task_rank Work_of_purge = 1"
| "task_rank Spawned_purge = 2"
| "task_rank Deferred_purge = 3"
| "task_rank Waiting_retry = 4"
| "task_rank Failed_purge = 5"

instantiation gc_task :: linorder
begin

definition less_eq_gc_task :: "gc_task \<Rightarrow> gc_task \<Rightarrow> bool" where
  "less_eq_gc_task a b \<longleftrightarrow> task_rank a \<le> task_rank b"

definition less_gc_task :: "gc_task \<Rightarrow> gc_task \<Rightarrow> bool" where
  "less_gc_task a b \<longleftrightarrow> task_rank a < task_rank b"

instance
proof
  fix a b :: gc_task
  assume "a \<le> b" "b \<le> a"
  then show "a = b" by (cases a; cases b) (simp_all add: less_eq_gc_task_def)
qed (auto simp: less_eq_gc_task_def less_gc_task_def)

end

instance gc_task :: wellorder
proof
  fix Q :: "gc_task \<Rightarrow> bool" and a
  assume step: "\<And>x. (\<And>y. y < x \<Longrightarrow> Q y) \<Longrightarrow> Q x"
  show "Q a"
    by (induction a rule: measure_induct_rule [of task_rank]) (auto simp: less_gc_task_def intro: step)
qed

fun purge_task :: "purge \<Rightarrow> gc_task" where
  "purge_task (Working fs) = Work_of_purge"
| "purge_task (Ending fs ok) = (if ok then End_of_purge else Failed_purge)"

definition deferred_set :: "innerPathVolGc \<Rightarrow> string set" where
  "deferred_set g = {fs. flag (gc_isDeferred g) fs}"

definition flag_tasks :: "innerPathVolGc \<Rightarrow> gc_task multiset" where
  "flag_tasks g =
     replicate_mset (length (gc_spawned g)) Spawned_purge + replicate_mset (length (gc_retries g)) Waiting_retry
     + replicate_mset (card (deferred_set g)) Deferred_purge"

definition gc_tasks :: "'w gc_config \<Rightarrow> gc_task multiset" where
  "gc_tasks c = (case c of (s, A, D) \<Rightarrow> flag_tasks (sys_gc s) + image_mset purge_task A)"

text \<open>No goroutine is left.\<close>

definition quiescent :: "'w gc_config \<Rightarrow> bool" where
  "quiescent c = (case c of (s, A, D) \<Rightarrow> gc_spawned (sys_gc s) = [] \<and> gc_retries (sys_gc s) = [] \<and> A = {#})"

text \<open>For the witnesses: a node where nothing is mounted and every mount succeeds.\<close>

definition dev_node :: "'w env \<Rightarrow> bool" where
  "dev_node E \<longleftrightarrow>
     (\<forall>p s. isMounted E p s = (Ok False, s)) \<and> (\<forall>p w. env_mkdir_all E p w = (None, w))
     \<and> (\<forall>a b c d e w. env_mount E a b c d e w = (None, w))"

section \<open>Lemmas\<close>

subsection \<open>Flags\<close>

lemma flag_update [simp]: "flag (AList.update k b m) fs = (if fs = k then b else flag m fs)"
  by (auto simp: flag_def update_conv')

lemma flag_Nil [simp]: "\<not> flag [] fs"
  by (simp add: flag_def)

lemma active_simps [simp]: "\<not> active {#} fs" "active (add_mset p A) fs \<longleftrightarrow> purge_fs p = fs \<or> active A fs"
  by (auto simp: active_def)

lemma finite_deferred_set [simp]: "finite (deferred_set g)"
  by (rule finite_subset [of _ "dom (map_of (gc_isDeferred g))"]) (auto simp: deferred_set_def flag_def finite_dom_map_of)

subsection \<open>The collector outside its own steps\<close>

lemma keeps_gc_counters [mount_keeps]: "keeps (gc_is g) (get_refCount idx)" "keeps (gc_is g) (set_refCount idx n)"
  by (auto intro!: keepsI simp: get_refCount_def set_refCount_def)

lemma keeps_gc_refs [mount_keeps]: "keeps (gc_is g) (incRef E m)" "keeps (gc_is g) (decRef E m)"
  by (cases m; simp add: wekafs_incRef_def wekafs_decRef_def nfs_incRef_def nfs_decRef_def incRef_with_def decRef_with_def;
      intro mount_keeps)+

lemma keeps_prod [mount_keeps]: "(\<And>a b. keeps P (f a b)) \<Longrightarrow> keeps P (case x of (a, b) \<Rightarrow> f a b)"
  by (cases x) simp

lemma keeps_gc_mount [mount_keeps]: "keeps (gc_is g) (mountWithOptions E M fs opts)"
  by (cases M; simp add: wekafs_mountWithOptions_def nfs_mountWithOptions_def wekafs_incRef_def nfs_incRef_def incRef_with_def;
      intro mount_keeps)

lemma keeps_purge_work: "keeps (gc_is g) (purge_work E M fs)"
  unfolding purge_work_def purge_trash_def fileExists_def Let_def by (intro mount_keeps)

subsection \<open>The invariant of the collector\<close>

inductive_cases gc_stepE: "gc_step E M (s, A, D) c'"

lemma gc_inv_mono: "gc_inv g A D \<Longrightarrow> D' \<subseteq> D \<Longrightarrow> gc_inv g A D'"
  unfolding gc_inv_def by blast

lemma gc_inv_start: "gc_inv g A D \<Longrightarrow> gc_inv (purge_start fs g) (add_mset (Working fs) A) (D - {fs})"
  by (auto simp: gc_inv_def purge_start_def)

lemma gc_inv_end:
  "gc_inv g (add_mset (Ending fs ok) A) D \<Longrightarrow> gc_inv (purge_end fs ok g) A (if ok then D else insert fs D)"
  by (auto simp: gc_inv_def purge_end_def Let_def split: if_splits)

lemma gc_inv_initiate: "gc_inv g A D \<Longrightarrow> gc_inv (initiate fs g) A (insert fs D)"
  by (auto simp: gc_inv_def initiate_def)

lemma gc_inv_retry:
  assumes "gc_inv g A D"
  shows "gc_inv (retry_purge fs g) A D"
proof -
  have "gc_inv (g\<lparr>gc_retries := remove1 fs (gc_retries g)\<rparr>) A (D - {fs})"
    using assms by (auto simp: gc_inv_def)
  from gc_inv_initiate [OF this, of fs] show ?thesis
    unfolding retry_purge_def by (rule gc_inv_mono) auto
qed

lemma gc_inv_work: "gc_inv g (add_mset (Working fs) A) D \<Longrightarrow> gc_inv g (add_mset (Ending fs ok) A) D"
  by (auto simp: gc_inv_def)

lemma purge_work_gc: "purge_work E M fs s = (r, s') \<Longrightarrow> sys_gc s' = sys_gc s"
  by (rule keepsD [OF keeps_purge_work refl])

lemma on_gc_simps [simp]: "sys_gc (on_gc f s) = f (sys_gc s)"
  by (simp add: on_gc_def)

lemma gc_inv_step: "gc_step E M (s, A, D) (s', A', D') \<Longrightarrow> gc_inv (sys_gc s) A D \<Longrightarrow> gc_inv (sys_gc s') A' D'"
  by (erule gc_stepE) (auto simp: gc_inv_start gc_inv_retry purge_work_gc intro: gc_inv_work gc_inv_end [of _ _ True, simplified] gc_inv_end [of _ _ False, simplified])

lemma gc_inv_run: "gc_run E M c \<Longrightarrow> case c of (s, A, D) \<Rightarrow> gc_inv (sys_gc s) A D"
proof (induction rule: gc_run.induct)
  case (gc_start s)
  then show ?case by (simp add: gc_inv_def idle_gc_def)
next
  case (gc_steps c c')
  then show ?case by (auto intro: gc_inv_step split: prod.splits)
next
  case (gc_failure s fs A D s')
  then show ?case by (auto simp: purge_work_gc intro: gc_inv_work)
next
  case (gc_request s A D fs s')
  then show ?case by (auto simp: initiateGarbageCollection_def intro: gc_inv_initiate)
next
  case (gc_other s A D s')
  then show ?case by simp
qed

subsection \<open>The goroutines come to an end\<close>

lemma task_less [simp]:
  "Work_of_purge < Spawned_purge" "End_of_purge < Work_of_purge" "Spawned_purge < Deferred_purge"
  "Spawned_purge < Waiting_retry" "Deferred_purge < Waiting_retry" "Spawned_purge < Failed_purge"
  "Waiting_retry < Failed_purge"
  by (simp_all add: less_gc_task_def)

lemma add_mset_decreases: "a < b \<Longrightarrow> add_mset a X < add_mset (b :: gc_task) X"
  by (rule add_mset_lt_left_lt)

lemma drop_decreases: "X < add_mset (b :: gc_task) X"
  by simp

lemma flag_tasks_start:
  "fs \<in> set (gc_spawned g) \<Longrightarrow> flag_tasks g = add_mset Spawned_purge (flag_tasks (purge_start fs g))"
  by (cases "length (gc_spawned g)")
    (auto simp: flag_tasks_def purge_start_def deferred_set_def length_remove1)

lemma deferred_card: "flag (gc_isDeferred g) fs \<Longrightarrow> card (deferred_set g) = Suc (card {x. x \<noteq> fs \<and> flag (gc_isDeferred g) x})"
proof -
  assume "flag (gc_isDeferred g) fs"
  then have "deferred_set g = insert fs {x. x \<noteq> fs \<and> flag (gc_isDeferred g) x}" by (auto simp: deferred_set_def)
  moreover have "finite {x. x \<noteq> fs \<and> flag (gc_isDeferred g) x}"
    by (rule finite_subset [OF _ finite_deferred_set [of g]]) (auto simp: deferred_set_def)
  ultimately show ?thesis by simp
qed

lemma flag_tasks_end:
  "add_mset (if ok then End_of_purge else Failed_purge) (flag_tasks g) > flag_tasks (purge_end fs ok g)"
proof (cases "flag (gc_isDeferred g) fs")
  case True
  let ?X = "replicate_mset (length (gc_spawned g)) Spawned_purge + replicate_mset (length (gc_retries g)) Waiting_retry
     + replicate_mset (card {x. x \<noteq> fs \<and> flag (gc_isDeferred g) x}) Deferred_purge"
  have d: "deferred_set (purge_end fs ok g) = {x. x \<noteq> fs \<and> flag (gc_isDeferred g) x}"
    using True by (auto simp: deferred_set_def purge_end_def Let_def)
  have "flag_tasks (purge_end fs ok g) = add_mset Spawned_purge ?X"
    using True d by (simp add: flag_tasks_def) (simp add: purge_end_def Let_def)
  also have "\<dots> < add_mset Deferred_purge ?X" by (intro add_mset_decreases) simp
  also have "\<dots> = flag_tasks g" by (simp add: flag_tasks_def deferred_card [OF True])
  also have "\<dots> < add_mset (if ok then End_of_purge else Failed_purge) (flag_tasks g)" by (rule drop_decreases)
  finally show ?thesis .
next
  case False
  then have "flag_tasks (purge_end fs ok g) = (if ok then flag_tasks g else add_mset Waiting_retry (flag_tasks g))"
    by (simp add: flag_tasks_def purge_end_def deferred_set_def)
  then show ?thesis by (simp add: add_mset_decreases)
qed

lemma flag_tasks_initiate:
  "flag_tasks (initiate fs g) \<le> add_mset Spawned_purge (flag_tasks g) \<or> flag_tasks (initiate fs g) \<le> add_mset Deferred_purge (flag_tasks g)"
proof (cases "flag (gc_isRunning g) fs \<and> \<not> flag (gc_isDeferred g) fs")
  case True
  then have "deferred_set (initiate fs g) = insert fs (deferred_set g)" "fs \<notin> deferred_set g"
    by (auto simp: initiate_def deferred_set_def)
  then have "flag_tasks (initiate fs g) = add_mset Deferred_purge (flag_tasks g)"
    using True by (simp add: flag_tasks_def) (simp add: initiate_def)
  then show ?thesis by simp
next
  case False
  then consider "\<not> flag (gc_isRunning g) fs" "\<not> flag (gc_isDeferred g) fs" | "flag (gc_isDeferred g) fs" by blast
  then show ?thesis
  proof cases
    case 1
    then show ?thesis by (simp add: initiate_def flag_tasks_def deferred_set_def)
  next
    case 2
    then have "deferred_set (initiate fs g) = deferred_set g" by (auto simp: initiate_def deferred_set_def)
    with 2 have "flag_tasks (initiate fs g) = flag_tasks g" by (simp add: flag_tasks_def) (simp add: initiate_def)
    then show ?thesis using drop_decreases [of "flag_tasks g"] by (simp add: less_imp_le)
  qed
qed

lemma flag_tasks_retry:
  assumes "fs \<in> set (gc_retries g)"
  shows "flag_tasks (retry_purge fs g) < flag_tasks g"
proof -
  let ?g = "g\<lparr>gc_retries := remove1 fs (gc_retries g)\<rparr>"
  have g: "flag_tasks g = add_mset Waiting_retry (flag_tasks ?g)"
    using assms by (cases "length (gc_retries g)") (auto simp: flag_tasks_def deferred_set_def length_remove1)
  have "flag_tasks (retry_purge fs g) < add_mset Waiting_retry (flag_tasks ?g)"
    unfolding retry_purge_def using flag_tasks_initiate [of fs ?g]
    by (elim disjE) (auto elim: order.strict_trans1 intro!: add_mset_decreases)
  with g show ?thesis by simp
qed

lemma gc_tasks_step: "gc_step E M c c' \<Longrightarrow> gc_tasks c' < gc_tasks c"
proof (induction rule: gc_step.induct)
  case (gc_begin fs s A D)
  then show ?case by (simp add: gc_tasks_def flag_tasks_start [OF gc_begin] add_mset_decreases)
next
  case (gc_work fs s s' A D)
  then show ?case by (simp add: gc_tasks_def purge_work_gc add_mset_decreases)
next
  case (gc_end s fs ok A D)
  from add_strict_right_mono [OF flag_tasks_end [of fs ok "sys_gc s"], of "image_mset purge_task A"]
  show ?case by (simp add: gc_tasks_def)
next
  case (gc_retry fs s A D)
  then show ?case by (simp add: gc_tasks_def flag_tasks_retry)
qed

lemma gc_progress:
  assumes "\<And>fs s. \<exists>s'. purge_work E M fs s = (Ok True, s')" "\<not> quiescent (s, A, D)"
  shows "\<exists>c'. gc_step E M (s, A, D) c'"
proof -
  from assms(2) consider fs where "fs \<in> set (gc_spawned (sys_gc s))" | fs where "fs \<in> set (gc_retries (sys_gc s))"
    | p B where "A = add_mset p B"
    by (cases "gc_spawned (sys_gc s)"; cases "gc_retries (sys_gc s)"; cases A) (auto simp: quiescent_def)
  then show ?thesis
  proof cases
    case (3 p B)
    with assms(1) show ?thesis by (cases p) (blast intro: gc_work gc_end)+
  qed (blast intro: gc_begin gc_retry)+
qed

lemma gc_quiescent: "gc_run E M (s, A, D) \<Longrightarrow> quiescent (s, A, D) \<Longrightarrow> D = {}"
  using gc_inv_run [of E M "(s, A, D)"] by (auto simp: quiescent_def gc_inv_def)

text \<open>The running flag is set by the goroutine and not by the request that starts it, so two requests in a row
  start two purges of the same filesystem side by side.\<close>

lemma gc_purges_overlap:
  fixes s :: "'w sys" and E :: "'w env"
  assumes "sys_gc s = idle_gc"
  shows "\<exists>s' D. gc_run E M (s', {#Working fs, Working fs#}, D)"
proof -
  define r :: "'w sys \<Rightarrow> 'w sys" where "r = on_gc (initiate fs)"
  have "gc_run E M (s, {#}, {})" using assms by (rule gc_start)
  then have "gc_run E M (r s, {#}, {fs})"
    by (rule gc_request) (simp add: initiateGarbageCollection_def on_gc_def r_def)
  then have "gc_run E M (r (r s), {#}, insert fs {fs})"
    by (rule gc_request) (simp add: initiateGarbageCollection_def on_gc_def r_def)
  note run = this
  have sp: "gc_spawned (sys_gc (r (r s))) = [fs, fs]"
    using assms by (simp add: r_def initiate_def idle_gc_def)
  have "gc_run E M (on_gc (purge_start fs) (r (r s)), {#Working fs#}, insert fs {fs} - {fs})"
    by (rule gc_steps [OF run], rule gc_begin) (simp add: sp)
  then have "gc_run E M (on_gc (purge_start fs) (on_gc (purge_start fs) (r (r s))), {#Working fs, Working fs#}, insert fs {fs} - {fs} - {fs})"
    by (rule gc_steps) (rule gc_begin, simp add: purge_start_def sp)
  then show ?thesis by blast
qed

subsection \<open>Mounts\<close>

lemma keeps_outcome [mount_keeps]:
  "(\<And>x. keeps P (f x)) \<Longrightarrow> (\<And>e. keeps P (g e)) \<Longrightarrow> keeps P m \<Longrightarrow> keeps P (case r of Ok x \<Rightarrow> f x | Err e \<Rightarrow> g e | Panic \<Rightarrow> m)"
  by (cases r) simp_all

text \<open>What mounts a filesystem, runs a body that leaves the mounts alone and releases the mount keeps the mounts
  of others.\<close>

lemma mounts_kept_bracket:
  assumes body: "\<And>mm pm. keeps (mountMap_is mm) (b pm)"
    and run: "go_bind (mountWithOptions E M fs opts) (\<lambda>pm. deferUmount (decRef E (snd pm)) (b pm)) s = (r, s')" "r \<noteq> Panic"
  shows "mounts_kept s s'"
proof -
  obtain q s1 where q: "mountWithOptions E M fs opts s = (q, s1)" by (rule prod.exhaust)
  show ?thesis
  proof (cases q)
    case (Ok pm)
    obtain p m where pm: "pm = (p, m)" by (rule prod.exhaust)
    with mountWithOptions_incRef q Ok obtain s0
      where inc: "sys_mountMap s0 = sys_mountMap s" "incRef E m s0 = (Ok (), s1)" by blast
    obtain x s2 where x: "b pm s1 = (x, s2)" by (rule prod.exhaust)
    obtain y s3 where y: "decRef E m s2 = (y, s3)" by (rule prod.exhaust)
    from run q Ok pm x y have np: "y \<noteq> Panic" "s3 = s'"
      by (auto simp: deferUmount_def go_bind_def go_try_def lift_go_def split: outcome.splits)
    have "mounts_kept s0 s'"
      by (rule release_kept [OF inc(2) mounts_kept_cong [OF keepsD [OF body refl x]]]) (use y np in auto)
    with mounts_kept_trans [OF mounts_kept_cong [OF inc(1)]] show ?thesis .
  next
    case (Err e)
    with run q have "s' = s1" by simp
    with keeps_mountWithOptions_Err q Err show ?thesis by (metis mounts_kept_cong)
  next
    case Panic
    with run q show ?thesis by simp
  qed
qed

lemma keeps_move_to_trash: "keeps (mountMap_is mm) (move_to_trash E v path)"
  unfolding move_to_trash_def fileExists_def Let_def by (intro mount_keeps)

lemma mounts_kept_moveVolumeToTrash:
  assumes "moveVolumeToTrash E S v s = (r, s')" "r \<noteq> Panic"
  shows "mounts_kept s s'"
proof -
  obtain q s1 where q: "mounted_move E S v s = (q, s1)" by (rule prod.exhaust)
  with assms have "q \<noteq> Panic" "sys_mountMap s' = sys_mountMap s1"
    by (cases q; auto simp: moveVolumeToTrash_def initiateGarbageCollection_def lift_go_def go_bind_def go_try_def split: if_splits)+
  moreover from this q have "mounts_kept s s1"
    unfolding mounted_move_def by (intro mounts_kept_bracket [OF keeps_move_to_trash]) auto
  ultimately show ?thesis using mounts_kept_trans mounts_kept_cong by blast
qed

lemma mount_safe_Trash [mount_safe_intros]: "mount_safe (Trash E S)"
proof -
  have "mount_safe (on_sys (triggerGcVolume E S v))" for v
    by (rule mount_safeI)
      (auto simp: on_sys_def triggerGcVolume_def split: prod.splits intro: mounts_kept_moveVolumeToTrash)
  then show ?thesis unfolding Trash_def by (intro mount_safe_intros)
qed

subsection \<open>The purges of the witnesses\<close>

lemma dev_node_null: "dev_node null_env"
  by (simp add: dev_node_def dev_isMounted) (simp add: null_env_def)

lemma dev_node_doMount:
  "dev_node E \<Longrightarrow> wm_debugPath (wk_mounter x) \<noteq> [] \<Longrightarrow> wekafs_doMount E x opts s = (Ok (), s)"
  by (simp add: dev_node_def wekafs_doMount_def wekafs_isInDevMode_def bind_mount_def os_call_def Let_def)

lemma dev_node_isMounted: "dev_node E \<Longrightarrow> isMounted E p s = (Ok False, s)"
  by (simp add: dev_node_def)

lemma dev_mount_any:
  assumes "dev_node E" "wm_debugPath (wk_mounter m) \<noteq> []"
  shows "\<exists>s'. wekafs_incRef E m s = (Ok (), s') \<and> sys_client s' = sys_client s"
proof -
  have "ensure_mounted n (wekafs_isMounted E m) (wekafs_doMount E m opts) s = (Ok (), s)" for n opts
    using dev_node_doMount [OF assms]
    by (simp add: ensure_mounted_def wekafs_isMounted_def go_bind_simps(1) [OF dev_node_isMounted [OF assms(1)]])
  then show ?thesis by (simp add: wekafs_incRef_def incRef_with_def get_refCount_def set_refCount_def)
qed

lemma dev_release_any:
  assumes "dev_node E"
  shows "\<exists>s'. wekafs_decRef E m s = (Ok (), s') \<and> sys_client s' = sys_client s"
proof -
  have "unmount_last n (wekafs_isMounted E m) (wekafs_doUnmount E m) s = (Ok (), s)" for n
    by (simp add: unmount_last_def wekafs_isMounted_def go_bind_simps(1) [OF dev_node_isMounted [OF assms]])
  then show ?thesis by (simp add: wekafs_decRef_def decRef_with_def get_refCount_def set_refCount_def)
qed

lemma dev_mountWithOptions:
  assumes "dev_node E"
  shows "\<exists>pm s' m. mountWithOptions E (WekafsMounter dev_mounter) fs opts s = (Ok pm, s') \<and> snd pm = WekafsMount m
    \<and> sys_client s' = sys_client s"
proof -
  obtain b s1 where b: "mounter_getSelinuxStatus E s = (Ok b, s1)" "sys_client s1 = sys_client s"
    unfolding mounter_getSelinuxStatus_def Let_def by (cases "sys_selinux s = Some True") simp_all
  let ?m = "wekafs_NewMount dev_mounter fs (setSelinux opts b ''wekafs'')"
  have d: "wm_debugPath (wk_mounter ?m) \<noteq> []"
    by (simp add: dev_mounter_def wekafs_NewMount_def newWekafsMounter_def)
  then have e: "wekafs_ensureLocalContainerName E ?m s1 = (Ok ?m, s1)"
    by (simp add: wekafs_ensureLocalContainerName_def wekafs_isInDevMode_def the_client_def)
  obtain s2 where m: "wekafs_incRef E ?m s1 = (Ok (), s2)" "sys_client s2 = sys_client s1" using dev_mount_any [OF assms d] by blast
  then have "mountWithOptions E (WekafsMounter dev_mounter) fs opts s = (Ok (wekafs_getMountPoint ?m, WekafsMount ?m), s2)"
    by (simp add: wekafs_mountWithOptions_def e
        go_bind_simps(1) [where m = "mounter_getSelinuxStatus E" and s = s, OF b(1)])
  with b(2) m(2) show ?thesis by auto
qed

lemma dev_purge_work: "\<exists>s'. purge_work null_env (WekafsMounter dev_mounter) fs (s :: unit sys) = (Ok True, s')"
proof -
  obtain pm s1 m where pm: "mountWithOptions null_env (WekafsMounter dev_mounter) fs getDefaultMountOptions s = (Ok pm, s1)" "snd pm = WekafsMount m"
    using dev_mountWithOptions [OF dev_node_null] by blast
  have f: "fileExists null_env ''/locar'' s1 = (Ok False, s1)" by (simp add: fileExists_def look_def null_env_def)
  have "purge_trash null_env (fst pm) s1 = (Ok (), s1)"
    by (simp add: purge_trash_def Let_def go_bind_simps(1) [where m = "fileExists null_env ''/locar''", OF f])
      (simp add: os_call_def null_env_def)
  then have t: "go_try (purge_trash null_env (fst pm)) s1 = (Ok (Ok ()), s1)" by simp
  obtain s2 where "wekafs_decRef null_env m s1 = (Ok (), s2)" using dev_release_any [OF dev_node_null] by blast
  then have "ignore_error (decRef null_env (snd pm)) s1 = (Ok (), s2)" by (simp add: ignore_error_def pm(2))
  with t show ?thesis by (simp add: purge_work_def pm(1) del: mountWithOptions.simps)
qed

section \<open>Properties\<close>

text \<open>
  C21: in every interleaving of requests, purges, failures and retries, trash that no purge has started on
  since it was put there has a purge that was started, a retry that waits, or a deferred run; and a
  deferred run, like the running flag, always has a purge under way that will take it up.
\<close>

theorem gc_trash_covered:
  assumes "gc_run E M (s, A, D)"
  shows "(fs \<in> D \<longrightarrow> fs \<in> set (gc_spawned (sys_gc s)) \<or> flag (gc_isDeferred (sys_gc s)) fs \<or> fs \<in> set (gc_retries (sys_gc s)))
    \<and> (flag (gc_isDeferred (sys_gc s)) fs \<or> flag (gc_isRunning (sys_gc s)) fs \<longrightarrow> active A fs)"
  using gc_inv_run [OF assms] by (auto simp: gc_inv_def)

theorem gc_trash_covered_witness:
  "''fs'' \<in> {''fs''} \<and> ''fs'' \<in> set (gc_spawned (sys_gc (on_gc (initiate ''fs'') sys_start)))"
proof -
  have "gc_run null_env (WekafsMounter dev_mounter) (sys_start, {#}, {})" by (rule gc_start) (simp add: sys_start_def)
  then have "gc_run null_env (WekafsMounter dev_mounter) (on_gc (initiate ''fs'') sys_start, {#}, {''fs''})"
    by (rule gc_request) (simp add: initiateGarbageCollection_def on_gc_def)
  from gc_trash_covered [OF this, of "''fs''"] show ?thesis
    by (simp add: initiate_def sys_start_def idle_gc_def)
qed

text \<open>
  C23: while purges succeed and no volume is trashed, the goroutines of the collector come to an end under
  every schedule: no sequence of their steps is infinite.
\<close>

theorem gc_step_terminates: "wfP (\<lambda>c' c. gc_step E M c c')"
proof -
  have "wf (inv_image {(X, Y). X < Y} (gc_tasks :: 'a gc_config \<Rightarrow> gc_task multiset))"
    by (intro wf_inv_image wellorder_class.wf)
  then show ?thesis
    unfolding wfp_def by (rule wf_subset) (auto simp: gc_tasks_step)
qed



text \<open>
  C17: creating, deleting, trashing or resizing a volume releases only mounts it took itself: whenever the operation
  returns, with success or with an error, every mount is counted at least as often as before, so no mount
  another caller holds can go away under it.
\<close>

theorem volume_operations_keep_mounts:
  assumes "m \<in> {Volume_Create E S capacity, Volume_Delete E S, Trash E S, UpdateCapacity E S enforce capacity, UpdateParams E S}"
    and "m (v, s) = (r, (v', s'))" "r \<noteq> Panic" "counts_wf s"
  shows "counts_wf s' \<and> refCount s idx \<le> refCount s' idx"
proof -
  have "mount_safe m"
    using assms(1) by (elim insertE emptyE; hypsubst) (intro mount_safe_intros)+
  from mount_safeD [OF this assms(2,3)] assms(4) show ?thesis by (simp add: mounts_kept_def)
qed

theorem volume_operations_keep_mounts_witness:
  "counts_wf (sys_plain 1) \<and> refCount (sys_plain 1) (wekafs_getRefcountIdx plain_mount) \<le> refCount (sys_plain 1) (wekafs_getRefcountIdx plain_mount)"
proof (rule volume_operations_keep_mounts [where m = "Volume_Delete null_env dev_server" and E = null_env and S = dev_server])
  show "Volume_Delete null_env dev_server (plain_volume, sys_plain 1) = (Ok (), (plain_volume\<lparr>v_mountPath := []\<rparr>, sys_plain 1))"
    by (rule plain_volume_deleted)
  show "counts_wf (sys_plain 1)" by (simp add: counts_wf_def refCount_def sys_plain_def)
qed simp_all

end
