(* ===== verification/Snapshots.thy ===== *)
theory Snapshots
  imports Gc
begin

text \<open>
  CSI snapshots (\<open>snapshot.go\<close>, \<open>snapshotconstructors.go\<close>, \<open>CreateSnapshot\<close> of \<open>volume.go\<close>) and the
  constructors of volumes (\<open>volumeconstructors.go\<close>).

  A method of a snapshot runs on the snapshot, its source volume (\<open>None\<close> is the nil pointer) and the
  state of the node, and may change each of them.
\<close>

section \<open>Definitions\<close>

subsection \<open>Calls on a snapshot\<close>

type_synonym ('w, 'a) snp = "((CsiSnapshot \<times> Volume option) \<times> 'w sys, 'a) call"

definition snp_sys :: "('w, 'a) sys_call \<Rightarrow> ('w, 'a) snp" where
  "snp_sys m p = (case m (snd p) of (r, s') \<Rightarrow> (r, (fst p, s')))"

definition this_snapshot :: "('w, CsiSnapshot) snp" where
  "this_snapshot p = (Ok (fst (fst p)), p)"

definition modify_snapshot :: "(CsiSnapshot \<Rightarrow> CsiSnapshot) \<Rightarrow> ('w, unit) snp" where
  "modify_snapshot f p = (Ok (), ((f (fst (fst p)), snd (fst p)), snd p))"

definition on_source :: "('w, 'a) vol \<Rightarrow> ('w, 'a) snp" where
  "on_source m p =
     (case snd (fst p) of
        None \<Rightarrow> (Panic, p)
      | Some v \<Rightarrow> (case m (v, snd p) of (r, (v', s')) \<Rightarrow> (r, ((fst (fst p), Some v'), s'))))"

abbreviation snp_api :: "('w, 'a) api \<Rightarrow> ('w, 'a) snp" where
  "snp_api m \<equiv> snp_sys (on_client m)"

subsection \<open>Operations\<close>

definition getObject :: "'w env \<Rightarrow> DriverConfig \<Rightarrow> ('w, Snapshot option) snp" where
  "getObject E cfg =
     go_bind this_snapshot (\<lambda>cs.
     go_bind (snp_sys (snapshot_getObject E cfg cs)) (\<lambda>r.
     go_bind (modify_snapshot (\<lambda>c. c\<lparr>cs_SnapshotName := snd r\<rparr>)) (\<lambda>_. go_return (fst r))))"

definition snap_hasInnerPath :: "CsiSnapshot \<Rightarrow> bool" where
  "snap_hasInnerPath cs \<longleftrightarrow> cs_innerPath cs \<noteq> []"

text \<open>The mount of the source volume, with the directory created under it in development mode.\<close>

definition snap_mimic :: "'w env \<Rightarrow> Server \<Rightarrow> ('w, unit) snp" where
  "snap_mimic E S =
     go_bind this_snapshot (\<lambda>cs.
       on_source (with_mount E S
         (go_bind this_volume (\<lambda>v.
            on_sys (os_call (env_mkdir_all E
              (filepath_Join [v_mountPath v, SnapshotsSubDirectory, cs_SnapshotIntegrityId cs])))))))"

definition snap_Exists :: "'w env \<Rightarrow> Server \<Rightarrow> ('w, bool) snp" where
  "snap_Exists E S =
     go_bind (getObject E (srv_config S)) (\<lambda>r.
       case r of
         None \<Rightarrow> go_return False
       | Some sn \<Rightarrow>
           if snap_Uid sn = uuid_Nil then go_return False
           else if snap_IsRemoving sn then go_return False
           else go_bind this_snapshot (\<lambda>cs.
             if snap_AccessPoint sn \<noteq> cs_SnapshotIntegrityId cs then go_raise (Status AlreadyExists)
             else go_bind (if srv_isInDevMode S then snap_mimic E S else go_return ()) (\<lambda>_. go_return True)))"

definition getFileSystemObject :: "'w env \<Rightarrow> ('w, FileSystem option) snp" where
  "getFileSystemObject E =
     go_bind this_snapshot (\<lambda>cs.
     go_bind (snp_sys the_client) (\<lambda>ac.
       if ac = None then go_raise (Status FailedPrecondition)
       else missing_as_None (snp_api (GetFileSystemByName E (cs_FilesystemName cs)))))"

definition snapshot_request :: "CsiSnapshot \<Rightarrow> FileSystem \<Rightarrow> SnapshotCreateRequest" where
  "snapshot_request cs fs =
     NewSnapshotCreateRequest (cs_SnapshotName cs) (cs_SnapshotIntegrityId cs) (fs_Uid fs) (cs_srcSnapshotUid cs) False"

definition snap_Create :: "'w env \<Rightarrow> Server \<Rightarrow> ('w, unit) snp" where
  "snap_Create E S =
     go_bind (go_catch (getObject E (srv_config S)) (\<lambda>_. go_raise (Status Internal))) (\<lambda>r.
     go_bind this_snapshot (\<lambda>cs.
       case r of
         Some sn \<Rightarrow>
           if snap_AccessPoint sn = cs_SnapshotIntegrityId cs then go_return () else go_raise (Status AlreadyExists)
       | None \<Rightarrow>
           go_bind (go_catch (getFileSystemObject E) (\<lambda>_. go_raise (Status NotFound))) (\<lambda>fo.
             case fo of
               None \<Rightarrow> go_raise (Status NotFound)
             | Some fs \<Rightarrow>
                 go_bind (go_catch (snp_api (CreateSnapshot E (snapshot_request cs fs))) (\<lambda>_. go_raise (Status Internal))) (\<lambda>_.
                   if srv_isInDevMode S then snap_mimic E S else go_return ()))))"

text \<open>Any failure of the lookup, and any absent object, counts as removed; the first argument bounds the
  iterations for a clock that does not move.\<close>

primrec snap_wait :: "nat \<Rightarrow> 'w env \<Rightarrow> DriverConfig \<Rightarrow> int \<Rightarrow> int \<Rightarrow> int \<Rightarrow> ('w, unit) snp" where
  "snap_wait 0 E cfg start retryInterval maxretryInterval = go_panic"
| "snap_wait (Suc n) E cfg start retryInterval maxretryInterval =
     go_bind (snp_sys (sys_now E)) (\<lambda>now.
       if now - start < MaxSnapshotDeletionDuration
       then go_bind (go_try (getObject E cfg)) (\<lambda>r.
              case r of
                Err e \<Rightarrow> go_return ()
              | Panic \<Rightarrow> go_panic
              | Ok None \<Rightarrow> go_return ()
              | Ok (Some sn) \<Rightarrow>
                  if snap_Uid sn = uuid_Nil then go_return ()
                  else if snap_IsRemoving sn
                  then go_bind (snp_sys (sleep E retryInterval)) (\<lambda>_.
                         snap_wait n E cfg start (min (int64 (retryInterval * 2)) maxretryInterval) maxretryInterval)
                  else go_raise (Plain ''snapshot not marked for deletion but it should''))
       else go_return ())"

definition snap_waitForSnapshotDeletion :: "'w env \<Rightarrow> DriverConfig \<Rightarrow> int \<Rightarrow> int \<Rightarrow> ('w, unit) snp" where
  "snap_waitForSnapshotDeletion E cfg retryInterval maxretryInterval =
     go_bind (snp_sys (sys_now E)) (\<lambda>start. snap_wait (env_polls E) E cfg start retryInterval maxretryInterval)"

fun is_bad_request :: "go_error \<Rightarrow> bool" where
  "is_bad_request (Api (ApiBadRequestError _ _)) = True"
| "is_bad_request _ = False"

definition snap_Delete :: "'w env \<Rightarrow> Server \<Rightarrow> ('w, unit) snp" where
  "snap_Delete E S =
     go_bind (go_catch (getObject E (srv_config S))
                (\<lambda>e. if e = Api ObjectNotFoundError then go_return None else go_raise e)) (\<lambda>r.
       case r of
         None \<Rightarrow> go_return ()
       | Some sn \<Rightarrow>
           if snap_Uid sn = uuid_Nil then go_return ()
           else go_bind (go_catch (go_bind (snp_api (DeleteSnapshot E (snap_Uid sn))) (\<lambda>_. go_return True))
                          (\<lambda>e. if is_bad_request e then go_return False else go_raise e)) (\<lambda>wait.
                  if wait then snap_waitForSnapshotDeletion E (srv_config S) (seconds 1) (seconds 60) else go_return ()))"

text \<open>The CSI message; the creation time is passed through as the cluster reports it.\<close>

record csi_Snapshot =
  csn_SnapshotId :: string
  csn_SourceVolumeId :: string
  csn_CreationTime :: string
  csn_ReadyToUse :: bool

definition empty_csi_Snapshot :: csi_Snapshot where
  "empty_csi_Snapshot = \<lparr> csn_SnapshotId = [], csn_SourceVolumeId = [], csn_CreationTime = [], csn_ReadyToUse = False \<rparr>"

definition getCsiSnapshot :: "'w env \<Rightarrow> DriverConfig \<Rightarrow> ('w, csi_Snapshot) snp" where
  "getCsiSnapshot E cfg =
     go_bind (go_try (getObject E cfg)) (\<lambda>r.
     go_bind this_snapshot (\<lambda>cs.
       case r of
         Err e \<Rightarrow> go_return empty_csi_Snapshot
       | Panic \<Rightarrow> go_panic
       | Ok ob \<Rightarrow>
           go_bind (on_source this_volume) (\<lambda>v.
             case ob of
               None \<Rightarrow> go_panic
             | Some sn \<Rightarrow>
                 go_return \<lparr> csn_SnapshotId = cs_id cs, csn_SourceVolumeId = v_id v,
                             csn_CreationTime = snap_CreationTime sn, csn_ReadyToUse = (\<not> snap_IsRemoving sn) \<rparr>)))"

subsection \<open>Constructors of snapshots\<close>

definition snapshot_of_volume :: "DriverConfig \<Rightarrow> string \<Rightarrow> Volume \<Rightarrow> uuid option \<Rightarrow> CsiSnapshot" where
  "snapshot_of_volume cfg name v srcUid =
     (let srcVolId = v_id v;
          filesystemName = sliceFilesystemNameFromVolumeId srcVolId;
          snapNameHash = generateSnapshotNameHash name;
          snapIntegrityId = generateSnapshotIntegrityID name srcVolId;
          innerPath = sliceInnerPathFromVolumeId srcVolId
      in \<lparr> cs_id = generateSnapshotIdFromComponents SnapshotTypeUnifiedSnap filesystemName snapNameHash snapIntegrityId innerPath,
           cs_FilesystemName = filesystemName, cs_SnapshotNameHash = snapNameHash,
           cs_SnapshotIntegrityId = snapIntegrityId,
           cs_SnapshotName = generateWekaSnapNameForSnapshot (dc_SnapshotPrefix cfg) name,
           cs_innerPath = innerPath, cs_SourceVolumeId = Some srcVolId, cs_srcSnapshotUid = srcUid \<rparr>)"

text \<open>The identifier of the snapshot a volume lives on is read through the pointer of the lookup.\<close>

definition NewSnapshotFromVolumeCreate :: "'w env \<Rightarrow> Server \<Rightarrow> string \<Rightarrow> ('w, CsiSnapshot) vol" where
  "NewSnapshotFromVolumeCreate E S name =
     go_bind this_volume (\<lambda>v.
     go_bind (if isOnSnapshot v
              then go_bind (getSnapshotObj E) (\<lambda>r. case r of None \<Rightarrow> go_panic | Some sn \<Rightarrow> go_return (Some (snap_Uid sn)))
              else go_return None) (\<lambda>srcUid.
       go_return (snapshot_of_volume (srv_config S) name v srcUid)))"

definition NewSnapshotFromId :: "DriverConfig \<Rightarrow> string \<Rightarrow> CsiSnapshot go" where
  "NewSnapshotFromId cfg snapshotId =
     bind_outcome (validateSnapshotId snapshotId) (\<lambda>_. Ok
       \<lparr> cs_id = snapshotId, cs_FilesystemName = sliceFilesystemNameFromSnapshotId snapshotId,
         cs_SnapshotNameHash = sliceSnapshotNameHashFromSnapshotId snapshotId,
         cs_SnapshotIntegrityId = sliceSnapshotIntegrityIdFromSnapshotId snapshotId,
         cs_SnapshotName = dc_SnapshotPrefix cfg @ sliceSnapshotNameHashFromSnapshotId snapshotId,
         cs_innerPath = sliceInnerPathFromSnapshotId snapshotId, cs_SourceVolumeId = None, cs_srcSnapshotUid = None \<rparr>)"

text \<open>A call on a snapshot whose source is the volume at hand.\<close>

definition with_snapshot :: "CsiSnapshot \<Rightarrow> ('w, 'a) snp \<Rightarrow> ('w, 'a \<times> CsiSnapshot) vol" where
  "with_snapshot cs m p =
     (case m ((cs, Some (fst p)), snd p) of
        (r, ((cs', v'), s')) \<Rightarrow>
          ((case r of Ok x \<Rightarrow> Ok (x, cs') | Err e \<Rightarrow> Err e | Panic \<Rightarrow> Panic),
           ((case v' of Some u \<Rightarrow> u | None \<Rightarrow> fst p), s')))"

definition Volume_CreateSnapshot :: "'w env \<Rightarrow> Server \<Rightarrow> string \<Rightarrow> ('w, CsiSnapshot) vol" where
  "Volume_CreateSnapshot E S name =
     go_bind (NewSnapshotFromVolumeCreate E S name) (\<lambda>cs.
     go_bind (with_snapshot cs (snap_Exists E S)) (\<lambda>r.
       if fst r then go_return (snd r)
       else go_bind (with_snapshot (snd r) (snap_Create E S)) (\<lambda>r2. go_return (snd r2))))"

subsection \<open>Constructors of volumes\<close>

definition DefaultVolumePermissions :: int where
  "DefaultVolumePermissions = 488"

definition zero_Volume :: Volume where
  "zero_Volume =
     \<lparr> v_id = [], v_FilesystemName = [], v_filesystemGroupName = [], v_SnapshotName = [],
       v_SnapshotAccessPoint = [], v_SnapshotUuid = None, v_innerPath = [], v_permissions = 0, v_ownerUid = 0,
       v_ownerGid = 0, v_mountPath = [], v_enforceCapacity = False, v_initialFilesystemSize = 0,
       v_mountOptions = \<lparr> customOptions = [], excludeOptions = [] \<rparr>, v_encrypted = None, v_manageEncryptionKeys = False,
       v_encryptWithoutKms = False, v_kmsVaultNamespace = [], v_kmsVaultKeyIdentifier = [], v_kmsVaultRoleId = [],
       v_KmsVaultSecretId = [], v_srcVolume = None, v_srcSnapshot = None, v_fileSystemObject = None \<rparr>"

definition sliceSnapshotNameFromVolumeId :: "string \<Rightarrow> string \<Rightarrow> string" where
  "sliceSnapshotNameFromVolumeId pfx volumeId =
     (let base = sliceSnapshotAccessPointFromVolumeId volumeId in if base \<noteq> [] then pfx @ base else [])"

definition volume_from_id :: "DriverConfig \<Rightarrow> string \<Rightarrow> Volume" where
  "volume_from_id cfg volumeId =
     zero_Volume\<lparr>v_id := volumeId, v_FilesystemName := sliceFilesystemNameFromVolumeId volumeId,
       v_SnapshotName := sliceSnapshotNameFromVolumeId (dc_VolumePrefix cfg) volumeId,
       v_SnapshotAccessPoint := sliceSnapshotAccessPointFromVolumeId volumeId,
       v_innerPath := sliceInnerPathFromVolumeId volumeId, v_permissions := DefaultVolumePermissions\<rparr>"

text \<open>A constructor runs on the node and returns the volume.\<close>

definition new_volume :: "Volume \<Rightarrow> ('w, unit) vol \<Rightarrow> ('w, Volume) sys_call" where
  "new_volume v init s =
     (case init (v, s) of
        (Ok _, (v', s')) \<Rightarrow> (Ok v', s')
      | (Err e, (v', s')) \<Rightarrow> (Err e, s')
      | (Panic, (v', s')) \<Rightarrow> (Panic, s'))"

definition NewVolumeFromId :: "DriverConfig \<Rightarrow> string \<Rightarrow> ('w, Volume) sys_call" where
  "NewVolumeFromId cfg volumeId =
     go_bind (lift_go (validateVolumeId volumeId)) (\<lambda>_. new_volume (volume_from_id cfg volumeId) initMountOptions)"

text \<open>What the constructors read of a create request.  A content source without a volume and without a
  snapshot is \<open>SourceUndefined\<close>.\<close>

datatype request_source = NoSource | SourceUndefined | FromVolume string | FromSnapshot string

record TopologyRequirement =
  tr_Requisite :: "(string, string) gomap list"   \<comment> \<open>the segments of each topology\<close>
  tr_Preferred :: "(string, string) gomap list"

record CreateVolumeRequest =
  cvr_Name :: string
  cvr_Parameters :: "(string, string) gomap option"
  cvr_Secrets :: "(string, string) gomap"
  cvr_Source :: request_source
  cvr_BlockAccess :: "bool list option"
  cvr_RequiredBytes :: int
  cvr_Topology :: "TopologyRequirement option"

definition request_params :: "CreateVolumeRequest \<Rightarrow> (string, string) gomap" where
  "request_params req = (case cvr_Parameters req of Some m \<Rightarrow> m | None \<Rightarrow> [])"

definition SupportsQuotaOnSnapshots :: "ApiClient \<Rightarrow> bool" where
  "SupportsQuotaOnSnapshots a = QuotaOnSnapshot (CompatibilityMap a)"

text \<open>The type, filesystem, snapshot and inner path of a blank volume; the client decides on snapshots.\<close>

definition blank_parts :: "DriverConfig \<Rightarrow> ApiClient option \<Rightarrow> CreateVolumeRequest \<Rightarrow> volume_id_parts go" where
  "blank_parts cfg ac req =
     (let name = cvr_Name req;
          volType = (case map_of (request_params req) ''volumeType'' of Some t \<Rightarrow> t | None \<Rightarrow> []);
          filesystemName = GetFSNameFromRequest (request_params req)
      in if filesystemName = []
         then if volType = VolumeTypeDirV1 then Err (Status InvalidArgument)
              else if \<not> dc_allowAutoFsCreation cfg then Err (Status PermissionDenied)
              else Ok \<lparr> vi_type = (if volType = VolumeTypeEmpty then VolumeTypeUnified else volType),
                        vi_filesystem = generateWekaFsNameForFsBasedVol (dc_VolumePrefix cfg) name,
                        vi_access_point = [], vi_inner_path = [] \<rparr>
         else if volType = VolumeTypeDirV1
         then Ok \<lparr> vi_type = volType, vi_filesystem = filesystemName, vi_access_point = [],
                   vi_inner_path = generateInnerPathForDirBasedVol (dc_DynamicVolPath cfg) name \<rparr>
         else if ac = None \<and> \<not> dc_alwaysAllowSnapshotVolumes cfg then Err (Status FailedPrecondition)
         else if (case ac of Some a \<Rightarrow> \<not> SupportsQuotaOnSnapshots a | None \<Rightarrow> False) \<and> \<not> dc_alwaysAllowSnapshotVolumes cfg
         then Err (Status FailedPrecondition)
         else Ok \<lparr> vi_type = VolumeTypeUnified, vi_filesystem = filesystemName,
                   vi_access_point = generateWekaSnapAccessPointForSnapBasedVol name, vi_inner_path = [] \<rparr>)"

definition blank_volume :: "DriverConfig \<Rightarrow> string \<Rightarrow> volume_id_parts \<Rightarrow> Volume" where
  "blank_volume cfg name p =
     zero_Volume\<lparr>v_id := volume_id_of p, v_FilesystemName := vi_filesystem p,
       v_SnapshotName := (if vi_access_point p = [] then [] else generateWekaSnapNameForSnapBasedVol (dc_VolumePrefix cfg) name),
       v_SnapshotAccessPoint := vi_access_point p, v_innerPath := vi_inner_path p\<rparr>"

definition NewVolumeForBlankVolumeRequest :: "DriverConfig \<Rightarrow> CreateVolumeRequest \<Rightarrow> ('w, Volume) sys_call" where
  "NewVolumeForBlankVolumeRequest cfg req =
     go_bind the_client (\<lambda>ac.
     go_bind (lift_go (blank_parts cfg ac req)) (\<lambda>p. go_return (blank_volume cfg (cvr_Name req) p)))"

definition derived_volume :: "DriverConfig \<Rightarrow> string \<Rightarrow> string \<Rightarrow> string \<Rightarrow> Volume" where
  "derived_volume cfg name fsName innerPath =
     (let accessPoint = generateWekaSnapAccessPointForSnapBasedVol name
      in zero_Volume\<lparr>v_id := generateVolumeIdFromComponents VolumeTypeUnified fsName accessPoint innerPath,
           v_FilesystemName := fsName, v_SnapshotName := generateWekaSnapNameForSnapBasedVol (dc_VolumePrefix cfg) name,
           v_SnapshotAccessPoint := accessPoint, v_innerPath := innerPath\<rparr>)"

text \<open>The checks on the source snapshot; the result is the volume without its request parameters.\<close>

definition NewVolumeForCreateFromSnapshotRequest :: "'w env \<Rightarrow> Server \<Rightarrow> CreateVolumeRequest \<Rightarrow> string \<Rightarrow> ('w, Volume) sys_call" where
  "NewVolumeForCreateFromSnapshotRequest E S req sourceSnapId =
     (let cfg = srv_config S
      in go_bind the_client (\<lambda>ac.
         if ac = None then go_raise (Status InvalidArgument)
         else if sourceSnapId = [] then go_raise (Status InvalidArgument)
         else go_bind (go_catch (lift_go (NewSnapshotFromId cfg sourceSnapId)) (\<lambda>_. go_raise (Status NotFound))) (\<lambda>src.
           if snap_hasInnerPath src \<and> \<not> dc_allowSnapshotsOfDirectoryVolumes cfg then go_raise (Status FailedPrecondition)
           else go_bind (go_catch (snapshot_getObject E cfg src) (\<lambda>_. go_raise (Status Internal))) (\<lambda>r.
             case fst r of
               None \<Rightarrow> go_raise (Status NotFound)
             | Some sn \<Rightarrow>
                 if snap_IsWritable sn then go_raise (Status FailedPrecondition)
                 else if sliceFilesystemNameFromVolumeId sourceSnapId \<noteq> snap_Filesystem sn then go_raise (Status Internal)
                 else go_return ((derived_volume cfg (cvr_Name req) (sliceFilesystemNameFromVolumeId sourceSnapId) (cs_innerPath src))
                        \<lparr>v_enforceCapacity := True, v_srcSnapshot := Some (src\<lparr>cs_SnapshotName := snd r\<rparr>)\<rparr>)))))"

definition source_of :: "Volume \<Rightarrow> SourceVolume" where
  "source_of v = \<lparr> sv_id = v_id v, sv_SnapshotName = v_SnapshotName v, sv_SnapshotAccessPoint = v_SnapshotAccessPoint v \<rparr>"

definition source_exists :: "'w env \<Rightarrow> Server \<Rightarrow> Volume \<Rightarrow> ('w, bool) sys_call" where
  "source_exists E S v s = (case Volume_Exists E S (v, s) of (r, (v', s')) \<Rightarrow> (r, s'))"

definition NewVolumeForCloneVolumeRequest :: "'w env \<Rightarrow> Server \<Rightarrow> CreateVolumeRequest \<Rightarrow> string \<Rightarrow> ('w, Volume) sys_call" where
  "NewVolumeForCloneVolumeRequest E S req sourceVolId =
     (let cfg = srv_config S; filesystemName = GetFSNameFromRequest (request_params req)
      in go_bind the_client (\<lambda>ac.
         if ac = None then go_raise (Status InvalidArgument)
         else if sourceVolId = [] then go_raise (Status InvalidArgument)
         else go_bind (go_catch (NewVolumeFromId cfg sourceVolId) (\<lambda>_. go_raise (Status NotFound))) (\<lambda>src.
           if hasInnerPath src \<and> \<not> dc_allowSnapshotsOfDirectoryVolumes cfg then go_raise (Status FailedPrecondition)
           else go_bind (go_catch (source_exists E S src) (\<lambda>_. go_raise (Status NotFound))) (\<lambda>ex.
             if \<not> ex then go_raise (Status NotFound)
             else if filesystemName \<noteq> [] \<and> sliceFilesystemNameFromVolumeId sourceVolId \<noteq> filesystemName
             then go_raise (Status InvalidArgument)
             else go_return ((derived_volume cfg (cvr_Name req) (sliceFilesystemNameFromVolumeId sourceVolId) (v_innerPath src))
                    \<lparr>v_srcVolume := Some (source_of src)\<rparr>)))))"

text \<open>The volume of a request.  For a content source that names neither, the identifier of a source snapshot
  that is not there is read.\<close>

definition volume_for_request :: "'w env \<Rightarrow> Server \<Rightarrow> CreateVolumeRequest \<Rightarrow> ('w, Volume) sys_call" where
  "volume_for_request E S req =
     (case cvr_Source req of
        FromSnapshot sid \<Rightarrow> NewVolumeForCreateFromSnapshotRequest E S req sid
      | FromVolume vid \<Rightarrow> NewVolumeForCloneVolumeRequest E S req vid
      | SourceUndefined \<Rightarrow>
          go_bind (NewVolumeForBlankVolumeRequest (srv_config S) req) (\<lambda>v.
            if v_srcSnapshot v = None then go_panic else go_return v)
      | NoSource \<Rightarrow> NewVolumeForBlankVolumeRequest (srv_config S) req)"

definition init_volume :: "'w env \<Rightarrow> Server \<Rightarrow> (string, string) gomap \<Rightarrow> ('w, unit) vol" where
  "init_volume E S params =
     go_bind initMountOptions (\<lambda>_.
     go_bind (go_catch (ObtainRequestParams E S params) (\<lambda>_. go_raise (Status Internal))) (\<lambda>_.
     go_bind (enrichWithEncryptionParams E S) (\<lambda>_. pruneUnsupportedMountOptions)))"

definition NewVolumeFromControllerCreateRequest :: "'w env \<Rightarrow> Server \<Rightarrow> CreateVolumeRequest \<Rightarrow> ('w, Volume) sys_call" where
  "NewVolumeFromControllerCreateRequest E S req =
     go_bind (volume_for_request E S req) (\<lambda>v. new_volume v (init_volume E S (request_params req)))"

text \<open>For the witnesses: a request for a new filesystem volume, and the components of its identifier.\<close>

definition blank_request :: CreateVolumeRequest where
  "blank_request =
     \<lparr> cvr_Name = ''pvc-1'', cvr_Parameters = None, cvr_Secrets = [], cvr_Source = NoSource, cvr_BlockAccess = Some [False],
       cvr_RequiredBytes = 1000, cvr_Topology = None \<rparr>"

definition blank_request_id :: volume_id_parts where
  "blank_request_id =
     \<lparr> vi_type = VolumeTypeUnified, vi_filesystem = generateWekaFsNameForFsBasedVol ''csivol-'' ''pvc-1'',
       vi_access_point = [], vi_inner_path = [] \<rparr>"

section \<open>Lemmas\<close>

subsection \<open>Identifiers\<close>

lemma id_part_slice: "id_part (sliceFilesystemNameFromVolumeId volumeId)"
proof (cases "length (strings_Split (CHR ''/'') volumeId) < 3")
  case True
  then show ?thesis by (simp add: sliceFilesystemNameFromVolumeId_def id_part_def)
next
  case False
  let ?mid = "strings_Split (CHR ''/'') volumeId ! 2"
  let ?fs = "strings_Split (CHR '':'') ?mid ! 0"
  have "CHR ''/'' \<notin> set ?mid" using False by (intro strings_Split_parts [of _ _ volumeId] nth_mem) simp
  moreover have fs: "?fs \<in> set (strings_Split (CHR '':'') ?mid)" by (intro nth_mem) (simp add: length_greater_0_conv)
  ultimately have "id_part ?fs"
    using strings_Split_parts [OF fs] strings_Split_subset [OF fs] by (auto simp: id_part_def)
  with False show ?thesis by (simp add: sliceFilesystemNameFromVolumeId_def Let_def)
qed

lemma lang_re_snapshot:
  assumes "id_part fs" "id_part h" "id_part i" "h \<noteq> []" "i \<noteq> []"
  shows "(''/'' @ fs) @ '':'' @ h @ '':'' @ i @ [] \<in> lang re_snapshot"
proof -
  have "''/'' @ fs \<in> lang (Plus (Cls False '':''))"
    using assms(1) by (intro lang_Plus_class) (auto simp: id_part_def)
  moreover have "h \<in> lang (Plus (Cls False '':''))"
    using assms(2,4) by (intro lang_Plus_class) (auto simp: id_part_def)
  moreover have "i \<in> lang (Plus (Cls False ''/''))"
    using assms(3,5) by (intro lang_Plus_class) (auto simp: id_part_def)
  ultimately show ?thesis
    unfolding re_snapshot_def by (intro lang_SeqI) (simp_all add: star_Nil)
qed

lemma validate_snapshot:
  assumes "id_part fs" "id_part h" "id_part i" "h \<noteq> []" "i \<noteq> []"
    and "length (generateSnapshotIdFromComponents SnapshotTypeUnifiedSnap fs h i inner) \<le> maxVolumeIdLength"
  shows "validateSnapshotId (generateSnapshotIdFromComponents SnapshotTypeUnifiedSnap fs h i inner) = Ok ()"
proof -
  let ?id = "generateSnapshotIdFromComponents SnapshotTypeUnifiedSnap fs h i inner"
  let ?rest = "if inner \<noteq> [] then (if \<not> HasPrefix inner ''/'' then ''/'' @ inner else inner) else []"
  have i: "?id = (SnapshotTypeUnifiedSnap @ ((''/'' @ fs) @ '':'' @ h @ '':'' @ i @ [])) @ ?rest"
    by (simp add: generateSnapshotIdFromComponents_def)
  have "SnapshotTypeUnifiedSnap @ ((''/'' @ fs) @ '':'' @ h @ '':'' @ i @ []) \<in> lang (Seq (Lit SnapshotTypeUnifiedSnap) re_snapshot)"
    using lang_re_snapshot [OF assms(1-5)] by (intro lang_SeqI) simp_all
  from MatchString_prefix [OF this, of ?rest] have "MatchString (Seq (Lit SnapshotTypeUnifiedSnap) re_snapshot) ?id"
    unfolding i .
  moreover have "HasPrefix ?id SnapshotTypeUnifiedSnap" by (simp add: generateSnapshotIdFromComponents_def)
  moreover have "?id \<noteq> []" by (simp add: generateSnapshotIdFromComponents_def)
  ultimately show ?thesis using assms(6) by (simp add: validateSnapshotId_def Let_def)
qed

lemma sliceInnerPath_rooted:
  "sliceInnerPathFromVolumeId volumeId = [] \<or> (\<exists>r. sliceInnerPathFromVolumeId volumeId = CHR ''/'' # r)"
  by (simp add: sliceInnerPathFromVolumeId_def Let_def)

subsection \<open>Paths\<close>

lemma clean_comps_empty: "clean_comps rooted (xs @ [] # ys) = clean_comps rooted (xs @ ys)"
  by (simp add: clean_comps_def clean_step_def)

lemma Clean_double_slash:
  assumes "a \<noteq> []"
  shows "filepath_Clean (a @ ''/'' @ ''/'' @ b) = filepath_Clean (a @ ''/'' @ b)"
proof -
  have "HasPrefix (a @ ''/'' @ ''/'' @ b) ''/'' = HasPrefix (a @ ''/'' @ b) ''/''"
    using assms by (cases a) (auto simp: HasPrefix_iff)
  then show ?thesis by (simp add: filepath_Clean_def strings_Split_app clean_comps_empty Let_def)
qed

lemma GetRelativePath_slash:
  assumes "isOnSnapshot v = isOnSnapshot u" "v_SnapshotAccessPoint v = v_SnapshotAccessPoint u"
    and "v_innerPath v = (if v_innerPath u = [] then [] else ''/'' @ v_innerPath u)"
  shows "GetRelativePath v = GetRelativePath u"
proof (cases "v_innerPath u = []")
  case True
  with assms show ?thesis by (simp add: GetRelativePath_def hasInnerPath_def)
next
  case False
  let ?pre = "''/'' # (if isOnSnapshot u then [SnapshotsSubDirectory, v_SnapshotAccessPoint u] else [])"
  have j: "filepath_Join (?pre @ [x]) = filepath_Clean (strings_Join ''/'' ?pre @ ''/'' @ x)" for x
    by (simp add: filepath_Join_def strings_Join_append [of ?pre "[x]", simplified])
  have "GetRelativePath v = filepath_Join (?pre @ [''/'' @ v_innerPath u])" "GetRelativePath u = filepath_Join (?pre @ [v_innerPath u])"
    using False assms by (simp_all add: GetRelativePath_def hasInnerPath_def)
  then show ?thesis
    unfolding j using Clean_double_slash [of "strings_Join ''/'' ?pre" "v_innerPath u"] by simp
qed

subsection \<open>Volumes made again from their identifiers\<close>

lemma initMountOptions_eq:
  "initMountOptions (v, s) = (Ok (), (v\<lparr>v_mountOptions := prune_options (sys_client s) getDefaultMountOptions\<rparr>, s))"
  by (simp add: initMountOptions_def pruneUnsupportedMountOptions_def modify_volume_def on_sys_def the_client_def)

lemma NewVolumeFromId_eq:
  "validateVolumeId vid = Ok () \<Longrightarrow>
    NewVolumeFromId cfg vid s = (Ok ((volume_from_id cfg vid)\<lparr>v_mountOptions := prune_options (sys_client s) getDefaultMountOptions\<rparr>), s)"
  by (simp add: NewVolumeFromId_def lift_go_def new_volume_def initMountOptions_eq)

lemma blank_parts_access_point:
  "blank_parts cfg ac req = Ok p \<Longrightarrow> vi_access_point p = [] \<or> vi_access_point p = generateWekaSnapAccessPointForSnapBasedVol (cvr_Name req)"
  by (auto simp: blank_parts_def Let_def split: if_splits option.splits)

lemma volume_from_id_parts:
  assumes "volume_parts_wf p"
  shows "v_FilesystemName (volume_from_id cfg (volume_id_of p)) = vi_filesystem p"
    and "v_SnapshotAccessPoint (volume_from_id cfg (volume_id_of p)) = vi_access_point p"
    and "v_SnapshotName (volume_from_id cfg (volume_id_of p)) = (if vi_access_point p = [] then [] else dc_VolumePrefix cfg @ vi_access_point p)"
    and "v_innerPath (volume_from_id cfg (volume_id_of p)) = (if vi_inner_path p = [] then [] else ''/'' @ vi_inner_path p)"
  using assms volume_id_roundtrip_parts [of "vi_type p" "vi_filesystem p" "vi_access_point p" "vi_inner_path p"]
  by (simp_all add: volume_from_id_def volume_id_of_def volume_parts_wf_def sliceSnapshotNameFromVolumeId_def)

lemma isOnSnapshot_id: "isOnSnapshot (volume_from_id cfg vid) \<longleftrightarrow> v_SnapshotAccessPoint (volume_from_id cfg vid) \<noteq> []"
  by (simp add: isOnSnapshot_def volume_from_id_def zero_Volume_def)

subsection \<open>Content sources\<close>

text \<open>A content source that names neither a volume nor a snapshot ends the request.\<close>

lemma request_source_undefined:
  assumes "NewVolumeForBlankVolumeRequest (srv_config S) req s = (Ok v, s')"
  shows "volume_for_request E S (req\<lparr>cvr_Source := SourceUndefined\<rparr>) s = (Panic, s')"
proof -
  have "NewVolumeForBlankVolumeRequest (srv_config S) (req\<lparr>cvr_Source := SourceUndefined\<rparr>) s = (Ok v, s')"
    using assms by (simp add: NewVolumeForBlankVolumeRequest_def blank_parts_def request_params_def)
  moreover from assms have "v_srcSnapshot v = None"
    by (auto simp: NewVolumeForBlankVolumeRequest_def lift_go_def the_client_def blank_volume_def zero_Volume_def elim!: go_bind_OkE)
  ultimately show ?thesis by (simp add: volume_for_request_def)
qed

subsection \<open>Waiting for a deletion\<close>

text \<open>A lookup that fails counts as a snapshot that is gone.\<close>

lemma snap_wait_error:
  assumes "sys_now E (snd p) = (Ok now, s1)" "now - start < MaxSnapshotDeletionDuration"
    and "getObject E cfg (fst p, s1) = (Err e, p')"
  shows "snap_wait (Suc n) E cfg start i m p = (Ok (), p')"
  using assms by (simp add: snp_sys_def)

subsection \<open>The requests of the witnesses\<close>

lemma blank_request_parts: "blank_parts default_config None blank_request = Ok blank_request_id"
  by (simp add: blank_parts_def blank_request_def blank_request_id_def request_params_def GetFSNameFromRequest_def
      VolumeTypeDirV1_def VolumeTypeEmpty_def default_config_def NewDriverConfig_def)

lemma blank_request_wf: "volume_parts_wf blank_request_id"
proof -
  have "id_part ''csivol-''" by (simp add: id_part_def)
  moreover have "id_part (generateWekaObjectNameBase ''pvc-1'')" by (rule id_part_name_base) simp
  ultimately have "id_part (vi_filesystem blank_request_id)"
    by (simp only: blank_request_id_def generateWekaFsNameForFsBasedVol_def volume_id_parts.simps id_part_append)
  then show ?thesis by (simp add: volume_parts_wf_def blank_request_id_def KnownVolTypes_def id_part_def)
qed

lemma blank_request_valid: "validateVolumeId (volume_id_of blank_request_id) = Ok ()"
proof -
  let ?fs = "generateWekaFsNameForFsBasedVol ''csivol-'' ''pvc-1''"
  have len: "length ?fs \<le> 32" using length_name_base(2) [of "''pvc-1''"] by (simp add: generateWekaFsNameForFsBasedVol_def)
  have "validateVolumeId (generateVolumeIdFromComponents VolumeTypeUnified ?fs [] []) = Ok ()"
  proof (rule validate_unified)
    show "id_part ?fs" using blank_request_wf by (simp add: volume_parts_wf_def blank_request_id_def)
    show "length (generateVolumeIdFromComponents VolumeTypeUnified ?fs [] []) \<le> maxVolumeIdLength"
      using len by (simp add: generateVolumeIdFromComponents_def VolumeTypeUnified_def maxVolumeIdLength_def)
  qed (simp_all add: id_part_def generateWekaFsNameForFsBasedVol_def)
  then show ?thesis by (simp add: volume_id_of_def blank_request_id_def)
qed

lemma plain_volume_slices:
  "sliceFilesystemNameFromVolumeId (v_id plain_volume) = ''fs''" "sliceInnerPathFromVolumeId (v_id plain_volume) = ''/d''"
  by code_simp+

lemma live_snapshot_by_name:
  "filter_eq (Snapshot_EQ (zero_Snapshot\<lparr>snap_Name := ''s''\<rparr>)) (map decode_Snapshot (jarr (jopt (Some (jfield ''data'' one_snapshot)))))
     = Ok [live_snapshot]"
  by code_simp

lemma lost_snapshot_found:
  "\<exists>s'. getObject (reply_env (Reply 200 (Some one_snapshot))) default_config ((lost_snapshot, None), sys_bound) =
     (Ok (Some live_snapshot), ((lost_snapshot, None), s'))"
proof -
  let ?E = "reply_env (Reply 200 (Some one_snapshot)) :: unit env"
  obtain a w where "FindSnapshotsByFilter ?E (zero_Snapshot\<lparr>snap_Name := ''s''\<rparr>) (test_client, ()) = (Ok [live_snapshot], (a, w))"
    using one_snapshot_answer [OF live_snapshot_by_name] by (elim exE) (metis surj_pair)
  then have "GetSnapshotByName ?E ''s'' (test_client, ()) = (Ok live_snapshot, (a, w))"
    by (simp add: GetSnapshotByName_def GetSnapshotByFilter_def lift_go_def)
  then have g: "on_client (GetSnapshotByName ?E ''s'') sys_bound = (Ok live_snapshot, sys_bound\<lparr>sys_client := Some a, sys_world := w\<rparr>)"
    by (simp add: on_client_def sys_bound_def sys_start_def)
  have "snapshot_getObject ?E default_config lost_snapshot sys_bound =
      (Ok (Some live_snapshot, ''s''), sys_bound\<lparr>sys_client := Some a, sys_world := w\<rparr>)"
    by (simp add: snapshot_getObject_def the_client_def missing_as_None_def lost_snapshot_def g) (simp add: sys_bound_def)
  then show ?thesis
    by (simp add: getObject_def this_snapshot_def snp_sys_def modify_snapshot_def) (simp add: lost_snapshot_def)
qed

section \<open>Properties\<close>



text \<open>
  C25: the snapshot a delete or restore request makes from the identifier of a created snapshot is the
  created one in everything but its source: same filesystem, name, access point and inner path.
\<close>

theorem snapshot_reopened:
  assumes "CHR '':'' \<notin> set name" "length (cs_id (snapshot_of_volume cfg name v srcUid)) \<le> maxVolumeIdLength"
  shows "NewSnapshotFromId cfg (cs_id (snapshot_of_volume cfg name v srcUid)) =
    Ok ((snapshot_of_volume cfg name v srcUid)\<lparr>cs_SourceVolumeId := None, cs_srcSnapshotUid := None\<rparr>)"
proof -
  let ?fs = "sliceFilesystemNameFromVolumeId (v_id v)" and ?h = "generateSnapshotNameHash name"
    and ?i = "generateSnapshotIntegrityID name (v_id v)" and ?inner = "sliceInnerPathFromVolumeId (v_id v)"
  let ?id = "generateSnapshotIdFromComponents SnapshotTypeUnifiedSnap ?fs ?h ?i ?inner"
  have id: "cs_id (snapshot_of_volume cfg name v srcUid) = ?id" by (simp add: snapshot_of_volume_def Let_def)
  have parts: "id_part ?fs" "id_part ?h" "id_part ?i"
    using id_part_slice id_part_name_base [OF assms(1)]
    by (simp_all add: generateSnapshotNameHash_def generateSnapshotIntegrityID_def)
  have ne: "?h \<noteq> []" "?i \<noteq> []"
    unfolding length_greater_0_conv [symmetric] using length_name_base(1) [of name]
    by (simp_all add: generateSnapshotNameHash_def generateSnapshotIntegrityID_def MaxHashLengthForObjectNames_def
        del: length_greater_0_conv)
  have "validateSnapshotId ?id = Ok ()"
    using assms(2) unfolding id by (intro validate_snapshot [OF parts ne])
  moreover have "(if ?inner = [] then [] else ''/'' @ TrimPrefix ?inner ''/'') = ?inner"
    using sliceInnerPath_rooted [of "v_id v"] by (auto simp: TrimPrefix_def HasPrefix_iff)
  ultimately show ?thesis
    using snapshot_id_roundtrip_parts [OF parts, of ?inner]
    unfolding id by (simp add: NewSnapshotFromId_def snapshot_of_volume_def Let_def generateWekaSnapNameForSnapshot_def generateSnapshotNameHash_def)
qed

theorem snapshot_reopened_witness:
  "NewSnapshotFromId default_config (cs_id (snapshot_of_volume default_config ''snap'' plain_volume None)) =
    Ok ((snapshot_of_volume default_config ''snap'' plain_volume None)\<lparr>cs_SourceVolumeId := None, cs_srcSnapshotUid := None\<rparr>)"
proof (rule snapshot_reopened)
  show "length (cs_id (snapshot_of_volume default_config ''snap'' plain_volume None)) \<le> maxVolumeIdLength"
    using length_name_base(2) [of "''snap''"]
    by (simp add: snapshot_of_volume_def Let_def plain_volume_slices generateSnapshotIdFromComponents_def SnapshotTypeUnifiedSnap_def
        generateSnapshotNameHash_def generateSnapshotIntegrityID_def maxVolumeIdLength_def MaxHashLengthForObjectNames_def HasPrefix_iff)
qed simp

text \<open>
  Creating a snapshot that is already there sends no request: it succeeds when the access point is the
  expected one and reports a conflict otherwise, and its last effect is the lookup.
\<close>

lemma snap_Create_existing:
  assumes "getObject E (srv_config S) p = (Ok (Some sn), p')"
  shows "snap_Create E S p =
    (if snap_AccessPoint sn = cs_SnapshotIntegrityId (fst (fst p')) then Ok () else Err (Status AlreadyExists), p')"
  using assms by (simp add: snap_Create_def this_snapshot_def)

lemma snap_Create_existing_example:
  "\<exists>p'. snap_Create (reply_env (Reply 200 (Some one_snapshot))) dev_server ((lost_snapshot, None), sys_bound) = (Ok (), p')"
proof -
  obtain s' where "getObject (reply_env (Reply 200 (Some one_snapshot))) (srv_config dev_server) ((lost_snapshot, None), sys_bound) =
     (Ok (Some live_snapshot), ((lost_snapshot, None), s'))"
    using lost_snapshot_found by (auto simp: dev_server_def)
  from snap_Create_existing [OF this] show ?thesis
    by (simp add: live_snapshot_def decode_Snapshot_def lost_snapshot_def)
qed

end
