(* ===== verification/Capacity.thy ===== *)
theory Capacity
  imports Snapshots
begin

text \<open>
  The capacity tracker of the controller (\<open>CapacityTracker\<close> in \<open>pkg/wekafs/controllerserver.go\<close>).  It
  adds up, per filesystem, the sizes of the persistent volumes Kubernetes listed last and the growth that
  create and expand requests have reserved since, and admits a request only when both fit into the space of
  the filesystem.  Every operation holds the mutex of the tracker, so each is one step of \<open>tracker_reach\<close>.

  Sums are \<open>int64\<close> and wrap.  The lemmas relate them to the exact sums; the properties state what is
  committed after a request was admitted and after a refresh.
\<close>

section \<open>Definitions\<close>

record CapacityReservation =
  cr_Filesystem :: string
  cr_SourceCapacity :: int
  cr_TargetCapacity :: int
  cr_Timestamp :: int

text \<open>\<open>None\<close> is the zero time of a tracker that was never refreshed.\<close>

record CapacityTracker =
  ct_confirmedCapacity :: "(string, int) gomap"
  ct_pendingReservations :: "(string, CapacityReservation) gomap"
  ct_lastRefreshTime :: "int option"
  ct_manager :: bool

definition new_tracker :: CapacityTracker where
  "new_tracker =
     \<lparr> ct_confirmedCapacity = [], ct_pendingReservations = [], ct_lastRefreshTime = None, ct_manager = True \<rparr>"

definition capacityRefreshInterval :: int where
  "capacityRefreshInterval = seconds 5"

text \<open>The lookup of a number in a Go map.\<close>

definition number_at :: "('k, int) gomap \<Rightarrow> 'k \<Rightarrow> int" where
  "number_at m k = (case map_of m k of Some n \<Rightarrow> n | None \<Rightarrow> 0)"

definition add_pending :: "string \<Rightarrow> string \<times> CapacityReservation \<Rightarrow> int \<Rightarrow> int" where
  "add_pending filesystem e acc =
     (if cr_Filesystem (snd e) = filesystem
      then int64 (acc + int64 (cr_TargetCapacity (snd e) - cr_SourceCapacity (snd e))) else acc)"

definition getPendingCapacityLocked :: "string \<Rightarrow> CapacityTracker \<Rightarrow> int" where
  "getPendingCapacityLocked filesystem ct = fold (add_pending filesystem) (ct_pendingReservations ct) 0"

definition deleteReservationLocked :: "string \<Rightarrow> CapacityTracker \<Rightarrow> CapacityTracker" where
  "deleteReservationLocked volumeID ct =
     ct\<lparr>ct_pendingReservations := AList.delete volumeID (ct_pendingReservations ct)\<rparr>"

subsection \<open>Refresh\<close>

text \<open>A persistent volume counts when it is a directory volume of this driver.\<close>

definition counted_pv :: "string \<Rightarrow> persistent_volume \<Rightarrow> bool" where
  "counted_pv driverName pv \<longleftrightarrow>
     pv_driver pv = Some driverName \<and> sliceFilesystemNameFromVolumeId (pv_handle pv) \<noteq> []
     \<and> sliceInnerPathFromVolumeId (pv_handle pv) \<noteq> [] \<and> CHR '':'' \<notin> set (pv_handle pv)"

definition settle_reservation ::
  "string \<Rightarrow> int \<Rightarrow> (string, CapacityReservation) gomap \<Rightarrow> (string, CapacityReservation) gomap" where
  "settle_reservation volumeID pvCapacity pending =
     (case map_of pending volumeID of
        None \<Rightarrow> pending
      | Some r \<Rightarrow>
          if cr_TargetCapacity r \<le> pvCapacity then AList.delete volumeID pending
          else AList.update volumeID (r\<lparr>cr_SourceCapacity := pvCapacity\<rparr>) pending)"

type_synonym ledger = "(string, int) gomap \<times> (string, CapacityReservation) gomap"

definition refresh_pv :: "string \<Rightarrow> persistent_volume \<Rightarrow> ledger \<Rightarrow> ledger" where
  "refresh_pv driverName pv l =
     (case pv_capacity pv of
        None \<Rightarrow> l
      | Some capacity \<Rightarrow>
          if \<not> counted_pv driverName pv then l
          else (let fsName = sliceFilesystemNameFromVolumeId (pv_handle pv)
                in (AList.update fsName (int64 (number_at (fst l) fsName + capacity)) (fst l),
                    settle_reservation (pv_handle pv) capacity (snd l))))"

text \<open>The warning about stale reservations reads the clock once more.\<close>

definition refreshFromKubernetesLocked :: "'w env \<Rightarrow> string \<Rightarrow> (CapacityTracker \<times> 'w, unit) call" where
  "refreshFromKubernetesLocked E driverName s =
     (let ct = fst s
      in if \<not> ct_manager ct then (Err (Plain ''kubernetes manager not initialized - cannot refresh capacity''), s)
         else case env_list_pvs E (snd s) of
                None \<Rightarrow> (Err (Plain ''failed to list PVs''), s)
              | Some items \<Rightarrow>
                  (let l = fold (refresh_pv driverName) items ([], ct_pendingReservations ct)
                   in case env_now E (snd s) of
                        (now, w1) \<Rightarrow>
                          (Ok (), (ct\<lparr>ct_confirmedCapacity := fst l, ct_pendingReservations := snd l,
                                      ct_lastRefreshTime := Some now\<rparr>, snd (env_now E w1)))))"

subsection \<open>Admission\<close>

text \<open>The check of a request; the result is the source capacity of the reservation to record.\<close>

definition check_capacity :: "string \<Rightarrow> string \<Rightarrow> int \<Rightarrow> int \<Rightarrow> int \<Rightarrow> CapacityTracker \<Rightarrow> int go" where
  "check_capacity fsName volumeID currentCapacity targetCapacity available ct =
     (let additionalCapacity = int64 (targetCapacity - currentCapacity);
          existing = map_of (ct_pendingReservations ct) volumeID
      in if (case existing of Some r \<Rightarrow> targetCapacity < cr_TargetCapacity r | None \<Rightarrow> False)
         then Err (Status FailedPrecondition)
         else if available < int64 (int64 (number_at (ct_confirmedCapacity ct) fsName + getPendingCapacityLocked fsName ct)
                                    + additionalCapacity)
         then Err (Status ResourceExhausted)
         else Ok (case existing of Some r \<Rightarrow> cr_SourceCapacity r | None \<Rightarrow> currentCapacity))"

definition reserve :: "string \<Rightarrow> string \<Rightarrow> int \<Rightarrow> int \<Rightarrow> int \<Rightarrow> CapacityTracker \<Rightarrow> CapacityTracker" where
  "reserve fsName volumeID sourceCapacity targetCapacity now ct =
     ct\<lparr>ct_pendingReservations := AList.update volumeID
          \<lparr> cr_Filesystem = fsName, cr_SourceCapacity = sourceCapacity, cr_TargetCapacity = targetCapacity,
            cr_Timestamp = now \<rparr> (ct_pendingReservations ct)\<rparr>"

definition refresh_due :: "int \<Rightarrow> CapacityTracker \<Rightarrow> bool" where
  "refresh_due now ct \<longleftrightarrow>
     (case ct_lastRefreshTime ct of None \<Rightarrow> True | Some t \<Rightarrow> capacityRefreshInterval < now - t)"

text \<open>The section of \<open>validateAndReserveCapacity\<close> under the mutex; a failed refresh is logged.\<close>

definition refresh_if_due :: "'w env \<Rightarrow> string \<Rightarrow> (CapacityTracker \<times> 'w, unit) call" where
  "refresh_if_due E driverName s =
     (case env_now E (snd s) of
        (now, w1) \<Rightarrow>
          if refresh_due now (fst s) then ignore_error (refreshFromKubernetesLocked E driverName) (fst s, w1)
          else (Ok (), (fst s, w1)))"

definition check_and_reserve :: "'w env \<Rightarrow> string \<Rightarrow> string \<Rightarrow> int \<Rightarrow> int \<Rightarrow> int \<Rightarrow> (CapacityTracker \<times> 'w, unit) call" where
  "check_and_reserve E fsName volumeID currentCapacity targetCapacity available s =
     (case check_capacity fsName volumeID currentCapacity targetCapacity available (fst s) of
        Ok src \<Rightarrow> (case env_now E (snd s) of (t, w1) \<Rightarrow> (Ok (), (reserve fsName volumeID src targetCapacity t (fst s), w1)))
      | Err e \<Rightarrow> (Err e, s)
      | Panic \<Rightarrow> (Panic, s))"

definition admit :: "'w env \<Rightarrow> string \<Rightarrow> string \<Rightarrow> string \<Rightarrow> int \<Rightarrow> int \<Rightarrow> int \<Rightarrow> (CapacityTracker \<times> 'w, unit) call" where
  "admit E driverName fsName volumeID currentCapacity targetCapacity available =
     go_bind (refresh_if_due E driverName)
       (\<lambda>_. check_and_reserve E fsName volumeID currentCapacity targetCapacity available)"

subsection \<open>What is committed\<close>

definition map_total :: "('k \<Rightarrow> 'v \<Rightarrow> int) \<Rightarrow> ('k, 'v) gomap \<Rightarrow> int" where
  "map_total f m = (\<Sum>e\<leftarrow>m. f (fst e) (snd e))"

definition gap :: "string \<Rightarrow> CapacityReservation \<Rightarrow> int" where
  "gap fs r = (if cr_Filesystem r = fs then cr_TargetCapacity r - cr_SourceCapacity r else 0)"

text \<open>The exact sum of what is confirmed and what is reserved on a filesystem.\<close>

definition committed :: "CapacityTracker \<Rightarrow> string \<Rightarrow> int" where
  "committed ct fs =
     number_at (ct_confirmedCapacity ct) fs + map_total (\<lambda>_. gap fs) (ct_pendingReservations ct)"

text \<open>What one listed volume needs: its size, or the size it is growing to.\<close>

definition demand :: "string \<Rightarrow> string \<Rightarrow> (string, CapacityReservation) gomap \<Rightarrow> persistent_volume \<Rightarrow> int" where
  "demand driverName fs pending pv =
     (case pv_capacity pv of
        None \<Rightarrow> 0
      | Some capacity \<Rightarrow>
          if counted_pv driverName pv \<and> sliceFilesystemNameFromVolumeId (pv_handle pv) = fs
          then (case map_of pending (pv_handle pv) of Some r \<Rightarrow> max capacity (cr_TargetCapacity r) | None \<Rightarrow> capacity)
          else 0)"

definition listed :: "string \<Rightarrow> persistent_volume list \<Rightarrow> string set" where
  "listed driverName pvs = pv_handle ` {pv \<in> set pvs. counted_pv driverName pv \<and> pv_capacity pv \<noteq> None}"

text \<open>The growth reserved for a volume that is not listed yet.\<close>

definition unlisted :: "string set \<Rightarrow> string \<Rightarrow> string \<Rightarrow> CapacityReservation \<Rightarrow> int" where
  "unlisted H fs volumeID r = (if volumeID \<in> H then 0 else gap fs r)"

text \<open>The invariant: reservations have distinct volumes, each with the filesystem its identifier names.\<close>

definition reservations_wf :: "(string, CapacityReservation) gomap \<Rightarrow> bool" where
  "reservations_wf pending \<longleftrightarrow>
     map_wf pending \<and> (\<forall>(volumeID, r)\<in>set pending. cr_Filesystem r = sliceFilesystemNameFromVolumeId volumeID)"

inductive tracker_reach :: "'w env \<Rightarrow> string \<Rightarrow> CapacityTracker \<Rightarrow> bool" for E driverName where
  tracker_new: "tracker_reach E driverName new_tracker"
| tracker_admit:
    "tracker_reach E driverName ct
     \<Longrightarrow> admit E driverName (sliceFilesystemNameFromVolumeId volumeID) volumeID cur target available (ct, w) = (r, (ct', w'))
     \<Longrightarrow> tracker_reach E driverName ct'"
| tracker_release:
    "tracker_reach E driverName ct \<Longrightarrow> tracker_reach E driverName (deleteReservationLocked volumeID ct)"

text \<open>For the witnesses: a directory volume, a tracker that has reserved it, and its listing.\<close>

definition dir_volume_id :: string where
  "dir_volume_id = ''dir/v1/fs/vols/a''"

definition dir_pv :: persistent_volume where
  "dir_pv = \<lparr> pv_driver = Some ''csi.weka.io'', pv_handle = dir_volume_id, pv_capacity = Some 4 \<rparr>"

definition reserved_tracker :: CapacityTracker where
  "reserved_tracker = reserve ''fs'' dir_volume_id 0 6 1 new_tracker"

definition admitted_tracker :: CapacityTracker where
  "admitted_tracker = reserved_tracker\<lparr>ct_confirmedCapacity := [(''fs'', 4)], ct_lastRefreshTime := Some 1\<rparr>"

definition listing_env :: "'w env" where
  "listing_env = null_env\<lparr>env_list_pvs := (\<lambda>w. Some [dir_pv])\<rparr>"

section \<open>Lemmas\<close>

subsection \<open>Wrap-around\<close>

lemma int64_add_left [simp]: "int64 (int64 a + b) = int64 (a + b)"
  and int64_add_right [simp]: "int64 (a + int64 b) = int64 (a + b)"
  by (simp_all add: int64_def) (simp_all add: mod_simps algebra_simps)

subsection \<open>Sums over maps\<close>

lemma map_total_simps [simp]: "map_total f [] = 0" "map_total f (e # m) = f (fst e) (snd e) + map_total f m"
  by (simp_all add: map_total_def)

lemma map_total_zero: "(\<And>k v. (k, v) \<in> set m \<Longrightarrow> f k v = 0) \<Longrightarrow> map_total f m = 0"
  by (induction m) auto

lemma map_total_cong: "(\<And>k v. (k, v) \<in> set m \<Longrightarrow> f k v = g k v) \<Longrightarrow> map_total f m = map_total g m"
  by (induction m) auto

lemma map_total_update:
  "map_wf m \<Longrightarrow> map_total f (AList.update k v m) =
     map_total f m - (case map_of m k of Some u \<Rightarrow> f k u | None \<Rightarrow> 0) + f k v"
proof (induction m)
  case (Cons e m)
  show ?case
  proof (cases "fst e = k")
    case True
    with Cons.prems have "map_of m k = None" by (auto simp: map_of_eq_None_iff)
    with True show ?thesis by (cases e) simp
  next
    case False
    with Cons show ?thesis by (cases e) simp
  qed
qed simp

lemma map_total_delete:
  "map_wf m \<Longrightarrow> map_total f (AList.delete k m) =
     map_total f m - (case map_of m k of Some u \<Rightarrow> f k u | None \<Rightarrow> 0)"
proof (induction m)
  case (Cons e m)
  show ?case
  proof (cases "fst e = k")
    case True
    with Cons.prems have "map_of m k = None" "k \<notin> fst ` set m" by (auto simp: map_of_eq_None_iff)
    moreover from this have "AList.delete k m = m" by (simp add: AList.delete_id)
    ultimately show ?thesis using True by (cases e) simp
  next
    case False
    with Cons show ?thesis by (cases e) (simp add: AList.delete_eq)
  qed
qed (simp add: AList.delete_eq)

lemma getPending_total:
  "getPendingCapacityLocked fs ct = int64 (map_total (\<lambda>_. gap fs) (ct_pendingReservations ct))"
proof -
  have "in_int64 a \<Longrightarrow> fold (add_pending fs) m a = int64 (a + map_total (\<lambda>_. gap fs) m)" for a m
  proof (induction m arbitrary: a)
    case (Cons e m)
    then show ?case by (simp add: add_pending_def gap_def algebra_simps)
  qed (simp add: int64_id)
  from this [of 0] show ?thesis by (simp add: getPendingCapacityLocked_def in_int64_def)
qed

lemma number_at_update [simp]: "number_at (AList.update k n m) j = (if j = k then n else number_at m j)"
  by (simp add: number_at_def)

subsection \<open>Refresh\<close>

lemma reservations_wfD:
  "reservations_wf m \<Longrightarrow> map_of m k = Some r \<Longrightarrow> cr_Filesystem r = sliceFilesystemNameFromVolumeId k"
  by (auto simp: reservations_wf_def dest: map_of_SomeD)

lemma reservations_wf_update:
  "reservations_wf m \<Longrightarrow> cr_Filesystem r = sliceFilesystemNameFromVolumeId k \<Longrightarrow> reservations_wf (AList.update k r m)"
  using set_AList_update_subset [of k r m] by (auto simp: reservations_wf_def)

lemma reservations_wf_delete: "reservations_wf m \<Longrightarrow> reservations_wf (AList.delete k m)"
  using set_AList_delete_subset [of k m] by (auto simp: reservations_wf_def)

lemma reservations_wf_settle: "reservations_wf m \<Longrightarrow> reservations_wf (settle_reservation k c m)"
  by (cases "map_of m k")
    (simp_all add: settle_reservation_def reservations_wf_update reservations_wf_delete reservations_wfD)

lemma reservations_wf_refresh_pv: "reservations_wf (snd l) \<Longrightarrow> reservations_wf (snd (refresh_pv d pv l))"
  by (simp add: refresh_pv_def Let_def reservations_wf_settle split: option.split)

lemma reservations_wf_refresh:
  "reservations_wf (snd l) \<Longrightarrow> reservations_wf (snd (fold (refresh_pv d) pvs l))"
  by (induction pvs arbitrary: l) (simp_all add: reservations_wf_refresh_pv)

lemma map_of_settle_other: "j \<noteq> k \<Longrightarrow> map_of (settle_reservation k c m) j = map_of m j"
  by (simp add: settle_reservation_def split: option.split)

text \<open>Settling the reservation of a listed volume replaces its growth by what is missing to its target.\<close>

lemma map_total_settle:
  assumes "reservations_wf m"
  shows "map_total f (settle_reservation k c m) =
    map_total f m - (case map_of m k of Some r \<Rightarrow> f k r | None \<Rightarrow> 0)
    + (case map_of m k of Some r \<Rightarrow> if cr_TargetCapacity r \<le> c then 0 else f k (r\<lparr>cr_SourceCapacity := c\<rparr>) | None \<Rightarrow> 0)"
  using assms
  by (simp add: settle_reservation_def map_total_update map_total_delete reservations_wf_def split: option.split)

lemma map_total_unlisted:
  assumes "map_wf m" "h \<notin> H"
  shows "map_total (unlisted H fs) m =
    map_total (unlisted (insert h H) fs) m + (case map_of m h of Some r \<Rightarrow> gap fs r | None \<Rightarrow> 0)"
  using assms
proof (induction m)
  case (Cons e m)
  show ?case
  proof (cases "fst e = h")
    case True
    with Cons.prems have "map_of m h = None" by (auto simp: map_of_eq_None_iff)
    with True Cons show ?thesis by (cases e) (simp add: unlisted_def)
  next
    case False
    with Cons show ?thesis by (cases e) (simp add: unlisted_def)
  qed
qed simp

lemma demand_settle:
  "pv_handle pv \<noteq> h \<Longrightarrow> demand d fs (settle_reservation h c m) pv = demand d fs m pv"
  by (cases "pv_capacity pv") (simp_all add: demand_def map_of_settle_other)

lemma listed_Cons:
  "listed d (pv # pvs) = (if counted_pv d pv \<and> pv_capacity pv \<noteq> None then insert (pv_handle pv) (listed d pvs) else listed d pvs)"
  by (auto simp: listed_def)

lemma settle_account:
  assumes "reservations_wf m" "counted_pv d pv" "pv_capacity pv = Some c" "pv_handle pv \<notin> H"
  shows "(if sliceFilesystemNameFromVolumeId (pv_handle pv) = fs then c else 0)
      + map_total (unlisted H fs) (settle_reservation (pv_handle pv) c m)
    = demand d fs m pv + map_total (unlisted (insert (pv_handle pv) H) fs) m"
proof (cases "map_of m (pv_handle pv)")
  case None
  then show ?thesis
    using assms map_total_unlisted [of m "pv_handle pv" H fs]
    by (simp add: settle_reservation_def demand_def reservations_wf_def)
next
  case (Some r)
  with reservations_wfD [OF assms(1)] have "cr_Filesystem r = sliceFilesystemNameFromVolumeId (pv_handle pv)" by simp
  then show ?thesis
    using assms Some map_total_unlisted [of m "pv_handle pv" H fs] map_total_settle [OF assms(1), of "unlisted H fs" "pv_handle pv" c]
    by (simp add: demand_def reservations_wf_def unlisted_def gap_def)
qed

lemma refresh_account:
  assumes "reservations_wf m" "distinct (map pv_handle (filter (counted_pv d) pvs))"
  shows "int64 (number_at (fst (fold (refresh_pv d) pvs (caps, m))) fs
        + map_total (\<lambda>_. gap fs) (snd (fold (refresh_pv d) pvs (caps, m))))
    = int64 (number_at caps fs + (\<Sum>pv\<leftarrow>pvs. demand d fs m pv) + map_total (unlisted (listed d pvs) fs) m)"
  using assms
proof (induction pvs arbitrary: caps m)
  case Nil
  have "map_total (unlisted {} fs) m = map_total (\<lambda>_. gap fs) m" by (rule map_total_cong) (simp add: unlisted_def)
  then show ?case by (simp add: listed_def)
next
  case (Cons pv pvs)
  show ?case
  proof (cases "pv_capacity pv \<noteq> None \<and> counted_pv d pv")
    case False
    then have "refresh_pv d pv (caps, m) = (caps, m)" "demand d fs m pv = 0" "listed d (pv # pvs) = listed d pvs"
      by (auto simp: refresh_pv_def demand_def listed_Cons split: option.split)
    with Cons show ?thesis by (auto split: if_splits)
  next
    case True
    then obtain c where c: "pv_capacity pv = Some c" and pv: "counted_pv d pv" by auto
    let ?h = "pv_handle pv" and ?f = "sliceFilesystemNameFromVolumeId (pv_handle pv)"
    from Cons.prems pv have h: "?h \<notin> listed d pvs" by (auto simp: listed_def)
    have step: "refresh_pv d pv (caps, m) = (AList.update ?f (int64 (number_at caps ?f + c)) caps, settle_reservation ?h c m)"
      using c pv by (simp add: refresh_pv_def Let_def)
    have others: "(\<Sum>x\<leftarrow>pvs. demand d fs (settle_reservation ?h c m) x) = (\<Sum>x\<leftarrow>pvs. demand d fs m x)"
    proof (rule arg_cong [where f = sum_list], rule map_cong [OF refl])
      fix x assume "x \<in> set pvs"
      moreover from Cons.prems(2) pv have "?h \<notin> pv_handle ` set (filter (counted_pv d) pvs)" by simp
      ultimately have "counted_pv d x \<Longrightarrow> pv_handle x \<noteq> ?h" by (auto simp: image_iff)
      then show "demand d fs (settle_reservation ?h c m) x = demand d fs m x"
        by (cases "counted_pv d x") (simp add: demand_settle, simp add: demand_def split: option.split)
    qed
    have wrap: "int64 (number_at (AList.update ?f (int64 (number_at caps ?f + c)) caps) fs + a + b)
        = int64 (number_at caps fs + (if ?f = fs then c else 0) + a + b)" for a b
      using int64_add_left [of "number_at caps fs + c" "a + b"] by (simp add: add.assoc)
    let ?m = "settle_reservation ?h c m" and ?caps = "AList.update ?f (int64 (number_at caps ?f + c)) caps"
    have "distinct (map pv_handle (filter (counted_pv d) pvs))" using Cons.prems(2) by (simp split: if_splits)
    from Cons.IH [where caps = ?caps, OF reservations_wf_settle [OF Cons.prems(1), of ?h c] this]
    have "int64 (number_at (fst (fold (refresh_pv d) (pv # pvs) (caps, m))) fs
        + map_total (\<lambda>_. gap fs) (snd (fold (refresh_pv d) (pv # pvs) (caps, m))))
      = int64 (number_at ?caps fs + (\<Sum>x\<leftarrow>pvs. demand d fs m x) + map_total (unlisted (listed d pvs) fs) ?m)"
      by (simp only: fold_simps(2) step others)
    also have "\<dots> = int64 (number_at caps fs + (if ?f = fs then c else 0) + (\<Sum>x\<leftarrow>pvs. demand d fs m x)
        + map_total (unlisted (listed d pvs) fs) ?m)" by (rule wrap)
    also have "\<dots> = int64 (number_at caps fs + (\<Sum>x\<leftarrow>pv # pvs. demand d fs m x) + map_total (unlisted (listed d (pv # pvs)) fs) m)"
      using settle_account [OF Cons.prems(1) pv c h, of fs] True by (intro arg_cong [where f = int64]) (simp add: listed_Cons)
    finally show ?thesis .
  qed
qed

lemma refresh_keeps_target:
  "map_of (snd (fold (refresh_pv d) pvs l)) k = Some r \<Longrightarrow>
    \<exists>r'. map_of (snd l) k = Some r' \<and> cr_TargetCapacity r' = cr_TargetCapacity r"
proof (induction pvs arbitrary: l)
  case (Cons pv pvs)
  from Cons.prems have "map_of (snd (fold (refresh_pv d) pvs (refresh_pv d pv l))) k = Some r" by simp
  from Cons.IH [OF this] obtain r' where r': "map_of (snd (refresh_pv d pv l)) k = Some r'" "cr_TargetCapacity r' = cr_TargetCapacity r"
    by blast
  show ?case
  proof (cases "pv_capacity pv = None \<or> \<not> counted_pv d pv \<or> pv_handle pv \<noteq> k")
    case True
    with r' show ?thesis by (auto simp: refresh_pv_def Let_def map_of_settle_other split: option.splits if_splits)
  next
    case False
    with r' show ?thesis
      by (auto simp: refresh_pv_def Let_def settle_reservation_def split: option.splits if_splits)
  qed
qed simp

subsection \<open>Admission\<close>

lemma committed_reserve:
  "map_wf (ct_pendingReservations ct) \<Longrightarrow> committed (reserve fs volumeID src tgt now ct) fs =
     committed ct fs - (case map_of (ct_pendingReservations ct) volumeID of Some r \<Rightarrow> gap fs r | None \<Rightarrow> 0) + (tgt - src)"
  by (simp add: committed_def reserve_def map_total_update gap_def)

lemma check_capacity_Ok:
  assumes "check_capacity fs volumeID cur tgt available ct = Ok src"
  shows "int64 (committed ct fs + (tgt - cur)) \<le> available"
    "src = (case map_of (ct_pendingReservations ct) volumeID of Some r \<Rightarrow> cr_SourceCapacity r | None \<Rightarrow> cur)"
proof -
  have "int64 (int64 (number_at (ct_confirmedCapacity ct) fs + getPendingCapacityLocked fs ct) + int64 (tgt - cur))
      = int64 (committed ct fs + (tgt - cur))"
    by (simp add: getPending_total committed_def)
  with assms show "int64 (committed ct fs + (tgt - cur)) \<le> available"
    "src = (case map_of (ct_pendingReservations ct) volumeID of Some r \<Rightarrow> cr_SourceCapacity r | None \<Rightarrow> cur)"
    by (simp_all add: check_capacity_def Let_def split: if_splits)
qed

lemma check_capacity_not_Panic: "check_capacity fs volumeID cur tgt available ct \<noteq> Panic"
  by (simp add: check_capacity_def Let_def)

lemma refresh_cases:
  assumes "refreshFromKubernetesLocked E d (ct, w) = (r, (ct', w'))"
  shows "ct' = ct \<or> (\<exists>pvs now. ct' = ct\<lparr>ct_confirmedCapacity := fst (fold (refresh_pv d) pvs ([], ct_pendingReservations ct)),
      ct_pendingReservations := snd (fold (refresh_pv d) pvs ([], ct_pendingReservations ct)), ct_lastRefreshTime := Some now\<rparr>)"
  using assms by (auto simp: refreshFromKubernetesLocked_def Let_def split: if_splits option.splits prod.splits)

lemma refresh_keeps:
  assumes "refreshFromKubernetesLocked E d (ct, w) = (r, (ct', w'))" "reservations_wf (ct_pendingReservations ct)"
  shows "reservations_wf (ct_pendingReservations ct')"
    "map_of (ct_pendingReservations ct') k = Some x \<Longrightarrow>
       \<exists>y. map_of (ct_pendingReservations ct) k = Some y \<and> cr_TargetCapacity y = cr_TargetCapacity x"
  using refresh_cases [OF assms(1)] assms(2) refresh_keeps_target [of d _ "([], ct_pendingReservations ct)" k x]
  by (auto simp: reservations_wf_refresh)

lemma refresh_if_due_keeps:
  assumes "refresh_if_due E d (ct, w) = (r, (ct', w'))" "reservations_wf (ct_pendingReservations ct)"
  shows "reservations_wf (ct_pendingReservations ct')"
    "map_of (ct_pendingReservations ct') k = Some x \<Longrightarrow>
       \<exists>y. map_of (ct_pendingReservations ct) k = Some y \<and> cr_TargetCapacity y = cr_TargetCapacity x"
  using assms refresh_keeps [of E d ct _ _ ct' w']
  by (auto simp: refresh_if_due_def ignore_error_def go_catch_def split: prod.splits if_splits outcome.splits)

lemma check_and_reserve_cases:
  assumes "check_and_reserve E fs volumeID cur tgt available (ct, w) = (r, (ct', w'))"
  shows "ct' = ct \<and> r \<noteq> Ok () \<or>
    (\<exists>src t. r = Ok () \<and> check_capacity fs volumeID cur tgt available ct = Ok src \<and> ct' = reserve fs volumeID src tgt t ct)"
  using assms by (auto simp: check_and_reserve_def split: outcome.splits prod.splits)

lemma reservations_wf_reserve:
  "reservations_wf (ct_pendingReservations ct) \<Longrightarrow>
    reservations_wf (ct_pendingReservations (reserve (sliceFilesystemNameFromVolumeId volumeID) volumeID src tgt t ct))"
  by (simp add: reserve_def reservations_wf_update)

lemma tracker_reach_wf: "tracker_reach E d ct \<Longrightarrow> reservations_wf (ct_pendingReservations ct)"
proof (induction rule: tracker_reach.induct)
  case tracker_new
  show ?case by (simp add: new_tracker_def reservations_wf_def)
next
  case (tracker_admit ct volumeID cur target available w r ct' w')
  obtain r1 ct1 w1 where r: "refresh_if_due E d (ct, w) = (r1, (ct1, w1))" by (metis prod.collapse)
  note wf = refresh_if_due_keeps(1) [OF r tracker_admit.IH]
  show ?case
  proof (cases r1)
    case (Ok u)
    with tracker_admit.hyps(2) r have "check_and_reserve E (sliceFilesystemNameFromVolumeId volumeID) volumeID cur target available (ct1, w1) = (r, (ct', w'))"
      by (simp add: admit_def)
    from check_and_reserve_cases [OF this] wf show ?thesis by (auto simp: reservations_wf_reserve)
  qed (use tracker_admit.hyps(2) r wf in \<open>simp_all add: admit_def\<close>)
next
  case (tracker_release ct volumeID)
  then show ?case by (simp add: deleteReservationLocked_def reservations_wf_delete)
qed

text \<open>A create request that is repeated while its reservation stands is counted twice: it is refused although
  what is committed fits.\<close>

lemma retry_counted_twice:
  "committed reserved_tracker ''fs'' = 6 \<and>
   check_capacity ''fs'' dir_volume_id 0 6 10 reserved_tracker = Err (Status ResourceExhausted)"
  by (simp add: committed_def reserved_tracker_def reserve_def new_tracker_def number_at_def gap_def check_capacity_def
      getPendingCapacityLocked_def add_pending_def int64_id in_int64_def)

lemma dir_volume_names:
  "sliceFilesystemNameFromVolumeId dir_volume_id = ''fs''" "counted_pv ''csi.weka.io'' dir_pv"
  by (code_simp, simp add: counted_pv_def dir_pv_def, code_simp)

lemma admitted_example:
  "admit listing_env ''csi.weka.io'' ''fs'' dir_volume_id 0 6 10 (new_tracker, ()) = (Ok (), (admitted_tracker, ()))"
proof -
  have 1: "refresh_pv ''csi.weka.io'' dir_pv ([], []) = ([(''fs'', 4)], [])"
    using dir_volume_names
    by (simp add: refresh_pv_def dir_pv_def settle_reservation_def number_at_def int64_id in_int64_def Let_def)
  have "refresh_if_due listing_env ''csi.weka.io'' (new_tracker, ()) =
      (Ok (), (new_tracker\<lparr>ct_confirmedCapacity := [(''fs'', 4)], ct_lastRefreshTime := Some 1\<rparr>, ()))"
    using 1 by (simp add: refresh_if_due_def refresh_due_def new_tracker_def ignore_error_def refreshFromKubernetesLocked_def
        listing_env_def null_env_def)
  then show ?thesis
    by (simp add: admit_def check_and_reserve_def check_capacity_def number_at_def getPendingCapacityLocked_def new_tracker_def
        int64_id in_int64_def listing_env_def null_env_def admitted_tracker_def reserved_tracker_def reserve_def)
qed

lemma admitted_reach: "tracker_reach (listing_env :: unit env) ''csi.weka.io'' admitted_tracker"
  using tracker_admit [OF tracker_new, of listing_env "''csi.weka.io''" dir_volume_id 0 6 10 "()"] admitted_example
  by (simp add: dir_volume_names)

lemma admitted_committed: "committed admitted_tracker ''fs'' = 10"
  by (simp add: committed_def admitted_tracker_def reserved_tracker_def reserve_def new_tracker_def number_at_def gap_def)

text \<open>
  A request that was admitted fits: whatever requests, releases and refreshes came before, the listed sizes
  and the growth reserved on the filesystem, this request included, do not exceed the space that was
  available, as long as the sums fit into 64 bits.  A request for a volume that has a reservation must not
  start from more than the size that was reserved for it.
\<close>

lemma admit_within_capacity:
  assumes "tracker_reach E d ct"
    and "admit E d (sliceFilesystemNameFromVolumeId volumeID) volumeID cur tgt available (ct, w) = (Ok (), (ct', w'))"
    and "in_int64 (committed ct' (sliceFilesystemNameFromVolumeId volumeID))"
    and "\<And>r. map_of (ct_pendingReservations ct) volumeID = Some r \<Longrightarrow>
      cur \<le> cr_TargetCapacity r \<and> in_int64 (committed ct' (sliceFilesystemNameFromVolumeId volumeID) + (cr_TargetCapacity r - cur))"
  shows "committed ct' (sliceFilesystemNameFromVolumeId volumeID) \<le> available"
proof -
  let ?fs = "sliceFilesystemNameFromVolumeId volumeID"
  obtain r1 ct1 w1 where r: "refresh_if_due E d (ct, w) = (r1, (ct1, w1))" by (metis prod.collapse)
  with assms(2) have "check_and_reserve E ?fs volumeID cur tgt available (ct1, w1) = (Ok (), (ct', w'))"
    by (cases r1) (simp_all add: admit_def)
  from check_and_reserve_cases [OF this] obtain src t where
    c: "check_capacity ?fs volumeID cur tgt available ct1 = Ok src" and ct': "ct' = reserve ?fs volumeID src tgt t ct1" by blast
  note keeps = refresh_if_due_keeps [OF r tracker_reach_wf [OF assms(1)]]
  from keeps(1) have wf: "map_wf (ct_pendingReservations ct1)" by (simp add: reservations_wf_def)
  note ok = check_capacity_Ok [OF c]
  show ?thesis
  proof (cases "map_of (ct_pendingReservations ct1) volumeID")
    case None
    with ok(2) have "committed ct' ?fs = committed ct1 ?fs + (tgt - cur)" by (simp add: ct' committed_reserve [OF wf])
    with ok(1) assms(3) show ?thesis by (simp add: int64_id)
  next
    case (Some x)
    from keeps(2) [OF Some] assms(4) have x: "cur \<le> cr_TargetCapacity x" "in_int64 (committed ct' ?fs + (cr_TargetCapacity x - cur))"
      by auto
    have "gap ?fs x = cr_TargetCapacity x - cr_SourceCapacity x" using reservations_wfD [OF keeps(1) Some] by (simp add: gap_def)
    with ok(2) Some have "committed ct1 ?fs + (tgt - cur) = committed ct' ?fs + (cr_TargetCapacity x - cur)"
      by (simp add: ct' committed_reserve [OF wf])
    with ok(1) x show ?thesis by (simp add: int64_id)
  qed
qed

lemma admit_within_capacity_example:
  "committed admitted_tracker (sliceFilesystemNameFromVolumeId dir_volume_id) \<le> 10"
  by (rule admit_within_capacity [OF tracker_new, where E = listing_env and d = "''csi.weka.io''" and w = "()" and w' = "()"
        and volumeID = dir_volume_id and cur = 0 and tgt = 6])
    (simp_all add: dir_volume_names admitted_example admitted_committed in_int64_def, simp add: new_tracker_def)

section \<open>Properties\<close>

text \<open>
  C11: a refresh counts every volume once: each listed volume with its size, or with the size it is growing to
  while that is larger, and each reserved volume that is not listed with the growth reserved for it.
\<close>

theorem refresh_counts_once:
  assumes "tracker_reach E d ct" "refreshFromKubernetesLocked E d (ct, w) = (Ok (), (ct', w'))" "env_list_pvs E w = Some pvs"
    and "distinct (map pv_handle (filter (counted_pv d) pvs))"
  shows "int64 (committed ct' fs) =
    int64 ((\<Sum>pv\<leftarrow>pvs. demand d fs (ct_pendingReservations ct) pv)
      + map_total (unlisted (listed d pvs) fs) (ct_pendingReservations ct))"
  using refresh_account [OF tracker_reach_wf [OF assms(1)] assms(4), of "[]" fs] assms(2,3)
  by (auto simp: refreshFromKubernetesLocked_def Let_def committed_def number_at_def split: if_splits prod.splits)

theorem refresh_counts_once_witness:
  "\<exists>ct'. refreshFromKubernetesLocked listing_env ''csi.weka.io'' (admitted_tracker, ()) = (Ok (), (ct', ()))
    \<and> int64 (committed ct' ''fs'') = 6"
proof -
  obtain ct' where r: "refreshFromKubernetesLocked listing_env ''csi.weka.io'' (admitted_tracker, ()) = (Ok (), (ct', ()))"
    by (auto simp: refreshFromKubernetesLocked_def admitted_tracker_def reserved_tracker_def reserve_def new_tracker_def
        listing_env_def null_env_def Let_def)
  have "demand ''csi.weka.io'' ''fs'' (ct_pendingReservations admitted_tracker) dir_pv = 6"
    using dir_volume_names
    by (simp add: demand_def dir_pv_def admitted_tracker_def reserved_tracker_def reserve_def new_tracker_def)
  moreover have "map_total (unlisted (listed ''csi.weka.io'' [dir_pv]) ''fs'') (ct_pendingReservations admitted_tracker) = 0"
    using dir_volume_names(2)
    by (intro map_total_zero) (simp add: unlisted_def listed_Cons admitted_tracker_def reserved_tracker_def reserve_def
        new_tracker_def dir_pv_def)
  ultimately have "int64 (committed ct' ''fs'') = 6"
    using refresh_counts_once [OF admitted_reach r, of "[dir_pv]" "''fs''"]
    by (simp add: listing_env_def int64_id in_int64_def)
  with r show ?thesis by blast
qed

end
