(* ===== verification/Servers.thy ===== *)
theory Servers
  imports Capacity
begin

text \<open>
  What the controller and the node server share: their state, the client of a request, the semaphores that
  bound the requests of a kind, and the topology labels.

  The API client of a request is a pointer into the store of clients.  A request works on a copy in
  \<open>sys_client\<close>, and \<open>in_request\<close> writes it back under its key when the request ends.  The semaphores are those
  of \<open>golang.org/x/sync\<close>: whether one is granted before the request times out is an argument of the
  handlers.
\<close>

section \<open>Definitions\<close>

subsection \<open>State\<close>

text \<open>Only the controller has a capacity tracker, and only when Kubernetes can be reached.\<close>

record 'w server_state =
  st_store :: ApiStore
  st_current :: "32 word option"   \<comment> \<open>the key of the client of the request\<close>
  st_semaphores :: "(string, int) gomap"
  st_tracker :: "CapacityTracker option"
  st_sys :: "'w sys"

type_synonym ('w, 'a) srv = "('w server_state, 'a) call"

type_synonym ('w, 'a) vsrv = "(Volume \<times> 'w server_state, 'a) call"

definition srv_sys :: "('w, 'a) sys_call \<Rightarrow> ('w, 'a) srv" where
  "srv_sys m s = (case m (st_sys s) of (r, y) \<Rightarrow> (r, s\<lparr>st_sys := y\<rparr>))"

definition on_volume :: "('w, 'a) vol \<Rightarrow> ('w, 'a) vsrv" where
  "on_volume m p = (case m (fst p, st_sys (snd p)) of (r, (v, y)) \<Rightarrow> (r, (v, (snd p)\<lparr>st_sys := y\<rparr>)))"

definition on_server :: "('w, 'a) srv \<Rightarrow> ('w, 'a) vsrv" where
  "on_server m p = (case m (snd p) of (r, s) \<Rightarrow> (r, (fst p, s)))"

definition with_volume :: "Volume \<Rightarrow> ('w, 'a) vsrv \<Rightarrow> ('w, 'a) srv" where
  "with_volume v m s = (case m (v, s) of (r, (_, s')) \<Rightarrow> (r, s'))"

definition on_tracker :: "(CapacityTracker \<times> 'w, 'a) call \<Rightarrow> ('w, 'a) srv" where
  "on_tracker m s =
     (case st_tracker s of
        None \<Rightarrow> (Panic, s)
      | Some ct \<Rightarrow>
          (case m (ct, sys_world (st_sys s)) of
             (r, (ct', w')) \<Rightarrow> (r, s\<lparr>st_tracker := Some ct', st_sys := (st_sys s)\<lparr>sys_world := w'\<rparr>\<rparr>)))"

subsection \<open>Requests\<close>

definition bind_client :: "'w env \<Rightarrow> (string, string) gomap \<Rightarrow> ('w, unit) srv" where
  "bind_client E secrets s =
     (case GetClientFromSecrets E secrets (st_store s, sys_world (st_sys s)) of
        (Ok k, (store, w)) \<Rightarrow>
          (Ok (), s\<lparr>st_store := store, st_current := k,
                    st_sys := (st_sys s)\<lparr>sys_client := Option.bind k (getByHash store), sys_world := w\<rparr>\<rparr>)
      | (Err e, (store, w)) \<Rightarrow> (Err e, s\<lparr>st_store := store, st_sys := (st_sys s)\<lparr>sys_world := w\<rparr>\<rparr>)
      | (Panic, (store, w)) \<Rightarrow> (Panic, s\<lparr>st_store := store, st_sys := (st_sys s)\<lparr>sys_world := w\<rparr>\<rparr>))"

definition put_back :: "'w server_state \<Rightarrow> 'w server_state" where
  "put_back s =
     (case (st_current s, sys_client (st_sys s)) of
        (Some k, Some a) \<Rightarrow> s\<lparr>st_store := (st_store s)\<lparr>apis := AList.update k a (apis (st_store s))\<rparr>\<rparr>
      | _ \<Rightarrow> s)"

definition unbind :: "'w server_state \<Rightarrow> 'w server_state" where
  "unbind s = s\<lparr>st_current := None, st_sys := (st_sys s)\<lparr>sys_client := None\<rparr>\<rparr>"

definition in_request :: "('w, 'a) srv \<Rightarrow> ('w, 'a) srv" where
  "in_request m s = (case m (unbind s) of (r, s') \<Rightarrow> (r, unbind (put_back s')))"

definition initializeSemaphore :: "DriverConfig \<Rightarrow> string \<Rightarrow> 'w server_state \<Rightarrow> 'w server_state" where
  "initializeSemaphore cfg op s =
     (if map_of (st_semaphores s) op \<noteq> None then s
      else s\<lparr>st_semaphores := AList.update op (number_at (dc_maxConcurrencyPerOp cfg) op) (st_semaphores s)\<rparr>)"

definition acquireSemaphore :: "DriverConfig \<Rightarrow> bool \<Rightarrow> string \<Rightarrow> ('w, unit) srv" where
  "acquireSemaphore cfg granted op s =
     ((if granted then Ok () else Err (Plain ''context deadline exceeded'')), initializeSemaphore cfg op s)"

text \<open>The frame of a handler: the semaphore, then the body.\<close>

definition serve :: "DriverConfig \<Rightarrow> bool \<Rightarrow> string \<Rightarrow> ('w, 'a) srv \<Rightarrow> ('w, 'a) srv" where
  "serve cfg granted op body =
     in_request (go_bind (go_catch (acquireSemaphore cfg granted op) (\<lambda>_. go_raise (Status Unavailable))) (\<lambda>_. body))"

text \<open>\<open>CreateVolumeError\<close> and its relatives: any error becomes a status with the given code.\<close>

definition or_fail :: "('s, 'a) call \<Rightarrow> grpc_code \<Rightarrow> ('s, 'a) call" where
  "or_fail m c = go_catch m (\<lambda>_. go_raise (Status c))"

subsection \<open>Topology labels\<close>

definition TopologyKeyNode :: string where
  "TopologyKeyNode = ''topology.wekafs.csi/node''"

definition TopologyLabelNodeGlobal :: string where
  "TopologyLabelNodeGlobal = ''topology.csi.weka.io/node''"

definition TopologyLabelWekaGlobal :: string where
  "TopologyLabelWekaGlobal = ''topology.csi.weka.io/global''"

definition TopologyLabelTransportGlobal :: string where
  "TopologyLabelTransportGlobal = ''topology.csi.weka.io/transport''"

definition TopologyLabelWekaLocalPattern :: "string \<Rightarrow> string" where
  "TopologyLabelWekaLocalPattern driverName = ''topology.'' @ driverName @ ''/accessible''"

definition TopologyLabelNodePattern :: "string \<Rightarrow> string" where
  "TopologyLabelNodePattern driverName = ''topology.'' @ driverName @ ''/node''"

definition TopologyLabelTransportPattern :: "string \<Rightarrow> string" where
  "TopologyLabelTransportPattern driverName = ''topology.'' @ driverName @ ''/transport''"

definition TopologyKeyZone :: string where
  "TopologyKeyZone = ''topology.kubernetes.io/zone''"

definition TopologyKeyRegion :: string where
  "TopologyKeyRegion = ''topology.kubernetes.io/region''"

fun getTransport :: "AnyMounter \<Rightarrow> string" where
  "getTransport (NfsMounter _) = ''nfs''"
| "getTransport (WekafsMounter _) = ''wekafs''"

section \<open>Lemmas\<close>

lemma srv_sys_simps [simp]: "m (st_sys s) = (r, y) \<Longrightarrow> srv_sys m s = (r, s\<lparr>st_sys := y\<rparr>)"
  by (simp add: srv_sys_def)

lemma on_volume_simps [simp]:
  "m (v, st_sys s) = (r, (v', y)) \<Longrightarrow> on_volume m (v, s) = (r, (v', s\<lparr>st_sys := y\<rparr>))"
  by (simp add: on_volume_def)

lemma on_server_simps [simp]: "m s = (r, s') \<Longrightarrow> on_server m (v, s) = (r, (v, s'))"
  by (simp add: on_server_def)

lemma with_volume_simps [simp]: "m (v, s) = (r, (v', s')) \<Longrightarrow> with_volume v m s = (r, s')"
  by (simp add: with_volume_def)

lemma on_volume_this [simp]: "on_volume this_volume (v, s) = (Ok v, (v, s))"
  by (simp add: on_volume_def this_volume_def)

text \<open>A request leaves no client behind, and keeps every client of the store under its key.\<close>

lemma in_request_unbound: "in_request m s = (r, s') \<Longrightarrow> st_current s' = None \<and> sys_client (st_sys s') = None"
  by (auto simp: in_request_def unbind_def split: prod.splits)

lemma serve_refused:
  "serve cfg False op body s = (Err (Status Unavailable), unbind (initializeSemaphore cfg op (unbind s)))"
  by (simp add: serve_def in_request_def acquireSemaphore_def put_back_def unbind_def initializeSemaphore_def)

end
