(* ===== verification/Volume_Identity.thy ===== *)
theory Volume_Identity
  imports Snapshots
begin

text \<open>
  What a volume is does not change while it is worked on: no operation of a volume, from the parsing of its
  parameters to its creation, resizing and deletion, changes its identifier, its filesystem, its snapshot, its
  inner path or its source.  The operations only write the fields named in the locale, so whatever depends
  on other fields alone is kept.
\<close>

section \<open>Definitions\<close>

definition identity ::
  "Volume \<Rightarrow> string \<times> string \<times> string \<times> string \<times> uuid option \<times> string \<times> SourceVolume option \<times> CsiSnapshot option" where
  "identity v =
     (v_id v, v_FilesystemName v, v_SnapshotName v, v_SnapshotAccessPoint v, v_SnapshotUuid v, v_innerPath v, v_srcVolume v,
      v_srcSnapshot v)"

section \<open>Lemmas\<close>

named_theorems frame_intros \<open>calls that keep a part of the volume\<close>

declare keeps_outcome [frame_intros]

lemmas frame_basic = keeps_basic keeps_bind keeps_catch keeps_try keeps_if keeps_option keeps_ignore_error keeps_each
declare frame_basic [frame_intros]

lemma keeps_pair [frame_intros]: "(\<And>x y. keeps P (f x y)) \<Longrightarrow> keeps P (case p of (x, y) \<Rightarrow> f x y)"
  by (cases p) simp

lemma keeps_lift_go [frame_intros]: "keeps P (lift_go r)"
  by (rule keepsI) (simp add: lift_go_def)

lemma keeps_deferUmount [frame_intros]: "keeps P m \<Longrightarrow> keeps P n \<Longrightarrow> keeps P (deferUmount n m)"
  unfolding deferUmount_def by (intro frame_intros)

lemma keeps_missing [frame_intros]: "keeps P m \<Longrightarrow> keeps P (missing_as_None m)"
  unfolding missing_as_None_def by (intro frame_intros)

locale volume_frame =
  fixes I :: "Volume \<Rightarrow> bool"
  assumes working: "I (v\<lparr>v_mountPath := a\<rparr>) = I v" "I (v\<lparr>v_mountOptions := b\<rparr>) = I v" "I (v\<lparr>v_fileSystemObject := c\<rparr>) = I v"
    and encryption: "I (v\<lparr>v_encrypted := d\<rparr>) = I v" "I (v\<lparr>v_manageEncryptionKeys := e\<rparr>) = I v"
      "I (v\<lparr>v_encryptWithoutKms := e\<rparr>) = I v" "I (v\<lparr>v_kmsVaultNamespace := f\<rparr>) = I v"
      "I (v\<lparr>v_kmsVaultKeyIdentifier := f\<rparr>) = I v" "I (v\<lparr>v_kmsVaultRoleId := f\<rparr>) = I v" "I (v\<lparr>v_KmsVaultSecretId := f\<rparr>) = I v"
    and params: "I (v\<lparr>v_filesystemGroupName := f\<rparr>) = I v" "I (v\<lparr>v_permissions := n\<rparr>) = I v" "I (v\<lparr>v_ownerUid := n\<rparr>) = I v"
      "I (v\<lparr>v_ownerGid := n\<rparr>) = I v" "I (v\<lparr>v_enforceCapacity := e\<rparr>) = I v" "I (v\<lparr>v_initialFilesystemSize := n\<rparr>) = I v"
begin

abbreviation kept :: "('w, 'a) vol \<Rightarrow> bool" where
  "kept m \<equiv> keeps (\<lambda>p. I (fst p)) m"

lemmas fields = working encryption params

lemma kept_basic [frame_intros]: "kept (on_sys m)" "kept this_volume"
  by (simp_all add: keeps_def on_sys_def this_volume_def split: prod.split)

lemma kept_modify: "(\<And>v. I (f v) = I v) \<Longrightarrow> kept (modify_volume f)"
  by (simp add: keeps_def modify_volume_def)

lemma kept_fields [frame_intros]:
  "kept (modify_volume (\<lambda>v. v\<lparr>v_mountPath := x1\<rparr>))" "kept (modify_volume (\<lambda>v. v\<lparr>v_mountOptions := x2 v\<rparr>))"
  "kept (modify_volume (\<lambda>v. v\<lparr>v_fileSystemObject := x3\<rparr>))" "kept (modify_volume (\<lambda>v. v\<lparr>v_encrypted := x4\<rparr>))"
  "kept (modify_volume (\<lambda>v. v\<lparr>v_enforceCapacity := x5\<rparr>))"
  by (rule kept_modify, rule fields)+

lemma kept_store_encryption [frame_intros]: "kept (modify_volume (store_encryption x6))" "kept (modify_volume (enrich x7))"
  by (rule kept_modify, cases "fs_IsEncrypted x6"; simp only: store_encryption_def Let_def if_True if_False fields)
    (rule kept_modify, simp only: enrich_def Let_def fields)

lemma kept_mounting [frame_intros]: "kept (MountUnderlyingFS E S)" "kept (release_volume E m)" "kept (UnmountUnderlyingFS E S)"
  unfolding MountUnderlyingFS_def release_volume_def UnmountUnderlyingFS_def by (intro frame_intros)+

lemma kept_with_mount [frame_intros]: "kept b \<Longrightarrow> kept (with_mount E S b)"
  unfolding with_mount_def by (intro frame_intros)

lemma kept_steps [frame_intros]: "kept is_bound" "kept (supports f)" "kept full_path"
  unfolding is_bound_def supports_def full_path_def by (intro frame_intros)+

lemma kept_objects [frame_intros]:
  "kept (getFilesystemObj E c)" "kept (find_snapshot E n)" "kept (getSnapshotObj E)"
  unfolding getFilesystemObj_def fetch_filesystem_def getSnapshotObj_def find_snapshot_def by (intro frame_intros)+

lemma kept_found [frame_intros]: "kept (fileSystemExists E)" "kept (snapshotExists E)"
  unfolding fileSystemExists_def snapshotExists_def by (intro frame_intros)+

lemma kept_Volume_Exists [frame_intros]: "kept (mimicDirectoryStructureForDebugMode E S)" "kept (Volume_Exists E S)"
  unfolding Volume_Exists_def inner_path_exists_def directory_exists_def mimicDirectoryStructureForDebugMode_def
  by (intro frame_intros)+

lemma kept_encryption [frame_intros]: "kept (isEncrypted E S)" "kept (isEncryptedSafe E S)" "kept (ensureEncryptionParams E S)"
  "kept (enrichWithEncryptionParams E S)"
proof -
  show e: "kept (isEncrypted E S)" unfolding isEncrypted_def fetch_encryption_def by (intro frame_intros)
  show s: "kept (isEncryptedSafe E S)" unfolding isEncryptedSafe_def by (intro frame_intros e)
  show "kept (ensureEncryptionParams E S)" unfolding ensureEncryptionParams_def check_encryption_def by (intro frame_intros s)
  show "kept (enrichWithEncryptionParams E S)" unfolding enrichWithEncryptionParams_def by (intro frame_intros s)
qed

lemma kept_capacity [frame_intros]: "kept (getMaxCapacity E S)" "kept (getCapacityFromFsSize E)" "kept (getSizeFromXattr E S)"
  "kept (use_quota S)" "kept (getFilesystemTotalCapacity E)"
  unfolding getMaxCapacity_def getFilesystemFreeSpace_def getFilesystemFreeSpaceByApi_def getFreeSpaceOnStorage_def
    getFilesystemTotalCapacity_def getCapacityFromFsSize_def getSizeFromXattr_def use_quota_def
  by (intro frame_intros)+

lemma kept_quota [frame_intros]: "kept (getInodeId E S)" "kept (setQuota E S en c)" "kept (getSizeFromQuota E S)"
proof -
  show i: "kept (getInodeId E S)" unfolding getInodeId_def getInodeIdFromApi_def by (intro frame_intros)
  show "kept (setQuota E S en c)" "kept (getSizeFromQuota E S)"
    unfolding setQuota_def getSizeFromQuota_def getQuota_def by (intro frame_intros i)+
qed

lemma kept_GetCapacity [frame_intros]: "kept (Volume_GetCapacity E S)"
  unfolding Volume_GetCapacity_def getCapacityFromQuota_def by (intro frame_intros)

lemma kept_matches [frame_intros]: "kept (volumeExistsAndMatchesCapacity E S c)"
  unfolding volumeExistsAndMatchesCapacity_def by (intro frame_intros)

lemma kept_resize [frame_intros]: "kept (resizeFilesystem E S c)" "kept (ensureSufficientFsSizeOnUpdateCapacity E S c)"
proof -
  show r: "kept (resizeFilesystem E S c)" for c
    unfolding resizeFilesystem_def by (intro frame_intros)
  show "kept (ensureSufficientFsSizeOnUpdateCapacity E S c)"
    unfolding ensureSufficientFsSizeOnUpdateCapacity_def by (intro frame_intros r)
qed

lemma kept_UpdateCapacity [frame_intros]: "kept (UpdateCapacity E S en c)"
  unfolding UpdateCapacity_def updateCapacityQuota_def updateCapacityXattr_def vol_isMounted_def Let_def
  by (intro frame_intros)

lemma kept_UpdateParams [frame_intros]: "kept (UpdateParams E S)"
  unfolding UpdateParams_def by (intro frame_intros)

lemma kept_seed [frame_intros]: "kept (ensureSeedSnapshot E S)"
  unfolding ensureSeedSnapshot_def getSeedSnapshot_def isFilesystemEmpty_def createSeedSnapshot_def mimic_seed_def
  by (intro frame_intros)

lemma kept_getUidOfSourceSnap [frame_intros]: "kept (getUidOfSourceSnap E S)"
  unfolding getUidOfSourceSnap_def source_snapshot_def by (intro frame_intros)

lemma kept_waits [frame_intros]: "kept (waitForFilesystemDeletion E u)" "kept (waitForSnapshotDeletion E u)"
proof -
  have "kept (wait_fs_deleted n E u st)" for n st
    by (induction n) (simp_all only: wait_fs_deleted.simps, (intro frame_intros | assumption)+)
  then show "kept (waitForFilesystemDeletion E u)"
    unfolding waitForFilesystemDeletion_def by (intro frame_intros)
  have "kept (wait_snap_deleted n E u st)" for n st
    by (induction n) (simp_all only: wait_snap_deleted.simps, (intro frame_intros | assumption)+)
  then show "kept (waitForSnapshotDeletion E u)"
    unfolding waitForSnapshotDeletion_def by (intro frame_intros)
qed

lemma kept_deletes [frame_intros]: "kept (deleteFilesystem E S)" "kept (deleteSnapshot E S)" "kept (deleteDirectory E S)"
  unfolding deleteFilesystem_def request_fs_deletion_def deleteSnapshot_def deleteDirectory_def
  by (intro frame_intros)+

lemma kept_Volume_Delete [frame_intros]: "kept (Volume_Delete E S)" "kept (Trash E S)"
proof -
  show d: "kept (Volume_Delete E S)"
    unfolding Volume_Delete_def isAllowedForDeletion_def hasUnderlyingSnapshots_def getUnderlyingSnapshots_def
    by (intro frame_intros)
  show "kept (Trash E S)" unfolding Trash_def by (intro frame_intros d)
qed

lemma kept_Volume_Create [frame_intros]: "kept (Volume_Create E S c)"
  unfolding Volume_Create_def create_filesystem_def create_snapshot_def check_directory_encryption_def make_directory_def
    finish_creation_def Let_def
  by (intro frame_intros)

lemma kept_with_param: "(\<And>x v. I (store x v) = I v) \<Longrightarrow> kept (with_param params k parse store)"
  unfolding with_param_def by (intro frame_intros kept_modify)

lemma kept_options [frame_intros]: "kept pruneUnsupportedMountOptions" "kept initMountOptions"
  unfolding initMountOptions_def pruneUnsupportedMountOptions_def by (intro frame_intros)+

lemma kept_basic_params [frame_intros]: "kept (obtain_basic_params S params)"
  unfolding obtain_basic_params_def by (intro frame_intros kept_with_param fields)

lemma kept_ObtainRequestParams [frame_intros]: "kept (ObtainRequestParams E S params)"
  unfolding ObtainRequestParams_def by (intro frame_intros kept_with_param fields)

lemma kept_init_volume [frame_intros]: "kept (init_volume E S params)"
  unfolding init_volume_def by (intro frame_intros)

lemma kept_CanBeOperated [frame_intros]: "kept (CanBeOperated S)"
  unfolding CanBeOperated_def by (intro frame_intros)

end

interpretation id_frame: volume_frame "\<lambda>v. identity v = i" for i
  by unfold_locales (simp_all add: identity_def)

end
