(* ===== verification/Controller.thy ===== *)
theory Controller
  imports Servers Volume_Identity
begin

text \<open>
  The controller service (\<open>pkg/wekafs/controllerserver.go\<close>): the handlers that create, delete and expand
  volumes, create and delete snapshots and answer for capabilities, composed of the operations of the volume,
  snapshot and capacity theories in the order the code has them.  Each handler returns its response or the
  gRPC status of its error; the messages are not modelled.
\<close>

section \<open>Definitions\<close>

subsection \<open>The server\<close>

datatype controller_rpc =
    RPC_UNKNOWN | CREATE_DELETE_VOLUME | EXPAND_VOLUME | SINGLE_NODE_MULTI_WRITER | CREATE_DELETE_SNAPSHOT | CLONE_VOLUME

record ControllerServer =
  ctr_caps :: "controller_rpc list"
  ctr_nodeID :: string
  ctr_driverName :: string   \<comment> \<open>the name of the driver the configuration refers to\<close>
  ctr_srv :: Server

definition getControllerServiceCapabilities :: "controller_rpc list \<Rightarrow> controller_rpc list" where
  "getControllerServiceCapabilities cl = cl"

definition exposedCapabilities :: "DriverConfig \<Rightarrow> controller_rpc list" where
  "exposedCapabilities cfg =
     [CREATE_DELETE_VOLUME, EXPAND_VOLUME, SINGLE_NODE_MULTI_WRITER]
     @ (if dc_advertiseSnapshotSupport cfg then [CREATE_DELETE_SNAPSHOT] else [])
     @ (if dc_advertiseVolumeCloneSupport cfg then [CLONE_VOLUME] else [])"

definition ControlServerAdditionalMountOptions :: string where
  "ControlServerAdditionalMountOptions = ''acl,writecache''"

definition controller_mountOptions :: "DriverConfig \<Rightarrow> MountOptions" where
  "controller_mountOptions cfg =
     MergedWith getDefaultMountOptions (NewMountOptionsFromString ControlServerAdditionalMountOptions)
       (dc_mutuallyExclusiveOptions cfg)"

text \<open>The server and its capacity tracker; the last argument says whether there is a Kubernetes manager.\<close>

definition NewControllerServer ::
  "string \<Rightarrow> string \<Rightarrow> AnyMounter \<Rightarrow> DriverConfig \<Rightarrow> bool \<Rightarrow> ControllerServer \<times> CapacityTracker option" where
  "NewControllerServer nodeID driverName mounter cfg manager =
     (\<lparr> ctr_caps = getControllerServiceCapabilities (exposedCapabilities cfg), ctr_nodeID = nodeID, ctr_driverName = driverName,
        ctr_srv = \<lparr> srv_config = cfg, srv_mounter = mounter, srv_defaultMountOptions = controller_mountOptions cfg \<rparr> \<rparr>,
      if manager then Some new_tracker else None)"

abbreviation ctr_config :: "ControllerServer \<Rightarrow> DriverConfig" where
  "ctr_config C \<equiv> srv_config (ctr_srv C)"

definition validateControllerServiceRequest :: "ControllerServer \<Rightarrow> controller_rpc \<Rightarrow> unit go" where
  "validateControllerServiceRequest C c =
     (if c = RPC_UNKNOWN then Ok () else if c \<in> set (ctr_caps C) then Ok () else Err (Status InvalidArgument))"

definition ControllerGetCapabilities :: "ControllerServer \<Rightarrow> controller_rpc list" where
  "ControllerGetCapabilities C = ctr_caps C"

text \<open>A content source names a volume or a snapshot but not both, so the last check of the code never fails.\<close>

definition CheckCreateVolumeRequestSanity :: "ControllerServer \<Rightarrow> CreateVolumeRequest \<Rightarrow> unit go" where
  "CheckCreateVolumeRequestSanity C req =
     bind_outcome (validateControllerServiceRequest C CREATE_DELETE_VOLUME) (\<lambda>_.
       if cvr_Name req = [] then Err (Status InvalidArgument)
       else case cvr_BlockAccess req of
              None \<Rightarrow> Err (Status InvalidArgument)
            | Some blocks \<Rightarrow> if True \<in> set blocks then Err (Status InvalidArgument) else Ok ())"

subsection \<open>Capacity\<close>

definition validateAndReserveCapacity :: "'w env \<Rightarrow> ControllerServer \<Rightarrow> int \<Rightarrow> int \<Rightarrow> ('w, unit) vsrv" where
  "validateAndReserveCapacity E C currentCapacity targetCapacity =
     go_bind (on_volume this_volume) (\<lambda>v.
     go_bind (on_server (\<lambda>s. (Ok (st_tracker s), s))) (\<lambda>tracker.
       if \<not> hasInnerPath v \<or> isOnSnapshot v then go_return ()
       else if tracker = None then go_raise (Status Internal)
       else go_bind (or_fail (on_volume (getFilesystemObj E True)) Internal) (\<lambda>fsObj.
              case fsObj of
                None \<Rightarrow> go_raise (Status Internal)
              | Some fs \<Rightarrow>
                  on_server (on_tracker (admit E (ctr_driverName C) (v_FilesystemName v) (v_id v) currentCapacity targetCapacity
                    (fs_AvailableSsd fs))))))"

definition releaseCapacityReservation :: "ControllerServer \<Rightarrow> string \<Rightarrow> ('w, unit) srv" where
  "releaseCapacityReservation C volumeID s =
     (Ok (), if dc_enforceDirVolTotalCapacity (ctr_config C)
             then s\<lparr>st_tracker := map_option (deleteReservationLocked volumeID) (st_tracker s)\<rparr> else s)"

subsection \<open>Topology\<close>

definition baseSegments :: "string \<Rightarrow> (string, string) gomap" where
  "baseSegments driverName =
     AList.update (TopologyLabelWekaLocalPattern driverName) ''true'' [(TopologyLabelWekaGlobal, ''true'')]"

definition merged_segments :: "string \<Rightarrow> (string, string) gomap \<Rightarrow> (string, string) gomap" where
  "merged_segments driverName segments =
     fold (\<lambda>e m. if fst e \<in> {TopologyKeyZone, TopologyKeyRegion} then AList.update (fst e) (snd e) m else m) segments
       (baseSegments driverName)"

definition generateAccessibleTopology :: "string \<Rightarrow> TopologyRequirement option \<Rightarrow> (string, string) gomap list" where
  "generateAccessibleTopology driverName topologyRequirements =
     (case topologyRequirements of
        None \<Rightarrow> [baseSegments driverName]
      | Some t \<Rightarrow>
          (let requested = (if tr_Requisite t = [] then tr_Preferred t else tr_Requisite t)
           in if requested = [] then [baseSegments driverName] else map (merged_segments driverName) requested))"

subsection \<open>Creation of volumes\<close>

record csi_Volume =
  crv_VolumeId :: string
  crv_CapacityBytes :: int
  crv_VolumeContext :: "(string, string) gomap"
  crv_ContentSource :: "content_source option"
  crv_AccessibleTopology :: "(string, string) gomap list"

definition volume_context :: "ControllerServer \<Rightarrow> Volume \<Rightarrow> (string, string) gomap \<Rightarrow> (string, string) gomap" where
  "volume_context C v params =
     AList.update ''provisionedByCsiVersion'' (dc_csiVersion (ctr_config C))
       (AList.update ''mountOptions'' (AsVolumeContext (v_mountOptions v)) params)"

definition created :: "ControllerServer \<Rightarrow> CreateVolumeRequest \<Rightarrow> (string, string) gomap \<Rightarrow> ('w, csi_Volume) vsrv" where
  "created C req context =
     go_bind (on_volume this_volume) (\<lambda>v. go_return
       \<lparr> crv_VolumeId = v_id v, crv_CapacityBytes = cvr_RequiredBytes req, crv_VolumeContext = context,
         crv_ContentSource = getCsiContentSource v,
         crv_AccessibleTopology = generateAccessibleTopology (ctr_driverName C) (cvr_Topology req) \<rparr>)"

text \<open>A volume that exists without a capacity: the rest of an earlier, interrupted creation.\<close>

definition complete_volume :: "'w env \<Rightarrow> ControllerServer \<Rightarrow> int \<Rightarrow> ('w, unit) vsrv" where
  "complete_volume E C capacity =
     go_bind (on_volume this_volume) (\<lambda>v.
     go_bind (or_fail (on_volume (UpdateCapacity E (ctr_srv C) (Some (v_enforceCapacity v)) capacity)) Internal) (\<lambda>_.
       or_fail (on_volume (UpdateParams E (ctr_srv C))) Internal))"

definition create_new :: "'w env \<Rightarrow> ControllerServer \<Rightarrow> int \<Rightarrow> ('w, unit) vsrv" where
  "create_new E C capacity =
     go_bind (if dc_enforceDirVolTotalCapacity (ctr_config C) then validateAndReserveCapacity E C 0 capacity else go_return ()) (\<lambda>_.
       go_catch (on_volume (Volume_Create E (ctr_srv C) capacity))
         (\<lambda>e. if e = Api MountPermissionDenied then go_raise (Status PermissionDenied) else go_raise (Status Internal)))"

text \<open>The handler once the volume object is made.  Without parameters the assignment to the nil map panics.\<close>

definition provide_volume :: "'w env \<Rightarrow> ControllerServer \<Rightarrow> CreateVolumeRequest \<Rightarrow> ('w, csi_Volume) vsrv" where
  "provide_volume E C req =
     (let capacity = cvr_RequiredBytes req
      in go_bind (or_fail (on_volume (CanBeOperated (ctr_srv C))) InvalidArgument) (\<lambda>_.
         go_bind (on_volume (volumeExistsAndMatchesCapacity E (ctr_srv C) capacity)) (\<lambda>(volExists, volMatchesCapacity, err).
           case cvr_Parameters req of
             None \<Rightarrow> go_panic
           | Some params \<Rightarrow>
               go_bind (on_volume this_volume) (\<lambda>v.
                 let context = volume_context C v params
                 in if err \<noteq> None \<and> \<not> volExists then go_raise (Status Internal)
                    else if volExists \<and> volMatchesCapacity then created C req context
                    else if volExists \<and> err = None then go_raise (Status AlreadyExists)
                    else if volExists then go_bind (complete_volume E C capacity) (\<lambda>_. created C req context)
                    else go_bind (create_new E C capacity) (\<lambda>_. created C req context)))))"

definition CreateVolume :: "'w env \<Rightarrow> ControllerServer \<Rightarrow> bool \<Rightarrow> CreateVolumeRequest \<Rightarrow> ('w, csi_Volume) srv" where
  "CreateVolume E C granted req =
     serve (ctr_config C) granted ''CreateVolume''
       (go_bind (lift_go (CheckCreateVolumeRequestSanity C req)) (\<lambda>_.
        go_bind (bind_client E (cvr_Secrets req)) (\<lambda>_.
        go_bind (srv_sys (NewVolumeFromControllerCreateRequest E (ctr_srv C) req)) (\<lambda>v.
          with_volume v (provide_volume E C req)))))"

subsection \<open>Deletion and expansion\<close>

definition os_IsNotExist :: "go_error \<Rightarrow> bool" where
  "os_IsNotExist e \<longleftrightarrow> e = Plain ''no such file or directory''"

text \<open>The code compares with \<open>ErrFilesystemHasUnderlyingSnapshots\<close> by identity; no other error with its code
  comes out of a deletion.\<close>

definition delete_volume :: "'w env \<Rightarrow> ControllerServer \<Rightarrow> string \<Rightarrow> ('w, unit) vsrv" where
  "delete_volume E C volumeID =
     go_bind (go_catch (on_volume (Trash E (ctr_srv C)))
       (\<lambda>e. if os_IsNotExist e then go_return ()
            else if e = ErrFilesystemHasUnderlyingSnapshots then go_raise e else go_raise (Status Internal)))
       (\<lambda>_. on_server (releaseCapacityReservation C volumeID))"

text \<open>An invalid identifier is a volume that does not exist: the request succeeds.\<close>

definition DeleteVolume :: "'w env \<Rightarrow> ControllerServer \<Rightarrow> bool \<Rightarrow> string \<Rightarrow> (string, string) gomap \<Rightarrow> ('w, unit) srv" where
  "DeleteVolume E C granted volumeID secrets =
     serve (ctr_config C) granted ''DeleteVolume''
       (if volumeID = [] then go_raise (Status InvalidArgument)
        else go_bind (or_fail (bind_client E secrets) Internal) (\<lambda>_.
             go_bind (go_try (srv_sys (NewVolumeFromId (ctr_config C) volumeID))) (\<lambda>r.
               case r of
                 Err e \<Rightarrow> go_return ()
               | Panic \<Rightarrow> go_panic
               | Ok v \<Rightarrow>
                   go_bind (or_fail (lift_go (validateControllerServiceRequest C CREATE_DELETE_VOLUME)) Internal)
                     (\<lambda>_. with_volume v (delete_volume E C volumeID)))))"

definition resize_volume :: "'w env \<Rightarrow> ControllerServer \<Rightarrow> int \<Rightarrow> ('w, unit) vsrv" where
  "resize_volume E C capacity =
     go_bind (or_fail (on_volume (Volume_GetCapacity E (ctr_srv C))) Internal) (\<lambda>currentSize.
       if currentSize \<noteq> capacity
       then go_bind (if dc_enforceDirVolTotalCapacity (ctr_config C)
                     then validateAndReserveCapacity E C currentSize capacity else go_return ())
              (\<lambda>_. or_fail (on_volume (UpdateCapacity E (ctr_srv C) None capacity)) Internal)
       else go_return ())"

definition expand_volume :: "'w env \<Rightarrow> ControllerServer \<Rightarrow> int \<Rightarrow> ('w, unit) vsrv" where
  "expand_volume E C capacity =
     go_bind (or_fail (on_volume (getMaxCapacity E (ctr_srv C))) Unknown) (\<lambda>maxStorageCapacity.
       if maxStorageCapacity < capacity then go_raise (Status OutOfRange)
       else go_bind (or_fail (on_volume (Volume_Exists E (ctr_srv C))) NotFound) (\<lambda>ok.
              if \<not> ok then go_raise (Status Internal) else resize_volume E C capacity))"

text \<open>The capacity of a request without a range is \<open>-1\<close>; the result is the capacity of the response.\<close>

definition ControllerExpandVolume ::
  "'w env \<Rightarrow> ControllerServer \<Rightarrow> bool \<Rightarrow> string \<Rightarrow> (string, string) gomap \<Rightarrow> int option \<Rightarrow> ('w, int) srv" where
  "ControllerExpandVolume E C granted volumeID secrets requiredBytes =
     (let capacity = (case requiredBytes of Some n \<Rightarrow> n | None \<Rightarrow> - 1)
      in serve (ctr_config C) granted ''ExpandVolume''
           (if capacity = - 1 then go_raise (Status InvalidArgument)
            else if volumeID = [] then go_raise (Status InvalidArgument)
            else go_bind (or_fail (bind_client E secrets) Internal) (\<lambda>_.
                 go_bind (or_fail (srv_sys (NewVolumeFromId (ctr_config C) volumeID)) NotFound) (\<lambda>v.
                 go_bind (with_volume v (expand_volume E C capacity)) (\<lambda>_. go_return capacity)))))"

subsection \<open>Snapshots\<close>

definition snapshot_volume :: "'w env \<Rightarrow> ControllerServer \<Rightarrow> string \<Rightarrow> ('w, csi_Snapshot) vsrv" where
  "snapshot_volume E C snapName =
     go_bind (or_fail (on_volume (Volume_Exists E (ctr_srv C))) Internal) (\<lambda>ex.
       if \<not> ex then go_raise (Status FailedPrecondition)
       else go_bind (on_volume (Volume_CreateSnapshot E (ctr_srv C) snapName)) (\<lambda>cs.
            go_bind (on_volume (with_snapshot cs (getCsiSnapshot E (ctr_config C)))) (\<lambda>r. go_return (fst r))))"

definition Controller_CreateSnapshot ::
  "'w env \<Rightarrow> ControllerServer \<Rightarrow> bool \<Rightarrow> string \<Rightarrow> (string, string) gomap \<Rightarrow> string \<Rightarrow> ('w, csi_Snapshot) srv" where
  "Controller_CreateSnapshot E C granted srcVolumeId secrets snapName =
     serve (ctr_config C) granted ''CreateSnapshot''
       (if srcVolumeId = [] then go_raise (Status InvalidArgument)
        else if snapName = [] then go_raise (Status InvalidArgument)
        else go_bind (or_fail (bind_client E secrets) Internal) (\<lambda>_.
             go_bind (or_fail (srv_sys (NewVolumeFromId (ctr_config C) srcVolumeId)) InvalidArgument) (\<lambda>v.
               with_volume v (snapshot_volume E C snapName))))"

text \<open>A call on a snapshot without its source volume.\<close>

definition detached_snapshot :: "CsiSnapshot \<Rightarrow> ('w, 'a) snp \<Rightarrow> ('w, 'a) sys_call" where
  "detached_snapshot cs m s = (case m ((cs, None), s) of (r, (_, s')) \<Rightarrow> (r, s'))"

definition Controller_DeleteSnapshot ::
  "'w env \<Rightarrow> ControllerServer \<Rightarrow> bool \<Rightarrow> string \<Rightarrow> (string, string) gomap \<Rightarrow> ('w, unit) srv" where
  "Controller_DeleteSnapshot E C granted snapshotID secrets =
     serve (ctr_config C) granted ''DeleteSnapshot''
       (if snapshotID = [] then go_raise (Status InvalidArgument)
        else case validateSnapshotId snapshotID of
               Err e \<Rightarrow> go_return ()
             | Panic \<Rightarrow> go_panic
             | Ok _ \<Rightarrow>
                 go_bind (or_fail (bind_client E secrets) Internal) (\<lambda>_.
                 go_bind (or_fail (lift_go (NewSnapshotFromId (ctr_config C) snapshotID)) Internal) (\<lambda>cs.
                   or_fail (srv_sys (detached_snapshot cs (snap_Delete E (ctr_srv C)))) Internal)))"

subsection \<open>Capabilities of a volume\<close>

record VolumeCapability =
  cap_Mount :: bool
  cap_Block :: bool

record ValidateRequest =
  vvr_VolumeId :: string
  vvr_Secrets :: "(string, string) gomap"
  vvr_Capabilities :: "VolumeCapability list"
  vvr_VolumeContext :: "(string, string) gomap"
  vvr_Parameters :: "(string, string) gomap"

definition ValidateVolumeCapabilities ::
  "'w env \<Rightarrow> ControllerServer \<Rightarrow> ValidateRequest
    \<Rightarrow> ('w, (string, string) gomap \<times> VolumeCapability list \<times> (string, string) gomap) srv" where
  "ValidateVolumeCapabilities E C req =
     in_request
       (if vvr_VolumeId req = [] then go_raise (Status InvalidArgument)
        else if vvr_Capabilities req = [] then go_raise (Status InvalidArgument)
        else go_bind (or_fail (bind_client E (vvr_Secrets req)) Internal) (\<lambda>_.
             go_bind (or_fail (srv_sys (NewVolumeFromId (ctr_config C) (vvr_VolumeId req))) NotFound) (\<lambda>v.
             go_bind (or_fail (with_volume v (on_volume (Volume_Exists E (ctr_srv C)))) NotFound) (\<lambda>ok.
               if \<not> ok then go_raise (Status NotFound)
               else if list_ex (\<lambda>c. \<not> cap_Mount c \<and> \<not> cap_Block c) (vvr_Capabilities req)
               then go_raise (Status InvalidArgument)
               else go_return (vvr_VolumeContext req, vvr_Capabilities req, vvr_Parameters req)))))"

text \<open>The handlers that are not implemented.\<close>

definition unimplemented_handler :: "('w, 'a) srv" where
  "unimplemented_handler = go_panic"

subsection \<open>Specifications\<close>

text \<open>The identifier a create request gets, from the request and the configuration alone.  The client of the
  request and the switches of the configuration can only refuse it.\<close>

definition request_id :: "DriverConfig \<Rightarrow> CreateVolumeRequest \<Rightarrow> string" where
  "request_id cfg req =
     (case cvr_Source req of
        FromSnapshot sid \<Rightarrow>
          v_id (derived_volume cfg (cvr_Name req) (sliceFilesystemNameFromVolumeId sid) (sliceInnerPathFromSnapshotId sid))
      | FromVolume vid \<Rightarrow>
          v_id (derived_volume cfg (cvr_Name req) (sliceFilesystemNameFromVolumeId vid) (sliceInnerPathFromVolumeId vid))
      | _ \<Rightarrow>
          (case blank_parts (cfg\<lparr>dc_allowAutoFsCreation := True, dc_alwaysAllowSnapshotVolumes := True\<rparr>) None req of
             Ok p \<Rightarrow> volume_id_of p | _ \<Rightarrow> []))"

text \<open>What a call that succeeds returns, when it starts from a given set of states.\<close>

definition yields :: "('s \<Rightarrow> bool) \<Rightarrow> ('a \<Rightarrow> bool) \<Rightarrow> ('s, 'a) call \<Rightarrow> bool" where
  "yields P Q m \<longleftrightarrow> (\<forall>s x s'. P s \<longrightarrow> m s = (Ok x, s') \<longrightarrow> Q x)"

text \<open>The states of a controller: its handlers run one after the other, on requests whose filesystem name
  can be part of an identifier.\<close>

inductive controller_reach :: "'w env \<Rightarrow> ControllerServer \<Rightarrow> 'w server_state \<Rightarrow> bool" for E C where
  controller_start: "st_tracker s = None \<or> st_tracker s = Some new_tracker \<Longrightarrow> controller_reach E C s"
| controller_create:
    "controller_reach E C s \<Longrightarrow> id_part (GetFSNameFromRequest (request_params req))
     \<Longrightarrow> CreateVolume E C granted req s = (r, s') \<Longrightarrow> controller_reach E C s'"
| controller_delete:
    "controller_reach E C s \<Longrightarrow> DeleteVolume E C granted volumeID secrets s = (u, s') \<Longrightarrow> controller_reach E C s'"
| controller_expand:
    "controller_reach E C s \<Longrightarrow> ControllerExpandVolume E C granted volumeID secrets required s = (n, s') \<Longrightarrow> controller_reach E C s'"
| controller_snapshot:
    "controller_reach E C s \<Longrightarrow> Controller_CreateSnapshot E C granted volumeID secrets name s = (c, s') \<Longrightarrow> controller_reach E C s'"
| controller_delete_snapshot:
    "controller_reach E C s \<Longrightarrow> Controller_DeleteSnapshot E C granted snapshotID secrets s = (u, s') \<Longrightarrow> controller_reach E C s'"
| controller_validate:
    "controller_reach E C s \<Longrightarrow> ValidateVolumeCapabilities E C req s = (a, s') \<Longrightarrow> controller_reach E C s'"

text \<open>For the witnesses: a controller in development mode, a directory volume on a filesystem with ten free
  bytes, and a node where that directory exists with its capacity in an attribute.\<close>

definition dev_config :: DriverConfig where
  "dev_config = default_config\<lparr>dc_DynamicVolPath := []\<rparr>"

definition dev_controller :: ControllerServer where
  "dev_controller = fst (NewControllerServer ''node'' ''csi.weka.io'' (WekafsMounter dev_mounter) dev_config True)"

definition idle_controller :: "unit server_state" where
  "idle_controller =
     \<lparr> st_store = NewApiStore default_config None, st_current = None, st_semaphores = [], st_tracker = Some new_tracker,
       st_sys = sys_start \<rparr>"

definition dir_volume :: Volume where
  "dir_volume =
     plain_volume\<lparr>v_id := dir_volume_id, v_innerPath := ''/vols/a'',
       v_fileSystemObject := Some (known_filesystem\<lparr>fs_Name := ''fs'', fs_AvailableSsd := 10\<rparr>)\<rparr>"

definition dir_env :: "unit env" where
  "dir_env = null_env\<lparr>env_stat := \<lambda>p w. Directory, env_xattr_get := \<lambda>p k w. Some ''1000''\<rparr>"

definition dir_request :: CreateVolumeRequest where
  "dir_request = blank_request\<lparr>cvr_Parameters := Some [(''volumeType'', ''dir/v1''), (''filesystemName'', ''fs'')]\<rparr>"

abbreviation dev_srv :: Server where
  "dev_srv \<equiv> ctr_srv dev_controller"

text \<open>Calls on the volume of a request that keep what the volume is, and something of the server.\<close>

abbreviation same_volume :: "'i \<Rightarrow> (Volume \<Rightarrow> 'i) \<Rightarrow> (CapacityTracker option \<Rightarrow> bool) \<Rightarrow> Volume \<times> 'w server_state \<Rightarrow> bool" where
  "same_volume i f R p \<equiv> f (fst p) = i \<and> R (st_tracker (snd p))"

definition named :: "Volume \<Rightarrow> bool" where
  "named v \<longleftrightarrow> (v_innerPath v \<noteq> [] \<longrightarrow> v_SnapshotAccessPoint v = [] \<longrightarrow> v_FilesystemName v = sliceFilesystemNameFromVolumeId (v_id v))"

text \<open>A tracker that was reached stays reached.\<close>

abbreviation reached :: "'w env \<Rightarrow> ControllerServer \<Rightarrow> CapacityTracker option \<Rightarrow> bool" where
  "reached E C t \<equiv> (\<forall>ct. t = Some ct \<longrightarrow> tracker_reach E (ctr_driverName C) ct)"

text \<open>A controller whose store has a client for a secret, and a cluster that finds nothing.\<close>

definition dev_secrets :: "(string, string) gomap" where
  "dev_secrets = [(''endpoints'', ''10.0.0.1:14000'')]"

definition dev_credentials :: Credentials where
  "dev_credentials = (case credentials_from_secrets dev_secrets of Ok c \<Rightarrow> c | _ \<Rightarrow> zero_Credentials)"

definition bound_controller :: "unit server_state" where
  "bound_controller =
     idle_controller\<lparr>st_store := (NewApiStore default_config None)\<lparr>apis := [(generateHash dev_credentials, test_client)]\<rparr>\<rparr>"

definition lost_env :: "unit env" where
  "lost_env = reply_env (Reply 404 (Some JNull))"

section \<open>Lemmas\<close>

subsection \<open>Results\<close>

named_theorems yields_intros \<open>results of calls\<close>

lemma yieldsD: "yields P Q m \<Longrightarrow> P s \<Longrightarrow> m s = (Ok x, s') \<Longrightarrow> Q x"
  by (auto simp: yields_def)

lemma yields_basic [yields_intros]: "yields P Q (go_raise e)" "yields P Q go_panic"
  by (simp_all add: yields_def)

lemma yields_bind [yields_intros]: "keeps P m \<Longrightarrow> (\<And>x. yields P Q (f x)) \<Longrightarrow> yields P Q (go_bind m f)"
  unfolding yields_def by (intro allI impI, erule go_bind_OkE) (blast dest: keepsD)

lemma yields_if [yields_intros]: "yields P Q m \<Longrightarrow> yields P Q n \<Longrightarrow> yields P Q (if b then m else n)"
  by simp

lemma yields_option [yields_intros]:
  "yields P Q m \<Longrightarrow> (\<And>a. yields P Q (f a)) \<Longrightarrow> yields P Q (case x of None \<Rightarrow> m | Some a \<Rightarrow> f a)"
  by (cases x) simp_all

lemma yields_pair [yields_intros]: "(\<And>x y. yields P Q (f x y)) \<Longrightarrow> yields P Q (case p of (x, y) \<Rightarrow> f x y)"
  by (cases p) simp

lemma serve_Ok:
  assumes "serve cfg granted op body s = (Ok x, s')"
  shows "\<exists>s1 s2. body s1 = (Ok x, s2)"
proof -
  obtain s2 where "go_bind (go_catch (acquireSemaphore cfg granted op) (\<lambda>_. go_raise (Status Unavailable))) (\<lambda>_. body) (unbind s) = (Ok x, s2)"
    using assms by (auto simp: serve_def in_request_def split: prod.splits)
  then show ?thesis by (rule go_bind_OkE) blast
qed

subsection \<open>The volume of a request\<close>

lemma keeps_on_volume [frame_intros]:
  assumes "\<And>i. keeps (\<lambda>p. identity (fst p) = i) m"
  shows "keeps (same_volume i identity R) (on_volume m)"
proof (rule keepsI)
  fix p r p1 assume p: "same_volume i identity R p" and o: "on_volume m p = (r, p1)"
  obtain r' v y where m: "m (fst p, st_sys (snd p)) = (r', (v, y))" by (metis prod.collapse)
  from keepsD [OF assms _ m, of "identity (fst p)"] have "identity v = identity (fst p)" by simp
  with p o m show "same_volume i identity R p1" by (auto simp: on_volume_def)
qed

lemma keeps_on_server [frame_intros]: "keeps (\<lambda>s. R (st_tracker s)) m \<Longrightarrow> keeps (same_volume i f R) (on_server m)"
  by (rule keepsI) (auto simp: on_server_def split: prod.splits dest: keepsD)

lemma keeps_or_fail [frame_intros]: "keeps P m \<Longrightarrow> keeps P (or_fail m c)"
  unfolding or_fail_def by (intro frame_intros)

lemma created_id [yields_intros]:
  "yields (same_volume i identity R) (\<lambda>x. crv_VolumeId x = fst i \<and> crv_CapacityBytes x = cvr_RequiredBytes req) (created C req context)"
  by (auto simp: yields_def created_def identity_def)

text \<open>The identifier of the response is that of the volume the request made.\<close>

lemma keeps_tracker_read [frame_intros]: "keeps P (\<lambda>s. (Ok (f s), s))"
  by (simp add: keeps_def)

lemma keeps_admit_any: "keeps (same_volume i identity (\<lambda>_. True)) (validateAndReserveCapacity E C cur tgt)"
  unfolding validateAndReserveCapacity_def by (intro frame_intros id_frame.kept_objects) (simp_all add: keeps_def)

lemma keeps_complete: "keeps (same_volume i identity R) (complete_volume E C c)"
  unfolding complete_volume_def by (intro frame_intros)

lemma provide_volume_id:
  "yields (same_volume i identity (\<lambda>_. True)) (\<lambda>x. crv_VolumeId x = fst i \<and> crv_CapacityBytes x = cvr_RequiredBytes req)
     (provide_volume E C req)"
  unfolding provide_volume_def create_new_def Let_def
  by (intro yields_intros frame_intros keeps_complete keeps_admit_any)

lemma new_volume_identity:
  assumes "new_volume v init y = (Ok u, y')" "\<And>i. keeps (\<lambda>p. identity (fst p) = i) init"
  shows "identity u = identity v"
proof -
  obtain r u1 y1 where m: "init (v, y) = (r, (u1, y1))" by (metis prod.collapse)
  from keepsD [OF assms(2) _ m, of "identity v"] assms(1) m show ?thesis
    by (auto simp: new_volume_def split: outcome.splits)
qed

lemma NewVolumeFromId_identity:
  "NewVolumeFromId cfg vid y = (Ok u, y') \<Longrightarrow> identity u = identity (volume_from_id cfg vid)"
  unfolding NewVolumeFromId_def by (erule go_bind_OkE) (rule new_volume_identity, assumption, intro frame_intros)

lemma blank_parts_permissive:
  "blank_parts cfg ac req = Ok p \<Longrightarrow>
    blank_parts (cfg\<lparr>dc_allowAutoFsCreation := True, dc_alwaysAllowSnapshotVolumes := True\<rparr>) None req = Ok p"
  by (auto simp: blank_parts_def Let_def split: if_splits option.splits)

lemma NewVolumeForBlank_parts:
  "NewVolumeForBlankVolumeRequest cfg req y = (Ok v, y') \<Longrightarrow>
    \<exists>p. blank_parts cfg (sys_client y) req = Ok p \<and> v = blank_volume cfg (cvr_Name req) p"
  by (cases "blank_parts cfg (sys_client y) req")
    (simp_all add: NewVolumeForBlankVolumeRequest_def the_client_def lift_go_def)

lemma NewSnapshotFromId_innerPath:
  "NewSnapshotFromId cfg sid = Ok src \<Longrightarrow> cs_innerPath src = sliceInnerPathFromSnapshotId sid"
  by (auto simp: NewSnapshotFromId_def elim!: bind_outcome_OkE)

lemma catch_raise_Ok: "go_catch m (\<lambda>_. go_raise e) s = (Ok x, s') \<Longrightarrow> m s = (Ok x, s')"
  by (auto simp: go_catch_def split: prod.splits outcome.splits)

lemma lift_go_Ok: "lift_go r s = (Ok x, s') \<Longrightarrow> r = Ok x"
  by (simp add: lift_go_def)

lemma from_snapshot_request:
  assumes "NewVolumeForCreateFromSnapshotRequest E S req sid y = (Ok v, y')"
  defines "d \<equiv> derived_volume (srv_config S) (cvr_Name req) (sliceFilesystemNameFromVolumeId sid) (sliceInnerPathFromSnapshotId sid)"
  shows "v_id v = v_id d \<and> v_SnapshotAccessPoint v = v_SnapshotAccessPoint d"
  using assms(1) unfolding NewVolumeForCreateFromSnapshotRequest_def Let_def d_def
  by (auto elim!: go_bind_OkE split: if_splits option.splits dest!: catch_raise_Ok lift_go_Ok NewSnapshotFromId_innerPath)

lemma clone_request:
  assumes "NewVolumeForCloneVolumeRequest E S req vid y = (Ok v, y')"
  defines "d \<equiv> derived_volume (srv_config S) (cvr_Name req) (sliceFilesystemNameFromVolumeId vid) (sliceInnerPathFromVolumeId vid)"
  shows "v_id v = v_id d \<and> v_SnapshotAccessPoint v = v_SnapshotAccessPoint d"
  using assms(1) unfolding NewVolumeForCloneVolumeRequest_def Let_def d_def
  by (auto elim!: go_bind_OkE split: if_splits dest!: catch_raise_Ok NewVolumeFromId_identity
      simp: identity_def volume_from_id_def)

lemma volume_for_request_id:
  assumes "volume_for_request E S req y = (Ok v, y')"
  shows "v_id v = request_id (srv_config S) req"
proof (cases "cvr_Source req")
  case (FromVolume vid)
  with assms clone_request [of E S req vid y v y'] show ?thesis by (auto simp: volume_for_request_def request_id_def)
next
  case (FromSnapshot sid)
  with assms from_snapshot_request [of E S req sid y v y'] show ?thesis by (auto simp: volume_for_request_def request_id_def)
next
  case NoSource
  with assms NewVolumeForBlank_parts [of "srv_config S" req y v y'] show ?thesis
    by (auto simp: volume_for_request_def request_id_def blank_volume_def dest: blank_parts_permissive)
next
  case SourceUndefined
  with assms obtain y1 u where "NewVolumeForBlankVolumeRequest (srv_config S) req y = (Ok u, y1)" "v_srcSnapshot u \<noteq> None"
    by (auto simp: volume_for_request_def elim!: go_bind_OkE split: if_splits)
  with NewVolumeForBlank_parts [of "srv_config S" req y u y1] have False by (auto simp: blank_volume_def zero_Volume_def)
  then show ?thesis ..
qed

lemma NewVolumeFromControllerCreateRequest_cases:
  assumes "NewVolumeFromControllerCreateRequest E S req y = (Ok v, y')"
  shows "\<exists>u y1. volume_for_request E S req y = (Ok u, y1) \<and> identity v = identity u"
  using assms unfolding NewVolumeFromControllerCreateRequest_def
  by (elim go_bind_OkE) (blast intro: new_volume_identity id_frame.kept_init_volume)

lemma CreateVolume_volume:
  assumes "CreateVolume E C granted req s = (Ok x, s')"
  obtains v y s2 p where "NewVolumeFromControllerCreateRequest E (ctr_srv C) req y = (Ok v, st_sys s2)"
    "provide_volume E C req (v, s2) = (Ok x, p)"
proof -
  from serve_Ok [OF assms [unfolded CreateVolume_def]] obtain s0 s3 where "go_bind (lift_go (CheckCreateVolumeRequestSanity C req)) (\<lambda>_.
      go_bind (bind_client E (cvr_Secrets req)) (\<lambda>_.
      go_bind (srv_sys (NewVolumeFromControllerCreateRequest E (ctr_srv C) req)) (\<lambda>v.
        with_volume v (provide_volume E C req)))) s0 = (Ok x, s3)"
    by blast
  then obtain v s1 s2 where n: "srv_sys (NewVolumeFromControllerCreateRequest E (ctr_srv C) req) s1 = (Ok v, s2)"
    and w: "with_volume v (provide_volume E C req) s2 = (Ok x, s3)"
    by (elim go_bind_OkE)
  from n have "NewVolumeFromControllerCreateRequest E (ctr_srv C) req (st_sys s1) = (Ok v, st_sys s2)"
    by (auto simp: srv_sys_def split: prod.splits)
  moreover from w obtain p where "provide_volume E C req (v, s2) = (Ok x, p)" by (auto simp: with_volume_def split: prod.splits)
  ultimately show ?thesis by (rule that)
qed

subsection \<open>The tracker of a controller\<close>

lemma named_identity: "identity v = identity u \<Longrightarrow> named v = named u"
  by (simp add: identity_def named_def)

lemma named_from_id: "named (volume_from_id cfg vid)"
  by (simp add: named_def volume_from_id_def)

lemma access_point_nonempty: "generateWekaSnapAccessPointForSnapBasedVol name \<noteq> []"
  using length_name_base(1) [of name] by (auto simp: generateWekaSnapAccessPointForSnapBasedVol_def)

lemma named_blank:
  assumes "blank_parts cfg ac req = Ok p" "id_part (GetFSNameFromRequest (request_params req))"
  shows "named (blank_volume cfg (cvr_Name req) p)"
  unfolding named_def
proof (intro impI)
  assume "v_innerPath (blank_volume cfg (cvr_Name req) p) \<noteq> []" "v_SnapshotAccessPoint (blank_volume cfg (cvr_Name req) p) = []"
  with assms have "volume_parts_wf p"
    by (auto simp: blank_parts_def blank_volume_def Let_def volume_parts_wf_def KnownVolTypes_def id_part_def split: if_splits option.splits)
  from volume_from_id_parts(1) [OF this, of cfg]
  show "v_FilesystemName (blank_volume cfg (cvr_Name req) p) = sliceFilesystemNameFromVolumeId (v_id (blank_volume cfg (cvr_Name req) p))"
    by (simp add: blank_volume_def volume_from_id_def)
qed

lemma named_request:
  assumes "volume_for_request E S req y = (Ok v, y')" "id_part (GetFSNameFromRequest (request_params req))"
  shows "named v"
proof (cases "cvr_Source req")
  case (FromVolume vid)
  with assms clone_request [of E S req vid y v y'] access_point_nonempty show ?thesis
    by (simp add: volume_for_request_def derived_volume_def Let_def named_def)
next
  case (FromSnapshot sid)
  with assms from_snapshot_request [of E S req sid y v y'] access_point_nonempty show ?thesis
    by (simp add: volume_for_request_def derived_volume_def Let_def named_def)
next
  case NoSource
  with assms NewVolumeForBlank_parts [of "srv_config S" req y v y'] show ?thesis
    by (auto simp: volume_for_request_def named_blank)
next
  case SourceUndefined
  with assms(1) obtain u y1 where "NewVolumeForBlankVolumeRequest (srv_config S) req y = (Ok u, y1)" "v = u"
    by (auto simp: volume_for_request_def elim!: go_bind_OkE split: if_splits)
  with assms(2) NewVolumeForBlank_parts [of "srv_config S" req y u y1] show ?thesis by (auto simp: named_blank)
qed

lemma keeps_this_volume:
  "(\<And>v. identity v = i \<Longrightarrow> keeps (same_volume i identity R) (f v)) \<Longrightarrow>
    keeps (same_volume i identity R) (go_bind (on_volume this_volume) f)"
proof (rule keepsI)
  fix p r p1
  assume k: "\<And>v. identity v = i \<Longrightarrow> keeps (same_volume i identity R) (f v)"
    and p: "same_volume i identity R p" and b: "go_bind (on_volume this_volume) f p = (r, p1)"
  from b have "f (fst p) p = (r, p1)" by (cases p) simp
  moreover from p have "keeps (same_volume i identity R) (f (fst p))" by (intro k) simp
  ultimately show "same_volume i identity R p1" using p by (metis (mono_tags, lifting) keepsD)
qed

lemma keeps_admit:
  "keeps (\<lambda>s. reached E C (st_tracker s))
     (on_tracker (admit E (ctr_driverName C) (sliceFilesystemNameFromVolumeId vid) vid cur tgt available))"
  by (rule keepsI) (auto simp: on_tracker_def split: option.splits prod.splits intro: tracker_admit)

lemma keeps_validate:
  assumes "named u"
  shows "keeps (same_volume (identity u) identity (reached E C)) (validateAndReserveCapacity E C cur tgt)"
  unfolding validateAndReserveCapacity_def
proof (rule keeps_this_volume)
  fix v assume v: "identity v = identity u"
  show "keeps (same_volume (identity u) identity (reached E C)) (go_bind (on_server (\<lambda>s. (Ok (st_tracker s), s))) (\<lambda>tracker.
       if \<not> hasInnerPath v \<or> isOnSnapshot v then go_return ()
       else if tracker = None then go_raise (Status Internal)
       else go_bind (or_fail (on_volume (getFilesystemObj E True)) Internal) (\<lambda>fsObj.
              case fsObj of
                None \<Rightarrow> go_raise (Status Internal)
              | Some fs \<Rightarrow>
                  on_server (on_tracker (admit E (ctr_driverName C) (v_FilesystemName v) (v_id v) cur tgt (fs_AvailableSsd fs))))))"
  proof (cases "hasInnerPath v \<and> \<not> isOnSnapshot v")
    case True
    with assms named_identity [OF v] have "v_FilesystemName v = sliceFilesystemNameFromVolumeId (v_id v)"
      by (simp add: named_def hasInnerPath_def isOnSnapshot_def)
    then show ?thesis by (simp only:) (intro frame_intros keeps_admit)
  next
    case False
    then show ?thesis by (intro frame_intros) (simp_all)
  qed
qed

lemma keeps_with_volume:
  assumes "keeps (same_volume (f v) f R) m"
  shows "keeps (\<lambda>s. R (st_tracker s)) (with_volume v m)"
proof (rule keepsI)
  fix s r s1 assume R: "R (st_tracker s)" and w: "with_volume v m s = (r, s1)"
  then obtain v1 where "m (v, s) = (r, (v1, s1))" by (auto simp: with_volume_def split: prod.splits)
  from keepsD [OF assms _ this] R show "R (st_tracker s1)" by simp
qed

lemmas keeps_same_volume = keeps_with_volume [where f = identity]

text \<open>Everything but the reservations leaves the tracker alone.\<close>

lemma keeps_untracked [frame_intros]:
  "keeps (\<lambda>s. R (st_tracker s)) (srv_sys m)" "keeps (\<lambda>s. R (st_tracker s)) (bind_client E secrets)"
  "keeps (\<lambda>s. R (st_tracker s)) (acquireSemaphore cfg g op)"
  by (auto intro!: keepsI simp: srv_sys_def bind_client_def acquireSemaphore_def initializeSemaphore_def
      split: prod.splits outcome.splits)

lemma keeps_in_request:
  assumes "keeps (\<lambda>s. R (st_tracker s)) m"
  shows "keeps (\<lambda>s. R (st_tracker s)) (in_request m)"
proof (rule keepsI)
  fix s r s1 assume R: "R (st_tracker s)" and w: "in_request m s = (r, s1)"
  then obtain s2 where m: "m (unbind s) = (r, s2)" and s1: "s1 = unbind (put_back s2)"
    by (auto simp: in_request_def split: prod.splits)
  from keepsD [OF assms _ m] R have "R (st_tracker s2)" by (simp add: unbind_def)
  then show "R (st_tracker s1)" by (simp add: s1 unbind_def put_back_def split: option.split)
qed

lemma keeps_serve:
  assumes "keeps (\<lambda>s. R (st_tracker s)) body"
  shows "keeps (\<lambda>s. R (st_tracker s)) (serve cfg g op body)"
  unfolding serve_def by (intro keeps_in_request frame_intros assms)

lemma keeps_bind_yields:
  "keeps P m \<Longrightarrow> yields P Q m \<Longrightarrow> (\<And>x. Q x \<Longrightarrow> keeps P (f x)) \<Longrightarrow> keeps P (go_bind m f)"
proof (rule keepsI)
  fix s r s1
  assume m: "keeps P m" and y: "yields P Q m" and f: "\<And>x. Q x \<Longrightarrow> keeps P (f x)" and s: "P s" and b: "go_bind m f s = (r, s1)"
  obtain q s0 where q: "m s = (q, s0)" by (rule prod.exhaust)
  note s0 = keepsD [OF m s q]
  show "P s1"
  proof (cases q)
    case (Ok x)
    with q b have "f x s0 = (r, s1)" by simp
    from keepsD [OF f s0 this] yieldsD [OF y s, of x s0] q Ok show ?thesis by simp
  qed (use q b s0 in simp_all)
qed

text \<open>A handler that makes the volume from an identifier or a request and goes on with it.\<close>

lemma srv_sys_Ok: "srv_sys m s = (Ok x, s') \<Longrightarrow> m (st_sys s) = (Ok x, st_sys s')"
  by (auto simp: srv_sys_def split: prod.splits)

lemma go_try_Ok: "go_try m s = (Ok (Ok x), s') \<Longrightarrow> m s = (Ok x, s')"
  by (auto simp: go_try_def split: prod.splits outcome.splits)

lemma NewVolumeFromId_named: "NewVolumeFromId cfg vid y = (Ok v, y') \<Longrightarrow> named v"
  using named_identity [OF NewVolumeFromId_identity] named_from_id by blast

lemma yields_from_id: "yields P named (or_fail (srv_sys (NewVolumeFromId cfg vid)) c)"
  unfolding yields_def or_fail_def by (blast dest: catch_raise_Ok srv_sys_Ok NewVolumeFromId_named)

lemma yields_from_id_try: "yields P (\<lambda>r. \<forall>v. r = Ok v \<longrightarrow> named v) (go_try (srv_sys (NewVolumeFromId cfg vid)))"
  unfolding yields_def by (blast dest: go_try_Ok srv_sys_Ok NewVolumeFromId_named)

lemma NewVolumeFromControllerCreateRequest_named:
  assumes "NewVolumeFromControllerCreateRequest E S req y = (Ok v, y')" "id_part (GetFSNameFromRequest (request_params req))"
  shows "named v"
proof -
  from NewVolumeFromControllerCreateRequest_cases [OF assms(1)] obtain u y1
    where "volume_for_request E S req y = (Ok u, y1)" "identity v = identity u" by blast
  with named_request [OF _ assms(2)] named_identity show ?thesis by blast
qed

lemma yields_from_request:
  assumes "id_part (GetFSNameFromRequest (request_params req))"
  shows "yields P named (srv_sys (NewVolumeFromControllerCreateRequest E S req))"
  unfolding yields_def using assms by (blast dest: srv_sys_Ok NewVolumeFromControllerCreateRequest_named)

lemma keeps_delete_volume: "keeps (same_volume i identity (reached E C)) (delete_volume E C vid)"
proof -
  have "keeps (\<lambda>s. reached E C (st_tracker s)) (releaseCapacityReservation C vid)"
    by (rule keepsI) (auto simp: releaseCapacityReservation_def intro: tracker_release)
  then show ?thesis unfolding delete_volume_def by (intro frame_intros)
qed

lemma keeps_provide_volume:
  "named u \<Longrightarrow> keeps (same_volume (identity u) identity (reached E C)) (provide_volume E C req)"
  unfolding provide_volume_def create_new_def created_def Let_def
  by (intro frame_intros keeps_complete keeps_validate)

lemma keeps_expand_volume:
  "named u \<Longrightarrow> keeps (same_volume (identity u) identity (reached E C)) (expand_volume E C cap)"
  unfolding expand_volume_def resize_volume_def by (intro frame_intros keeps_validate)

lemma keeps_DeleteVolume: "keeps (\<lambda>s. reached E C (st_tracker s)) (DeleteVolume E C g vid secrets)"
  unfolding DeleteVolume_def
  by (intro keeps_serve frame_intros keeps_same_volume keeps_delete_volume)

lemma keeps_CreateVolume:
  assumes "id_part (GetFSNameFromRequest (request_params req))"
  shows "keeps (\<lambda>s. reached E C (st_tracker s)) (CreateVolume E C g req)"
  unfolding CreateVolume_def
  by (intro keeps_serve keeps_bind_yields [OF _ yields_from_request [OF assms]] frame_intros keeps_same_volume keeps_provide_volume)

lemma keeps_ControllerExpandVolume: "keeps (\<lambda>s. reached E C (st_tracker s)) (ControllerExpandVolume E C g vid secrets n)"
proof -
  have "keeps (\<lambda>s. reached E C (st_tracker s))
    (go_bind (or_fail (srv_sys (NewVolumeFromId (ctr_config C) vid)) NotFound) (\<lambda>v. go_bind (with_volume v (expand_volume E C cap)) (\<lambda>_. go_return cap)))"
    for cap
    by (intro keeps_bind_yields [OF _ yields_from_id] frame_intros keeps_same_volume keeps_expand_volume)
  note k = this
  show ?thesis
    unfolding ControllerExpandVolume_def Let_def
    by (rule keeps_serve, rule keeps_if, rule keeps_basic, rule keeps_if, rule keeps_basic, rule keeps_bind,
        rule keeps_or_fail, rule keeps_untracked, rule k)
qed

lemma keeps_on_volume_any: "keeps (same_volume () (\<lambda>_. ()) R) (on_volume m)"
  by (rule keepsI) (auto simp: on_volume_def split: prod.splits)

lemma keeps_any_volume: "keeps (same_volume () (\<lambda>_. ()) R) m \<Longrightarrow> keeps (\<lambda>s. R (st_tracker s)) (with_volume v m)"
  by (rule keeps_with_volume [where f = "\<lambda>_. ()"])

lemma keeps_other_handlers:
  "keeps (\<lambda>s. R (st_tracker s)) (Controller_CreateSnapshot E C g vid secrets name)"
  "keeps (\<lambda>s. R (st_tracker s)) (Controller_DeleteSnapshot E C g sid secrets)"
  "keeps (\<lambda>s. R (st_tracker s)) (ValidateVolumeCapabilities E C req)"
proof -
  show "keeps (\<lambda>s. R (st_tracker s)) (Controller_CreateSnapshot E C g vid secrets name)"
    unfolding Controller_CreateSnapshot_def snapshot_volume_def
    by (intro keeps_serve keeps_any_volume frame_basic keeps_or_fail keeps_untracked keeps_on_volume_any)
  show "keeps (\<lambda>s. R (st_tracker s)) (Controller_DeleteSnapshot E C g sid secrets)"
    unfolding Controller_DeleteSnapshot_def by (intro keeps_serve frame_intros)
  show "keeps (\<lambda>s. R (st_tracker s)) (ValidateVolumeCapabilities E C req)"
    unfolding ValidateVolumeCapabilities_def
    by (intro keeps_in_request keeps_any_volume frame_basic keeps_or_fail keeps_untracked keeps_on_volume_any)
qed

lemma controller_reach_tracked:
  assumes "controller_reach E C s"
  shows "reached E C (st_tracker s)"
  using assms
proof (induction rule: controller_reach.induct)
  case (controller_start s)
  then show ?case by (auto intro: tracker_new)
next
  case (controller_create s req granted r s')
  from keepsD [OF keeps_CreateVolume controller_create.IH] controller_create.hyps show ?case by blast
next
  case (controller_delete s granted volumeID secrets u s')
  from keepsD [OF keeps_DeleteVolume controller_delete.IH] controller_delete.hyps show ?case by blast
next
  case (controller_expand s granted volumeID secrets required n s')
  from keepsD [OF keeps_ControllerExpandVolume controller_expand.IH] controller_expand.hyps show ?case by blast
next
  case (controller_snapshot s granted volumeID secrets name c s')
  from keepsD [OF keeps_other_handlers(1) [where R = "reached E C"] controller_snapshot.IH] controller_snapshot.hyps show ?case by blast
next
  case (controller_delete_snapshot s granted snapshotID secrets u s')
  from keepsD [OF keeps_other_handlers(2) [where R = "reached E C"] controller_delete_snapshot.IH] controller_delete_snapshot.hyps show ?case by blast
next
  case (controller_validate s req a s')
  from keepsD [OF keeps_other_handlers(3) [where R = "reached E C"] controller_validate.IH] controller_validate.hyps show ?case by blast
qed

subsection \<open>Reservations\<close>

lemma getFilesystemObj_cached:
  "getFilesystemObj E c (v, y) = (Ok (Some fs), (v', y')) \<Longrightarrow> v_fileSystemObject v' = Some fs"
  by (auto simp: getFilesystemObj_def fetch_filesystem_def this_volume_def modify_volume_def elim!: go_bind_OkE
      split: option.splits if_splits)

lemma validate_admits:
  assumes "validateAndReserveCapacity E C cur tgt (v, s) = (Ok (), (v', s'))" "hasInnerPath v" "\<not> isOnSnapshot v"
  obtains ct ct' fs w w' where "st_tracker s = Some ct" "st_tracker s' = Some ct'" "v_fileSystemObject v' = Some fs"
    "admit E (ctr_driverName C) (v_FilesystemName v) (v_id v) cur tgt (fs_AvailableSsd fs) (ct, w) = (Ok (), (ct', w'))"
proof -
  let ?k = "\<lambda>fsObj. case fsObj of None \<Rightarrow> go_raise (Status Internal)
    | Some fs \<Rightarrow> on_server (on_tracker (admit E (ctr_driverName C) (v_FilesystemName v) (v_id v) cur tgt (fs_AvailableSsd fs)))"
  have "go_bind (or_fail (on_volume (getFilesystemObj E True)) Internal) ?k (v, s) = (Ok (), (v', s'))"
    using assms by (simp add: validateAndReserveCapacity_def on_server_def split: if_splits)
  then obtain fo p1 where f: "on_volume (getFilesystemObj E True) (v, s) = (Ok fo, p1)" and k: "?k fo p1 = (Ok (), (v', s'))"
    unfolding or_fail_def by (elim go_bind_OkE) (blast dest: catch_raise_Ok)
  from f obtain y where g: "getFilesystemObj E True (v, st_sys s) = (Ok fo, (fst p1, y))" "snd p1 = s\<lparr>st_sys := y\<rparr>"
    by (auto simp: on_volume_def split: prod.splits)
  from k obtain fs where fs: "fo = Some fs" by (cases fo) simp_all
  with k g obtain ct ct' w' where "st_tracker s = Some ct" "st_tracker s' = Some ct'" "v' = fst p1"
    "admit E (ctr_driverName C) (v_FilesystemName v) (v_id v) cur tgt (fs_AvailableSsd fs) (ct, sys_world y) = (Ok (), (ct', w'))"
    by (auto simp: on_server_def on_tracker_def split: prod.splits option.splits)
  with getFilesystemObj_cached g(1) fs that show ?thesis by blast
qed

subsection \<open>The controller of the witnesses\<close>

lemma dir_node: "dev_node dir_env"
  by (simp add: dev_node_def isMounted_eq dir_env_def proc_mounts_def null_env_def PathIsWekaMount_def)

lemma dev_with_mount:
  assumes E: "dev_node E" and S: "srv_mounter S = WekafsMounter dev_mounter" and y: "sys_client y = None"
    and b: "\<And>v y. sys_client y = None \<Longrightarrow> \<exists>v' y'. b (v, y) = (Ok x, (v', y')) \<and> sys_client y' = None"
  shows "\<exists>v' y'. with_mount E S b (v, y) = (Ok x, (v', y')) \<and> sys_client y' = None"
proof -
  obtain pm y1 m where m: "mountWithOptions E (WekafsMounter dev_mounter) (v_FilesystemName v) (volume_mount_options S v) y = (Ok pm, y1)"
    "snd pm = WekafsMount m" "sys_client y1 = sys_client y"
    using dev_mountWithOptions [OF E] by blast
  then have M: "MountUnderlyingFS E S (v, y) = (Ok (WekafsMount m), (v\<lparr>v_mountPath := fst pm\<rparr>, y1))"
    using S by (cases pm) (simp add: MountUnderlyingFS_def this_volume_def modify_volume_def on_sys_def del: mountWithOptions.simps)
  obtain v2 y2 where b: "b (v\<lparr>v_mountPath := fst pm\<rparr>, y1) = (Ok x, (v2, y2))" "sys_client y2 = None"
    using b [of y1] m(3) y by (metis)
  obtain y3 where "wekafs_decRef E m y2 = (Ok (), y3)" "sys_client y3 = None" using dev_release_any [OF E, of m y2] b(2) by auto
  moreover from this(1) have "release_volume E (WekafsMount m) (v2, y2) = (Ok (), (v2\<lparr>v_mountPath := []\<rparr>, y3))"
    by (simp add: release_volume_def on_sys_def modify_volume_def lift_go_def)
  ultimately show ?thesis using M b(1) by (simp add: with_mount_def deferUmount_def lift_go_def)
qed

lemma dev_srv_mounter: "srv_mounter dev_srv = WekafsMounter dev_mounter" "srv_config dev_srv = dev_config"
  by (simp_all add: dev_controller_def NewControllerServer_def)

lemma dir_exists:
  assumes "sys_client y = None" "hasInnerPath v" "\<not> isOnSnapshot v"
  shows "\<exists>v' y'. Volume_Exists dir_env dev_srv (v, y) = (Ok True, (v', y')) \<and> sys_client y' = None"
proof -
  have "directory_exists dir_env (v, y) = (Ok True, (v, y))" for v y
    by (simp add: directory_exists_def full_path_def this_volume_def on_sys_def PathExists_def pathIsDirectory_def look_def
        dir_env_def go_bind_def go_catch_def)
  then have "\<exists>v' y'. with_mount dir_env dev_srv (directory_exists dir_env) (v, y) = (Ok True, (v', y')) \<and> sys_client y' = None"
    by (intro dev_with_mount dir_node dev_srv_mounter assms(1)) auto
  then show ?thesis
    using assms by (auto simp: Volume_Exists_def inner_path_exists_def this_volume_def is_bound_def on_sys_def the_client_def
        isFilesystem_def go_bind_def)
qed

lemma dir_capacity:
  assumes "sys_client y = None"
  shows "\<exists>v' y'. Volume_GetCapacity dir_env dev_srv (v, y) = (Ok 1000, (v', y')) \<and> sys_client y' = None"
proof -
  have n: "strconv_Atoi ''1000'' = Some 1000" by code_simp
  have x: "\<exists>v' y'. getSizeFromXattr dir_env dev_srv (v, y) = (Ok 1000, (v', y')) \<and> sys_client y' = None"
    if "sys_client y = None" for v y
    unfolding getSizeFromXattr_def
    by (intro dev_with_mount dir_node dev_srv_mounter that)
      (simp add: full_path_def this_volume_def on_sys_def look_def dir_env_def n)
  show ?thesis
    unfolding Volume_GetCapacity_def getCapacityFromQuota_def
  proof (intro dev_with_mount dir_node dev_srv_mounter assms)
    fix v and y :: "unit sys" assume y: "sys_client y = None"
    from x [OF y, of v] obtain v' y' where "getSizeFromXattr dir_env dev_srv (v, y) = (Ok 1000, (v', y'))" "sys_client y' = None" by blast
    with y show "\<exists>v' y'. go_bind (use_quota dev_srv) (\<lambda>uq.
        go_bind (if uq then go_try (getSizeFromQuota dir_env dev_srv) else go_return (Err (Plain []))) (\<lambda>r.
          case r of Ok sz \<Rightarrow> go_return (int64 sz)
          | _ \<Rightarrow> go_bind (getSizeFromXattr dir_env dev_srv) (\<lambda>sz. go_return (int64 sz)))) (v, y) = (Ok 1000, (v', y')) \<and> sys_client y' = None"
      by (simp add: use_quota_def is_bound_def on_sys_def the_client_def go_bind_def int64_id in_int64_def)
  qed
qed

lemma dir_request_parts:
  "\<exists>p. blank_parts dev_config None dir_request = Ok p \<and> vi_access_point p = [] \<and> vi_inner_path p \<noteq> []"
  by (simp add: blank_parts_def dir_request_def blank_request_def request_params_def GetFSNameFromRequest_def VolumeTypeDirV1_def
      dev_config_def generateInnerPathForDirBasedVol_def Let_def)

lemma dir_init_volume:
  assumes "sys_client y = None" "hasInnerPath v" "v_encrypted v = None"
  shows "\<exists>v'. init_volume dir_env dev_srv (request_params dir_request) (v, y) = (Ok (), (v', y))"
proof -
  have p: "map_of (request_params dir_request) k = None" if "k \<noteq> ''volumeType''" "k \<noteq> ''filesystemName''" for k
    using that by (simp add: dir_request_def request_params_def)
  have e: "isEncryptedSafe dir_env dev_srv (u, y) = (Ok False, (u, y))" if "hasInnerPath u" "v_encrypted u = None" for u
    using that by (simp add: isEncryptedSafe_def isEncrypted_def this_volume_def isFilesystem_def go_bind_def go_catch_def)
  have c: "getCapacityEnforcementParam (request_params dir_request) = Ok True"
    by (simp add: getCapacityEnforcementParam_def p)
  have b: "obtain_basic_params dev_srv (request_params dir_request) (u, y) = (Ok (), (u\<lparr>v_enforceCapacity := True\<rparr>, y))" for u
    by (simp add: obtain_basic_params_def with_param_def p c lift_go_def modify_volume_def)
  have o: "ObtainRequestParams dir_env dev_srv (request_params dir_request) (u, y) = (Ok (), (u\<lparr>v_enforceCapacity := True\<rparr>, y))"
    if "hasInnerPath u" "v_encrypted u = None" for u
    using e [of "u\<lparr>v_enforceCapacity := True\<rparr>"] that
    by (simp add: ObtainRequestParams_def b go_bind_def [of "isEncryptedSafe _ _"] hasInnerPath_def)
  let ?u = "v\<lparr>v_mountOptions := prune_options (sys_client y) getDefaultMountOptions, v_enforceCapacity := True\<rparr>"
  have "enrichWithEncryptionParams dir_env dev_srv (?u, y) = (Ok (), (?u, y))"
    using e [of ?u] assms by (simp add: enrichWithEncryptionParams_def go_bind_def on_sys_def the_client_def hasInnerPath_def)
  with o [of "v\<lparr>v_mountOptions := prune_options (sys_client y) getDefaultMountOptions\<rparr>"] assms show ?thesis
    by (simp add: init_volume_def initMountOptions_eq hasInnerPath_def pruneUnsupportedMountOptions_def on_sys_def the_client_def
        modify_volume_def)
qed

lemma dir_request_volume:
  assumes "sys_client y = None"
  shows "\<exists>v. NewVolumeFromControllerCreateRequest dir_env dev_srv dir_request y = (Ok v, y) \<and> hasInnerPath v \<and> \<not> isOnSnapshot v"
proof -
  obtain p where p: "blank_parts dev_config None dir_request = Ok p" "vi_access_point p = []" "vi_inner_path p \<noteq> []"
    using dir_request_parts by blast
  let ?v = "blank_volume dev_config (cvr_Name dir_request) p"
  have v: "volume_for_request dir_env dev_srv dir_request y = (Ok ?v, y)"
    using p(1) assms dev_srv_mounter(2)
    by (simp add: volume_for_request_def dir_request_def blank_request_def NewVolumeForBlankVolumeRequest_def the_client_def lift_go_def)
  have f: "hasInnerPath ?v" "v_encrypted ?v = None" "\<not> isOnSnapshot ?v"
    using p(2,3) by (simp_all add: blank_volume_def hasInnerPath_def isOnSnapshot_def zero_Volume_def)
  from dir_init_volume [OF assms f(1,2)] obtain v' where
    "init_volume dir_env dev_srv (request_params dir_request) (?v, y) = (Ok (), (v', y))" by blast
  then have n: "NewVolumeFromControllerCreateRequest dir_env dev_srv dir_request y = (Ok v', y)"
    using v by (simp add: NewVolumeFromControllerCreateRequest_def new_volume_def)
  from NewVolumeFromControllerCreateRequest_cases [OF n] v have "identity v' = identity ?v" by auto
  with f(1,3) have "hasInnerPath v'" "\<not> isOnSnapshot v'" by (simp_all add: identity_def hasInnerPath_def isOnSnapshot_def)
  with n show ?thesis by blast
qed

lemma dir_matches:
  assumes "sys_client y = None" "hasInnerPath v" "\<not> isOnSnapshot v"
  shows "\<exists>v' y'. volumeExistsAndMatchesCapacity dir_env dev_srv 1000 (v, y) = (Ok (True, True, None), (v', y'))"
proof -
  obtain v1 y1 where 1: "Volume_Exists dir_env dev_srv (v, y) = (Ok True, (v1, y1))" "sys_client y1 = None"
    using dir_exists [OF assms] by blast
  obtain v2 y2 where "Volume_GetCapacity dir_env dev_srv (v1, y1) = (Ok 1000, (v2, y2))" using dir_capacity [OF 1(2)] by blast
  with 1(1) show ?thesis by (simp add: volumeExistsAndMatchesCapacity_def)
qed

lemma dir_created:
  "\<exists>x s'. CreateVolume dir_env dev_controller True dir_request idle_controller = (Ok x, s')"
proof -
  let ?s = "initializeSemaphore dev_config ''CreateVolume'' (unbind idle_controller)"
  have y: "sys_client (st_sys ?s) = None" "st_store ?s = NewApiStore default_config None"
    by (simp_all add: initializeSemaphore_def unbind_def idle_controller_def)
  have sane: "CheckCreateVolumeRequestSanity dev_controller dir_request = Ok ()"
    by (simp add: CheckCreateVolumeRequestSanity_def validateControllerServiceRequest_def dir_request_def blank_request_def
        dev_controller_def NewControllerServer_def getControllerServiceCapabilities_def exposedCapabilities_def)
  let ?s1 = "?s\<lparr>st_current := None, st_sys := (st_sys ?s)\<lparr>sys_client := None\<rparr>\<rparr>"
  have bind: "bind_client dir_env (cvr_Secrets dir_request) ?s = (Ok (), ?s1)"
    using y by (simp add: bind_client_def GetClientFromSecrets_def dir_request_def blank_request_def NewApiStore_def)
  obtain v where v: "NewVolumeFromControllerCreateRequest dir_env dev_srv dir_request (st_sys ?s1) = (Ok v, st_sys ?s1)"
    "hasInnerPath v" "\<not> isOnSnapshot v" using dir_request_volume [of "st_sys ?s1"] by auto
  obtain v1 y1 where m: "volumeExistsAndMatchesCapacity dir_env dev_srv 1000 (v, st_sys ?s1) = (Ok (True, True, None), (v1, y1))"
    using dir_matches [of "st_sys ?s1" v] v by auto
  have "CanBeOperated dev_srv (v, st_sys ?s1) = (Ok (), (v, st_sys ?s1))"
    using v(2,3) by (simp add: CanBeOperated_def this_volume_def is_bound_def on_sys_def the_client_def isFilesystem_def)
  then have "\<exists>x p. provide_volume dir_env dev_controller dir_request (v, ?s1) = (Ok x, p)"
    using m by (simp add: provide_volume_def or_fail_def dir_request_def blank_request_def Let_def created_def)
  then obtain x s2 where w: "with_volume v (provide_volume dir_env dev_controller dir_request) ?s1 = (Ok x, s2)"
    by (force simp: with_volume_def)
  have n: "srv_sys (NewVolumeFromControllerCreateRequest dir_env dev_srv dir_request) ?s1 = (Ok v, ?s1)"
    using v(1) by (simp add: srv_sys_def)
  have "acquireSemaphore dev_config True ''CreateVolume'' (unbind idle_controller) = (Ok (), ?s)" by (simp add: acquireSemaphore_def)
  with w n bind sane show ?thesis
    by (simp add: CreateVolume_def serve_def in_request_def dev_srv_mounter(2) lift_go_def)
qed

lemma credentials_endpoints: "credentials_from_secrets secrets = Ok c \<Longrightarrow> Endpoints c \<noteq> []"
  by (auto simp: credentials_from_secrets_def Let_def split_hosts_def split: if_splits)

lemma dev_credentials_ok: "credentials_from_secrets dev_secrets = Ok dev_credentials"
proof -
  have "is_Ok (credentials_from_secrets dev_secrets)" unfolding dev_secrets_def by code_simp
  then show ?thesis by (cases "credentials_from_secrets dev_secrets") (simp_all add: dev_credentials_def)
qed

lemma dev_bound:
  fixes op :: string
  defines "s0 \<equiv> initializeSemaphore dev_config op (unbind bound_controller)"
  shows "bind_client lost_env dev_secrets s0 =
    (Ok (), s0\<lparr>st_current := Some (generateHash dev_credentials), st_sys := (st_sys s0)\<lparr>sys_client := Some test_client\<rparr>\<rparr>)"
proof -
  have st: "st_store s0 = (NewApiStore default_config None)\<lparr>apis := [(generateHash dev_credentials, test_client)]\<rparr>"
    by (simp add: s0_def initializeSemaphore_def unbind_def bound_controller_def)
  have "fromCredentials lost_env dev_credentials (st_store s0, sys_world (st_sys s0)) = (Ok (generateHash dev_credentials), (st_store s0, ()))"
    using fromCredentials_stored [OF credentials_endpoints [OF dev_credentials_ok], of "st_store s0" lost_env "sys_world (st_sys s0)"] by (simp add: st)
  then have "GetClientFromSecrets lost_env dev_secrets (st_store s0, sys_world (st_sys s0)) =
      (Ok (Some (generateHash dev_credentials)), (st_store s0, ()))"
    using dev_credentials_ok by (simp add: GetClientFromSecrets_def fromSecrets_def lift_go_def) (simp add: dev_secrets_def)
  then show ?thesis by (simp add: bind_client_def getByHash_def st)
qed

lemma lost_lookup:
  "\<exists>st'. GetFileSystemByName lost_env n (test_client, ()) = (Err (Api ApiNotFoundError), st')"
proof -
  have c: "classify_status (decode_ApiResponse 404 JNull) = Some (http404ErrCount, ApiNotFoundError)" "\<not> transient ApiNotFoundError"
    by (simp_all add: classify_status_def decode_ApiResponse_def transient_def)
  have "\<exists>st'. Get lost_env p q (test_client, ()) = (Err (Api ApiNotFoundError), st')" for p q
    unfolding Get_def lost_env_def by (rule Request_rejected [OF settled_test_client c]) (rule exI)
  then obtain st' where "Get lost_env ''fileSystems'' (FileSystem_query (zero_FileSystem\<lparr>fs_Name := n\<rparr>)) (test_client, ()) = (Err (Api ApiNotFoundError), st')" by blast
  then show ?thesis
    by (cases st') (simp add: GetFileSystemByName_def GetFileSystemByFilter_def FindFileSystemsByFilter_def)
qed

lemma lost_snapshots:
  assumes "sys_client y = Some test_client" "sys_world y = ()" "v_fileSystemObject v = None"
  shows "\<exists>v' y'. getUnderlyingSnapshots lost_env (v, y) = (Err (Api ApiNotFoundError), (v', y'))"
proof -
  have b: "is_bound (v, y) = (Ok True, (v, y))" using assms(1) by (simp add: is_bound_eq)
  obtain a w where "GetFileSystemByName lost_env (v_FilesystemName v) (test_client, ()) = (Err (Api ApiNotFoundError), (a, w))"
    using lost_lookup by (metis prod.collapse)
  then have "on_api (GetFileSystemByName lost_env (v_FilesystemName v)) (v, y) = (Err (Api ApiNotFoundError), (v, y\<lparr>sys_client := Some a, sys_world := w\<rparr>))"
    using assms(1,2) by (simp add: on_sys_def on_client_def)
  then have "getFilesystemObj lost_env True (v, y) = (Err (Api ApiNotFoundError), (v, y\<lparr>sys_client := Some a, sys_world := w\<rparr>))"
    using assms(3) by (simp add: getFilesystemObj_def this_volume_def fetch_filesystem_def missing_as_None_def
        go_bind_simps(1) [where m = is_bound, OF b])
  then show ?thesis by (simp add: getUnderlyingSnapshots_def go_bind_simps(1) [where m = is_bound, OF b])
qed

section \<open>Properties\<close>

text \<open>
  C7: the identifier in the response to a create request is a function of the request and the configuration:
  whatever the cluster, the node and earlier requests did, a request that is repeated and succeeds again
  names the same volume, with the capacity that was asked for.
\<close>

theorem CreateVolume_id:
  assumes "CreateVolume E C granted req s = (Ok x, s')"
  shows "crv_VolumeId x = request_id (ctr_config C) req \<and> crv_CapacityBytes x = cvr_RequiredBytes req"
proof -
  obtain v y s2 p where v: "NewVolumeFromControllerCreateRequest E (ctr_srv C) req y = (Ok v, st_sys s2)"
    and x: "provide_volume E C req (v, s2) = (Ok x, p)"
    by (rule CreateVolume_volume [OF assms])
  from NewVolumeFromControllerCreateRequest_cases [OF v] volume_for_request_id
  have "v_id v = request_id (ctr_config C) req" by (fastforce simp: identity_def)
  with yieldsD [OF provide_volume_id _ x, of "identity v"] show ?thesis by (simp add: identity_def)
qed

theorem CreateVolume_id_witness:
  "\<exists>x s'. CreateVolume dir_env dev_controller True dir_request idle_controller = (Ok x, s')
    \<and> crv_VolumeId x = request_id (ctr_config dev_controller) dir_request"
proof -
  obtain x s' where x: "CreateVolume dir_env dev_controller True dir_request idle_controller = (Ok x, s')" using dir_created by blast
  with CreateVolume_id [OF x] show ?thesis by blast
qed





text \<open>
  C4: a request to delete a filesystem volume is refused while its filesystem has a snapshot that is neither
  being removed nor the seed snapshot, and when the snapshots cannot be listed: the handler returns
  \<open>FailedPrecondition\<close>, its last effect on the cluster is the listing, and no reservation is released.
\<close>

theorem DeleteVolume_protected:
  assumes "bind_client E secrets (initializeSemaphore (ctr_config C) ''DeleteVolume'' (unbind s)) = (Ok (), s1)"
    and "sys_client (st_sys s1) \<noteq> None" "CREATE_DELETE_VOLUME \<in> set (ctr_caps C)" "volumeID \<noteq> []"
    and "NewVolumeFromId (ctr_config C) volumeID (st_sys s1) = (Ok v, st_sys s1)" "isFilesystem v"
    and "getUnderlyingSnapshots E (v, st_sys s1) = (r, (v', y'))" "r \<noteq> Panic"
    and "\<And>sns. r = Ok sns \<Longrightarrow> \<exists>sn \<in> set sns. prevents_deletion (getSeedSnapshotName (ctr_srv C) v) sn"
  shows "DeleteVolume E C True volumeID secrets s = (Err (Status FailedPrecondition), unbind (put_back (s1\<lparr>st_sys := y'\<rparr>)))"
proof -
  have "Volume_Delete E (ctr_srv C) (v, st_sys s1) = (Err ErrFilesystemHasUnderlyingSnapshots, (v', y'))"
    by (rule Volume_Delete_protected [OF assms(6,2,7-9)])
  then have "Trash E (ctr_srv C) (v, st_sys s1) = (Err ErrFilesystemHasUnderlyingSnapshots, (v', y'))"
    using assms(6) by (simp add: Trash_def this_volume_def requiresGc_def isFilesystem_def)
  then have d: "with_volume v (delete_volume E C volumeID) s1 = (Err (Status FailedPrecondition), s1\<lparr>st_sys := y'\<rparr>)"
    by (simp add: delete_volume_def os_IsNotExist_def ErrFilesystemHasUnderlyingSnapshots_def)
  have "srv_sys (NewVolumeFromId (ctr_config C) volumeID) s1 = (Ok v, s1)" using assms(5) by (simp add: srv_sys_def)
  with d assms(1,3,4) show ?thesis
    by (simp add: DeleteVolume_def serve_def in_request_def acquireSemaphore_def or_fail_def lift_go_def
        validateControllerServiceRequest_def)
qed

theorem DeleteVolume_protected_witness:
  "\<exists>s'. DeleteVolume lost_env dev_controller True ''weka/v2/a'' dev_secrets bound_controller = (Err (Status FailedPrecondition), s')"
proof -
  let ?s0 = "initializeSemaphore (ctr_config dev_controller) ''DeleteVolume'' (unbind bound_controller)"
  let ?s1 = "?s0\<lparr>st_current := Some (generateHash dev_credentials), st_sys := (st_sys ?s0)\<lparr>sys_client := Some test_client\<rparr>\<rparr>"
  have b: "bind_client lost_env dev_secrets ?s0 = (Ok (), ?s1)" using dev_bound by (simp add: dev_srv_mounter(2))
  have "validateVolumeId ''weka/v2/a'' = Ok ()" by code_simp
  from NewVolumeFromId_eq [OF this, of dev_config "st_sys ?s1"] obtain v where
    v: "NewVolumeFromId dev_config ''weka/v2/a'' (st_sys ?s1) = (Ok v, st_sys ?s1)" "identity v = identity (volume_from_id dev_config ''weka/v2/a'')"
      "v_fileSystemObject v = None"
    by (simp add: identity_def volume_from_id_def zero_Volume_def)
  have "isFilesystem (volume_from_id dev_config ''weka/v2/a'')" by (simp add: isFilesystem_def isOnSnapshot_def hasInnerPath_def
        volume_from_id_def zero_Volume_def) code_simp
  with v(2) have f: "isFilesystem v" by (simp add: identity_def isFilesystem_def isOnSnapshot_def hasInnerPath_def)
  obtain v' y' where u: "getUnderlyingSnapshots lost_env (v, st_sys ?s1) = (Err (Api ApiNotFoundError), (v', y'))"
    using lost_snapshots [of "st_sys ?s1" v] v(3) by auto
  have "DeleteVolume lost_env dev_controller True ''weka/v2/a'' dev_secrets bound_controller
    = (Err (Status FailedPrecondition), unbind (put_back (?s1\<lparr>st_sys := y'\<rparr>)))"
    by (rule DeleteVolume_protected [OF b _ _ _ _ f u])
      (use v(1) in \<open>simp_all add: dev_srv_mounter(2) dev_controller_def NewControllerServer_def getControllerServiceCapabilities_def
        exposedCapabilities_def\<close>)
  then show ?thesis by blast
qed

end
