(* ===== verification/Node.thy ===== *)
theory Node
  imports Controller
begin

text \<open>
  The node service (\<open>pkg/wekafs/nodeserver.go\<close>): publishing a volume mounts its filesystem, bind-mounts the
  volume's directory on the target path and releases the filesystem again on every way out; unpublishing
  removes the target.  The fields \<open>ns_driverName\<close> and \<open>ns_manager\<close> are those of the driver the configuration
  refers to: its name, and whether it has a Kubernetes manager.
\<close>

section \<open>Definitions\<close>

subsection \<open>The server\<close>

datatype node_rpc = NODE_SINGLE_NODE_MULTI_WRITER | GET_VOLUME_STATS | VOLUME_CONDITION

record NodeServer =
  ns_caps :: "node_rpc list"
  ns_nodeID :: string
  ns_maxVolumesPerNode :: int
  ns_zone :: string
  ns_region :: string
  ns_driverName :: string
  ns_manager :: bool
  ns_srv :: Server

abbreviation ns_config :: "NodeServer \<Rightarrow> DriverConfig" where
  "ns_config N \<equiv> srv_config (ns_srv N)"

definition NodeServerAdditionalMountOptions :: string where
  "NodeServerAdditionalMountOptions = ''writecache,sync_on_close''"

definition node_mountOptions :: "DriverConfig \<Rightarrow> MountOptions" where
  "node_mountOptions cfg =
     MergedWith getDefaultMountOptions (NewMountOptionsFromString NodeServerAdditionalMountOptions)
       (dc_mutuallyExclusiveOptions cfg)"

definition getNodeServiceCapabilities :: "node_rpc list \<Rightarrow> node_rpc list" where
  "getNodeServiceCapabilities nl = nl"

definition NewNodeServer :: "string \<Rightarrow> int \<Rightarrow> string \<Rightarrow> bool \<Rightarrow> AnyMounter \<Rightarrow> DriverConfig \<Rightarrow> NodeServer" where
  "NewNodeServer nodeId maxVolumesPerNode driverName manager mounter cfg =
     \<lparr> ns_caps = getNodeServiceCapabilities [NODE_SINGLE_NODE_MULTI_WRITER, GET_VOLUME_STATS, VOLUME_CONDITION],
       ns_nodeID = nodeId, ns_maxVolumesPerNode = maxVolumesPerNode, ns_zone = [], ns_region = [],
       ns_driverName = driverName, ns_manager = manager,
       ns_srv = \<lparr> srv_config = cfg, srv_mounter = mounter, srv_defaultMountOptions = node_mountOptions cfg \<rparr> \<rparr>"

definition NodeGetCapabilities :: "NodeServer \<Rightarrow> node_rpc list" where
  "NodeGetCapabilities N = ns_caps N"

definition NodeExpandVolume :: "('w, unit) srv" where
  "NodeExpandVolume = go_panic"

definition NodeStageVolume :: "('w, unit) srv" where
  "NodeStageVolume = go_raise (Status Unimplemented)"

definition NodeUnstageVolume :: "('w, unit) srv" where
  "NodeUnstageVolume = go_raise (Status Unimplemented)"

subsection \<open>Statistics\<close>

record VolumeStats =
  TotalBytes :: int
  UsedBytes :: int
  AvailableBytes :: int
  TotalInodes :: int
  UsedInodes :: int
  AvailableInodes :: int

text \<open>The counters of the kernel are 64-bit unsigned; the code converts them to \<open>int64\<close>, where the products and
  differences wrap around.\<close>

definition volume_stats :: "statfs \<Rightarrow> VolumeStats" where
  "volume_stats st =
     (let capacityBytes = int64 (int64 (sf_Blocks st) * sf_Bsize st);
          availableBytes = int64 (int64 (sf_Bavail st) * sf_Bsize st);
          inodes = int64 (sf_Files st);
          inodesFree = int64 (sf_Ffree st)
      in \<lparr> TotalBytes = capacityBytes, UsedBytes = int64 (capacityBytes - availableBytes), AvailableBytes = availableBytes,
           TotalInodes = inodes, UsedInodes = int64 (inodes - inodesFree), AvailableInodes = inodesFree \<rparr>)"

definition getVolumeStats :: "'w env \<Rightarrow> string \<Rightarrow> 'w \<Rightarrow> VolumeStats option" where
  "getVolumeStats E volumePath w = map_option volume_stats (env_statfs E volumePath w)"

text \<open>The response is the usage in bytes and inodes; its condition is never abnormal.\<close>

definition NodeGetVolumeStats :: "'w env \<Rightarrow> NodeServer \<Rightarrow> string \<Rightarrow> string \<Rightarrow> string \<Rightarrow> ('w, VolumeStats) sys_call" where
  "NodeGetVolumeStats E N volumeID volumePath stagingPath =
     (if volumeID = [] then go_raise (Status InvalidArgument)
      else if volumePath = [] then go_raise (Status InvalidArgument)
      else go_bind (if stagingPath \<noteq> [] then PathExists E stagingPath else go_return True) (\<lambda>staged.
           if \<not> staged then go_raise (Status NotFound)
           else go_bind (look (\<lambda>w. if srv_isInDevMode (ns_srv N) then env_stat_err E volumePath w = None
                                   else PathIsWekaMount (proc_mounts E w) volumePath)) (\<lambda>found.
                if \<not> found then go_raise (Status NotFound)
                else go_bind (or_fail (lift_go (validateVolumeId volumeID)) InvalidArgument) (\<lambda>_.
                     go_bind (look (getVolumeStats E volumePath)) (\<lambda>stats.
                       case stats of None \<Rightarrow> go_raise (Status Internal) | Some s \<Rightarrow> go_return s)))))"

subsection \<open>Publishing\<close>

definition VolumeContextPodNameKey :: string where
  "VolumeContextPodNameKey = ''csi.storage.k8s.io/pod.name''"

definition VolumeContextPodNamespaceKey :: string where
  "VolumeContextPodNamespaceKey = ''csi.storage.k8s.io/pod.namespace''"

definition VolumeContextPvcNameKey :: string where
  "VolumeContextPvcNameKey = ''csi.storage.k8s.io/pvc/name''"

definition VolumeContextPvcNamespaceKey :: string where
  "VolumeContextPvcNamespaceKey = ''csi.storage.k8s.io/pvc/namespace''"

record NodePublishVolumeRequest =
  npr_VolumeId :: string
  npr_Secrets :: "(string, string) gomap"
  npr_VolumeContext :: "(string, string) gomap option"
  npr_VolumeCapability :: "VolumeCapability option"
  npr_MountFlags :: "string list"   \<comment> \<open>of the capability, when it is a mount\<close>
  npr_TargetPath :: string
  npr_Readonly :: bool

definition apply_override :: "NodeServer \<Rightarrow> ('w \<Rightarrow> string) \<Rightarrow> ('w, unit) vol" where
  "apply_override N read =
     go_bind (on_sys (look read)) (\<lambda>mo.
       if mo = [] then go_return ()
       else modify_volume (\<lambda>v. v\<lparr>v_mountOptions :=
              fst (ApplyToOptions mo (v_mountOptions v) (dc_mutuallyExclusiveOptions (ns_config N)))\<rparr>))"

text \<open>The overrides of the claim, then those of the pod; an absent claim name is the empty string.\<close>

definition applyMountOptionsOverridesToVolume :: "'w env \<Rightarrow> NodeServer \<Rightarrow> NodePublishVolumeRequest \<Rightarrow> ('w, unit) vol" where
  "applyMountOptionsOverridesToVolume E N req =
     (case npr_VolumeContext req of
        None \<Rightarrow> go_return ()
      | Some params \<Rightarrow>
          (let pvcName = (case map_of params VolumeContextPvcNameKey of Some n \<Rightarrow> n | None \<Rightarrow> [])
           in go_bind
                (case (map_of params VolumeContextPvcNameKey, map_of params VolumeContextPvcNamespaceKey) of
                   (Some name, Some ns) \<Rightarrow>
                     apply_override N (\<lambda>w. getPvcMountOptionsOverride (\<lambda>ns n. env_pvc E ns n w) ns name)
                 | _ \<Rightarrow> go_return ()) (\<lambda>_.
                case (map_of params VolumeContextPodNameKey, map_of params VolumeContextPodNamespaceKey) of
                  (Some name, Some ns) \<Rightarrow>
                    apply_override N (\<lambda>w. getPodMountOptionsOverride (env_regexp E) (\<lambda>ns n. env_pod E ns n w) ns name pvcName)
                | _ \<Rightarrow> go_return ())))"

definition context_options :: "Server \<Rightarrow> NodePublishVolumeRequest \<Rightarrow> ('w, unit) vol" where
  "context_options S req =
     (case Option.bind (npr_VolumeContext req) (\<lambda>params. map_of params ''mountOptions'') of
        None \<Rightarrow> go_return ()
      | Some mountOptions \<Rightarrow>
          go_bind (setMountOptions S (NewMountOptionsFromString mountOptions)) (\<lambda>_. pruneUnsupportedMountOptions))"

definition roMountOptions :: MountOptions where
  "roMountOptions = (NewMountOptions [''ro''])\<lparr>excludeOptions := [''rw'']\<rparr>"

definition merge_options :: "NodeServer \<Rightarrow> MountOptions \<Rightarrow> ('w, unit) vol" where
  "merge_options N other =
     modify_volume (\<lambda>v. v\<lparr>v_mountOptions := Merge (v_mountOptions v) other (dc_mutuallyExclusiveOptions (ns_config N))\<rparr>)"

definition publish_options :: "'w env \<Rightarrow> NodeServer \<Rightarrow> NodePublishVolumeRequest \<Rightarrow> ('w, unit) vol" where
  "publish_options E N req =
     go_bind (merge_options N (NewMountOptionsFromString (strings_Join '','' (npr_MountFlags req)))) (\<lambda>_.
     go_bind (if ns_manager N \<and> dc_allowMountOptionOverrides (ns_config N) \<and> npr_VolumeContext req \<noteq> None
              then or_fail (applyMountOptionsOverridesToVolume E N req) Internal else go_return ()) (\<lambda>_.
       if npr_Readonly req then merge_options N roMountOptions else go_return ()))"

definition innerMountOpts :: "NodePublishVolumeRequest \<Rightarrow> string list" where
  "innerMountOpts req = ''bind'' # (if npr_Readonly req then [''ro''] else [])"

text \<open>The work between the mount of the filesystem and its release.\<close>

definition bind_target :: "'w env \<Rightarrow> NodeServer \<Rightarrow> string \<Rightarrow> string list \<Rightarrow> ('w, unit) vol" where
  "bind_target E N targetPath opts =
     go_bind full_path (\<lambda>fullPath.
     go_bind (or_fail (on_sys (os_call (env_mkdir_all E (filepath_Dir targetPath)))) Internal) (\<lambda>_.
     go_bind (go_try (on_sys (os_call (env_mkdir E targetPath)))) (\<lambda>r.
     go_bind (case r of
                Err e \<Rightarrow>
                  if \<not> os_IsExist e then go_raise (Status Internal)
                  else if srv_isInDevMode (ns_srv N) then go_return True
                  else on_sys (look (\<lambda>w. PathIsWekaMount (proc_mounts E w) targetPath))
              | _ \<Rightarrow> go_return False) (\<lambda>bound.
       if bound then go_return ()
       else or_fail (on_sys (os_call (env_mount E fullPath targetPath [] opts []))) Internal))))"

text \<open>\<open>defer func() { if uErr := unmount(); uErr != nil { ... } }()\<close>: the error of the release is logged only.\<close>

definition defer_release :: "('s, unit) call \<Rightarrow> ('s, 'a) call \<Rightarrow> ('s, 'a) call" where
  "defer_release fn body s =
     (case body s of
        (r, s1) \<Rightarrow> (case ignore_error fn s1 of (Panic, s2) \<Rightarrow> (Panic, s2) | (_, s2) \<Rightarrow> (r, s2)))"

definition mount_and_bind :: "'w env \<Rightarrow> NodeServer \<Rightarrow> string \<Rightarrow> string list \<Rightarrow> ('w, unit) vol" where
  "mount_and_bind E N targetPath opts =
     go_bind (go_catch (MountUnderlyingFS E (ns_srv N))
                (\<lambda>e. go_raise (Status (if e = Api MountPermissionDenied then PermissionDenied else Internal))))
       (\<lambda>m. defer_release (release_volume E m) (bind_target E N targetPath opts))"

definition publish_volume :: "'w env \<Rightarrow> NodeServer \<Rightarrow> NodePublishVolumeRequest \<Rightarrow> ('w, unit) vol" where
  "publish_volume E N req =
     go_bind (context_options (ns_srv N) req) (\<lambda>_.
       case npr_VolumeCapability req of
         None \<Rightarrow> go_raise (Status InvalidArgument)
       | Some c \<Rightarrow>
           if cap_Block c \<and> cap_Mount c then go_raise (Status InvalidArgument)
           else if cap_Block c then go_raise (Status InvalidArgument)
           else let targetPath = filepath_Clean (npr_TargetPath req)
                in if targetPath = [] then go_raise (Status InvalidArgument)
                   else go_bind (publish_options E N req) (\<lambda>_. mount_and_bind E N targetPath (innerMountOpts req)))"

definition NodePublishVolume :: "'w env \<Rightarrow> NodeServer \<Rightarrow> bool \<Rightarrow> NodePublishVolumeRequest \<Rightarrow> ('w, unit) srv" where
  "NodePublishVolume E N granted req =
     serve (ns_config N) granted ''NodePublishVolume''
       (go_bind (or_fail (bind_client E (npr_Secrets req)) Internal) (\<lambda>_.
        go_bind (or_fail (srv_sys (NewVolumeFromId (ns_config N) (npr_VolumeId req))) InvalidArgument) (\<lambda>v.
          with_volume v (on_volume (publish_volume E N req)))))"

subsection \<open>Unpublishing\<close>

text \<open>\<open>errors.Is(pathErr.Err, syscall.ESTALE)\<close>\<close>

definition is_stale :: "go_error \<Rightarrow> bool" where
  "is_stale e \<longleftrightarrow> e = Plain ''stale NFS file handle''"

definition unmount_target :: "'w env \<Rightarrow> string \<Rightarrow> ('w, unit) sys_call" where
  "unmount_target E targetPath =
     go_bind (or_fail (os_call (env_unmount E targetPath)) Internal) (\<lambda>_.
       or_fail (os_call (env_remove E targetPath)) Internal)"

definition unpublish_target :: "'w env \<Rightarrow> NodeServer \<Rightarrow> string \<Rightarrow> ('w, unit) sys_call" where
  "unpublish_target E N targetPath =
     go_bind (look (env_stat_err E targetPath)) (\<lambda>err.
       case err of
         Some e \<Rightarrow>
           if os_IsNotExist e then go_return ()
           else if is_stale e then unmount_target E targetPath
           else go_raise (Status Internal)
       | None \<Rightarrow>
           go_bind (look (\<lambda>w. srv_isInDevMode (ns_srv N) \<or> PathIsWekaMount (proc_mounts E w) targetPath)) (\<lambda>mounted.
             if mounted then unmount_target E targetPath
             else or_fail (os_call (env_remove E targetPath)) Internal))"

definition NodeUnpublishVolume :: "'w env \<Rightarrow> NodeServer \<Rightarrow> bool \<Rightarrow> string \<Rightarrow> ('w, unit) srv" where
  "NodeUnpublishVolume E N granted targetPath =
     serve (ns_config N) granted ''NodeUnpublishVolume''
       (if targetPath = [] then go_raise (Status InvalidArgument) else srv_sys (unpublish_target E N targetPath))"

subsection \<open>Information\<close>

record NodeGetInfoResponse =
  ni_NodeId :: string
  ni_MaxVolumesPerNode :: int
  ni_Segments :: "(string, string) gomap"

definition managed_segments :: "NodeServer \<Rightarrow> (string, string) gomap \<Rightarrow> (string, string) gomap" where
  "managed_segments N segments =
     (if dc_manageNodeTopologyLabels (ns_config N)
      then AList.update (TopologyLabelWekaLocalPattern (ns_driverName N)) ''true''
             (AList.update (TopologyLabelTransportPattern (ns_driverName N)) (getTransport (srv_mounter (ns_srv N)))
               (AList.update (TopologyLabelNodePattern (ns_driverName N)) (ns_nodeID N) segments))
      else segments)"

definition place_segments :: "NodeServer \<Rightarrow> (string, string) gomap \<Rightarrow> (string, string) gomap" where
  "place_segments N segments =
     (let zoned = (if ns_zone N \<noteq> [] then AList.update TopologyKeyZone (ns_zone N) segments else segments)
      in if ns_region N \<noteq> [] then AList.update TopologyKeyRegion (ns_region N) zoned else zoned)"

definition NodeGetInfo :: "NodeServer \<Rightarrow> NodeGetInfoResponse" where
  "NodeGetInfo N =
     \<lparr> ni_NodeId = ns_nodeID N, ni_MaxVolumesPerNode = ns_maxVolumesPerNode N,
       ni_Segments = place_segments N (managed_segments N [(TopologyKeyNode, ns_nodeID N), (TopologyLabelWekaGlobal, ''true'')]) \<rparr>"

subsection \<open>Specifications\<close>

text \<open>The references of the mounter after a call: those before it, or one more for a mount whose release failed.\<close>

definition leaked :: "'w env \<Rightarrow> 'w sys \<Rightarrow> 'w sys \<Rightarrow> bool" where
  "leaked E y y' \<longleftrightarrow>
     (\<exists>m a e b. decRef E m a = (Err e, b) \<and> refCount y' = (refCount y)(getRefcountIdx m := refCount y (getRefcountIdx m) + 1))"

definition balances :: "('s \<Rightarrow> 'w sys) \<Rightarrow> 'w env \<Rightarrow> ('s, 'a) call \<Rightarrow> bool" where
  "balances sys E m \<longleftrightarrow>
     (\<forall>s r s'. m s = (r, s') \<longrightarrow> r \<noteq> Panic \<longrightarrow> counts_wf (sys s) \<longrightarrow>
        counts_wf (sys s') \<and> (refCount (sys s') = refCount (sys s) \<or> leaked E (sys s) (sys s')))"

abbreviation mounts_fixed :: "('s \<Rightarrow> 'w sys) \<Rightarrow> ('s, 'a) call \<Rightarrow> bool" where
  "mounts_fixed sys m \<equiv> (\<forall>mm. keeps (\<lambda>s. sys_mountMap (sys s) = mm) m)"

text \<open>The options of a volume on its way to the mount: well formed, and none of them excluded for good.\<close>

abbreviation publishable :: "Volume \<times> 'w sys \<Rightarrow> bool" where
  "publishable p \<equiv> opts_wf (v_mountOptions (fst p)) \<and> excludeOptions (v_mountOptions (fst p)) = excludeOptions getDefaultMountOptions"

text \<open>For the witnesses: a node in development mode, and a target path that exists until it is removed.\<close>

definition dev_node_server :: NodeServer where
  "dev_node_server = NewNodeServer ''node'' 10 ''csi.weka.io'' False (WekafsMounter dev_mounter) dev_config"

definition dev_publish :: NodePublishVolumeRequest where
  "dev_publish =
     \<lparr> npr_VolumeId = ''weka/v2/a'', npr_Secrets = [], npr_VolumeContext = None,
       npr_VolumeCapability = Some \<lparr> cap_Mount = True, cap_Block = False \<rparr>, npr_MountFlags = [''rw''], npr_TargetPath = ''/t'',
       npr_Readonly = True \<rparr>"

definition dev_opened :: Volume where
  "dev_opened = (volume_from_id dev_config ''weka/v2/a'')\<lparr>v_mountOptions := prune_options None getDefaultMountOptions\<rparr>"

definition target_env :: "bool env" where
  "target_env =
     null_env\<lparr>env_stat_err := \<lambda>p there. if there then None else Some (Plain ''no such file or directory''),
       env_remove := \<lambda>p there. (None, False)\<rparr>"

definition target_start :: "bool server_state" where
  "target_start =
     \<lparr> st_store = NewApiStore default_config None, st_current = None, st_semaphores = [], st_tracker = None,
       st_sys = \<lparr> sys_client = None, sys_mountMap = [], sys_selinux = None, sys_gc = idle_gc, sys_world = True \<rparr> \<rparr>"

section \<open>Lemmas\<close>

subsection \<open>References\<close>

lemma fixedD: "mounts_fixed sys m \<Longrightarrow> m s = (r, s') \<Longrightarrow> sys_mountMap (sys s') = sys_mountMap (sys s)"
  by (drule spec [where x = "sys_mountMap (sys s)"], drule keepsD [where s = s]) simp_all

lemma balances_keeps:
  assumes "mounts_fixed sys m"
  shows "balances sys E m"
  unfolding balances_def
proof (intro allI impI)
  fix s r s' assume m: "m s = (r, s')" and wf: "counts_wf (sys s)"
  have "sys_mountMap (sys s') = sys_mountMap (sys s)" by (rule fixedD [OF assms m])
  from counts_wf_cong [OF this wf] refCount_cong [OF this]
  show "counts_wf (sys s') \<and> (refCount (sys s') = refCount (sys s) \<or> leaked E (sys s) (sys s'))" by simp
qed

lemma leaked_cong: "sys_mountMap a = sys_mountMap b \<Longrightarrow> leaked E b c \<Longrightarrow> leaked E a c"
  by (simp add: leaked_def refCount_cong [of a b])

lemma balances_bind:
  assumes "mounts_fixed sys m" "\<And>x. balances sys E (f x)"
  shows "balances sys E (go_bind m f)"
  unfolding balances_def
proof (intro allI impI)
  fix s r s' assume run: "go_bind m f s = (r, s')" "r \<noteq> Panic" and wf: "counts_wf (sys s)"
  obtain q s1 where q: "m s = (q, s1)" by (rule prod.exhaust)
  have mm: "sys_mountMap (sys s1) = sys_mountMap (sys s)" by (rule fixedD [OF assms(1) q])
  note wf1 = counts_wf_cong [OF mm wf] refCount_cong [OF mm]
  show "counts_wf (sys s') \<and> (refCount (sys s') = refCount (sys s) \<or> leaked E (sys s) (sys s'))"
  proof (cases q)
    case (Ok x)
    with run q have "f x s1 = (r, s')" by simp
    with assms(2) run(2) wf1 show ?thesis unfolding balances_def by (fastforce intro: leaked_cong [OF mm [symmetric]])
  qed (use run q wf1 in simp_all)
qed

lemma keeps_vol_sys [frame_intros]: "keeps P m \<Longrightarrow> keeps (\<lambda>p. P (snd p)) (on_sys m)"
  by (auto simp: keeps_def on_sys_def split: prod.splits)

lemma keeps_vol_volume [frame_intros]: "keeps (\<lambda>p. P (snd p)) this_volume" "keeps (\<lambda>p. P (snd p)) (modify_volume f)"
  by (simp_all add: keeps_def this_volume_def modify_volume_def)

lemma keeps_the_client [frame_intros]: "keeps P the_client"
  by (simp add: keeps_def the_client_def)

lemma keeps_os_fixed: "keeps (mountMap_is mm) (os_call f)" "keeps P (look g)"
  by (intro mount_keeps) (simp add: keeps_def look_def)

lemmas fixed_intros = frame_intros keeps_vol_sys [OF keeps_os_fixed(1)] keeps_vol_sys [OF keeps_os_fixed(2)]

lemma fixed_bind_target: "mounts_fixed snd (bind_target E N t opts)"
  unfolding bind_target_def full_path_def by (intro allI fixed_intros)

lemma fixed_context: "mounts_fixed snd (context_options S req)"
  unfolding context_options_def setMountOptions_def pruneUnsupportedMountOptions_def by (intro allI fixed_intros)

lemma fixed_override: "mounts_fixed snd (apply_override N f)"
  unfolding apply_override_def by (intro allI fixed_intros)

lemma fixed_merge: "mounts_fixed snd (merge_options N other)"
  unfolding merge_options_def by (intro allI fixed_intros)

lemma fixed_overrides: "mounts_fixed snd (applyMountOptionsOverridesToVolume E N req)"
proof (cases "npr_VolumeContext req")
  case None
  then show ?thesis by (simp add: applyMountOptionsOverridesToVolume_def keeps_basic)
next
  case (Some params)
  then show ?thesis
    unfolding applyMountOptionsOverridesToVolume_def Let_def
    by (simp, intro allI keeps_bind) (simp_all add: fixed_override keeps_basic split: option.split)
qed

lemma fixed_options: "mounts_fixed snd (publish_options E N req)"
  unfolding publish_options_def
  by (intro allI keeps_bind keeps_if keeps_or_fail keeps_basic fixed_overrides [rule_format] fixed_merge [rule_format])

text \<open>The mount of the filesystem is released on every way out of the work done under it.\<close>

lemma release_balances:
  assumes "incRef E m s0 = (Ok (), y1)" "sys_mountMap y2 = sys_mountMap y1" "decRef E m y2 = (q, y3)" "q \<noteq> Panic" "counts_wf s0"
  shows "counts_wf y3 \<and> (refCount y3 = refCount s0 \<or> leaked E s0 y3)"
proof -
  from mounters.inc_Ok [OF assms(5,1)]
  have i: "counts_wf y1" "refCount y1 = (refCount s0)(getRefcountIdx m := refCount s0 (getRefcountIdx m) + 1)"
    by (rule conjunct1, rule conjunct2)
  note 2 = counts_wf_cong [OF assms(2) i(1)] refCount_cong [OF assms(2)]
  show ?thesis
  proof (cases q)
    case (Ok u)
    have "0 < refCount y2 (getRefcountIdx m)" using mounters.nonneg [OF assms(5), of "getRefcountIdx m"] i(2) 2(2) by simp
    moreover from Ok assms(3) have "decRef E m y2 = (Ok (), y3)" by simp
    ultimately have "counts_wf y3 \<and> refCount y3 = (refCount y2)(getRefcountIdx m := refCount y2 (getRefcountIdx m) - 1)"
      by (rule mounters.dec_Ok [OF 2(1)])
    with i(2) 2(2) show ?thesis by (simp add: fun_upd_idem)
  next
    case (Err e)
    with assms(3) have d: "decRef E m y2 = (Err e, y3)" by simp
    from mounters.dec_Err [OF 2(1) this] have y3: "counts_wf y3" "refCount y3 = refCount y2" by (rule conjunct1, rule conjunct2)
    have "leaked E s0 y3" unfolding leaked_def using d y3(2) 2(2) i(2) by (intro exI conjI) (assumption, simp)
    with y3(1) show ?thesis by blast
  qed (use assms(4) in simp)
qed

lemma ignore_release:
  "ignore_error (release_volume E m) p = (r, p') \<Longrightarrow> r \<noteq> Panic \<Longrightarrow> \<exists>q. decRef E m (snd p) = (q, snd p') \<and> q \<noteq> Panic"
  by (cases "release_volume E m p"; cases "fst (release_volume E m p)")
    (auto simp: ignore_error_def go_catch_def dest: release_volume_decRef)

lemma mount_and_bind_balances: "balances snd E (mount_and_bind E N t opts)"
  unfolding balances_def
proof (intro allI impI)
  fix p r p' assume run: "mount_and_bind E N t opts p = (r, p')" "r \<noteq> Panic" and wf: "counts_wf (snd p)"
  obtain q p1 where q: "MountUnderlyingFS E (ns_srv N) p = (q, p1)" by (rule prod.exhaust)
  show "counts_wf (snd p') \<and> (refCount (snd p') = refCount (snd p) \<or> leaked E (snd p) (snd p'))"
  proof (cases q)
    case (Ok m)
    obtain x p2 where b: "bind_target E N t opts p1 = (x, p2)" by (rule prod.exhaust)
    obtain u p3 where u: "ignore_error (release_volume E m) p2 = (u, p3)" by (rule prod.exhaust)
    from run q Ok b u have np: "u \<noteq> Panic" "p3 = p'"
      by (auto simp: mount_and_bind_def defer_release_def split: outcome.splits)
    obtain s0 where s0: "sys_mountMap s0 = sys_mountMap (snd p)" "incRef E m s0 = (Ok (), snd p1)"
      using MountUnderlyingFS_incRef q Ok by blast
    obtain z where z: "decRef E m (snd p2) = (z, snd p')" "z \<noteq> Panic" using ignore_release u np by blast
    have "counts_wf (snd p') \<and> (refCount (snd p') = refCount s0 \<or> leaked E s0 (snd p'))"
      by (rule release_balances [OF s0(2) fixedD [OF fixed_bind_target b] z counts_wf_cong [OF s0(1) wf]])
    with refCount_cong [OF s0(1)] show ?thesis by (auto intro: leaked_cong [OF s0(1) [symmetric]])
  next
    case (Err e)
    with run q have "p' = p1" by (simp add: mount_and_bind_def)
    with MountUnderlyingFS_failed q Err have "sys_mountMap (snd p') = sys_mountMap (snd p)" by blast
    from counts_wf_cong [OF this wf] refCount_cong [OF this] show ?thesis by simp
  qed (use run q in \<open>simp add: mount_and_bind_def\<close>)
qed

lemma balances_raise: "balances sys E (go_raise e)"
  by (rule balances_keeps) (simp add: keeps_basic)

lemma publish_volume_balances: "balances snd E (publish_volume E N req)"
proof -
  have "balances snd E (go_bind (publish_options E N req) (\<lambda>_. mount_and_bind E N t opts))" for t opts
    by (intro balances_bind fixed_options mount_and_bind_balances)
  then have "balances snd E (case npr_VolumeCapability req of None \<Rightarrow> go_raise (Status InvalidArgument)
       | Some c \<Rightarrow>
           if cap_Block c \<and> cap_Mount c then go_raise (Status InvalidArgument)
           else if cap_Block c then go_raise (Status InvalidArgument)
           else if t = [] then go_raise (Status InvalidArgument)
           else go_bind (publish_options E N req) (\<lambda>_. mount_and_bind E N t opts))" for t opts
    by (simp add: balances_raise split: option.split)
  then show ?thesis unfolding publish_volume_def Let_def by (intro balances_bind fixed_context)
qed

lemma on_volume_balances:
  assumes "balances snd E m"
  shows "balances st_sys E (with_volume v (on_volume m))"
  unfolding balances_def
proof (intro allI impI)
  fix s r s' assume run: "with_volume v (on_volume m) s = (r, s')" "r \<noteq> Panic" "counts_wf (st_sys s)"
  obtain q v' y where m: "m (v, st_sys s) = (q, (v', y))" by (metis prod.exhaust)
  with run(1) have "q = r" "st_sys s' = y" by (auto simp: with_volume_def)
  with assms m run(2,3) show "counts_wf (st_sys s') \<and> (refCount (st_sys s') = refCount (st_sys s) \<or> leaked E (st_sys s) (st_sys s'))"
    unfolding balances_def by fastforce
qed

lemma fixed_bind_client: "mounts_fixed st_sys (bind_client E secrets)"
  by (auto simp: keeps_def bind_client_def split: prod.splits outcome.splits)

lemma fixed_from_id: "mounts_fixed st_sys (srv_sys (NewVolumeFromId cfg vid))"
proof -
  have "keeps (mountMap_is mm) (NewVolumeFromId cfg vid)" for mm
    by (auto simp: keeps_def NewVolumeFromId_def go_bind_def lift_go_def new_volume_def initMountOptions_eq split: outcome.splits)
  then show ?thesis by (auto simp: srv_sys_def keeps_def [where m = "srv_sys _"] split: prod.splits dest: keepsD)
qed

lemma fixed_acquire: "mounts_fixed st_sys (acquireSemaphore cfg g op)"
  by (simp add: keeps_def acquireSemaphore_def initializeSemaphore_def)

lemma unbind_mountMap: "sys_mountMap (st_sys (unbind s)) = sys_mountMap (st_sys s)"
  "sys_mountMap (st_sys (put_back s)) = sys_mountMap (st_sys s)"
  by (auto simp: unbind_def put_back_def split: option.splits)

lemma serve_balances:
  assumes "balances st_sys E body"
  shows "balances st_sys E (serve cfg g op body)"
proof -
  have inner: "balances st_sys E (go_bind (go_catch (acquireSemaphore cfg g op) (\<lambda>_. go_raise (Status Unavailable))) (\<lambda>_. body))"
    by (intro balances_bind allI keeps_catch keeps_basic fixed_acquire [rule_format] assms)
  show ?thesis
    unfolding balances_def serve_def in_request_def
  proof (intro allI impI)
    fix s :: "'a server_state" and r s'
    let ?m = "go_bind (go_catch (acquireSemaphore cfg g op) (\<lambda>_. go_raise (Status Unavailable))) (\<lambda>_. body)"
    assume run: "(case ?m (unbind s) of (r, s') \<Rightarrow> (r, unbind (put_back s'))) = (r, s')" "r \<noteq> Panic" and wf: "counts_wf (st_sys s)"
    obtain s1 where m: "?m (unbind s) = (r, s1)" "s' = unbind (put_back s1)" using run(1) by (auto split: prod.splits)
    have s: "sys_mountMap (st_sys (unbind s)) = sys_mountMap (st_sys s)" "sys_mountMap (st_sys s') = sys_mountMap (st_sys s1)"
      using m(2) by (simp_all add: unbind_mountMap)
    have "counts_wf (st_sys s1) \<and> (refCount (st_sys s1) = refCount (st_sys (unbind s)) \<or> leaked E (st_sys (unbind s)) (st_sys s1))"
      using inner m(1) run(2) counts_wf_cong [OF s(1) wf] unfolding balances_def by blast
    then show "counts_wf (st_sys s') \<and> (refCount (st_sys s') = refCount (st_sys s) \<or> leaked E (st_sys s) (st_sys s'))"
      using counts_wf_cong [OF s(2)] refCount_cong [OF s(1)] refCount_cong [OF s(2)] by (simp add: leaked_def)
  qed
qed

subsection \<open>Read-only volumes\<close>

lemma fold_merge_present:
  assumes "(\<exists>e \<in> set xs. moption (snd e) = k) \<or> map_of m k \<noteq> None" "\<forall>e \<in> set xs. \<not> rivals X (moption (snd e)) k"
  shows "map_of (fold (merge_option X) xs m) k \<noteq> None"
  using assms by (induction xs arbitrary: m) (auto simp: map_of_merge_option)

lemma fold_merge_absent:
  "map_of m k = None \<Longrightarrow> \<forall>e \<in> set xs. moption (snd e) \<noteq> k \<Longrightarrow> map_of (fold (merge_option X) xs m) k = None"
  by (induction xs arbitrary: m) (auto simp: map_of_merge_option)

lemma Merge_present:
  assumes "opts_wf other" "map_of (customOptions other) k \<noteq> None" "k \<notin> set (excludeOptions other)"
    and "\<And>k'. rivals X k' k \<Longrightarrow> map_of (customOptions other) k' = None"
  shows "map_of (customOptions (Merge opts other X)) k \<noteq> None"
proof -
  have key: "map_of (customOptions other) (moption (snd e)) = Some (snd e)" if "e \<in> set (customOptions other)" for e
    using assms(1) that by (cases e) (auto simp: opts_wf_def intro: map_of_is_SomeI)
  from assms(2) obtain x where "(k, x) \<in> set (customOptions other)" by (auto dest: map_of_SomeD)
  with assms(1) have "\<exists>e \<in> set (customOptions other). moption (snd e) = k"
    by (intro bexI [of _ "(k, x)"]) (auto simp: opts_wf_def)
  then have "map_of (fold (merge_option X) (customOptions other) (customOptions opts)) k \<noteq> None"
    using assms(4) key by (intro fold_merge_present) fastforce+
  with assms(3) show ?thesis by (simp add: Merge_def map_of_fold_delete)
qed

lemma Merge_absent:
  assumes "opts_wf other" "map_of (customOptions other) k = None" "map_of (customOptions opts) k = None"
  shows "map_of (customOptions (Merge opts other X)) k = None"
proof -
  have "\<forall>e \<in> set (customOptions other). moption (snd e) \<noteq> k"
    using assms(1,2) by (auto simp: opts_wf_def map_of_eq_None_iff image_iff)
  with assms(3) show ?thesis by (simp add: Merge_def map_of_fold_delete fold_merge_absent)
qed

lemma ro_options: "customOptions roMountOptions = [(''ro'', \<lparr> moption = ''ro'', mvalue = [] \<rparr>)]" "excludeOptions roMountOptions = [''rw'']"
  unfolding roMountOptions_def by code_simp+

lemma option_names: "moption (newMountOptionFromString ''ro'') = ''ro''" "moption (newMountOptionFromString ''rw'') = ''rw''"
  by code_simp+

lemma node_defaults_rw: "opts_wf (node_mountOptions cfg)" "map_of (customOptions (node_mountOptions cfg)) ''rw'' = None"
proof -
  have d: "opts_wf getDefaultMountOptions" by (simp add: getDefaultMountOptions_def opts_wf_def)
  then show "opts_wf (node_mountOptions cfg)" by (simp add: node_mountOptions_def)
  have "map_of (customOptions (NewMountOptionsFromString NodeServerAdditionalMountOptions)) ''rw'' = None" by code_simp
  then show "map_of (customOptions (node_mountOptions cfg)) ''rw'' = None"
    by (simp add: node_mountOptions_def MergedWith_def Merge_absent getDefaultMountOptions_def cloneCustomOptions_def)
qed

lemma excludes_Merge: "excludeOptions (Merge o1 o2 X) = excludeOptions o1"
  by (simp add: Merge_def)

lemma publishable_prune: 
  assumes "opts_wf opts"
  shows "opts_wf (prune_options ac opts) \<and> excludeOptions (prune_options ac opts) = excludeOptions opts"
  using assms by (simp add: prune_options_def Let_def RemoveOption_delete split: option.split)

lemma ApplyToOptions_wf:
  assumes "opts_wf opts"
  shows "opts_wf (fst (ApplyToOptions mo opts X)) \<and> excludeOptions (fst (ApplyToOptions mo opts X)) = excludeOptions opts"
proof -
  let ?ok = "\<lambda>st. opts_wf (snd (snd st)) \<and> excludeOptions (snd (snd st)) = excludeOptions opts"
  have "?ok (apply_part X part st)" if "?ok st" for part st
    using that by (auto simp: apply_part_def merge_shared_def Let_def excludes_Merge RemoveOption_delete split: prod.splits)
  then have "?ok (fold (apply_part X) parts st)" if "?ok st" for parts st
    using that by (induction parts arbitrary: st) simp_all
  from this [of "(opts, True, opts)" "strings_Split (CHR '','') mo"] assms show ?thesis
    by (cases "fold (apply_part X) (strings_Split (CHR '','') mo) (opts, True, opts)") (simp add: ApplyToOptions_def)
qed

lemma publishable_modify: "(\<And>v. publishable (v, y) \<Longrightarrow> publishable (f v, y)) \<Longrightarrow> keeps publishable (modify_volume f)"
  by (auto simp: keeps_def modify_volume_def)

lemma publishable_reads: "keeps publishable (on_sys m)"
  by (auto simp: keeps_def on_sys_def split: prod.splits)

lemma publishable_steps: "keeps publishable (merge_options N other)" "keeps publishable (setMountOptions S other)"
  "keeps publishable pruneUnsupportedMountOptions" "keeps publishable (apply_override N f)"
  unfolding merge_options_def setMountOptions_def pruneUnsupportedMountOptions_def apply_override_def
  by (intro keeps_bind keeps_if keeps_basic publishable_reads publishable_modify;
      simp add: excludes_Merge publishable_prune ApplyToOptions_wf)+

lemma publishable_context: "keeps publishable (context_options S req)"
  unfolding context_options_def by (intro keeps_option keeps_bind keeps_basic publishable_steps)

lemma publishable_overrides: "keeps publishable (applyMountOptionsOverridesToVolume E N req)"
proof (cases "npr_VolumeContext req")
  case None
  then show ?thesis by (simp add: applyMountOptionsOverridesToVolume_def keeps_basic)
next
  case (Some params)
  then show ?thesis
    unfolding applyMountOptionsOverridesToVolume_def Let_def
    by (simp, intro keeps_bind) (simp_all add: publishable_steps keeps_basic split: option.split)
qed

lemma publishable_new:
  assumes "NewVolumeFromId cfg vid y = (Ok v, y')"
  shows "publishable (v, y')"
proof -
  have "opts_wf getDefaultMountOptions" by (simp add: getDefaultMountOptions_def opts_wf_def)
  with assms publishable_prune show ?thesis
    by (auto simp: NewVolumeFromId_def lift_go_def new_volume_def initMountOptions_eq elim!: go_bind_OkE)
qed

lemma readonly_options:
  assumes "npr_Readonly req" "publish_options E N req p = (Ok (), p')" "publishable p"
  shows "\<exists>o1. publishable p' \<and> v_mountOptions (fst p') = Merge o1 roMountOptions (dc_mutuallyExclusiveOptions (ns_config N))"
proof -
  from assms(1,2) obtain p1 where m: "merge_options N roMountOptions p1 = (Ok (), p')"
    by (auto simp: publish_options_def elim!: go_bind_OkE)
  have "keeps publishable (publish_options E N req)"
    unfolding publish_options_def by (intro keeps_bind keeps_if keeps_or_fail keeps_basic publishable_steps publishable_overrides)
  from keepsD [OF this assms(3,2)] m show ?thesis by (cases p1) (auto simp: merge_options_def modify_volume_def)
qed

lemma ro_survives:
  assumes "publishable p" "v_mountOptions (fst p) = Merge o1 roMountOptions X" "opts_wf d" "map_of (customOptions d) ''rw'' = None"
  shows "hasOption (MergedWith d (v_mountOptions (fst p)) X) ''ro'' \<and> \<not> hasOption (MergedWith d (v_mountOptions (fst p)) X) ''rw''"
proof -
  let ?o = "v_mountOptions (fst p)"
  have wf: "opts_wf ?o" and x: "''ro'' \<notin> set (excludeOptions ?o)" using assms(1) by (simp_all add: getDefaultMountOptions_def)
  have ro: "map_of (customOptions ?o) ''ro'' \<noteq> None" and rw: "map_of (customOptions ?o) ''rw'' = None"
    by (auto simp: assms(2) Merge_def ro_options map_of_fold_delete map_of_merge_option rivals_def)
  have r: "map_of (customOptions ?o) k = None" if "rivals X ''ro'' k" for k
    using that by (auto simp: assms(2) Merge_def ro_options map_of_fold_delete map_of_merge_option rivals_def)
  have sym: "rivals X k ''ro'' \<Longrightarrow> rivals X ''ro'' k" for k by (auto simp: rivals_def)
  have "map_of (customOptions (Merge d' ?o X)) ''ro'' \<noteq> None" for d'
    by (rule Merge_present [OF wf ro x r [OF sym]])
  moreover have "map_of (customOptions (Merge \<lparr> customOptions = customOptions d, excludeOptions = excludeOptions d \<rparr> ?o X)) ''rw'' = None"
    by (rule Merge_absent [OF wf rw]) (simp add: assms(4))
  ultimately show ?thesis using assms(3) by (simp add: MergedWith_def hasOption_def option_names)
qed

subsection \<open>Statistics\<close>

text \<open>As long as the sizes fit, the used part is what is not available.\<close>

lemma volume_stats_add_up:
  assumes "0 \<le> sf_Bavail st" "sf_Bavail st \<le> sf_Blocks st" "0 < sf_Bsize st" "in_int64 (sf_Blocks st * sf_Bsize st)"
  shows "UsedBytes (volume_stats st) + AvailableBytes (volume_stats st) = TotalBytes (volume_stats st)"
    and "0 \<le> UsedBytes (volume_stats st)" "TotalBytes (volume_stats st) = sf_Blocks st * sf_Bsize st"
proof -
  have b: "sf_Blocks st \<le> sf_Blocks st * sf_Bsize st" "sf_Bavail st * sf_Bsize st \<le> sf_Blocks st * sf_Bsize st"
    "sf_Bavail st \<le> sf_Bavail st * sf_Bsize st"
    using assms(1-3) by (simp_all add: mult_le_cancel_left1)
  have n: "0 \<le> sf_Bavail st * sf_Bsize st" using assms(1,3) by simp
  with b assms have "in_int64 (sf_Blocks st)" "in_int64 (sf_Bavail st)" "in_int64 (sf_Bavail st * sf_Bsize st)"
    unfolding in_int64_def by linarith+
  moreover from b n assms(4) have "in_int64 (sf_Blocks st * sf_Bsize st - sf_Bavail st * sf_Bsize st)"
    unfolding in_int64_def by linarith
  ultimately show "UsedBytes (volume_stats st) + AvailableBytes (volume_stats st) = TotalBytes (volume_stats st)"
    and "0 \<le> UsedBytes (volume_stats st)" "TotalBytes (volume_stats st) = sf_Blocks st * sf_Bsize st"
    using assms(4) b(2) by (simp_all add: volume_stats_def Let_def int64_id)
qed

subsection \<open>Unpublishing\<close>

lemma unmount_target_gone:
  assumes "\<forall>w w'. env_remove E t w = (None, w') \<longrightarrow> env_stat_err E t w' = Some e"
    and "unmount_target E t y = (Ok (), y')"
  shows "env_stat_err E t (sys_world y') = Some e"
  using assms by (auto simp: unmount_target_def or_fail_def os_call_def elim!: go_bind_OkE
      dest!: catch_raise_Ok split: prod.splits option.splits)

lemma unpublish_target_gone:
  assumes "\<forall>w w'. env_remove E t w = (None, w') \<longrightarrow> env_stat_err E t w' = Some e" "os_IsNotExist e"
    and "unpublish_target E N t y = (Ok (), y')"
  shows "\<exists>e'. env_stat_err E t (sys_world y') = Some e' \<and> os_IsNotExist e'"
proof -
  have u: "env_stat_err E t (sys_world y2) = Some e" if "unmount_target E t y1 = (Ok (), y2)" for y1 y2
    by (rule unmount_target_gone [OF assms(1) that])
  have r: "env_stat_err E t (sys_world y2) = Some e" if "or_fail (os_call (env_remove E t)) Internal y1 = (Ok (), y2)" for y1 y2
    using that assms(1) by (auto simp: or_fail_def os_call_def dest!: catch_raise_Ok split: prod.splits option.splits)
  show ?thesis
  proof (cases "env_stat_err E t (sys_world y)")
    case None
    with assms(3) have "unmount_target E t y = (Ok (), y') \<or> or_fail (os_call (env_remove E t)) Internal y = (Ok (), y')"
      by (simp add: unpublish_target_def look_def go_bind_def split: if_splits)
    with u r assms(2) show ?thesis by blast
  next
    case (Some e1)
    with assms(3) have "(os_IsNotExist e1 \<and> y' = y) \<or> unmount_target E t y = (Ok (), y')"
      by (simp add: unpublish_target_def look_def split: if_splits)
    with u assms(2) Some show ?thesis by blast
  qed
qed

lemma unpublish_gone:
  "env_stat_err E t (sys_world y) = Some e \<Longrightarrow> os_IsNotExist e \<Longrightarrow> unpublish_target E N t y = (Ok (), y)"
  by (simp add: unpublish_target_def look_def)

lemma request_world: "sys_world (st_sys (unbind (put_back s))) = sys_world (st_sys s)"
  by (simp add: unbind_def put_back_def split: option.splits)

lemma unbind_idle: "st_current s = None \<Longrightarrow> sys_client (st_sys s) = None \<Longrightarrow> unbind s = s"
  by (simp add: unbind_def)

lemma put_back_idle: "st_current s = None \<Longrightarrow> put_back s = s"
  by (simp add: put_back_def)

lemma NodeUnpublish_empty: "\<exists>s'. NodeUnpublishVolume E N True [] s = (Err (Status InvalidArgument), s')"
  by (simp add: NodeUnpublishVolume_def serve_def in_request_def acquireSemaphore_def)

lemma NodeUnpublish_run:
  assumes "t \<noteq> []"
  shows "NodeUnpublishVolume E N True t s =
    (let s0 = initializeSemaphore (ns_config N) ''NodeUnpublishVolume'' (unbind s)
     in case unpublish_target E N t (st_sys s0) of (r, y) \<Rightarrow> (r, unbind (put_back (s0\<lparr>st_sys := y\<rparr>))))"
  using assms by (simp add: NodeUnpublishVolume_def serve_def in_request_def acquireSemaphore_def srv_sys_def Let_def split: prod.split)

lemma initialized_request:
  "initializeSemaphore cfg op (unbind (put_back ((initializeSemaphore cfg op s)\<lparr>st_sys := y\<rparr>))) =
     unbind (put_back ((initializeSemaphore cfg op s)\<lparr>st_sys := y\<rparr>))"
proof -
  have "map_of (st_semaphores (unbind (put_back ((initializeSemaphore cfg op s)\<lparr>st_sys := y\<rparr>)))) op \<noteq> None"
    by (auto simp: initializeSemaphore_def unbind_def put_back_def split: option.split)
  then show ?thesis by (simp add: initializeSemaphore_def [of _ _ "unbind _"])
qed

subsection \<open>The node of the witnesses\<close>

lemma dev_node_fields: "ns_config dev_node_server = dev_config" "srv_mounter (ns_srv dev_node_server) = WekafsMounter dev_mounter"
  "ns_manager dev_node_server = False"
  by (simp_all add: dev_node_server_def NewNodeServer_def)

lemma dev_opened_from_id:
  "NewVolumeFromId (ns_config dev_node_server) (npr_VolumeId dev_publish) sys_start = (Ok dev_opened, sys_start)"
proof -
  have "validateVolumeId ''weka/v2/a'' = Ok ()" by code_simp
  from NewVolumeFromId_eq [OF this, of dev_config sys_start] show ?thesis
    by (simp add: dev_node_fields dev_publish_def dev_opened_def sys_start_def)
qed

lemma dev_context: "context_options (ns_srv dev_node_server) dev_publish p = (Ok (), p)"
  by (simp add: context_options_def dev_publish_def)

lemma dev_options: "\<exists>v'. publish_options null_env dev_node_server dev_publish (v, y) = (Ok (), (v', y))"
  by (simp add: publish_options_def merge_options_def modify_volume_def dev_node_fields dev_publish_def)

lemma dev_mounted: "\<exists>p'. mount_and_bind null_env dev_node_server t opts (v, y) = (Ok (), p')"
proof -
  obtain pm y1 m where m: "mountWithOptions null_env (WekafsMounter dev_mounter) (v_FilesystemName v)
      (volume_mount_options (ns_srv dev_node_server) v) y = (Ok pm, y1)" "snd pm = WekafsMount m"
    using dev_mountWithOptions [OF dev_node_null] by blast
  then have M: "MountUnderlyingFS null_env (ns_srv dev_node_server) (v, y) = (Ok (WekafsMount m), (v\<lparr>v_mountPath := fst pm\<rparr>, y1))"
    by (cases pm) (simp add: MountUnderlyingFS_def this_volume_def modify_volume_def on_sys_def dev_node_fields del: mountWithOptions.simps)
  have b: "bind_target null_env dev_node_server t opts (v1, y1) = (Ok (), (v1, y1))" for v1
    by (simp add: bind_target_def full_path_def this_volume_def on_sys_def os_call_def or_fail_def null_env_def go_bind_def)
  obtain y3 where "wekafs_decRef null_env m y1 = (Ok (), y3)" using dev_release_any [OF dev_node_null] by blast
  then have "release_volume null_env (WekafsMount m) (v1, y1) = (Ok (), (v1\<lparr>v_mountPath := []\<rparr>, y3))" for v1
    by (simp add: release_volume_def on_sys_def modify_volume_def lift_go_def)
  with M b show ?thesis by (simp add: mount_and_bind_def defer_release_def ignore_error_def)
qed

lemma dev_published: "\<exists>s'. NodePublishVolume null_env dev_node_server True dev_publish idle_controller = (Ok (), s')"
proof -
  let ?s = "initializeSemaphore dev_config ''NodePublishVolume'' (unbind idle_controller)"
  let ?s1 = "?s\<lparr>st_current := None, st_sys := (st_sys ?s)\<lparr>sys_client := None\<rparr>\<rparr>"
  have y: "st_store ?s = NewApiStore default_config None" "st_sys ?s1 = sys_start"
    by (simp_all add: initializeSemaphore_def unbind_def idle_controller_def sys_start_def)
  have bind: "bind_client null_env (npr_Secrets dev_publish) ?s = (Ok (), ?s1)"
    using y by (simp add: bind_client_def GetClientFromSecrets_def dev_publish_def NewApiStore_def)
  have n: "srv_sys (NewVolumeFromId dev_config (npr_VolumeId dev_publish)) ?s1 = (Ok dev_opened, ?s1)"
    using dev_opened_from_id y(2) by (simp add: srv_sys_def dev_node_fields)
  obtain v1 where o: "publish_options null_env dev_node_server dev_publish (dev_opened, sys_start) = (Ok (), (v1, sys_start))"
    using dev_options by blast
  have "filepath_Clean ''/t'' \<noteq> []" by code_simp
  with o dev_mounted [of "filepath_Clean ''/t''" "innerMountOpts dev_publish" v1 sys_start] obtain p' where
    "publish_volume null_env dev_node_server dev_publish (dev_opened, sys_start) = (Ok (), p')"
    unfolding publish_volume_def by (auto simp: dev_context) (auto simp: dev_publish_def)
  then obtain s2 where "with_volume dev_opened (on_volume (publish_volume null_env dev_node_server dev_publish)) ?s1 = (Ok (), s2)"
    using y(2) by (cases p') (auto simp: with_volume_def)
  with n bind show ?thesis
    by (simp add: NodePublishVolume_def serve_def in_request_def acquireSemaphore_def dev_node_fields or_fail_def)
qed

lemma target_unpublished: "\<exists>s'. NodeUnpublishVolume target_env dev_node_server True ''/t'' target_start = (Ok (), s')"
proof -
  have "\<exists>y'. unpublish_target target_env dev_node_server ''/t'' y = (Ok (), y')" for y
    by (simp add: unpublish_target_def unmount_target_def look_def go_bind_def or_fail_def go_catch_def os_call_def target_env_def
        null_env_def os_IsNotExist_def split: option.split)
  then show ?thesis by (subst NodeUnpublish_run) (auto simp: Let_def split: prod.split, metis prod.inject)
qed

section \<open>Properties\<close>

text \<open>
  C8: publishing a volume leaves the mounts of the filesystems as they were, whichever way the request ends: when
  it returns, with success or an error, every reference count is what it was before the request, unless the
  unmount of the filesystem failed, and then exactly the reference of that mount is left.
\<close>

theorem NodePublish_references:
  assumes "NodePublishVolume E N granted req s = (r, s')" "r \<noteq> Panic" "counts_wf (st_sys s)"
  shows "counts_wf (st_sys s') \<and> (refCount (st_sys s') = refCount (st_sys s) \<or> leaked E (st_sys s) (st_sys s'))"
proof -
  have "balances st_sys E (NodePublishVolume E N granted req)"
    unfolding NodePublishVolume_def
    by (intro serve_balances balances_bind on_volume_balances publish_volume_balances allI keeps_or_fail
        fixed_bind_client [rule_format] fixed_from_id [rule_format])
  with assms show ?thesis unfolding balances_def by blast
qed

theorem NodePublish_references_witness:
  "\<exists>s'. NodePublishVolume null_env dev_node_server True dev_publish idle_controller = (Ok (), s') \<and> counts_wf (st_sys s')
     \<and> (refCount (st_sys s') = refCount (st_sys idle_controller) \<or> leaked null_env (st_sys idle_controller) (st_sys s'))"
proof -
  obtain s' where "NodePublishVolume null_env dev_node_server True dev_publish idle_controller = (Ok (), s')"
    using dev_published by blast
  moreover have "counts_wf (st_sys idle_controller)"
    by (simp add: idle_controller_def counts_wf_def refCount_def sys_start_def)
  ultimately show ?thesis using NodePublish_references by blast
qed



text \<open>
  C13: unpublishing is idempotent: after a successful request, given that a path that was removed does not exist,
  the request succeeds again and changes nothing.
\<close>

theorem NodeUnpublish_idempotent:
  assumes "\<forall>w w'. env_remove E t w = (None, w') \<longrightarrow> env_stat_err E t w' = Some e" "os_IsNotExist e"
    and "NodeUnpublishVolume E N True t s = (Ok (), s')"
  shows "NodeUnpublishVolume E N True t s' = (Ok (), s')"
proof -
  let ?s0 = "initializeSemaphore (ns_config N) ''NodeUnpublishVolume'' (unbind s)"
  have t: "t \<noteq> []" using assms(3) NodeUnpublish_empty [of E N s] by (intro notI) auto
  obtain y where y: "unpublish_target E N t (st_sys ?s0) = (Ok (), y)" and s': "s' = unbind (put_back (?s0\<lparr>st_sys := y\<rparr>))"
    using assms(3) unfolding NodeUnpublish_run [OF t] Let_def by (auto split: prod.splits)
  obtain e' where e': "env_stat_err E t (sys_world (st_sys s')) = Some e'" "os_IsNotExist e'"
    using unpublish_target_gone [OF assms(1,2) y] by (auto simp: s' request_world)
  have idle: "st_current s' = None" "sys_client (st_sys s') = None" by (simp_all add: s' unbind_def)
  have "initializeSemaphore (ns_config N) ''NodeUnpublishVolume'' s' = s'"
    unfolding s' by (rule initialized_request)
  with unpublish_gone [OF e'] show ?thesis
    unfolding NodeUnpublish_run [OF t] unbind_idle [OF idle] Let_def by (simp add: unbind_idle [OF idle] put_back_idle [OF idle(1)])
qed

theorem NodeUnpublish_idempotent_witness:
  "\<exists>s'. NodeUnpublishVolume target_env dev_node_server True ''/t'' target_start = (Ok (), s')
     \<and> NodeUnpublishVolume target_env dev_node_server True ''/t'' s' = (Ok (), s')"
proof -
  obtain s' where s': "NodeUnpublishVolume target_env dev_node_server True ''/t'' target_start = (Ok (), s')"
    using target_unpublished by blast
  have "\<forall>w w'. env_remove target_env ''/t'' w = (None, w') \<longrightarrow> env_stat_err target_env ''/t'' w' = Some (Plain ''no such file or directory'')"
    by (simp add: target_env_def)
  from NodeUnpublish_idempotent [OF this _ s'] s' show ?thesis by (auto simp: os_IsNotExist_def)
qed

end
