(* ===== verification/Driver.thy ===== *)
theory Driver
  imports Node
begin

text \<open>
  The driver (\<open>pkg/wekafs/wekafs.go\<close>), its identity service (\<open>identityserver.go\<close>), the address of its gRPC
  server (\<open>server.go\<close>) and the command that starts it (\<open>cmd/wekafsplugin/main.go\<close>): what a driver in each of
  the three modes makes of its configuration, and how it manages the labels of its node.

  The Kubernetes client library is a parameter: whether a configuration for the cluster can be had, whether a
  manager can be made of it, and the labels of the node.  Calls act on the state of the outside world alone.
\<close>

section \<open>Definitions\<close>

subsection \<open>The driver\<close>

record WekaFsDriver =
  drv_name :: string
  drv_nodeID :: string
  drv_version :: string
  drv_endpoint :: string
  drv_maxVolumesPerNode :: int
  drv_debugPath :: string
  drv_csiMode :: CsiPluginMode
  drv_selinuxSupport :: bool
  drv_config :: DriverConfig

definition LeaderStateDir :: string where
  "LeaderStateDir = ''/leader-state''"

definition LeaderReadyFile :: string where
  "LeaderReadyFile = ''/leader-state/leader_ready''"

definition HealthProbePort :: string where
  "HealthProbePort = ''8081''"

definition NewWekaFsDriver ::
  "string \<Rightarrow> string \<Rightarrow> string \<Rightarrow> int \<Rightarrow> string \<Rightarrow> string \<Rightarrow> CsiPluginMode \<Rightarrow> bool \<Rightarrow> DriverConfig \<Rightarrow> WekaFsDriver go" where
  "NewWekaFsDriver driverName nodeID endpoint maxVolumesPerNode version debugPath csiMode selinuxSupport cfg =
     (if driverName = [] then Err (Plain ''no driver name provided'')
      else if nodeID = [] then Err (Plain ''no node id provided'')
      else if endpoint = [] then Err (Plain ''no driver endpoint provided'')
      else Ok \<lparr> drv_name = driverName, drv_nodeID = nodeID, drv_version = (if version \<noteq> [] then version else ''dev''),
                drv_endpoint = endpoint, drv_maxVolumesPerNode = maxVolumesPerNode, drv_debugPath = debugPath,
                drv_csiMode = csiMode, drv_selinuxSupport = selinuxSupport, drv_config = cfg \<rparr>)"

definition controls :: "CsiPluginMode \<Rightarrow> bool" where
  "controls mode \<longleftrightarrow> mode = CsiModeController \<or> mode = CsiModeAll"

definition mounts_volumes :: "CsiPluginMode \<Rightarrow> bool" where
  "mounts_volumes mode \<longleftrightarrow> mode = CsiModeNode \<or> mode = CsiModeAll"

subsection \<open>Files\<close>

definition LegacySecretPath :: string where
  "LegacySecretPath = ''/legacy-volume-access''"

text \<open>\<open>os.ReadFile\<close> is the argument \<open>readFile\<close>.\<close>

fun read_secrets :: "'w env \<Rightarrow> (string \<Rightarrow> string option) \<Rightarrow> 'w \<Rightarrow> string list \<Rightarrow> (string, string) gomap go" where
  "read_secrets E readFile w [] = Ok []"
| "read_secrets E readFile w (k # ks) =
     (let filePath = LegacySecretPath @ ''/'' @ k
      in if (\<exists>e \<in> set_option (env_stat_err E filePath w). os_IsNotExist e)
         then Err (Plain ''missing key in legacy secret configuration'')
         else case readFile filePath of
                None \<Rightarrow> Err (Plain ''could not read key from legacy secret configuration'')
              | Some contents \<Rightarrow> bind_outcome (read_secrets E readFile w ks) (\<lambda>m. Ok ((k, contents) # m)))"

definition GetDefaultSecrets :: "'w env \<Rightarrow> (string \<Rightarrow> string option) \<Rightarrow> 'w \<Rightarrow> (string, string) gomap go" where
  "GetDefaultSecrets E readFile w =
     (if env_stat E LegacySecretPath w \<noteq> Directory then Err (Plain ''no legacy secret exists'')
      else read_secrets E readFile w [''scheme'', ''endpoints'', ''organization'', ''username'', ''password''])"

text \<open>\<open>NewApiStore\<close> with the secrets it finds.\<close>

definition new_store :: "'w env \<Rightarrow> (string \<Rightarrow> string option) \<Rightarrow> DriverConfig \<Rightarrow> 'w \<Rightarrow> ApiStore" where
  "new_store E readFile cfg w =
     NewApiStore cfg (case GetDefaultSecrets E readFile w of Ok secrets \<Rightarrow> Some secrets | _ \<Rightarrow> None)"

definition getOwnNamespace :: "'w env \<Rightarrow> (string \<Rightarrow> string option) \<Rightarrow> string go" where
  "getOwnNamespace E readFile =
     (if env_getenv E ''POD_NAMESPACE'' \<noteq> [] then Ok (env_getenv E ''POD_NAMESPACE'')
      else case readFile ''/var/run/secrets/kubernetes.io/serviceaccount/namespace'' of
             None \<Rightarrow> Err (Plain ''failed to detect namespace'')
           | Some ns \<Rightarrow> Ok ns)"

definition removeLeaderReadyFile :: "'w env \<Rightarrow> ('w, unit) call" where
  "removeLeaderReadyFile E w =
     (case env_remove E LeaderReadyFile w of
        (Some e, w') \<Rightarrow> if os_IsNotExist e then (Ok (), w') else (Err (Plain ''failed to remove leader ready file''), w')
      | (None, w') \<Rightarrow> (Ok (), w'))"

text \<open>\<open>os.WriteFile\<close> is the argument \<open>writeFile\<close>.\<close>

definition createLeaderReadyFile :: "'w env \<Rightarrow> (string \<Rightarrow> 'w \<Rightarrow> go_error option \<times> 'w) \<Rightarrow> ('w, unit) call" where
  "createLeaderReadyFile E writeFile w =
     (case env_mkdir_all E LeaderStateDir w of
        (Some e, w') \<Rightarrow> (Err (Plain ''failed to create leader state directory''), w')
      | (None, w') \<Rightarrow>
          (case writeFile LeaderReadyFile w' of
             (Some e, w'') \<Rightarrow> (Err (Plain ''failed to create leader ready file''), w'')
           | (None, w'') \<Rightarrow> (Ok (), w'')))"

subsection \<open>The address of the server\<close>

text \<open>\<open>strings.ToLower\<close> of an ASCII string.\<close>

definition char_lower :: "char \<Rightarrow> char" where
  "char_lower c =
     (if 65 \<le> (of_char c :: nat) \<and> (of_char c :: nat) \<le> 90 then char_of ((of_char c :: nat) + 32) else c)"

definition ToLower :: "string \<Rightarrow> string" where
  "ToLower s = map char_lower s"

text \<open>\<open>strings.SplitN(ep, "://", 2)\<close>\<close>

fun split_scheme :: "string \<Rightarrow> (string \<times> string) option" where
  "split_scheme [] = None"
| "split_scheme (x # xs) =
     (if HasPrefix (x # xs) ''://'' then Some ([], drop 3 (x # xs))
      else map_option (\<lambda>(a, b). (x # a, b)) (split_scheme xs))"

definition parseEndpoint :: "string \<Rightarrow> (string \<times> string) go" where
  "parseEndpoint ep =
     (if HasPrefix (ToLower ep) ''unix://'' \<or> HasPrefix (ToLower ep) ''tcp://''
      then (case split_scheme ep of
              Some (proto, addr) \<Rightarrow> if addr \<noteq> [] then Ok (proto, addr) else Err (Plain ''invalid endpoint'')
            | None \<Rightarrow> Err (Plain ''invalid endpoint''))
      else Err (Plain ''invalid endpoint''))"

text \<open>The listener of \<open>serve\<close>: on an invalid endpoint the code logs nothing and goes on with empty strings.\<close>

definition listen_address :: "string \<Rightarrow> string \<times> string" where
  "listen_address endpoint =
     (case parseEndpoint endpoint of
        Ok (proto, addr) \<Rightarrow> if proto = ''unix'' then (proto, ''/'' @ addr) else (proto, addr)
      | _ \<Rightarrow> ([], []))"

datatype csi_service = IdentityService | ControllerService | NodeService

definition registered_services :: "CsiPluginMode \<Rightarrow> csi_service list" where
  "registered_services mode =
     IdentityService # (if controls mode then [ControllerService] else []) @ (if mounts_volumes mode then [NodeService] else [])"

subsection \<open>The Kubernetes manager\<close>

datatype kube_config = InCluster | NotInCluster | ConfigFailed

record manager_options =
  mo_StripVolumes :: bool   \<comment> \<open>the cache keeps only what capacity validation needs\<close>
  mo_HealthProbeBindAddress :: string
  mo_LeaderElection :: bool
  mo_LeaderElectionNamespace :: string
  mo_LeaderElectionID :: string
  mo_LeaderElectionReleaseOnCancel :: bool

definition kube_client :: "'w env \<Rightarrow> kube_config \<Rightarrow> (string \<Rightarrow> bool) \<Rightarrow> unit go" where
  "kube_client E config buildConfig =
     (case config of
        InCluster \<Rightarrow> Ok ()
      | ConfigFailed \<Rightarrow> Err (Plain ''failed to get in-cluster config'')
      | NotInCluster \<Rightarrow>
          if env_getenv E ''KUBECONFIG'' = [] then Err (Plain ''not in cluster and KUBECONFIG not set'')
          else if buildConfig (env_getenv E ''KUBECONFIG'') then Ok () else Err (Plain ''failed to build config from kubeconfig''))"

text \<open>The options the manager is made with; \<open>newManager\<close> says whether the library makes it and \<open>addCheck\<close>
  whether it takes the health check.\<close>

definition initManager ::
  "'w env \<Rightarrow> WekaFsDriver \<Rightarrow> kube_config \<Rightarrow> (string \<Rightarrow> bool) \<Rightarrow> (string \<Rightarrow> string option) \<Rightarrow> (manager_options \<Rightarrow> bool) \<Rightarrow> bool
    \<Rightarrow> bool \<Rightarrow> manager_options go" where
  "initManager E d config buildConfig readFile newManager addCheck leaderElection =
     bind_outcome (kube_client E config buildConfig) (\<lambda>_.
     bind_outcome
       (let opts = \<lparr> mo_StripVolumes = dc_enforceDirVolTotalCapacity (drv_config d), mo_HealthProbeBindAddress = [],
                     mo_LeaderElection = False, mo_LeaderElectionNamespace = [], mo_LeaderElectionID = [],
                     mo_LeaderElectionReleaseOnCancel = False \<rparr>
        in if \<not> leaderElection then Ok opts
           else bind_outcome (getOwnNamespace E readFile) (\<lambda>namespace.
             Ok (opts\<lparr>mo_HealthProbeBindAddress :=
                        '':'' @ (if env_getenv E ''HEALTH_PORT'' = [] then HealthProbePort else env_getenv E ''HEALTH_PORT''),
                      mo_LeaderElection := True, mo_LeaderElectionNamespace := namespace,
                      mo_LeaderElectionID := drv_name d @ ''-controller-leader'',
                      mo_LeaderElectionReleaseOnCancel := True\<rparr>))) (\<lambda>opts.
       if \<not> newManager opts then Err (Plain ''failed to create manager'')
       else if leaderElection
       then bind_outcome (parseEndpoint (drv_endpoint d)) (\<lambda>_. if addCheck then Ok opts else Err (Plain ''failed to add health check''))
       else Ok opts))"

text \<open>The health check of the manager; \<open>dials\<close> says whether the socket of the server accepts a connection.\<close>

definition healthz :: "DriverConfig \<Rightarrow> bool \<Rightarrow> bool \<Rightarrow> bool \<Rightarrow> unit go" where
  "healthz cfg isLeader dials running =
     (if \<not> isLeader then Ok ()
      else if \<not> dials then Err (Plain ''grpc server not accessible'')
      else if \<not> dc_useNfs cfg \<and> \<not> dc_allowNfsFailback cfg \<and> \<not> DriverConfig_isInDevMode cfg \<and> \<not> running
      then Err (Plain ''weka client not running or unresponsive'') else Ok ())"

text \<open>What the cache of the manager keeps of a persistent volume; the fields of \<open>full_volume\<close> stand for the
  metadata, specification and status beyond what the driver reads.\<close>

record full_volume = persistent_volume +
  fv_Name :: string
  fv_UID :: string
  fv_ResourceVersion :: string
  fv_Phase :: string
  fv_Labels :: "(string, string) gomap"
  fv_Annotations :: "(string, string) gomap"
  fv_ClaimRef :: string
  fv_MountOptions :: "string list"
  fv_VolumeAttributes :: "(string, string) gomap"

definition stripUnnecessaryPVFields :: "full_volume \<Rightarrow> full_volume" where
  "stripUnnecessaryPVFields pv =
     pv\<lparr>fv_Labels := [], fv_Annotations := [], fv_ClaimRef := [], fv_MountOptions := [], fv_VolumeAttributes := []\<rparr>"

subsection \<open>Labels of the node\<close>

text \<open>\<open>readNodeTopologyLabels\<close>; a missing map reads as an empty one.\<close>

definition readNodeTopologyLabels :: "'w env \<Rightarrow> WekaFsDriver \<Rightarrow> 'w \<Rightarrow> NodeServer \<Rightarrow> NodeServer" where
  "readNodeTopologyLabels E d w N =
     (if \<not> ns_manager N then N
      else case env_node E (drv_nodeID d) w of
             None \<Rightarrow> N
           | Some labels \<Rightarrow>
               (let lookup = (\<lambda>k. Option.bind labels (\<lambda>m. map_of m k));
                    N1 = (case lookup TopologyKeyZone of Some zone \<Rightarrow> N\<lparr>ns_zone := zone\<rparr> | None \<Rightarrow> N)
                in case lookup TopologyKeyRegion of Some region \<Rightarrow> N1\<lparr>ns_region := region\<rparr> | None \<Rightarrow> N1))"

definition node_transport :: "'w env \<Rightarrow> DriverConfig \<Rightarrow> 'w \<Rightarrow> string" where
  "node_transport E cfg w =
     (if dc_useNfs cfg then ''nfs'' else if dc_allowNfsFailback cfg \<and> \<not> isWekaRunning E w then ''nfs'' else ''wekafs'')"

definition labelsToSet :: "WekaFsDriver \<Rightarrow> string \<Rightarrow> (string, string) gomap" where
  "labelsToSet d transport =
     AList.update (TopologyLabelTransportPattern (drv_name d)) transport
       (AList.update (TopologyLabelWekaLocalPattern (drv_name d)) ''true''
         (AList.update (TopologyLabelNodePattern (drv_name d)) (drv_nodeID d) [(TopologyKeyNode, drv_nodeID d)]))"

text \<open>The range over \<open>labelsToSet\<close>: the labels afterwards and whether one was changed.\<close>

definition set_label :: "string \<times> string \<Rightarrow> (string, string) gomap \<times> bool \<Rightarrow> (string, string) gomap \<times> bool" where
  "set_label e p = (if map_of (fst p) (fst e) = Some (snd e) then p else (AList.update (fst e) (snd e) (fst p), True))"

text \<open>A node without a label map panics on the first label; every other failure is logged and ends the call.\<close>

definition SetNodeLabels :: "'w env \<Rightarrow> WekaFsDriver \<Rightarrow> ('w, unit) call" where
  "SetNodeLabels E d w =
     (if DriverConfig_isInDevMode (drv_config d) then (Ok (), w)
      else if \<not> mounts_volumes (drv_csiMode d) then (Ok (), w)
      else if \<not> env_in_cluster E then (Ok (), w)
      else case env_node E (drv_nodeID d) w of
             None \<Rightarrow> (Ok (), w)
           | Some None \<Rightarrow> (Panic, w)
           | Some (Some labels) \<Rightarrow>
               (case fold set_label (labelsToSet d (node_transport E (drv_config d) w)) (labels, False) of
                  (labels', updateNeeded) \<Rightarrow>
                    if \<not> updateNeeded then (Ok (), w)
                    else (Ok (), snd (env_update_node E (drv_nodeID d) (Some labels') w))))"

definition labelsToRemove :: "WekaFsDriver \<Rightarrow> string list" where
  "labelsToRemove d =
     [TopologyLabelTransportGlobal, TopologyLabelNodeGlobal, TopologyKeyNode, TopologyLabelNodePattern (drv_name d),
      TopologyLabelTransportPattern (drv_name d), TopologyLabelWekaLocalPattern (drv_name d)]"

definition CleanupNodeLabels :: "'w env \<Rightarrow> WekaFsDriver \<Rightarrow> 'w \<Rightarrow> 'w" where
  "CleanupNodeLabels E d w =
     (if DriverConfig_isInDevMode (drv_config d) then w
      else if \<not> env_in_cluster E then w
      else case env_node E (drv_nodeID d) w of
             None \<Rightarrow> w
           | Some labels \<Rightarrow>
               snd (env_update_node E (drv_nodeID d) (map_option (fold AList.delete (labelsToRemove d)) labels) w))"

subsection \<open>The identity service\<close>

record identityServer =
  ids_name :: string
  ids_version :: string
  ids_driver :: WekaFsDriver   \<comment> \<open>the driver the configuration refers to\<close>

abbreviation ids_config :: "identityServer \<Rightarrow> DriverConfig" where
  "ids_config i \<equiv> drv_config (ids_driver i)"

definition NewIdentityServer :: "WekaFsDriver \<Rightarrow> identityServer" where
  "NewIdentityServer d = \<lparr> ids_name = drv_name d, ids_version = drv_version d, ids_driver = d \<rparr>"

definition GetPluginInfo :: "identityServer \<Rightarrow> (string \<times> string) go" where
  "GetPluginInfo i =
     (if ids_name i = [] then Err (Status Unavailable)
      else if ids_version i = [] then Err (Status Unavailable) else Ok (ids_name i, ids_version i))"

datatype plugin_capability = CONTROLLER_SERVICE | VOLUME_EXPANSION_ONLINE | VOLUME_ACCESSIBILITY_CONSTRAINTS

definition GetPluginCapabilities :: "plugin_capability list" where
  "GetPluginCapabilities = [CONTROLLER_SERVICE, VOLUME_EXPANSION_ONLINE, VOLUME_ACCESSIBILITY_CONSTRAINTS]"

definition Probe :: "'w env \<Rightarrow> identityServer \<Rightarrow> ('w, bool) call" where
  "Probe E i w =
     (let cfg = ids_config i;
          isReady = DriverConfig_isInDevMode cfg \<or> isWekaRunning E w \<or> dc_useNfs cfg \<or> dc_allowNfsFailback cfg
      in if \<not> dc_manageNodeTopologyLabels cfg then (Ok isReady, w)
         else if \<not> isReady
         then (Ok isReady, if mounts_volumes (drv_csiMode (ids_driver i)) then CleanupNodeLabels E (ids_driver i) w else w)
         else if DriverConfig_isInDevMode cfg then (Ok isReady, w)
         else go_bind (SetNodeLabels E (ids_driver i)) (\<lambda>_. go_return isReady) w)"

subsection \<open>Startup\<close>

record running_driver =
  run_ids :: identityServer
  run_mounter :: AnyMounter
  run_cs :: "(ControllerServer \<times> CapacityTracker option) option"   \<comment> \<open>\<open>None\<close> for a server without fields\<close>
  run_ns :: "NodeServer option"
  run_election :: bool

text \<open>\<open>Run\<close> up to the start of the server.  The arguments \<open>initControl\<close> and \<open>initNode\<close> are the results of
  \<open>initManager\<close> with and without leader election.\<close>

definition Run :: "'w env \<Rightarrow> WekaFsDriver \<Rightarrow> manager_options go \<Rightarrow> manager_options go \<Rightarrow> 'w \<Rightarrow> running_driver \<times> 'w" where
  "Run E d initControl initNode w =
     (let mode = drv_csiMode d;
          cfg = drv_config d;
          w1 = (if controls mode then snd (removeLeaderReadyFile E w) else w);
          mounter = NewMounter E cfg (drv_debugPath d) mode w1;
          manager = (if controls mode then is_Ok initControl else is_Ok initNode);
          w2 = (if mounts_volumes mode \<and> dc_manageNodeTopologyLabels cfg then CleanupNodeLabels E d w1 else w1)
      in (\<lparr> run_ids = NewIdentityServer d, run_mounter = mounter,
            run_cs = (if controls mode
                      then Some (NewControllerServer (drv_nodeID d) (drv_name d) mounter cfg manager) else None),
            run_ns = (if mounts_volumes mode
                      then Some (readNodeTopologyLabels E d w2
                             (NewNodeServer (drv_nodeID d) (drv_maxVolumesPerNode d) (drv_name d) manager mounter cfg))
                      else None),
            run_election = (controls mode \<and> manager) \<rparr>, w2))"

text \<open>The labels a driver manages on its node.\<close>

definition managed_labels :: "WekaFsDriver \<Rightarrow> string set" where
  "managed_labels d = {TopologyKeyNode, TopologyLabelNodePattern (drv_name d), TopologyLabelTransportPattern (drv_name d),
     TopologyLabelWekaLocalPattern (drv_name d)}"

text \<open>For the witnesses: a driver in node mode that may fail back to NFS, in a world that records whether the client
  of the cluster runs and the labels of the one node.\<close>

definition kube_env :: "(bool \<times> (string, string) gomap option) env" where
  "kube_env =
     null_env\<lparr>env_in_cluster := True, env_node := \<lambda>n w. Some (snd w), env_update_node := \<lambda>n l w. (None, (fst w, l)),
       env_read_file := \<lambda>p w.
         if \<not> fst w then None
         else if p = ''/proc/modules'' then Some [''wekafsgw 1 0''] else Some [''Container=a at 0: Connected frontend pid 7'']\<rparr>"

definition kube_world :: "bool \<times> (string, string) gomap option" where
  "kube_world = (False, Some [(''a'', ''b'')])"

definition kube_driver :: WekaFsDriver where
  "kube_driver =
     \<lparr> drv_name = ''csi.weka.io'', drv_nodeID = ''node'', drv_version = ''dev'', drv_endpoint = ''unix:///csi/csi.sock'',
       drv_maxVolumesPerNode = 10, drv_debugPath = [], drv_csiMode = CsiModeNode, drv_selinuxSupport = False,
       drv_config = default_config\<lparr>dc_debugPath := [], dc_manageNodeTopologyLabels := True, dc_allowNfsFailback := True\<rparr> \<rparr>"

section \<open>Lemmas\<close>

subsection \<open>The address of the server\<close>

text \<open>The path keeps its leading slash, so that the address of the socket has two; and a scheme in capitals passes
  the check but is not recognised as a socket.\<close>

lemma endpoint_slash: "listen_address ''unix:///csi/csi.sock'' = (''unix'', ''//csi/csi.sock'')"
  by code_simp

lemma endpoint_case: "listen_address ''UNIX:///csi/csi.sock'' = (''UNIX'', ''/csi/csi.sock'')"
  by code_simp

subsection \<open>Volumes of the cache\<close>

text \<open>The capacity tracker does not see the difference between a volume and what the cache keeps of it.\<close>

lemma strip_keeps_tracked:
  "persistent_volume.truncate (stripUnnecessaryPVFields pv) = persistent_volume.truncate pv"
  by (simp add: stripUnnecessaryPVFields_def persistent_volume.defs)

subsection \<open>Labels\<close>

lemma map_of_set_labels:
  "distinct (map fst ls) \<Longrightarrow>
    map_of (fst (fold set_label ls (m, b))) k = (case map_of ls k of Some v \<Rightarrow> Some v | None \<Rightarrow> map_of m k)"
proof (induction ls arbitrary: m b)
  case (Cons e ls)
  obtain m' b' where s: "set_label e (m, b) = (m', b')" by (rule prod.exhaust)
  then have m': "map_of m' k = (if k = fst e then Some (snd e) else map_of m k)"
    by (auto simp: set_label_def split: if_splits)
  from Cons.prems have "map_of ls (fst e) = None" by (auto simp: map_of_eq_None_iff)
  with Cons.IH [of m' b'] Cons.prems s m' show ?case by (cases e) (auto split: option.split)
qed simp

lemma set_labels_unchanged: "fold set_label ls (m, b) = (m', False) \<Longrightarrow> m' = m \<and> \<not> b"
proof (induction ls arbitrary: m b)
  case (Cons e ls)
  obtain m1 b1 where s: "set_label e (m, b) = (m1, b1)" by (rule prod.exhaust)
  with Cons.IH [of m1 b1] Cons.prems have "m' = m1 \<and> \<not> b1" by simp
  with s show ?case by (auto simp: set_label_def split: if_splits)
qed simp

lemma distinct_labelsToSet: "distinct (map fst (labelsToSet d t))"
  unfolding labelsToSet_def by (intro distinct_update) simp

lemma labelsToSet_removed: "map_of (labelsToSet d t) k \<noteq> None \<Longrightarrow> k \<in> set (labelsToRemove d)"
  by (auto simp: labelsToSet_def labelsToRemove_def split: if_splits)

text \<open>What \<open>SetNodeLabels\<close> leaves on the node, when Kubernetes stores what it is sent.\<close>

lemma labels_after_set:
  assumes "SetNodeLabels E d w = (Ok (), w1)" "env_node E (drv_nodeID d) w = Some (Some m)"
    and "\<not> DriverConfig_isInDevMode (drv_config d)" "mounts_volumes (drv_csiMode d)" "env_in_cluster E"
    and "\<forall>l w. env_node E (drv_nodeID d) (snd (env_update_node E (drv_nodeID d) l w)) = Some l"
  shows "\<exists>m1. env_node E (drv_nodeID d) w1 = Some (Some m1) \<and>
    (\<forall>k. map_of m1 k = (case map_of (labelsToSet d (node_transport E (drv_config d) w)) k of Some v \<Rightarrow> Some v | None \<Rightarrow> map_of m k))"
proof -
  let ?ls = "labelsToSet d (node_transport E (drv_config d) w)"
  obtain m1 u where f: "fold set_label ?ls (m, False) = (m1, u)" by (rule prod.exhaust)
  have o: "map_of m1 k = (case map_of ?ls k of Some v \<Rightarrow> Some v | None \<Rightarrow> map_of m k)" for k
    using map_of_set_labels [OF distinct_labelsToSet, of d "node_transport E (drv_config d) w" m False k] f by simp
  show ?thesis
  proof (cases u)
    case True
    with assms f have "w1 = snd (env_update_node E (drv_nodeID d) (Some m1) w)" by (simp add: SetNodeLabels_def)
    with assms(6) o show ?thesis by simp
  next
    case False
    with assms f have "w1 = w" by (simp add: SetNodeLabels_def)
    moreover from f False have "m1 = m" by (simp add: set_labels_unchanged)
    ultimately show ?thesis using assms(2) o by (intro exI [of _ m1]) simp
  qed
qed

lemma labels_after_cleanup:
  assumes "env_node E (drv_nodeID d) w = Some (Some m)" "\<not> DriverConfig_isInDevMode (drv_config d)" "env_in_cluster E"
    and "\<forall>l w. env_node E (drv_nodeID d) (snd (env_update_node E (drv_nodeID d) l w)) = Some l"
  shows "\<exists>m1. env_node E (drv_nodeID d) (CleanupNodeLabels E d w) = Some (Some m1) \<and>
    (\<forall>k. map_of m1 k = (if k \<in> set (labelsToRemove d) then None else map_of m k))"
  using assms by (simp add: CleanupNodeLabels_def map_of_fold_delete)

lemma label_names:
  "TopologyLabelNodePattern n \<noteq> TopologyLabelTransportPattern n" "TopologyLabelNodePattern n \<noteq> TopologyLabelWekaLocalPattern n"
  "TopologyLabelTransportPattern n \<noteq> TopologyLabelWekaLocalPattern n" "TopologyLabelTransportPattern n \<noteq> TopologyKeyNode"
  "TopologyLabelWekaLocalPattern n \<noteq> TopologyKeyNode"
proof -
  have r: "rev a \<noteq> rev b \<Longrightarrow> a \<noteq> b" for a b :: string by auto
  show "TopologyLabelNodePattern n \<noteq> TopologyLabelTransportPattern n" "TopologyLabelNodePattern n \<noteq> TopologyLabelWekaLocalPattern n"
    "TopologyLabelTransportPattern n \<noteq> TopologyLabelWekaLocalPattern n" "TopologyLabelTransportPattern n \<noteq> TopologyKeyNode"
    "TopologyLabelWekaLocalPattern n \<noteq> TopologyKeyNode"
    by (rule r; simp add: TopologyLabelNodePattern_def TopologyLabelTransportPattern_def TopologyLabelWekaLocalPattern_def TopologyKeyNode_def)+
qed

lemma managed_places:
  assumes "k \<in> managed_labels d"
  shows "k \<noteq> TopologyKeyZone" "k \<noteq> TopologyKeyRegion" "k \<noteq> TopologyLabelWekaGlobal"
proof -
  note names = TopologyLabelNodePattern_def TopologyLabelTransportPattern_def TopologyLabelWekaLocalPattern_def TopologyKeyNode_def
    TopologyKeyZone_def TopologyKeyRegion_def TopologyLabelWekaGlobal_def
  have k: "k = TopologyKeyNode \<or> k = TopologyLabelNodePattern (drv_name d) \<or> k = TopologyLabelTransportPattern (drv_name d)
      \<or> k = TopologyLabelWekaLocalPattern (drv_name d)"
    using assms by (simp add: managed_labels_def)
  have "rev k \<noteq> rev TopologyKeyZone" using k by (elim disjE) (simp_all add: names)
  then show "k \<noteq> TopologyKeyZone" by blast
  have "rev k \<noteq> rev TopologyKeyRegion" using k by (elim disjE) (simp_all add: names)
  then show "k \<noteq> TopologyKeyRegion" by blast
  have "rev k \<noteq> rev TopologyLabelWekaGlobal" using k by (elim disjE) (simp_all add: names)
  then show "k \<noteq> TopologyLabelWekaGlobal" by blast
qed

lemma Run_node:
  assumes "run_ns (fst (Run E d ic inn w0)) = Some N"
  defines "w1 \<equiv> (if controls (drv_csiMode d) then snd (removeLeaderReadyFile E w0) else w0)"
  shows "ns_nodeID N = drv_nodeID d" "ns_driverName N = drv_name d" "ns_config N = drv_config d"
    and "srv_mounter (ns_srv N) = NewMounter E (drv_config d) (drv_debugPath d) (drv_csiMode d) w1"
    and "mounts_volumes (drv_csiMode d)"
proof -
  have r: "ns_nodeID (readNodeTopologyLabels E d w M) = ns_nodeID M" "ns_driverName (readNodeTopologyLabels E d w M) = ns_driverName M"
    "ns_srv (readNodeTopologyLabels E d w M) = ns_srv M" for w M
    by (simp_all add: readNodeTopologyLabels_def Let_def split: option.splits)
  from assms show "ns_nodeID N = drv_nodeID d" "ns_driverName N = drv_name d" "ns_config N = drv_config d"
    "srv_mounter (ns_srv N) = NewMounter E (drv_config d) (drv_debugPath d) (drv_csiMode d) w1" "mounts_volumes (drv_csiMode d)"
    by (auto simp: Run_def Let_def r NewNodeServer_def split: if_splits)
qed

lemma mounter_transport:
  "\<not> DriverConfig_isInDevMode cfg \<Longrightarrow> getTransport (NewMounter E cfg p mode w) = node_transport E cfg w"
  by (simp add: NewMounter_def node_transport_def)

lemma node_info_labels:
  assumes "dc_manageNodeTopologyLabels (ns_config N)" "ns_driverName N = drv_name d" "ns_nodeID N = drv_nodeID d" "k \<in> managed_labels d"
  shows "map_of (ni_Segments (NodeGetInfo N)) k = map_of (labelsToSet d (getTransport (srv_mounter (ns_srv N)))) k"
proof -
  have "map_of (place_segments N m) k = map_of m k" for m
    using managed_places [OF assms(4)] by (simp add: place_segments_def Let_def)
  with managed_places(3) [OF assms(4)] show ?thesis
    using assms(1-3) label_names [of "drv_name d"] by (simp add: NodeGetInfo_def managed_segments_def labelsToSet_def)
qed

subsection \<open>The driver of the witnesses\<close>

lemma kube_modules: "isWekaDriverLoaded (Some [''wekafsgw 1 0'']) = True"
  by code_simp

lemma kube_interface: "parse_frontend ''Container=a at 0: Connected frontend pid 7'' \<noteq> None"
  "\<forall>f \<in> set_option (parse_frontend ''Container=a at 0: Connected frontend pid 7''). pc_Connected f"
  by code_simp+

lemma kube_running: "isWekaRunning kube_env (b, m) = b"
  using kube_modules kube_interface
  by (cases b) (auto simp: isWekaRunning_def kube_env_def GetFrontendsFromDriver_def ProcFsPath_def List.map_filter_def
      isWekaDriverLoaded_def split: if_splits)

lemma kube_driver_fields: "drv_nodeID kube_driver = ''node''" "\<not> DriverConfig_isInDevMode (drv_config kube_driver)"
  "mounts_volumes (drv_csiMode kube_driver)" "dc_manageNodeTopologyLabels (drv_config kube_driver)"
  by (simp_all add: kube_driver_def DriverConfig_isInDevMode_def mounts_volumes_def)

lemma kube_stores: "env_in_cluster kube_env"
  "\<forall>l w. env_node kube_env (drv_nodeID kube_driver) (snd (env_update_node kube_env (drv_nodeID kube_driver) l w)) = Some l"
  by (auto simp: kube_env_def)

lemma kube_node: "env_node kube_env (drv_nodeID kube_driver) kube_world = Some (Some [(''a'', ''b'')])"
  by (simp add: kube_env_def kube_world_def)

lemma kube_set: "fst (SetNodeLabels kube_env kube_driver kube_world) = Ok ()"
  using kube_node by (simp add: SetNodeLabels_def split: prod.split)

text \<open>The transport of the label is that of the moment, the transport of the service that of the start.\<close>

lemma transport_label_drifts:
  "\<exists>N. run_ns (fst (Run kube_env kube_driver (Err (Plain [])) (Err (Plain [])) (False, Some []))) = Some N
     \<and> map_of (ni_Segments (NodeGetInfo N)) (TopologyLabelTransportPattern (drv_name kube_driver)) = Some ''nfs''
     \<and> map_of (labelsToSet kube_driver (node_transport kube_env (drv_config kube_driver) (True, Some [])))
         (TopologyLabelTransportPattern (drv_name kube_driver)) = Some ''wekafs''"
proof -
  obtain N where N: "run_ns (fst (Run kube_env kube_driver (Err (Plain [])) (Err (Plain [])) (False, Some []))) = Some N"
    using kube_driver_fields(3) by (simp add: Run_def Let_def)
  note r = Run_node [OF N]
  have k: "TopologyLabelTransportPattern (drv_name kube_driver) \<in> managed_labels kube_driver" by (simp add: managed_labels_def)
  have "getTransport (srv_mounter (ns_srv N)) = ''nfs''"
    unfolding r(4) mounter_transport [OF kube_driver_fields(2)]
    by (simp add: node_transport_def kube_running kube_driver_def controls_def)
  then have "map_of (ni_Segments (NodeGetInfo N)) (TopologyLabelTransportPattern (drv_name kube_driver)) = Some ''nfs''"
    using node_info_labels [of N kube_driver, OF _ r(2,1) k] kube_driver_fields(4) r(3) by (simp add: labelsToSet_def)
  moreover have "node_transport kube_env (drv_config kube_driver) (True, Some []) = ''wekafs''"
    by (simp add: node_transport_def kube_running kube_driver_def default_config_def NewDriverConfig_def)
  ultimately show ?thesis using N by (simp add: labelsToSet_def)
qed

section \<open>Properties\<close>





end
