(* ===== verification/Leader.thy ===== *)
theory Leader
  imports Driver
begin

text \<open>
  Leader election of a controller pod: the runnable that serves while the pod leads
  (\<open>runWithLeaderElection\<close> of \<open>pkg/wekafs/wekafs.go\<close>), the gRPC server it starts and stops (\<open>server.go\<close>) and the
  command \<open>cmd/wait-for-leader/main.go\<close> that runs a sidecar only while the pod leads.  The two processes share
  the ready file and the socket.  Each statement of the runnable that others can observe is one step of the pod,
  and the steps of the server's goroutine and of the gate come in between in any order.

  Winning and losing the election is up to the library and can happen at any time the runnable waits for it.
  The Kubernetes lease is not modelled.
\<close>

section \<open>Definitions\<close>

subsection \<open>The gRPC server\<close>

text \<open>\<open>Start\<close> only launches the goroutine; the server object that \<open>Stop\<close> looks at exists once it listens.\<close>

datatype grpc_server = NotStarted | Launched | Listening | Halted

definition grpc_Start :: "grpc_server \<Rightarrow> grpc_server" where
  "grpc_Start g = Launched"

definition grpc_Stop :: "grpc_server \<Rightarrow> grpc_server" where
  "grpc_Stop g = (if g = Listening then Halted else g)"

text \<open>The goroutine up to \<open>Serve\<close>; \<open>None\<close> is \<open>Die\<close>, the end of the process.\<close>

definition grpc_serve :: "'w env \<Rightarrow> string \<Rightarrow> bool \<Rightarrow> 'w \<Rightarrow> grpc_server option \<times> 'w" where
  "grpc_serve E endpoint listens w =
     (case listen_address endpoint of
        (proto, addr) \<Rightarrow>
          (case (if proto = ''unix'' then env_remove E addr w else (None, w)) of
             (Some e, w') \<Rightarrow> if os_IsNotExist e then (if listens then Some Listening else None, w') else (None, w')
           | (None, w') \<Rightarrow> (if listens then Some Listening else None, w')))"

subsection \<open>The gate\<close>

definition parseEnvInt :: "(string \<Rightarrow> string) \<Rightarrow> string \<Rightarrow> int \<Rightarrow> int" where
  "parseEnvInt getenv name defaultValue =
     (let raw = TrimSpace (getenv name)
      in if raw = [] then defaultValue
         else case strconv_Atoi raw of
                None \<Rightarrow> defaultValue
              | Some parsed \<Rightarrow> if parsed \<le> 0 then defaultValue else parsed)"

record gate_config =
  gc_leaderFile :: string
  gc_pollInterval :: int
  gc_socketPath :: string
  gc_leaderLossDebounce :: int
  gc_stopGrace :: int

definition env_or :: "(string \<Rightarrow> string) \<Rightarrow> string \<Rightarrow> string \<Rightarrow> string" where
  "env_or getenv name defaultValue = (let v = TrimSpace (getenv name) in if v = [] then defaultValue else v)"

definition gate_configuration :: "(string \<Rightarrow> string) \<Rightarrow> gate_config" where
  "gate_configuration getenv =
     \<lparr> gc_leaderFile = env_or getenv ''LEADER_READY_FILE'' ''/leader-state/leader_ready'',
       gc_pollInterval = int64 (seconds (parseEnvInt getenv ''WAIT_POLL_INTERVAL'' 1)),
       gc_socketPath = env_or getenv ''CSI_SOCKET_PATH'' ''/csi/csi.sock'',
       gc_leaderLossDebounce = int64 (seconds (parseEnvInt getenv ''LEADER_LOSS_DEBOUNCE'' 3)),
       gc_stopGrace = int64 (seconds (parseEnvInt getenv ''STOP_GRACE_PERIOD'' 10)) \<rparr>"

definition leader_fileExists :: "'w env \<Rightarrow> string \<Rightarrow> 'w \<Rightarrow> bool" where
  "leader_fileExists E path w \<longleftrightarrow> env_stat_err E path w = None"

text \<open>Where the gate is; while it supervises the sidecar, since when the file is missing.\<close>

datatype gate = WaitFile | WaitSocket | Dialing | Supervising "int option" | Exited int

text \<open>One turn of each loop.  The argument \<open>signalled\<close> says whether the \<open>select\<close> at its end took the signal.\<close>

definition waitForLeaderFile :: "bool \<Rightarrow> bool \<Rightarrow> gate" where
  "waitForLeaderFile signalled present = (if present then WaitSocket else if signalled then Exited 0 else WaitFile)"

definition waitForSocket :: "bool \<Rightarrow> gate" where
  "waitForSocket present = (if \<not> present then WaitFile else Dialing)"

definition startChild :: "bool \<Rightarrow> gate" where
  "startChild started = (if started then Supervising None else Exited 1)"

definition dial_socket :: "bool \<Rightarrow> bool \<Rightarrow> bool \<Rightarrow> gate" where
  "dial_socket signalled dials started = (if dials then startChild started else if signalled then Exited 0 else WaitSocket)"

datatype child_result = ChildOk | ChildFailed int | WaitFailed

datatype gate_event = Terminated | ChildDone child_result | Tick bool int

fun child_exit :: "child_result \<Rightarrow> int" where
  "child_exit ChildOk = 0"
| "child_exit (ChildFailed code) = code"
| "child_exit WaitFailed = 1"

fun supervise :: "int \<Rightarrow> int option \<Rightarrow> gate_event \<Rightarrow> gate" where
  "supervise debounce since Terminated = Exited 0"
| "supervise debounce since (ChildDone r) = Exited (child_exit r)"
| "supervise debounce since (Tick present now) =
     (if present then Supervising None
      else case since of
             None \<Rightarrow> Supervising (Some now)
           | Some t \<Rightarrow> if now - t < debounce then Supervising since else WaitFile)"

datatype signal = SIGTERM | SIGKILL

text \<open>The signals a child is sent; the call returns when the child is gone.\<close>

definition terminateChild :: "bool \<Rightarrow> signal list" where
  "terminateChild exitsInGrace = (if exitsInGrace then [SIGTERM] else [SIGTERM, SIGKILL])"

definition has_child :: "gate \<Rightarrow> bool" where
  "has_child g = (case g of Supervising _ \<Rightarrow> True | _ \<Rightarrow> False)"

text \<open>The monitor loop over a sequence of ticks: the state it ends in, or the gate it was left for.\<close>

fun monitor :: "int \<Rightarrow> int option \<Rightarrow> (bool \<times> int) list \<Rightarrow> gate" where
  "monitor debounce since [] = Supervising since"
| "monitor debounce since ((present, now) # ticks) =
     (case supervise debounce since (Tick present now) of
        Supervising since' \<Rightarrow> monitor debounce since' ticks
      | g \<Rightarrow> g)"

subsection \<open>The pod\<close>

text \<open>Where the driver is: starting, waiting for the lease, or after one of the statements of the runnable.\<close>

datatype leader_pc = Down | Booting | Standby | Elected | Started | Marked | Leading | Unmarked | Removed | Finished

text \<open>The fields \<open>pod_dirty\<close> and \<open>pod_led\<close> record what no code looks at: that the process died, or failed to remove the
  ready file, since it was last removed, and that the file was ever written.\<close>

record 'w pod =
  pod_pc :: leader_pc
  pod_isLeader :: bool
  pod_server :: grpc_server
  pod_gate :: gate
  pod_world :: 'w
  pod_dirty :: bool
  pod_led :: bool

definition new_pod :: "'w \<Rightarrow> 'w pod" where
  "new_pod w =
     \<lparr> pod_pc = Booting, pod_isLeader = False, pod_server = NotStarted, pod_gate = WaitFile, pod_world = w, pod_dirty = False,
       pod_led = False \<rparr>"

definition crashed :: "'w pod \<Rightarrow> 'w pod" where
  "crashed s = s\<lparr>pod_pc := Down, pod_isLeader := False, pod_server := NotStarted, pod_dirty := True\<rparr>"

definition clear_file :: "'w env \<Rightarrow> leader_pc \<Rightarrow> 'w pod \<Rightarrow> 'w pod" where
  "clear_file E next_pc s =
     (case removeLeaderReadyFile E (pod_world s) of
        (r, w) \<Rightarrow> s\<lparr>pod_pc := next_pc, pod_world := w, pod_dirty := (r \<noteq> Ok ())\<rparr>)"

text \<open>A statement of the runnable.\<close>

definition runnable :: "'w env \<Rightarrow> (string \<Rightarrow> 'w \<Rightarrow> go_error option \<times> 'w) \<Rightarrow> 'w pod \<Rightarrow> 'w pod option" where
  "runnable E writeFile s =
     (case pod_pc s of
        Elected \<Rightarrow> Some (s\<lparr>pod_pc := Started, pod_server := grpc_Start (pod_server s)\<rparr>)
      | Started \<Rightarrow> Some (s\<lparr>pod_pc := Marked, pod_isLeader := True\<rparr>)
      | Marked \<Rightarrow> Some (s\<lparr>pod_pc := Leading, pod_world := snd (createLeaderReadyFile E writeFile (pod_world s)), pod_led := True\<rparr>)
      | Leading \<Rightarrow> Some (s\<lparr>pod_pc := Unmarked, pod_isLeader := False\<rparr>)
      | Unmarked \<Rightarrow> Some (clear_file E Removed s)
      | Removed \<Rightarrow> Some (s\<lparr>pod_pc := Finished, pod_server := grpc_Stop (pod_server s)\<rparr>)
      | _ \<Rightarrow> None)"

inductive pod_step ::
  "'w env \<Rightarrow> (string \<Rightarrow> 'w \<Rightarrow> go_error option \<times> 'w) \<Rightarrow> string \<Rightarrow> gate_config \<Rightarrow> 'w pod \<Rightarrow> 'w pod \<Rightarrow> bool"
  for E writeFile endpoint c where
  boot: "pod_pc s = Booting \<Longrightarrow> pod_step E writeFile endpoint c s (clear_file E Standby s)"
| elect: "pod_pc s = Standby \<Longrightarrow> pod_step E writeFile endpoint c s (s\<lparr>pod_pc := Elected\<rparr>)"
| run: "runnable E writeFile s = Some s' \<Longrightarrow> pod_step E writeFile endpoint c s s'"
| serve: "pod_server s = Launched \<Longrightarrow> grpc_serve E endpoint listens (pod_world s) = (Some g, w) \<Longrightarrow>
    pod_step E writeFile endpoint c s (s\<lparr>pod_server := g, pod_world := w\<rparr>)"
| die: "pod_server s = Launched \<Longrightarrow> grpc_serve E endpoint listens (pod_world s) = (None, w) \<Longrightarrow>
    pod_step E writeFile endpoint c s (crashed (s\<lparr>pod_world := w\<rparr>))"
| crash: "pod_step E writeFile endpoint c s (crashed s)"
| restart: "pod_pc s = Down \<Longrightarrow> pod_step E writeFile endpoint c s (s\<lparr>pod_pc := Booting\<rparr>)"
| leave: "pod_pc s \<in> {Standby, Finished} \<Longrightarrow> pod_server s \<notin> {Launched, Listening} \<Longrightarrow>
    pod_step E writeFile endpoint c s (s\<lparr>pod_pc := Down, pod_server := NotStarted\<rparr>)"
| poll_file: "pod_gate s = WaitFile \<Longrightarrow>
    pod_step E writeFile endpoint c s (s\<lparr>pod_gate := waitForLeaderFile signalled (leader_fileExists E (gc_leaderFile c) (pod_world s))\<rparr>)"
| poll_socket: "pod_gate s = WaitSocket \<Longrightarrow>
    pod_step E writeFile endpoint c s (s\<lparr>pod_gate := waitForSocket (leader_fileExists E (gc_leaderFile c) (pod_world s))\<rparr>)"
| dial: "pod_gate s = Dialing \<Longrightarrow> pod_step E writeFile endpoint c s (s\<lparr>pod_gate := dial_socket signalled (pod_server s = Listening) started\<rparr>)"
| tick: "pod_gate s = Supervising since \<Longrightarrow>
    pod_step E writeFile endpoint c s (s\<lparr>pod_gate :=
      supervise (gc_leaderLossDebounce c) since (Tick (leader_fileExists E (gc_leaderFile c) (pod_world s)) now)\<rparr>)"
| child: "pod_gate s = Supervising since \<Longrightarrow>
    pod_step E writeFile endpoint c s (s\<lparr>pod_gate := supervise (gc_leaderLossDebounce c) since (ChildDone r)\<rparr>)"
| terminate: "pod_gate s = Supervising since \<Longrightarrow>
    pod_step E writeFile endpoint c s (s\<lparr>pod_gate := supervise (gc_leaderLossDebounce c) since Terminated\<rparr>)"
| gate_restart: "pod_gate s = Exited n \<Longrightarrow> pod_step E writeFile endpoint c s (s\<lparr>pod_gate := WaitFile\<rparr>)"


inductive pod_reach ::
  "'w env \<Rightarrow> (string \<Rightarrow> 'w \<Rightarrow> go_error option \<times> 'w) \<Rightarrow> string \<Rightarrow> gate_config \<Rightarrow> 'w pod \<Rightarrow> bool"
  for E writeFile endpoint c where
  start: "\<not> leader_fileExists E LeaderReadyFile w \<Longrightarrow> pod_reach E writeFile endpoint c (new_pod w)"
| step: "pod_reach E writeFile endpoint c s \<Longrightarrow> pod_step E writeFile endpoint c s s' \<Longrightarrow> pod_reach E writeFile endpoint c s'"

subsection \<open>Specifications\<close>

text \<open>What the code relies on of the file system: a removed file is gone, a file reported missing is missing, and a
  removal never creates a file.\<close>

definition ready_file_laws :: "'w env \<Rightarrow> bool" where
  "ready_file_laws E \<longleftrightarrow>
     (\<forall>w w'. env_remove E LeaderReadyFile w = (None, w') \<longrightarrow> \<not> leader_fileExists E LeaderReadyFile w') \<and>
     (\<forall>w w' e. env_remove E LeaderReadyFile w = (Some e, w') \<longrightarrow> os_IsNotExist e \<longrightarrow> \<not> leader_fileExists E LeaderReadyFile w') \<and>
     (\<forall>p w. leader_fileExists E LeaderReadyFile (snd (env_remove E p w)) \<longrightarrow> leader_fileExists E LeaderReadyFile w)"

text \<open>The reference for the monitor: two ticks at least the debounce apart with the file missing at and between them.\<close>

definition missing_for :: "int \<Rightarrow> (bool \<times> int) list \<Rightarrow> bool" where
  "missing_for debounce ticks \<longleftrightarrow>
     (\<exists>i j. i < j \<and> j < length ticks \<and> (\<forall>k. i \<le> k \<and> k \<le> j \<longrightarrow> \<not> fst (ticks ! k)) \<and> debounce \<le> snd (ticks ! j) - snd (ticks ! i))"

definition pod_inv :: "'w env \<Rightarrow> 'w pod \<Rightarrow> bool" where
  "pod_inv E s \<longleftrightarrow>
     (pod_isLeader s \<longrightarrow> pod_pc s \<in> {Marked, Leading}) \<and>
     (leader_fileExists E LeaderReadyFile (pod_world s) \<longrightarrow> pod_led s \<and> (pod_dirty s \<or> pod_pc s \<in> {Leading, Unmarked})) \<and>
     (pod_gate s \<in> {WaitSocket, Dialing} \<or> has_child (pod_gate s) \<longrightarrow> pod_led s)"

text \<open>For the witnesses: a pod whose world is whether the ready file exists.\<close>

definition pod_env :: "bool env" where
  "pod_env =
     null_env\<lparr>env_stat_err := \<lambda>p there. if there then None else Some (Plain ''no such file or directory''),
       env_remove := \<lambda>p there. if p \<noteq> LeaderReadyFile then (None, there)
         else if there then (None, False) else (Some (Plain ''no such file or directory''), False)\<rparr>"

definition write_ready :: "string \<Rightarrow> bool \<Rightarrow> go_error option \<times> bool" where
  "write_ready p there = (None, True)"

definition pod_socket :: string where
  "pod_socket = ''unix:///csi/csi.sock''"

abbreviation dev_reach :: "bool pod \<Rightarrow> bool" where
  "dev_reach \<equiv> pod_reach pod_env write_ready pod_socket (gate_configuration (\<lambda>_. []))"

definition pod_at :: "leader_pc \<Rightarrow> grpc_server \<Rightarrow> gate \<Rightarrow> bool pod" where
  "pod_at pc g gate =
     \<lparr> pod_pc = pc, pod_isLeader = (pc \<in> {Marked, Leading}), pod_server = g, pod_gate = gate,
       pod_world = (pc \<in> {Leading, Unmarked}), pod_dirty = False, pod_led = (pc \<in> {Leading, Unmarked, Removed, Finished}) \<rparr>"

section \<open>Lemmas\<close>

subsection \<open>The monitor\<close>

lemma missing_for_Nil [simp]: "\<not> missing_for d []"
  by (simp add: missing_for_def)

lemma missing_for_Cons:
  "missing_for d (x # xs) \<longleftrightarrow>
     missing_for d xs \<or>
     (\<not> fst x \<and> (\<exists>j < length xs. (\<forall>k \<le> j. \<not> fst (xs ! k)) \<and> d \<le> snd (xs ! j) - snd x))" (is "?l \<longleftrightarrow> ?r")
proof
  assume ?l
  then obtain i j where ij: "i < j" "j < Suc (length xs)" "\<forall>k. i \<le> k \<and> k \<le> j \<longrightarrow> \<not> fst ((x # xs) ! k)"
    "d \<le> snd ((x # xs) ! j) - snd ((x # xs) ! i)" by (auto simp: missing_for_def)
  then obtain j' where j: "j = Suc j'" by (cases j) auto
  show ?r
  proof (cases i)
    case 0
    have "\<not> fst x" using ij(3) 0 by (auto dest: spec [of _ 0])
    moreover have "\<forall>k \<le> j'. \<not> fst (xs ! k)" using ij(3) 0 j by (auto dest: spec [of _ "Suc _"])
    ultimately show ?thesis using ij j 0 by auto
  next
    case (Suc i')
    have "missing_for d xs" unfolding missing_for_def
      using ij j Suc by (intro exI [of _ i'] exI [of _ j']) (auto dest: spec [of _ "Suc _"])
    then show ?thesis ..
  qed
next
  assume ?r
  then show ?l
  proof (elim disjE conjE exE)
    assume "missing_for d xs"
    then obtain i j where "i < j" "j < length xs" "\<forall>k. i \<le> k \<and> k \<le> j \<longrightarrow> \<not> fst (xs ! k)" "d \<le> snd (xs ! j) - snd (xs ! i)"
      by (auto simp: missing_for_def)
    then show ?l unfolding missing_for_def by (intro exI [of _ "Suc i"] exI [of _ "Suc j"]) (auto simp: nth_Cons split: nat.split)
  next
    fix j assume "\<not> fst x" "j < length xs" "\<forall>k \<le> j. \<not> fst (xs ! k)" "d \<le> snd (xs ! j) - snd x"
    then show ?l unfolding missing_for_def by (intro exI [of _ 0] exI [of _ "Suc j"]) (auto simp: nth_Cons split: nat.split)
  qed
qed

lemma missing_for_two:
  assumes "t \<le> now"
  shows "missing_for d ((False, t) # (False, now) # ticks) \<longleftrightarrow> d \<le> now - t \<or> missing_for d ((False, t) # ticks)"
proof -
  let ?B = "\<lambda>u. \<exists>j < length ticks. (\<forall>k \<le> j. \<not> fst (ticks ! k)) \<and> d \<le> snd (ticks ! j) - u"
  have "(\<exists>j < length ((False, now) # ticks). (\<forall>k \<le> j. \<not> fst (((False, now) # ticks) ! k)) \<and> d \<le> snd (((False, now) # ticks) ! j) - t)
      \<longleftrightarrow> d \<le> now - t \<or> ?B t" (is "(\<exists>j < _. ?P j) \<longleftrightarrow> _")
  proof
    assume "\<exists>j < length ((False, now) # ticks). ?P j"
    then obtain j where j: "j < length ((False, now) # ticks)" "?P j" by blast
    show "d \<le> now - t \<or> ?B t"
    proof (cases j)
      case (Suc j')
      from j Suc have "\<forall>k \<le> j'. \<not> fst (ticks ! k)" by (auto dest: spec [of _ "Suc _"])
      with j Suc show ?thesis by auto
    qed (use j in simp)
  next
    assume "d \<le> now - t \<or> ?B t"
    then show "\<exists>j < length ((False, now) # ticks). ?P j"
    proof (elim disjE exE conjE)
      assume "d \<le> now - t" then show ?thesis by (intro exI [of _ 0]) simp
    next
      fix j assume "j < length ticks" "\<forall>k \<le> j. \<not> fst (ticks ! k)" "d \<le> snd (ticks ! j) - t"
      then show ?thesis by (intro exI [of _ "Suc j"]) (auto simp: nth_Cons split: nat.split)
    qed
  qed
  moreover have "?B now \<Longrightarrow> ?B t" using assms by force
  ultimately show ?thesis unfolding missing_for_Cons [of d "(False, t)"] missing_for_Cons [of d "(False, now)"] by auto
qed

text \<open>The gate knows only the first tick of a run of ticks without the file; as times do not decrease, that is the one
  that counts.\<close>

lemma monitor_since:
  "(sorted (t # map snd ticks) \<longrightarrow> (monitor d (Some t) ticks = WaitFile \<longleftrightarrow> missing_for d ((False, t) # ticks))) \<and>
   (sorted (map snd ticks) \<longrightarrow> (monitor d None ticks = WaitFile \<longleftrightarrow> missing_for d ticks))"
proof (induction ticks arbitrary: t)
  case (Cons x ticks)
  obtain present now where x: "x = (present, now)" by (rule prod.exhaust)
  have p: "missing_for d ((True, now) # ticks) = missing_for d ticks"
    "missing_for d ((False, t) # (True, now) # ticks) = missing_for d ticks"
    by (auto simp: missing_for_Cons)
  show ?case
  proof (intro conjI impI)
    assume srt: "sorted (t # map snd (x # ticks))"
    show "monitor d (Some t) (x # ticks) = WaitFile \<longleftrightarrow> missing_for d ((False, t) # x # ticks)"
    proof (cases present)
      case True
      with Cons.IH srt x p show ?thesis by simp
    next
      case False
      with Cons.IH [of t] srt x missing_for_two [of t now d ticks] show ?thesis by auto
    qed
  next
    assume "sorted (map snd (x # ticks))"
    with Cons.IH [of now] x p show "monitor d None (x # ticks) = WaitFile \<longleftrightarrow> missing_for d (x # ticks)"
      by (cases present) simp_all
  qed
qed (simp add: missing_for_Cons)

subsection \<open>The pod\<close>

lemma removed_file:
  "ready_file_laws E \<Longrightarrow> removeLeaderReadyFile E w = (Ok (), w') \<Longrightarrow> \<not> leader_fileExists E LeaderReadyFile w'"
  by (auto simp: ready_file_laws_def removeLeaderReadyFile_def split: prod.splits option.splits if_splits)

lemma kept_file:
  assumes "ready_file_laws E" "removeLeaderReadyFile E w = (r, w')" "leader_fileExists E LeaderReadyFile w'"
  shows "leader_fileExists E LeaderReadyFile w"
proof -
  have "w' = snd (env_remove E LeaderReadyFile w)"
    using assms(2) by (auto simp: removeLeaderReadyFile_def split: prod.splits option.splits if_splits)
  with assms(1,3) show ?thesis unfolding ready_file_laws_def by blast
qed

lemma served_file:
  assumes "ready_file_laws E" "grpc_serve E endpoint listens w = (g, w')" "leader_fileExists E LeaderReadyFile w'"
  shows "leader_fileExists E LeaderReadyFile w"
proof -
  obtain proto addr where a: "listen_address endpoint = (proto, addr)" by (rule prod.exhaust)
  have "w' = w \<or> w' = snd (env_remove E addr w)"
    using assms(2) a by (auto simp: grpc_serve_def split: prod.splits option.splits if_splits)
  with assms(1,3) show ?thesis unfolding ready_file_laws_def by blast
qed

lemma clear_file_inv:
  assumes "ready_file_laws E" "pod_inv E s" "\<not> pod_isLeader s"
  shows "pod_inv E (clear_file E pc s)"
proof -
  obtain r w where r: "removeLeaderReadyFile E (pod_world s) = (r, w)" by (rule prod.exhaust)
  with assms kept_file [OF assms(1) r] removed_file [OF assms(1)] show ?thesis
    by (cases "r = Ok ()") (auto simp: pod_inv_def clear_file_def)
qed

lemma runnable_inv:
  assumes "ready_file_laws E" "pod_inv E s" "runnable E writeFile s = Some s'"
  shows "pod_inv E s'"
proof (cases "pod_pc s = Unmarked")
  case True
  then have "\<not> pod_isLeader s" using assms(2) by (auto simp: pod_inv_def)
  with clear_file_inv [OF assms(1,2), of Removed] True assms(3) show ?thesis by (auto simp: runnable_def)
next
  case False
  with assms(2,3) show ?thesis by (cases "pod_pc s") (auto simp: runnable_def pod_inv_def)
qed

lemma gate_inv:
  assumes "pod_inv E s" "pod_gate s = g" "gate' \<in> {WaitSocket, Dialing} \<or> has_child gate' \<Longrightarrow>
    g \<in> {WaitSocket, Dialing} \<or> has_child g \<or> leader_fileExists E LeaderReadyFile (pod_world s)"
  shows "pod_inv E (s\<lparr>pod_gate := gate'\<rparr>)"
  using assms by (auto simp: pod_inv_def)

lemma pod_inv_step:
  assumes "pod_step E writeFile endpoint c s s'" "ready_file_laws E" "gc_leaderFile c = LeaderReadyFile" "pod_inv E s"
  shows "pod_inv E s'"
  using assms(1)
proof cases
  case boot
  with assms(4) have "\<not> pod_isLeader s" by (auto simp: pod_inv_def)
  with boot clear_file_inv [OF assms(2,4)] show ?thesis by simp
next
  case run
  with runnable_inv [OF assms(2,4)] show ?thesis by simp
next
  case (serve listens g w)
  with served_file [OF assms(2) serve(3)] assms(4) show ?thesis by (auto simp: pod_inv_def)
next
  case (die listens w)
  with served_file [OF assms(2) die(3)] assms(4) show ?thesis by (auto simp: pod_inv_def crashed_def)
next
  case (poll_file signalled)
  with assms(3,4) show ?thesis
    by (auto intro!: gate_inv [where g = WaitFile] simp: waitForLeaderFile_def has_child_def split: if_splits)
next
  case poll_socket
  with assms(4) show ?thesis by (auto intro!: gate_inv [where g = WaitSocket])
next
  case dial
  with assms(4) show ?thesis by (auto intro!: gate_inv [where g = Dialing])
next
  case (tick since now)
  with assms(4) show ?thesis by (auto intro!: gate_inv [where g = "Supervising since"] simp: has_child_def)
next
  case (child since r)
  with assms(4) show ?thesis by (auto intro!: gate_inv [where g = "Supervising since"] simp: has_child_def)
next
  case (terminate since)
  with assms(4) show ?thesis by (auto intro!: gate_inv [where g = "Supervising since"] simp: has_child_def)
next
  case (gate_restart n)
  with assms(4) show ?thesis by (auto intro!: gate_inv [where g = "Exited n"] simp: has_child_def)
qed (use assms(4) in \<open>auto simp: pod_inv_def crashed_def\<close>)

lemma pod_reach_inv:
  assumes "pod_reach E writeFile endpoint c s" "ready_file_laws E" "gc_leaderFile c = LeaderReadyFile"
  shows "pod_inv E s"
  using assms(1)
proof induction
  case (start w)
  then show ?case by (simp add: pod_inv_def new_pod_def has_child_def)
next
  case (step s s')
  then show ?case using pod_inv_step assms(2,3) by blast
qed

subsection \<open>The pod of the witnesses\<close>

lemma pod_env_laws: "ready_file_laws pod_env"
  by (auto simp: ready_file_laws_def pod_env_def leader_fileExists_def os_IsNotExist_def split: if_splits)

lemma default_gate: "gc_leaderFile (gate_configuration (\<lambda>_. [])) = LeaderReadyFile"
  "gc_leaderLossDebounce (gate_configuration (\<lambda>_. [])) = 3000000000"
  by code_simp+

lemma dev_elected: "dev_reach (pod_at Elected NotStarted WaitFile)"
proof -
  have "dev_reach (new_pod False)" by (rule pod_reach.start) (simp add: pod_env_def leader_fileExists_def)
  from pod_reach.step [OF this pod_step.boot] have "dev_reach (pod_at Standby NotStarted WaitFile)"
    by (simp add: new_pod_def clear_file_def removeLeaderReadyFile_def pod_env_def os_IsNotExist_def pod_at_def)
  from pod_reach.step [OF this pod_step.elect] show ?thesis by (simp add: pod_at_def)
qed

lemma dev_run:
  assumes "dev_reach (pod_at pc g gate)" "pod_pc (pod_at pc g gate) \<in> {Elected, Started, Marked, Leading, Unmarked, Removed}"
  shows "dev_reach (the (runnable pod_env write_ready (pod_at pc g gate)))"
  by (rule pod_reach.step [OF assms(1) pod_step.run]) (use assms(2) in \<open>auto simp: runnable_def\<close>)

lemma dev_leading: "dev_reach (pod_at Leading Launched WaitFile)"
proof -
  from dev_run [OF dev_elected] have "dev_reach (pod_at Started Launched WaitFile)"
    by (simp add: runnable_def pod_at_def grpc_Start_def)
  from dev_run [OF this] have "dev_reach (pod_at Marked Launched WaitFile)" by (simp add: runnable_def pod_at_def)
  from dev_run [OF this] show ?thesis
    by (simp add: runnable_def pod_at_def createLeaderReadyFile_def write_ready_def pod_env_def null_env_def)
qed

lemma dev_serves: "grpc_serve pod_env pod_socket True w = (Some Listening, w)"
proof -
  have "listen_address pod_socket = (''unix'', ''//csi/csi.sock'')" unfolding pod_socket_def by (rule endpoint_slash)
  then show ?thesis by (simp add: grpc_serve_def pod_env_def LeaderReadyFile_def)
qed

text \<open>\<open>Stop\<close> before the goroutine has made the server does nothing, and the server comes up after the leadership is
  gone; \<open>s.Wait()\<close> then waits for it forever.\<close>

lemma server_outlives_leadership: "dev_reach (pod_at Finished Listening WaitFile)"
proof -
  from dev_run [OF dev_leading] have "dev_reach (pod_at Unmarked Launched WaitFile)" by (simp add: runnable_def pod_at_def)
  from dev_run [OF this] have "dev_reach (pod_at Removed Launched WaitFile)"
    by (simp add: runnable_def pod_at_def clear_file_def removeLeaderReadyFile_def pod_env_def)
  from dev_run [OF this] have "dev_reach (pod_at Finished Launched WaitFile)"
    by (simp add: runnable_def pod_at_def grpc_Stop_def)
  from pod_reach.step [OF this pod_step.serve [where listens = True, OF _ dev_serves]] show ?thesis by (simp add: pod_at_def)
qed

lemma dev_supervised: "dev_reach (pod_at Leading Listening (Supervising None))"
proof -
  from pod_reach.step [OF dev_leading pod_step.serve [where listens = True, OF _ dev_serves]]
  have 1: "dev_reach (pod_at Leading Listening WaitFile)" by (simp add: pod_at_def)
  have f: "leader_fileExists pod_env p (pod_world (pod_at Leading g gate))" for p g gate
    by (simp add: leader_fileExists_def pod_env_def pod_at_def)
  from pod_reach.step [OF 1 pod_step.poll_file [where signalled = False]] have 2: "dev_reach (pod_at Leading Listening WaitSocket)"
    using f by (simp add: pod_at_def waitForLeaderFile_def)
  from pod_reach.step [OF 2 pod_step.poll_socket] have 3: "dev_reach (pod_at Leading Listening Dialing)"
    using f by (simp add: pod_at_def waitForSocket_def)
  from pod_reach.step [OF 3 pod_step.dial [where signalled = False and started = True]] show ?thesis
    by (simp add: pod_at_def dial_socket_def startChild_def)
qed

section \<open>Properties\<close>

text \<open>
  C10: in every reachable configuration of a controller pod, however the driver, its server and the gate interleave
  and wherever the driver dies and restarts: the flag of the health check is set only while the runnable leads;
  the ready file exists only while the runnable leads or is about to remove it, unless the driver died or could
  not remove it since; and a sidecar runs only in a pod that has led.
\<close>

theorem leadership_invariant:
  assumes "pod_reach E writeFile endpoint c s" "ready_file_laws E" "gc_leaderFile c = LeaderReadyFile"
  shows "(pod_isLeader s \<longrightarrow> pod_pc s \<in> {Marked, Leading})
    \<and> (leader_fileExists E LeaderReadyFile (pod_world s) \<longrightarrow> pod_dirty s \<or> pod_pc s \<in> {Leading, Unmarked})
    \<and> (has_child (pod_gate s) \<longrightarrow> pod_led s)"
  using pod_reach_inv [OF assms] by (auto simp: pod_inv_def)

theorem leadership_invariant_witness:
  "pod_reach pod_env write_ready pod_socket (gate_configuration (\<lambda>_. [])) (pod_at Leading Listening (Supervising None))
   \<and> has_child (pod_gate (pod_at Leading Listening (Supervising None))) \<and> pod_led (pod_at Leading Listening (Supervising None))"
proof -
  have "has_child (pod_gate (pod_at Leading Listening (Supervising None)))" by (simp add: pod_at_def has_child_def)
  with leadership_invariant [OF dev_supervised pod_env_laws default_gate(1)] dev_supervised show ?thesis by blast
qed

text \<open>
  C12: the gate stops a sidecar it has started exactly when the ready file was missing for the debounce time: over
  any sequence of polls at non-decreasing times, the monitor loop is left for waiting if and only if two polls at
  least the debounce apart, and all polls between them, found no file.
\<close>

theorem gate_debounce:
  assumes "sorted (map snd ticks)"
  shows "monitor debounce None ticks = WaitFile \<longleftrightarrow> missing_for debounce ticks"
  using monitor_since assms by blast

theorem gate_debounce_witness:
  "missing_for 3 [(True, 0), (False, 1), (False, 3), (False, 4)] \<and> \<not> missing_for 3 [(False, 0), (True, 1), (False, 2), (False, 4)]"
proof -
  have "sorted (map snd [(True, 0 :: int), (False, 1), (False, 3), (False, 4)])"
    "sorted (map snd [(False, 0 :: int), (True, 1), (False, 2), (False, 4)])" by simp_all
  from this [THEN gate_debounce, of 3] show ?thesis by simp
qed

end
