(* ===== verification/Plugin.thy ===== *)
theory Plugin
  imports Leader
begin

text \<open>
  The command of the plugin (\<open>cmd/wekafsplugin/main.go\<close>): its flags with their defaults, the configuration and the
  driver it makes of them, and how the driver shuts down.  Metrics, tracing and the set-up of the logger are the
  business of the libraries they call and are left out.
\<close>

section \<open>Definitions\<close>

subsection \<open>Flags\<close>

record flags =
  fl_mutuallyExclusiveMountOptionsStrings :: "string list"
  fl_endpoint :: string
  fl_driverName :: string
  fl_debugPath :: string
  fl_nodeID :: string
  fl_maxVolumesPerNode :: int
  fl_showVersion :: bool
  fl_dynamicSubPath :: string
  fl_csimodetext :: string
  fl_selinuxSupport :: bool
  fl_newVolumePrefix :: string
  fl_newSnapshotPrefix :: string
  fl_seedSnapshotPrefix :: string
  fl_allowAutoFsExpansion :: bool
  fl_allowAutoFsCreation :: bool
  fl_allowSnapshotsOfLegacyVolumes :: bool
  fl_suppressSnapshotsCapability :: bool
  fl_suppressVolumeCloneCapability :: bool
  fl_enableMetrics :: bool
  fl_metricsPort :: string
  fl_verbosity :: int
  fl_tracingUrl :: string
  fl_allowInsecureHttps :: bool
  fl_alwaysAllowSnapshotVolumes :: bool
  fl_usejsonlogging :: bool
  fl_maxConcurrentCreateVolumeReqs :: int
  fl_maxConcurrentExpandVolumeReqs :: int
  fl_maxConcurrentDeleteVolumeReqs :: int
  fl_maxConcurrentCreateSnapshotReqs :: int
  fl_maxConcurrentDeleteSnapshotReqs :: int
  fl_maxConcurrentNodePublishVolumeReqs :: int
  fl_maxConcurrentNodeUnpublishVolumeReqs :: int
  fl_grpcRequestTimeoutSeconds :: int
  fl_healthProbeWekaTimeoutSeconds :: int
  fl_allowProtocolContainers :: bool
  fl_allowNfsFailback :: bool
  fl_useNfs :: bool
  fl_interfaceGroupName :: string
  fl_clientGroupName :: string
  fl_nfsProtocolVersion :: string
  fl_wekafsContainerName :: string
  fl_skipGarbageCollection :: bool
  fl_waitForObjectDeletion :: bool
  fl_allowEncryptionWithoutKms :: bool
  fl_manageNodeTopologyLabels :: bool
  fl_enforceDirVolTotalCapacity :: bool
  fl_setOwnershipOnDynamicFilesystems :: bool
  fl_allowMountOptionOverrides :: bool
  fl_keepThinProvisioningRatioOnExpand :: bool

definition default_flags :: flags where
  "default_flags =
     \<lparr> fl_mutuallyExclusiveMountOptionsStrings = [], fl_endpoint = ''unix://tmp/csi.sock'',
       fl_driverName = ''csi.weka.io'', fl_debugPath = [], fl_nodeID = [], fl_maxVolumesPerNode = 0,
       fl_showVersion = False, fl_dynamicSubPath = ''csi-volumes'', fl_csimodetext = ''all'',
       fl_selinuxSupport = False, fl_newVolumePrefix = ''csivol-'', fl_newSnapshotPrefix = ''csisnp-'',
       fl_seedSnapshotPrefix = ''csisnp-seed-'', fl_allowAutoFsExpansion = False, fl_allowAutoFsCreation = False,
       fl_allowSnapshotsOfLegacyVolumes = False, fl_suppressSnapshotsCapability = False,
       fl_suppressVolumeCloneCapability = False, fl_enableMetrics = False, fl_metricsPort = ''9090'',
       fl_verbosity = 1, fl_tracingUrl = [], fl_allowInsecureHttps = False, fl_alwaysAllowSnapshotVolumes = False,
       fl_usejsonlogging = False, fl_maxConcurrentCreateVolumeReqs = 1, fl_maxConcurrentExpandVolumeReqs = 1,
       fl_maxConcurrentDeleteVolumeReqs = 1, fl_maxConcurrentCreateSnapshotReqs = 1,
       fl_maxConcurrentDeleteSnapshotReqs = 1, fl_maxConcurrentNodePublishVolumeReqs = 1,
       fl_maxConcurrentNodeUnpublishVolumeReqs = 5, fl_grpcRequestTimeoutSeconds = 30,
       fl_healthProbeWekaTimeoutSeconds = 2, fl_allowProtocolContainers = False, fl_allowNfsFailback = False,
       fl_useNfs = False, fl_interfaceGroupName = [], fl_clientGroupName = [], fl_nfsProtocolVersion = ''4.1'',
       fl_wekafsContainerName = [], fl_skipGarbageCollection = False, fl_waitForObjectDeletion = False,
       fl_allowEncryptionWithoutKms = False, fl_manageNodeTopologyLabels = False,
       fl_enforceDirVolTotalCapacity = False, fl_setOwnershipOnDynamicFilesystems = False,
       fl_allowMountOptionOverrides = False, fl_keepThinProvisioningRatioOnExpand = True \<rparr>"

subsection \<open>The driver\<close>

definition flag_config :: "string \<Rightarrow> flags \<Rightarrow> DriverConfig" where
  "flag_config version f =
     NewDriverConfig (fl_dynamicSubPath f) (fl_newVolumePrefix f) (fl_newSnapshotPrefix f) (fl_seedSnapshotPrefix f)
       (fl_debugPath f) (fl_allowAutoFsCreation f) (fl_allowAutoFsExpansion f) (fl_allowSnapshotsOfLegacyVolumes f)
       (fl_suppressSnapshotsCapability f) (fl_suppressVolumeCloneCapability f) (fl_allowInsecureHttps f)
       (fl_alwaysAllowSnapshotVolumes f) (fl_mutuallyExclusiveMountOptionsStrings f)
       (fl_maxConcurrentCreateVolumeReqs f) (fl_maxConcurrentDeleteVolumeReqs f) (fl_maxConcurrentExpandVolumeReqs f)
       (fl_maxConcurrentCreateSnapshotReqs f) (fl_maxConcurrentDeleteSnapshotReqs f)
       (fl_maxConcurrentNodePublishVolumeReqs f) (fl_maxConcurrentNodeUnpublishVolumeReqs f)
       (fl_grpcRequestTimeoutSeconds f) (fl_healthProbeWekaTimeoutSeconds f) (fl_allowProtocolContainers f)
       (fl_allowNfsFailback f) (fl_useNfs f) (fl_interfaceGroupName f) (fl_clientGroupName f)
       (fl_nfsProtocolVersion f) version (fl_skipGarbageCollection f) (fl_waitForObjectDeletion f)
       (fl_allowEncryptionWithoutKms f) (fl_tracingUrl f) (fl_manageNodeTopologyLabels f) (fl_wekafsContainerName f)
       (fl_enforceDirVolTotalCapacity f) (fl_setOwnershipOnDynamicFilesystems f) (fl_allowMountOptionOverrides f)
       (fl_keepThinProvisioningRatioOnExpand f)"

definition handle :: "string \<Rightarrow> CsiPluginMode \<Rightarrow> flags \<Rightarrow> WekaFsDriver go" where
  "handle version csiMode f =
     NewWekaFsDriver (fl_driverName f) (fl_nodeID f) (fl_endpoint f) (fl_maxVolumesPerNode f) version (fl_debugPath f) csiMode
       (fl_selinuxSupport f) (flag_config version f)"

text \<open>The outcome of \<open>main\<close>: the version is printed, the process exits with an error, or the driver runs.  An unknown
  mode ends the process in \<open>log.Fatal\<close>.\<close>

datatype plugin_start = ShowVersion string | StartFailed | StartDriver WekaFsDriver

definition plugin_main :: "string \<Rightarrow> flags \<Rightarrow> plugin_start" where
  "plugin_main version f =
     (case GetCsiPluginMode (fl_csimodetext f) of
        Ok mode \<Rightarrow>
          if fl_showVersion f then ShowVersion version
          else (case handle version mode f of Ok d \<Rightarrow> StartDriver d | _ \<Rightarrow> StartFailed)
      | _ \<Rightarrow> StartFailed)"

text \<open>The levels of \<open>zerolog\<close> that the verbosity flag selects; an unknown key reads the zero value.\<close>

datatype log_level = Disabled | PanicLevel | FatalLevel | ErrorLevel | InfoLevel | DebugLevel | TraceLevel

definition mapVerbosity :: "int \<Rightarrow> log_level" where
  "mapVerbosity verbosity =
     (let levels = [Disabled, PanicLevel, FatalLevel, ErrorLevel, InfoLevel, DebugLevel, TraceLevel];
          v = (if verbosity \<ge> int (length levels) then int (length levels) - 1 else verbosity)
      in if v < 0 then DebugLevel else levels ! nat v)"

text \<open>The marshaller of the caller: the name of the file after the last slash that is not its first character.\<close>

definition short_file :: "string \<Rightarrow> string" where
  "short_file file =
     (if CHR ''/'' \<in> set (tl file) then rev (takeWhile (\<lambda>c. c \<noteq> CHR ''/'') (rev file)) else file)"

subsection \<open>Shutdown\<close>

text \<open>The handlers of the termination signal: the labels of the node are removed where the driver manages them.\<close>

definition shutdown_labels :: "'w env \<Rightarrow> WekaFsDriver \<Rightarrow> 'w \<Rightarrow> 'w" where
  "shutdown_labels E d w =
     (if mounts_volumes (drv_csiMode d) \<and> dc_manageNodeTopologyLabels (drv_config d) then CleanupNodeLabels E d w else w)"

text \<open>Without election the handler also stops the server and leaves with exit code 1.\<close>

definition shutdown_without_election :: "'w env \<Rightarrow> WekaFsDriver \<Rightarrow> grpc_server \<times> 'w \<Rightarrow> int \<times> grpc_server \<times> 'w" where
  "shutdown_without_election E d p = (1, grpc_Stop (fst p), shutdown_labels E d (snd p))"

section \<open>Lemmas\<close>

text \<open>The flags alone do not start a driver: the node must be named.\<close>

lemma plugin_needs_node: "plugin_main version default_flags = StartFailed"
  by (simp add: plugin_main_def default_flags_def GetCsiPluginMode_def handle_def NewWekaFsDriver_def)

text \<open>Every limit flag reaches the semaphore of the requests it is named after.\<close>

lemma limits_reach_semaphores:
  assumes "op \<notin> fst ` set (st_semaphores s)"
  shows "map_of (st_semaphores (initializeSemaphore (flag_config version f) op s)) op =
    Some (number_at [(''CreateVolume'', fl_maxConcurrentCreateVolumeReqs f), (''DeleteVolume'', fl_maxConcurrentDeleteVolumeReqs f),
      (''ExpandVolume'', fl_maxConcurrentExpandVolumeReqs f), (''CreateSnapshot'', fl_maxConcurrentCreateSnapshotReqs f),
      (''DeleteSnapshot'', fl_maxConcurrentDeleteSnapshotReqs f), (''NodePublishVolume'', fl_maxConcurrentNodePublishVolumeReqs f),
      (''NodeUnpublishVolume'', fl_maxConcurrentNodeUnpublishVolumeReqs f)] op)"
  using assms by (simp add: initializeSemaphore_def flag_config_def NewDriverConfig_def concurrency_limits_def map_of_eq_None_iff)

text \<open>A driver of the plugin has a name, a node and an endpoint, and the identity service an answer.\<close>

lemma plugin_identified:
  assumes "plugin_main version f = StartDriver d"
  shows "GetPluginInfo (NewIdentityServer d) = Ok (fl_driverName f, if version = [] then ''dev'' else version)"
  using assms by (auto simp: plugin_main_def handle_def NewWekaFsDriver_def GetPluginInfo_def NewIdentityServer_def
      split: outcome.splits if_splits)

end
