(* ===== verification/Waiting.thy ===== *)
theory Waiting
  imports Snapshots
begin

text \<open>
  The loops that wait for the cluster (\<open>WaitFilesystemReady\<close> of \<open>filesystem.go\<close>, \<open>waitForFilesystemDeletion\<close> and
  \<open>waitForSnapshotDeletion\<close> of \<open>volume.go\<close>) run until a time limit that they read off the clock; in the model
  \<open>env_polls\<close> bounds their iterations.  Here the bound is shown to be no restriction: as soon as it exceeds the
  nanoseconds of the limit, every wait ends by itself, however the cluster answers, when the clock runs and the
  lookups return.  That the clock runs forward through a lookup is not assumed of the lookup: it follows from what
  single exchanges, pauses and clock readings do, for every request of the API client.
\<close>

section \<open>Definitions\<close>

text \<open>A set of worlds that the client's use of the network, the clock and the random source does not leave.\<close>

definition world_closed :: "'w env \<Rightarrow> ('w \<Rightarrow> bool) \<Rightarrow> bool" where
  "world_closed E P \<longleftrightarrow>
     (\<forall>r w. P w \<longrightarrow> P (snd (env_http E r w))) \<and> (\<forall>w. P w \<longrightarrow> P (snd (env_now E w)))
     \<and> (\<forall>n w. P w \<longrightarrow> P (snd (env_intn E n w))) \<and> (\<forall>d w. P w \<longrightarrow> P (env_sleep E d w))"

text \<open>A sender that does not leave the worlds.\<close>

definition sends_within :: "('w \<Rightarrow> bool) \<Rightarrow> 'w sender \<Rightarrow> bool" where
  "sends_within P send \<longleftrightarrow> (\<forall>m p b q st. P (snd st) \<longrightarrow> P (snd (snd (send m p b q st))))"

text \<open>The time of a world: each reading of the clock returns it and takes at least a nanosecond, and nothing sets it
  back.\<close>

definition clock_runs :: "'w env \<Rightarrow> ('w \<Rightarrow> int) \<Rightarrow> bool" where
  "clock_runs E t \<longleftrightarrow>
     (\<forall>w. fst (env_now E w) = t w \<and> t w < t (snd (env_now E w))) \<and> (\<forall>r w. t w \<le> t (snd (env_http E r w)))
     \<and> (\<forall>n w. t w \<le> t (snd (env_intn E n w))) \<and> (\<forall>d w. t w \<le> t (env_sleep E d w))"

text \<open>A call that returns on a set of states, stays in it, and does not set back a measure of time.\<close>

definition proceeds :: "('s \<Rightarrow> bool) \<Rightarrow> ('s \<Rightarrow> int) \<Rightarrow> ('s, 'a) call \<Rightarrow> bool" where
  "proceeds J tm m \<longleftrightarrow> (\<forall>s. J s \<longrightarrow> fst (m s) \<noteq> Panic \<and> J (snd (m s)) \<and> tm s \<le> tm (snd (m s)))"

text \<open>The readings of the clock that the loops start an iteration with.\<close>

definition reads_clock :: "('s \<Rightarrow> bool) \<Rightarrow> ('s \<Rightarrow> int) \<Rightarrow> ('s, int) call \<Rightarrow> bool" where
  "reads_clock J tm now \<longleftrightarrow> (\<forall>s. J s \<longrightarrow> (\<exists>s1. now s = (Ok (tm s), s1) \<and> J s1 \<and> tm s < tm s1))"

text \<open>A call of the API that returns for every client of a kind and leaves a client of that kind, and a node whose
  client is of that kind.\<close>

definition returns_for :: "(ApiClient \<Rightarrow> bool) \<Rightarrow> ('w, 'a) api \<Rightarrow> bool" where
  "returns_for J m \<longleftrightarrow> (\<forall>a w. J a \<longrightarrow> fst (m (a, w)) \<noteq> Panic \<and> J (fst (snd (m (a, w)))))"

definition bound_to :: "(ApiClient \<Rightarrow> bool) \<Rightarrow> 'w sys \<Rightarrow> bool" where
  "bound_to J s \<longleftrightarrow> (case sys_client s of None \<Rightarrow> False | Some a \<Rightarrow> J a)"

text \<open>For the witness: a clock that moves by a nanosecond when it is read, a cluster that is down, and a client without
  endpoints, whose every lookup fails.\<close>

definition ticking_env :: "int env" where
  "ticking_env = null_env\<lparr>env_now := \<lambda>w. (w, w + 1), env_polls := 10 ^ 20\<rparr>"

definition no_endpoints :: "ApiClient \<Rightarrow> bool" where
  "no_endpoints a \<longleftrightarrow> Endpoints (creds a) = [] \<and> apiToken a = []"

section \<open>The world of a request\<close>

lemma world_closedD:
  assumes "world_closed E P" "P w"
  shows "env_http E r w = (x, w') \<Longrightarrow> P w'" "env_now E w = (y, w') \<Longrightarrow> P w'" "env_intn E n w = (z, w') \<Longrightarrow> P w'"
    "P (env_sleep E d w)"
  using assms unfolding world_closed_def by (metis snd_conv)+

lemma closed_add_endpoint:
  assumes "world_closed E P" "P (snd mw)"
  shows "P (snd (add_endpoint E e mw))"
  using assms(2) by (auto simp: add_endpoint_def split: option.splits prod.splits dest: world_closedD(2) [OF assms])

lemma closed_fold_endpoints:
  assumes "world_closed E P"
  shows "P (snd mw) \<Longrightarrow> P (snd (fold (add_endpoint E) es mw))"
  by (induction es arbitrary: mw) (simp_all add: closed_add_endpoint [OF assms])

lemma closed_reset:
  assumes "world_closed E P" "P (snd st)"
  shows "P (snd (resetDefaultEndpoints E st))"
  using closed_fold_endpoints [OF assms(1), of "([], snd st)" "Endpoints (creds (fst st))"] assms(2)
  by (simp add: resetDefaultEndpoints_def case_prod_beta)

lemma closed_rotate:
  assumes "world_closed E P" "P (snd st)"
  shows "P (snd (rotateEndpoint E st))"
  using closed_reset [OF assms] assms(2)
  by (auto simp: rotateEndpoint_def Let_def split: prod.splits if_splits dest: world_closedD(3) [OF assms(1), rotated])

lemma closed_getEndpoint:
  assumes "world_closed E P" "P (snd st)"
  shows "P (snd (snd (getEndpoint E st)))"
  using closed_rotate [OF assms] assms(2) by (simp add: getEndpoint_def Let_def)

lemma closed_isLoggedIn:
  assumes "world_closed E P" "P (snd st)"
  shows "P (snd (snd (isLoggedIn E st)))"
  using assms(2) by (auto simp: isLoggedIn_def Let_def split: prod.splits dest: world_closedD(2) [OF assms(1), rotated])

lemma closed_api_do:
  assumes "world_closed E P" "P (snd st)"
  shows "P (snd (snd (api_do E m p b q st)))"
proof -
  obtain ep st1 where g: "getEndpoint E st = (ep, st1)" by (cases "getEndpoint E st")
  then have c1: "P (snd st1)" using closed_getEndpoint [OF assms] by simp
  obtain l st2 where i: "isLoggedIn E st1 = (l, st2)" by (cases "isLoggedIn E st1")
  then have c2: "P (snd st2)" using closed_isLoggedIn [OF assms(1) c1] by simp
  show ?thesis
    using c1 world_closedD(1) [OF assms(1) c2] assms(2)
    by (auto simp: api_do_def g i Let_def split: option.splits prod.splits)
qed

lemma closed_request_once:
  assumes "world_closed E P" "P (snd st)"
  shows "P (snd (snd (request_once E m p b q st)))"
  using closed_api_do [OF assms, of m p b q] closed_rotate [OF assms(1)]
  by (auto simp: request_once_def split: prod.splits outcome.splits)

lemma closed_retry:
  assumes "world_closed E P" "\<And>st. P (snd st) \<Longrightarrow> P (snd (snd (f st)))"
  shows "P (snd st) \<Longrightarrow> P (snd (snd (retryBackoff E n s f st)))"
proof (induction n arbitrary: s st rule: less_induct)
  case (less n)
  obtain r a w where f: "f st = (r, (a, w))" by (metis prod_cases3)
  then have c: "P w" using assms(2) [OF less.prems] by simp
  show ?case
  proof (cases "\<exists>e. r = Retry e \<and> 1 < n")
    case True
    obtain j w1 where j: "env_intn E s w = (j, w1)" by (cases "env_intn E s w")
    let ?s = "s + j div 2"
    have "P (env_sleep E ?s w1)" using world_closedD(3,4) [OF assms(1)] c j by blast
    moreover have "retryBackoff E n s f st = retryBackoff E (n - 1) ?s f (a, env_sleep E ?s w1)"
      using True f j by (auto simp: retryBackoff.simps [of E n] Let_def)
    ultimately show ?thesis using less.IH [of "n - 1" "(a, env_sleep E ?s w1)" ?s] True by simp
  next
    case False
    then have "snd (retryBackoff E n s f st) = (a, w)"
      using f by (auto simp: retryBackoff.simps [of E n] split: attempt.splits option.splits)
    with c show ?thesis by simp
  qed
qed

lemma closed_request:
  assumes "world_closed E P" "P (snd st)"
  shows "P (snd (snd (request E m p b q st)))"
  unfolding request_def by (rule closed_retry [OF assms(1) closed_request_once [OF assms(1)] assms(2)])

lemma sends_withinD:
  assumes "sends_within P send" "P (snd st)" "send m p b q st = (r, st')"
  shows "P (snd st')"
  using assms unfolding sends_within_def by (metis snd_conv)

lemma closed_login_steps:
  assumes "sends_within P send" "P (snd st)"
  shows "P (snd (snd (updateTokensExpiryInterval send st)))"
    and "P (snd (snd (ensureSufficientPermissions send st)))"
    and "P (snd (snd (fetchClusterInfo E send st)))"
    and "P (snd (snd (GetNodesByRole send role st)))"
  by (auto simp: updateTokensExpiryInterval_def ensureSufficientPermissions_def fetchUserRoleAndOrgId_def
      fetchClusterInfo_def GetNodesByRole_def split: prod.splits outcome.splits unit.splits
      dest: sends_withinD [OF assms])

lemma closed_UpdateApiEndpoints:
  assumes "world_closed E P" "sends_within P send" "P (snd st)"
  shows "P (snd (snd (UpdateApiEndpoints E send st)))"
proof -
  obtain r a w where g: "GetNodesByRole send ''MANAGEMENT'' st = (r, (a, w))" by (metis prod_cases3)
  then have c: "P w" using closed_login_steps(4) [OF assms(2,3), of "''MANAGEMENT''"] by simp
  obtain n w1 where n: "env_now E w = (n, w1)" by (cases "env_now E w")
  then have "P w1" by (rule world_closedD(2) [OF assms(1) c])
  with c show ?thesis
    by (auto simp: UpdateApiEndpoints_def g n Let_def intro!: closed_rotate [OF assms(1)] split: outcome.splits)
qed

lemma closed_log_endpoint:
  assumes "world_closed E P" "P (snd st)"
  shows "P (snd (snd (log_endpoint E st)))"
  using closed_getEndpoint [OF assms] by (auto simp: log_endpoint_def split: prod.splits option.splits)

lemma closed_finish_login:
  assumes "world_closed E P" "sends_within P send" "P (snd st)"
  shows "P (snd (snd (finish_login E send st)))"
proof -
  define x where "x = (if refreshTokenExpiryInterval (fst st) < 1 then updateTokensExpiryInterval send st else (Ok (), st))"
  obtain r a w where x: "x = (r, (a, w))" by (metis prod_cases3)
  have c1: "P w" using closed_login_steps(1) [OF assms(2,3)] x assms(3) by (auto simp: x_def split: if_splits)
  obtain n w1 where n: "env_now E w = (n, w1)" by (cases "env_now E w")
  then have c2: "P w1" by (rule world_closedD(2) [OF assms(1) c1])
  define st1 where "st1 = (a\<lparr>refreshTokenExpiryDate := n + seconds (refreshTokenExpiryInterval a)\<rparr>, w1)"
  obtain r2 st2 where p: "ensureSufficientPermissions send st1 = (r2, st2)" by (cases "ensureSufficientPermissions send st1")
  have c3: "P (snd st2)" using closed_login_steps(2) [OF assms(2), of st1] p c2 by (simp add: st1_def)
  obtain r3 st3 where f: "fetchClusterInfo E send st2 = (r3, st3)" by (cases "fetchClusterInfo E send st2")
  have c4: "P (snd st3)" using closed_login_steps(3) [OF assms(2) c3, of E] f by simp
  obtain r4 st4 where u: "UpdateApiEndpoints E send st3 = (r4, st4)" by (cases "UpdateApiEndpoints E send st3")
  have c5: "P (snd st4)" using closed_UpdateApiEndpoints [OF assms(1,2) c4] u by simp
  show ?thesis
    unfolding finish_login_def x_def [symmetric] x using c1 c3 c4 c5
    by (auto simp: n Let_def st1_def [symmetric] p f u intro: closed_log_endpoint [OF assms(1)] split: outcome.splits unit.splits)
qed

lemma closed_store:
  assumes "world_closed E P" "P (snd st)"
  shows "P (snd (store_login E j st))" "P (snd (store_refresh E j st))"
  using assms(2) by (auto simp: store_login_def store_refresh_def split: prod.splits dest: world_closedD(2) [OF assms(1), rotated])

lemma closed_Login:
  assumes "world_closed E P" "sends_within P send" "P (snd st)"
  shows "P (snd (snd (Login E locked send st)))"
proof -
  obtain l st1 where i: "isLoggedIn E st = (l, st1)" by (cases "isLoggedIn E st")
  then have c1: "P (snd st1)" using closed_isLoggedIn [OF assms(1,3)] by simp
  define rq where "rq = request E ''POST'' ''login'' (Some (login_body (creds (fst st1)))) [] st1"
  obtain r st2 where r: "rq = (r, st2)" by (cases rq)
  then have c2: "P (snd st2)" using closed_request [OF assms(1) c1] by (metis rq_def snd_conv)
  then show ?thesis
    using c1 by (auto simp: Login_def i rq_def [symmetric] r split: outcome.splits bool.splits
        intro!: closed_finish_login [OF assms(1,2)] closed_store [OF assms(1)])
qed

lemma closed_Init:
  assumes "world_closed E P" "sends_within P send" "P (snd st)"
  shows "P (snd (snd (Init E locked send st)))"
proof -
  obtain a0 w0 where s: "st = (a0, w0)" by (cases st)
  obtain n w1 where n: "env_now E w0 = (n, w1)" by (cases "env_now E w0")
  have c0: "P w1" using world_closedD(2) [OF assms(1) _ n] assms(3) s by simp
  obtain l st1 where i: "isLoggedIn E (a0, w1) = (l, st1)" by (cases "isLoggedIn E (a0, w1)")
  then have c1: "P (snd st1)" using closed_isLoggedIn [OF assms(1), of "(a0, w1)"] c0 by simp
  define rq where "rq = request E ''POST'' ''login/refresh'' (Some (JObj [(''refresh_token'', JStr (refreshToken (fst st1)))])) [] st1"
  obtain r st2 where r: "rq = (r, st2)" by (cases rq)
  then have c2: "P (snd st2)" using closed_request [OF assms(1) c1] by (metis rq_def snd_conv)
  show ?thesis
    using c0 c1 c2 by (auto simp: Init_def s n i Let_def rq_def [symmetric] r split: outcome.splits bool.splits
        intro!: closed_Login [OF assms(1,2)] closed_store [OF assms(1)])
qed

lemma closed_Request_with:
  assumes "world_closed E P" "sends_within P send"
  shows "sends_within P (Request_with E locked send)"
  unfolding sends_within_def
proof (intro allI impI)
  fix m p b q and st :: "'a api_st" assume st: "P (snd st)"
  obtain r st1 where i: "Init E locked send st = (r, st1)" by (cases "Init E locked send st")
  then have "P (snd st1)" using closed_Init [OF assms st, of locked] by simp
  then show "P (snd (snd (Request_with E locked send m p b q st)))"
    using Request_with_state [OF i, of m p b q] closed_request [OF assms(1)] by metis
qed

lemma closed_Request:
  assumes "world_closed E P"
  shows "sends_within P (Request E)"
  unfolding Request_def Request_locked_def
  by (intro closed_Request_with [OF assms]) (simp add: sends_within_def blocked_sender_def)

lemma keeps_Get: "world_closed E P \<Longrightarrow> keeps (\<lambda>st. P (snd st)) (Get E path q)"
  using closed_Request unfolding sends_within_def keeps_def Get_def by blast

lemma keeps_lookups:
  assumes "world_closed E P"
  shows "keeps (\<lambda>st. P (snd st)) (GetFileSystemByName E name)"
    and "keeps (\<lambda>st. P (snd st)) (GetFileSystemByUid E uid fresh)"
    and "keeps (\<lambda>st. P (snd st)) (GetSnapshotByUid E uid)"
    and "keeps (\<lambda>st. P (snd st)) (GetSnapshotByName E name)"
  using keeps_Get [OF assms]
  by (auto simp: keeps_def GetFileSystemByName_def GetFileSystemByFilter_def FindFileSystemsByFilter_def GetFileSystemByUid_def
      GetSnapshotByUid_def GetSnapshotByName_def GetSnapshotByFilter_def FindSnapshotsByFilter_def go_bind_def go_catch_def go_return_def go_raise_def lift_go_def
      split: prod.splits outcome.splits go_error.splits api_error.splits if_splits) (metis snd_conv)+

section \<open>Calls that proceed\<close>

named_theorems proceeds_intros \<open>calls that return and let time pass\<close>

lemma proceedsD:
  assumes "proceeds J tm m" "J s" "m s = (r, s')"
  shows "r \<noteq> Panic" "J s'" "tm s \<le> tm s'"
  using assms unfolding proceeds_def by (metis fst_conv snd_conv)+

lemma proceeds_basic [proceeds_intros]:
  "proceeds J tm (go_return x)" "proceeds J tm (go_raise e)" "proceeds Jv tv this_volume" "proceeds Jn tn this_snapshot"
  "proceeds Js ts the_client"
  by (simp_all add: proceeds_def go_return_def go_raise_def this_volume_def this_snapshot_def the_client_def)

lemma proceeds_bind [proceeds_intros]:
  assumes "proceeds J tm m" "\<And>x. proceeds J tm (f x)"
  shows "proceeds J tm (go_bind m f)"
  unfolding proceeds_def
proof (intro allI impI)
  fix s assume s: "J s"
  obtain r s1 where m: "m s = (r, s1)" by (cases "m s")
  note 1 = proceedsD [OF assms(1) s m]
  show "fst (go_bind m f s) \<noteq> Panic \<and> J (snd (go_bind m f s)) \<and> tm s \<le> tm (snd (go_bind m f s))"
  proof (cases r)
    case (Ok x)
    with 1 m show ?thesis using assms(2) [of x, unfolded proceeds_def, rule_format, OF 1(2)] by auto
  qed (use 1 m in auto)
qed

lemma proceeds_catch [proceeds_intros]:
  assumes "proceeds J tm m" "\<And>e. proceeds J tm (h e)"
  shows "proceeds J tm (go_catch m h)"
  unfolding proceeds_def
proof (intro allI impI)
  fix s assume s: "J s"
  obtain r s1 where m: "m s = (r, s1)" by (cases "m s")
  note 1 = proceedsD [OF assms(1) s m]
  show "fst (go_catch m h s) \<noteq> Panic \<and> J (snd (go_catch m h s)) \<and> tm s \<le> tm (snd (go_catch m h s))"
  proof (cases r)
    case (Err e)
    with 1 m show ?thesis using assms(2) [of e, unfolded proceeds_def, rule_format, OF 1(2)] by auto
  qed (use 1 m in auto)
qed

lemma proceeds_cases [proceeds_intros]:
  "(b \<Longrightarrow> proceeds J tm m) \<Longrightarrow> (\<not> b \<Longrightarrow> proceeds J tm n) \<Longrightarrow> proceeds J tm (if b then m else n)"
  "proceeds J tm m \<Longrightarrow> (\<And>x. proceeds J tm (f x)) \<Longrightarrow> proceeds J tm (case p of None \<Rightarrow> m | Some x \<Rightarrow> f x)"
  by (simp, cases p, simp_all)

lemma proceeds_missing [proceeds_intros]: "proceeds J tm m \<Longrightarrow> proceeds J tm (missing_as_None m)"
  unfolding missing_as_None_def by (intro proceeds_intros)

text \<open>From the client to the node, a volume and a snapshot.\<close>

lemma proceeds_on_client:
  fixes m :: "('w, 'a) api"
  assumes "proceeds (\<lambda>st. J (fst st)) (\<lambda>st. t (snd st)) m"
  shows "proceeds (bound_to J) (\<lambda>s. t (sys_world s)) (on_client m)"
  unfolding proceeds_def
proof (intro allI impI)
  fix s :: "'w sys" assume "bound_to J s"
  then obtain a where a: "sys_client s = Some a" "J a" by (auto simp: bound_to_def split: option.splits)
  obtain r b w where m: "m (a, sys_world s) = (r, (b, w))" by (metis prod_cases3)
  show "fst (on_client m s) \<noteq> Panic \<and> bound_to J (snd (on_client m s)) \<and> t (sys_world s) \<le> t (sys_world (snd (on_client m s)))"
    using proceedsD [OF assms _ m] a by (simp add: on_client_def m bound_to_def)
qed

lemma proceeds_on_sys: "proceeds J tm m \<Longrightarrow> proceeds (\<lambda>p. K (fst p) \<and> J (snd p)) (\<lambda>p. tm (snd p)) (on_sys m)"
  unfolding proceeds_def on_sys_def by (auto split: prod.splits)

lemma proceeds_snp_sys: "proceeds J tm m \<Longrightarrow> proceeds (\<lambda>p. J (snd p)) (\<lambda>p. tm (snd p)) (snp_sys m)"
  unfolding proceeds_def snp_sys_def by (auto split: prod.splits)

lemma proceeds_modify_snapshot [proceeds_intros]: "proceeds (\<lambda>p. J (snd p)) (\<lambda>p. tm (snd p)) (modify_snapshot f)"
  by (simp add: proceeds_def modify_snapshot_def)

lemma clock_closed: "clock_runs E t \<Longrightarrow> world_closed E (\<lambda>w. k \<le> t w)"
  unfolding clock_runs_def world_closed_def by (meson less_imp_le order_trans)

lemma returns_proceeds:
  assumes "returns_for J m" "\<And>k :: int. keeps (\<lambda>st. k \<le> t (snd st)) m"
  shows "proceeds (\<lambda>st. J (fst st)) (\<lambda>st. t (snd st)) m"
  using assms unfolding proceeds_def returns_for_def keeps_def by auto

lemma getObject_proceeds:
  assumes "clock_runs E t" "\<And>name. returns_for J (GetSnapshotByName E name)"
  shows "proceeds (\<lambda>p. bound_to J (snd p)) (\<lambda>p. t (sys_world (snd p))) (getObject E cfg)"
  unfolding getObject_def snapshot_getObject_def
  by (intro proceeds_intros proceeds_snp_sys proceeds_on_client returns_proceeds [OF assms(2)]
      keeps_lookups(4) [OF clock_closed [OF assms(1)]])

section \<open>Loops\<close>

lemma clock_reading: "clock_runs E t \<Longrightarrow> env_now E w = (now, w1) \<Longrightarrow> now = t w \<and> t w < t w1"
  unfolding clock_runs_def by (metis fst_conv snd_conv)

lemma reads_clock_api: "clock_runs E t \<Longrightarrow> reads_clock (\<lambda>st. J (fst st)) (\<lambda>st. t (snd st)) (clock E)"
  unfolding reads_clock_def clock_def by (auto split: prod.splits dest: clock_reading)

lemma reads_clock_sys: "clock_runs E t \<Longrightarrow> reads_clock (bound_to J) (\<lambda>s. t (sys_world s)) (sys_now E)"
  unfolding reads_clock_def sys_now_def bound_to_def by (auto split: prod.splits dest: clock_reading)

lemma reads_clock_lift:
  assumes "reads_clock J tm now"
  shows "reads_clock (\<lambda>p. K (fst p) \<and> J (snd p)) (\<lambda>p. tm (snd p)) (on_sys now)"
    and "reads_clock (\<lambda>p. J (snd p)) (\<lambda>p. tm (snd p)) (snp_sys now)"
  using assms unfolding reads_clock_def on_sys_def snp_sys_def by fastforce+

text \<open>A loop that reads the clock, gives up when the time is over, and otherwise looks and may go on.  It ends by
  itself when it is allowed more iterations than nanoseconds are left.\<close>

lemma timed_loop_ends:
  assumes unfold: "\<And>m i. loop (Suc m) i =
      go_bind now (\<lambda>n. if n - start < period then go_bind (go_try fetch) (body (loop m) i) else stop)"
    and now: "reads_clock J tm now" and fetch: "proceeds J tm fetch"
    and body: "\<And>L i r s. J s \<Longrightarrow> r \<noteq> Panic \<Longrightarrow> (\<And>j s'. J s' \<Longrightarrow> tm s \<le> tm s' \<Longrightarrow> fst (L j s') \<noteq> Panic) \<Longrightarrow> fst (body L i r s) \<noteq> Panic"
    and stop: "\<And>s. fst (stop s) \<noteq> Panic"
  shows "J s \<Longrightarrow> nat (start + period - tm s) < n \<Longrightarrow> fst (loop n i s) \<noteq> Panic"
proof (induction n arbitrary: i s)
  case (Suc n)
  obtain s1 where s1: "now s = (Ok (tm s), s1)" "J s1" "tm s < tm s1" using now Suc.prems(1) unfolding reads_clock_def by blast
  obtain r s2 where l: "fetch s1 = (r, s2)" by (cases "fetch s1")
  note s2 = proceedsD [OF fetch s1(2) l]
  have "fst (body (loop n) i r s2) \<noteq> Panic" if "tm s - start < period"
  proof (rule body [OF s2(2,1)])
    fix j s' assume s': "J s'" "tm s2 \<le> tm s'"
    have "nat (start + period - tm s') < n" using s'(2) s2(3) s1(3) Suc.prems(2) that by linarith
    with s'(1) show "fst (loop n j s') \<noteq> Panic" by (rule Suc.IH)
  qed
  then show ?case using s1(1) l s2(1) stop by (cases r) (simp_all add: unfold go_try_def)
qed simp

lemma clock_forward: "clock_runs E t \<Longrightarrow> t w \<le> t (env_sleep E d w)"
  by (simp add: clock_runs_def)

lemma wait_ready_ends:
  assumes "clock_runs E t" "returns_for J (GetFileSystemByName E name)" "J (fst st)" "nat (start + period - t (snd st)) < n"
  shows "fst (wait_ready n E name period start st) \<noteq> Panic"
  by (rule timed_loop_ends [where loop = "\<lambda>n (_ :: unit). wait_ready n E name period start" and i = "()", OF _
        reads_clock_api [OF assms(1)] returns_proceeds [OF assms(2) keeps_lookups(1) [OF clock_closed [OF assms(1)]]] _ _ assms(3,4)])
    (auto simp: pause_def go_bind_def go_return_def go_raise_def clock_forward [OF assms(1)] split: outcome.splits if_splits)

text \<open>The loops of a volume and of a snapshot, with the lookup they make.\<close>

lemma sleep_on: "on_sys (sleep E d) p = (Ok (), (fst p, (snd p)\<lparr>sys_world := env_sleep E d (sys_world (snd p))\<rparr>))"
    "snp_sys (sleep E d) q = (Ok (), (fst q, (snd q)\<lparr>sys_world := env_sleep E d (sys_world (snd q))\<rparr>))"
  by (simp_all add: on_sys_def snp_sys_def sleep_def)

lemmas volume_loop_ends =
  timed_loop_ends [OF _ reads_clock_lift(1) [where K = K, OF reads_clock_sys [where J = J and t = t]]
    proceeds_on_sys [where K = K, OF proceeds_on_client [where J = J and t = t, OF returns_proceeds]]]
  for K :: "Volume \<Rightarrow> bool" and J :: "ApiClient \<Rightarrow> bool" and t :: "'w \<Rightarrow> int"

lemmas loop_steps = sleep_on bound_to_def go_bind_def go_return_def go_raise_def

lemma wait_fs_deleted_ends:
  assumes "clock_runs E t" "returns_for J (GetFileSystemByUid E uid False)" "bound_to J (snd p)"
    "nat (start + MaxSnapshotDeletionDuration - t (sys_world (snd p))) < n"
  shows "fst (wait_fs_deleted n E uid start p) \<noteq> Panic"
  by (rule volume_loop_ends [where loop = "\<lambda>n (_ :: unit). wait_fs_deleted n E uid start" and i = "()" and K = "\<lambda>v. True",
        OF _ assms(1,2) keeps_lookups(2) [OF clock_closed [OF assms(1)]] _ _ _ assms(4)])
    (auto simp: loop_steps clock_forward [OF assms(1)] assms(3) [unfolded bound_to_def] split: outcome.splits if_splits)

lemma wait_snap_deleted_ends:
  assumes "clock_runs E t" "returns_for J (GetSnapshotByUid E uid)" "bound_to J (snd p)" "v_SnapshotUuid (fst p) \<noteq> None"
    "nat (start + MaxSnapshotDeletionDuration - t (sys_world (snd p))) < n"
  shows "fst (wait_snap_deleted n E uid start p) \<noteq> Panic"
  by (rule volume_loop_ends [where loop = "\<lambda>n (_ :: unit). wait_snap_deleted n E uid start" and i = "()"
          and K = "\<lambda>v. v_SnapshotUuid v \<noteq> None",
        OF _ assms(1,2) keeps_lookups(3) [OF clock_closed [OF assms(1)]] _ _ _ assms(5)])
    (use assms(3,4) in \<open>auto simp: loop_steps this_volume_def clock_forward [OF assms(1)] split: outcome.splits if_splits\<close>)

lemma snap_wait_ends:
  assumes "clock_runs E t" "\<And>name. returns_for J (GetSnapshotByName E name)" "bound_to J (snd p)"
    "nat (start + MaxSnapshotDeletionDuration - t (sys_world (snd p))) < n"
  shows "fst (snap_wait n E cfg start interval limit p) \<noteq> Panic"
  by (rule timed_loop_ends [where loop = "\<lambda>n i. snap_wait n E cfg start i limit" and i = interval, OF _
        reads_clock_lift(2) [OF reads_clock_sys [OF assms(1)]] getObject_proceeds [OF assms(1,2)] _ _ assms(3,4)])
    (auto simp: loop_steps clock_forward [OF assms(1)] split: outcome.splits if_splits option.splits)

section \<open>A client without endpoints\<close>

lemma request_no_endpoints: "no_endpoints (fst st) \<Longrightarrow> request E m p b q st = (Err ApiNoEndpointsError, st)"
  by (simp add: request_def retryBackoff.simps [of E ApiRetryMaxCount] request_once_def api_do_def no_endpoints_def transient_def)

lemma Request_no_endpoints:
  assumes "no_endpoints a"
  shows "\<exists>w'. Request E m p b q (a, w) = (Err (Api ApiNoEndpointsError), (a, w'))"
proof -
  obtain now w1 where n: "env_now E w = (now, w1)" by (cases "env_now E w")
  have l: "isLoggedIn E (a, w1) = (False, (a, w1))" using assms by (simp add: isLoggedIn_def no_endpoints_def)
  have r: "request E m p b q (a, w1) = (Err ApiNoEndpointsError, (a, w1))" for m p b q
    using assms by (intro request_no_endpoints) simp
  have log: "Login E False send (a, w1) = (Err (Api ApiNoEndpointsError), (a, w1))" for send
    by (simp add: Login_def l r)
  show ?thesis
  proof (cases "now < apiTokenExpiryDate a")
    case True
    then show ?thesis using Request_valid_token [OF n True, of m p b q] r by (simp add: lift_api_def)
  next
    case False
    then have "Init E False send (a, w) = (Err (Api ApiNoEndpointsError), (a, w1))" for send
      by (simp add: Init_def n l log)
    then show ?thesis by (simp add: Request_def Request_with_def)
  qed
qed

lemma no_endpoints_fails:
  fixes E :: "'w env"
  assumes "no_endpoints a"
  shows "\<exists>w'. Get E p q (a, w) = (Err (Api ApiNoEndpointsError), (a, w'))"
    and "\<exists>w'. GetFileSystemByName E name (a, w) = (Err (Api ApiNoEndpointsError), (a, w'))"
    and "\<exists>w'. GetFileSystemByUid E uid fresh (a, w) = (Err (Api ApiNoEndpointsError), (a, w'))"
    and "\<exists>w'. GetSnapshotByUid E uid (a, w) = (Err (Api ApiNoEndpointsError), (a, w'))"
    and "\<exists>w'. GetSnapshotByName E name (a, w) = (Err (Api ApiNoEndpointsError), (a, w'))"
proof -
  show Get: "\<exists>w'. Get E p q (a, w) = (Err (Api ApiNoEndpointsError), (a, w'))" for p q
    unfolding Get_def by (rule Request_no_endpoints [OF assms])
  have bind: "\<exists>w'. go_bind m f (a, w) = (Err (Api ApiNoEndpointsError), (a, w'))"
    if "\<exists>w'. m (a, w) = (Err (Api ApiNoEndpointsError), (a, w'))" for m :: "('w, 'b) api" and f :: "'b \<Rightarrow> ('w, 'c) api"
    using that by auto
  show "\<exists>w'. GetFileSystemByName E name (a, w) = (Err (Api ApiNoEndpointsError), (a, w'))"
    unfolding GetFileSystemByName_def GetFileSystemByFilter_def FindFileSystemsByFilter_def by (intro bind Get)
  show "\<exists>w'. GetSnapshotByUid E uid (a, w) = (Err (Api ApiNoEndpointsError), (a, w'))"
    unfolding GetSnapshotByUid_def by (intro bind Get)
  show "\<exists>w'. GetSnapshotByName E name (a, w) = (Err (Api ApiNoEndpointsError), (a, w'))"
    unfolding GetSnapshotByName_def GetSnapshotByFilter_def FindSnapshotsByFilter_def by (intro bind Get)
  obtain w' where "Get E (FileSystem_url uid) [(''force_fresh'', if fresh then ''true'' else ''false'')] (a, w)
      = (Err (Api ApiNoEndpointsError), (a, w'))"
    using Get by blast
  then show "\<exists>w'. GetFileSystemByUid E uid fresh (a, w) = (Err (Api ApiNoEndpointsError), (a, w'))"
    unfolding GetFileSystemByUid_def go_catch_def go_bind_def go_raise_def by simp
qed

lemma failing_returns:
  assumes "\<And>a w. J a \<Longrightarrow> \<exists>w'. m (a, w) = (Err e, (a, w'))"
  shows "returns_for J m"
  unfolding returns_for_def
proof (intro allI impI)
  fix a w assume a: "J a"
  obtain w' where "m (a, w) = (Err e, (a, w'))" using assms [OF a] by blast
  with a show "fst (m (a, w)) \<noteq> Panic \<and> J (fst (snd (m (a, w))))" by simp
qed

lemmas no_endpoints_returns = no_endpoints_fails(2-5) [THEN failing_returns]

section \<open>Properties\<close>



end
