(* ===== verification/Spec2Isabelle.thy ===== *)
theory Spec2Isabelle
  imports Plugin Waiting
begin

text \<open>
  A verification library for the Weka CSI driver: the plugin that provisions WekaFS volumes and snapshots for
  Kubernetes and mounts them on nodes.

  \<^bold>\<open>The program.\<close>  A process of \<open>cmd/wekafsplugin\<close> runs the driver of \<open>pkg/wekafs/wekafs.go\<close> as a controller, as a node
  service or as both.  A request of the orchestrator arrives at the gRPC server (\<open>server.go\<close>), which a controller
  starts only while it leads; the sidecars next to it are held back by \<open>cmd/wait-for-leader\<close>.  A handler of
  \<open>controllerserver.go\<close> or \<open>nodeserver.go\<close> takes a semaphore, finds the API client of the request's secrets in the
  store, makes a volume or snapshot object of the identifiers in the request and calls its methods (\<open>volume.go\<close>,
  \<open>snapshot.go\<close>).  These talk to the cluster through the client (\<open>pkg/wekafs/apiclient\<close>), mount filesystems through
  a mounter with reference counts (\<open>wekafsmounter.go\<close>, \<open>nfsmounter.go\<close>) and leave deleted directories to the trash
  collector (\<open>gc.go\<close>).  The controller also keeps the capacity it has promised (\<open>CapacityTracker\<close>).

  \<^bold>\<open>The model.\<close>  A Go function is a HOL function of the same name.  A function that can fail returns an \<open>outcome\<close>:
  \<open>Ok\<close>, \<open>Err\<close> with the error as a value, or \<open>Panic\<close> for a panic, the end of the process or a call that never
  returns.  A function with effects is a \<open>call\<close>, \<open>state \<Rightarrow> outcome \<times> state\<close>, composed by \<open>go_bind\<close> (return on
  error), \<open>go_catch\<close> and \<open>go_try\<close> the way the source composes them; structs are records, Go maps association
  lists, \<open>int64\<close> is \<open>int\<close> with its wrap-around written out, hashes and addresses are machine words.  Everything
  outside the sources is the record \<open>'w env\<close> over a world \<open>'w\<close>: HTTP, clock, files, mounts, extended attributes,
  Kubernetes.  It is the first argument of every operation that uses it, and the theorems hold for every such
  record, or name what they need of it.  Concurrency is a step relation where the code is concurrent: the mounters,
  the trash collector and the pod with its leader election.

  \<^bold>\<open>The theories\<close>, from the library up:
  \<^item> \<open>Prelude\<close>: outcomes, Go maps and their laws, \<open>int64\<close>.  \<open>Go_Stdlib\<close> and \<open>Go_Net\<close>: what the sources use of
    \<open>strings\<close>, \<open>path/filepath\<close>, \<open>crypto/sha1\<close>, \<open>encoding\<close>, \<open>strconv\<close> and \<open>net\<close>.
  \<^item> \<open>Mount_Options\<close> (\<open>mountoptions.go\<close>, \<open>mountoptoverrides.go\<close>): parsing, printing and merging of options under
    mutually exclusive sets.  \<open>Merge\<close> refines an abstract merge, leaves at most one option of a set, and options
    survive printing and parsing; \<open>option_store\<close> is the interface of adding, removing and asking for an option.
  \<^item> \<open>Naming\<close> (\<open>utilities.go\<close>, \<open>ascii.go\<close>): names and identifiers.  The parts of an identifier are recovered from
    it, generated identifiers are accepted, generated names have the form the cluster accepts; \<open>id_scheme\<close> is
    interpreted for volumes and for snapshots.
  \<^item> \<open>Environment\<close>: the world, JSON documents, stateful calls and their laws.
  \<^item> \<open>Api_Transport\<close> (\<open>apiclient.go\<close>, \<open>requests.go\<close>, \<open>apiendpoint.go\<close>, \<open>login.go\<close>, \<open>compatibility.go\<close>): a request with
    its endpoints, retries and logins.  A request makes a bounded number of exchanges and never meets a nil
    endpoint when one configured endpoint is valid.
  \<^item> \<open>Api_Objects\<close>, \<open>Api_Cluster\<close>, \<open>Api_Nfs\<close> (the other files of \<open>apiclient\<close>): filesystems, snapshots, quotas, KMS,
    containers, interface groups, NFS permissions.  \<open>object_lookup\<close> is the contract of a lookup by filter, interpreted
    for four kinds of objects.
  \<^item> \<open>Driver_Config\<close> (\<open>driverconfig.go\<close>, the store of \<open>wekafs.go\<close>): configuration, secrets, clients by hash.
  \<^item> \<open>Mounts\<close> (\<open>wekafsmounter.go\<close>, \<open>wekafsmount.go\<close>, \<open>nfsmounter.go\<close>, \<open>nfsmount.go\<close>): in every interleaving the count of
    a mount is the number of its holders; \<open>mount_counter\<close> is that contract, interpreted on both transports.
  \<^item> \<open>Volumes\<close> (\<open>volume.go\<close>), \<open>Snapshots\<close> (\<open>snapshot.go\<close> and both files of constructors), \<open>Volume_Identity\<close>: the
    operations of volumes and snapshots.  They release no mount of others, protect filesystems with snapshots, stay
    within the bounds of thin provisioning and never change what the object is; an object made from an identifier
    is the one that was created under it.
  \<^item> \<open>Waiting\<close>: the polling loops of these operations end.
  \<^item> \<open>Gc\<close> (\<open>gc.go\<close>): no trash is forgotten in any interleaving, and the goroutines finish.
  \<^item> \<open>Capacity\<close> and \<open>Servers\<close> (\<open>controllerserver.go\<close>): the tracker, the frame of a handler.
  \<^item> \<open>Controller\<close> (\<open>controllerserver.go\<close>): every run of the controller is a run of the tracker, a created volume
    fits, its identifier is determined by the request, a protected filesystem is not deleted.
  \<^item> \<open>Node\<close> (\<open>nodeserver.go\<close>): publishing leaks no reference and honours read-only, unpublishing is idempotent.
  \<^item> \<open>Driver\<close> (\<open>wekafs.go\<close>, \<open>identityserver.go\<close>, the endpoint of \<open>server.go\<close>): labels of the node, identity,
    manager, health.  \<open>Leader\<close> (\<open>server.go\<close>, the leader runnable of \<open>wekafs.go\<close>, \<open>cmd/wait-for-leader\<close>): the ready
    file, the server and the gate in every interleaving, crashes included.
  \<^item> \<open>Plugin\<close> (\<open>cmd/wekafsplugin\<close>): flags, start, shutdown.
  \<^item> This theory: the errors of the handlers of both services.

  A definition that models a few statements of a function, such as the part under a lock, stands for those lines;
  helpers of that size that are not listed with lines of their own belong to the function that uses them.

  \<^bold>\<open>Bounds.\<close>  \<open>retryBackoff\<close> recurses on its attempts, at most five, as in the source; nested logins are two levels
  deep because a login of a locked client blocks, so \<open>Request\<close> needs no fuel, and 55 exchanges bound it.  The loops
  that wait for the cluster take their iterations from \<open>env_polls\<close> and end in \<open>Panic\<close> when it is used up;
  \<open>Waiting\<close> proves that this does not happen once it exceeds the longest wait, 7200 seconds, in nanoseconds.
  \<open>wait.Poll\<close> evaluates its condition \<open>env_polls\<close> times and then times out, like the library.  All other recursion
  is structural or has a termination proof.

  \<^bold>\<open>Assumptions named in the model.\<close>  Whether a semaphore is granted in time is an argument of the handlers.  A
  request works on a copy of its API client that is written back when it ends: two requests on one client do not
  interleave inside it.  The locked sections of the store, the mounters, the collector and the tracker are atomic.
  JSON text, HTTP, TLS, regular expressions and version comparison are those of the libraries.

  \<^bold>\<open>Not modelled.\<close>
  \<^item> Log lines and their marshallers, the listings of active mounts, the texts of errors (\<open>errors.go\<close>), tracing
    (\<open>otel.go\<close>), metrics and the set-up of the logger: they do not influence any result.
  \<^item> One-line accessors (\<open>String\<close>, \<open>GetType\<close>, \<open>getApiUrl\<close>, \<open>getRequiredFields\<close>, the \<open>Supports\<close> methods): their
    bodies are written out where they are called.
  \<^item> \<open>deleteSeedSnapshot\<close>, \<open>fetchMountEndpoints\<close> and \<open>ForceStop\<close>, which nothing calls.
  \<^item> \<open>GetNodeIpAddressByRouting\<close> and \<open>GetLocalIpAddresses\<close> ask the kernel and are fields of the world; \<open>maskPayload\<close>
    calls a masking library for the log.
  \<^item> The tickers that start collections and refreshes: the step relations take such a step at any time.
  \<^item> The Kubernetes lease, \<open>controller-runtime\<close>, \<open>client-go\<close> and gRPC: libraries; winning and losing an election are
    steps that can happen whenever the driver waits for them.
\<close>

section \<open>Errors of the handlers\<close>

text \<open>A call whose errors all carry a gRPC code.\<close>

definition answers :: "('s, 'a) call \<Rightarrow> bool" where
  "answers m \<longleftrightarrow> (\<forall>s e. fst (m s) = Err e \<longrightarrow> e \<in> range Status)"

named_theorems answers_intros \<open>calls that fail with a status\<close>

lemma answers_basic [answers_intros]:
  "answers (go_return x)" "answers go_panic" "answers (go_raise (Status c))" "answers (go_try m)"
  by (auto simp: answers_def go_return_def go_panic_def go_raise_def go_try_def split: outcome.splits prod.splits)

lemma answers_reads [answers_intros]:
  "answers this_volume" "answers (modify_volume f)" "answers the_client" "answers (look g)"
  by (simp_all add: answers_def this_volume_def modify_volume_def the_client_def look_def)

lemma answers_bind [answers_intros]: "answers m \<Longrightarrow> (\<And>x. answers (f x)) \<Longrightarrow> answers (go_bind m f)"
  by (auto simp: answers_def go_bind_def split: outcome.splits prod.splits) (metis fst_conv)+

lemma answers_catch [answers_intros]: "(\<And>e. answers (h e)) \<Longrightarrow> answers (go_catch m h)"
  by (fastforce simp: answers_def go_catch_def split: outcome.splits prod.splits)

lemma answers_or_fail [answers_intros]: "answers (or_fail m c)"
  unfolding or_fail_def by (intro answers_intros)

lemma answers_if [answers_intros]: "answers m \<Longrightarrow> answers n \<Longrightarrow> answers (if b then m else n)"
  by simp

lemma answers_option [answers_intros]:
  "answers m \<Longrightarrow> (\<And>x. answers (f x)) \<Longrightarrow> answers (case p of None \<Rightarrow> m | Some x \<Rightarrow> f x)"
  by (cases p) simp_all

lemma answers_outcome [answers_intros]:
  "(\<And>x. answers (f x)) \<Longrightarrow> (\<And>e. answers (g e)) \<Longrightarrow> answers n
   \<Longrightarrow> answers (case r of Ok x \<Rightarrow> f x | Err e \<Rightarrow> g e | Panic \<Rightarrow> n)"
  by (cases r) simp_all

lemma answers_lift [answers_intros]:
  "answers m \<Longrightarrow> answers (srv_sys m)" "answers v \<Longrightarrow> answers (on_volume v)" "answers s \<Longrightarrow> answers (on_server s)"
  "answers vs \<Longrightarrow> answers (with_volume vol vs)" "answers y \<Longrightarrow> answers (on_sys y)" "answers t \<Longrightarrow> answers (on_tracker t)"
  "answers s \<Longrightarrow> answers (in_request s)"
  by (auto simp: answers_def srv_sys_def on_volume_def on_server_def with_volume_def on_sys_def on_tracker_def
      in_request_def split: prod.splits option.splits) (metis fst_conv)+

lemma answers_serve [answers_intros]: "answers m \<Longrightarrow> answers (serve cfg g op m)"
  unfolding serve_def by (intro answers_intros)

lemma answers_release [answers_intros]: "answers body \<Longrightarrow> answers (defer_release fn body)"
  by (auto simp: answers_def defer_release_def split: prod.splits outcome.splits) (metis fst_conv)+

lemma answers_refresh [answers_intros]: "answers (refresh_if_due E d)"
  by (auto simp: answers_def refresh_if_due_def ignore_error_def go_catch_def go_return_def
      split: prod.splits outcome.splits if_splits)

lemma answers_reserve [answers_intros]: "answers (check_and_reserve E fs vid cur target available)"
  by (auto simp: answers_def check_and_reserve_def check_capacity_def Let_def split: prod.splits option.splits if_splits)

lemma answers_tracker [answers_intros]: "answers (\<lambda>s. (Ok (f s), s))"
  by (simp add: answers_def)

lemma answers_capacity [answers_intros]: "answers (validateAndReserveCapacity E C cur target)"
  unfolding validateAndReserveCapacity_def admit_def by (intro answers_intros)

lemma answers_unreserve [answers_intros]: "answers (releaseCapacityReservation C vid)"
  by (simp add: answers_def releaseCapacityReservation_def)

lemma answers_delete: "answers (delete_volume E C vid)"
proof -
  have "answers (if os_IsNotExist e then go_return ()
                 else if e = ErrFilesystemHasUnderlyingSnapshots then go_raise e else go_raise (Status Internal))" for e
    by (simp add: answers_basic ErrFilesystemHasUnderlyingSnapshots_def)
  then show ?thesis
    unfolding delete_volume_def by (intro answers_bind answers_catch answers_lift answers_unreserve)
qed

lemma answers_DeleteVolume: "answers (DeleteVolume E C granted vid secrets)"
  unfolding DeleteVolume_def by (intro answers_intros answers_delete)

lemma answers_ExpandVolume: "answers (ControllerExpandVolume E C granted vid secrets required)"
  unfolding ControllerExpandVolume_def expand_volume_def resize_volume_def Let_def by (intro answers_intros)

lemma answers_DeleteSnapshot: "answers (Controller_DeleteSnapshot E C granted sid secrets)"
  unfolding Controller_DeleteSnapshot_def by (intro answers_intros)

lemma answers_Validate: "answers (ValidateVolumeCapabilities E C req)"
  unfolding ValidateVolumeCapabilities_def by (intro answers_intros)

lemma answers_publish: "answers (publish_volume E N req)"
  unfolding publish_volume_def context_options_def setMountOptions_def pruneUnsupportedMountOptions_def publish_options_def
    merge_options_def mount_and_bind_def bind_target_def full_path_def Let_def
  by (intro answers_intros)

lemma answers_NodePublish: "answers (NodePublishVolume E N granted req)"
  unfolding NodePublishVolume_def by (intro answers_intros answers_publish)

lemma answers_NodeUnpublish: "answers (NodeUnpublishVolume E N granted target)"
  unfolding NodeUnpublishVolume_def unpublish_target_def unmount_target_def by (intro answers_intros)

lemma answers_Stats: "answers (NodeGetVolumeStats E N vid path staging)"
  unfolding NodeGetVolumeStats_def PathExists_def by (intro answers_intros) (simp add: answers_basic split: path_kind.splits)

text \<open>C14: the handlers of the controller that delete and expand volumes, delete snapshots and validate capabilities, and
  those of the node that publish, unpublish and report usage fail only with a gRPC status: whatever goes wrong in the
  API, on the host or in Kubernetes, the orchestrator gets an error with a code the handler chose.\<close>

theorem handlers_answer_status:
  "answers (DeleteVolume E C granted volumeID secrets)
   \<and> answers (ControllerExpandVolume E C granted volumeID secrets requiredBytes)
   \<and> answers (Controller_DeleteSnapshot E C granted snapshotID secrets)
   \<and> answers (ValidateVolumeCapabilities E C validateReq)
   \<and> answers (NodePublishVolume E N granted publishReq)
   \<and> answers (NodeUnpublishVolume E N granted targetPath)
   \<and> answers (NodeGetVolumeStats E N volumeID volumePath stagingPath)"
  by (intro conjI answers_DeleteVolume answers_ExpandVolume answers_DeleteSnapshot answers_Validate answers_NodePublish
      answers_NodeUnpublish answers_Stats)

end
